(* ===== verification/GoPrelude.thy ===== *)
theory GoPrelude
  imports Main "HOL-Library.Word" "HOL-Library.Sublist" "HOL-Library.Code_Target_Nat"
begin

text \<open>
  The part of the Go language and of its standard library that the modelled packages use.

  \<^item> \<^bold>\<open>Outcomes.\<close> A Go method that returns \<open>(value, error)\<close> and writes to the database is a
    function from the state to a result and a new state, \<open>'s \<Rightarrow> ('e + 'a) \<times> 's\<close>; \<open>Inl\<close> is a
    non-nil error. Without a transaction the writes made before an error stay, so the state is
    returned on both sides.
  \<^item> \<^bold>\<open>Strings\<close> are byte lists, as in Go: \<open>len\<close> counts bytes. \<open>TrimSpace\<close> follows the package
    \<open>strings\<close> on the UTF-8 encodings of every white-space rune. Case mapping (\<open>ToLower\<close>,
    \<open>EqualFold\<close>) is modelled on ASCII letters; other bytes are left as they are.
  \<^item> \<^bold>\<open>Times\<close> are integers, nanoseconds since 0001-01-01T00:00:00Z, so the zero \<open>time.Time\<close>
    is 0. A \<open>time.Duration\<close> is an \<open>int64\<close> and its arithmetic wraps (\<open>int64\<close> below).
  \<^item> \<open>uint8\<close> and \<open>uint32\<close> are words; \<open>uint64\<close> identifiers, on which the program does no
    arithmetic, are natural numbers; \<open>int32\<close> and \<open>int64\<close> page bounds and counters are integers.
\<close>

named_theorems op_simps "evaluation of the outcome combinators on a state"
named_theorems keeps_intros "operations that keep a state predicate"

section \<open>Outcomes\<close>

type_synonym ('s, 'e, 'a) op = "'s \<Rightarrow> ('e + 'a) \<times> 's"

definition ok :: "'a \<Rightarrow> ('s, 'e, 'a) op" where
  "ok x s = (Inr x, s)"

definition fail :: "'e \<Rightarrow> ('s, 'e, 'a) op" where
  "fail e s = (Inl e, s)"

definition bindM :: "('s, 'e, 'a) op \<Rightarrow> ('a \<Rightarrow> ('s, 'e, 'b) op) \<Rightarrow> ('s, 'e, 'b) op" where
  "bindM m f s = (case m s of (Inl e, s') \<Rightarrow> (Inl e, s') | (Inr x, s') \<Rightarrow> f x s')"

text \<open>An early return: \<open>failIf b e\<close> is \<^verbatim>\<open>if b { return e }\<close>.\<close>

definition failIf :: "bool \<Rightarrow> 'e \<Rightarrow> ('s, 'e, unit) op" where
  "failIf b e = (if b then fail e else ok ())"

definition liftM :: "'e + 'a \<Rightarrow> ('s, 'e, 'a) op" where
  "liftM r s = (r, s)"

definition gets :: "('s \<Rightarrow> 'a) \<Rightarrow> ('s, 'e, 'a) op" where
  "gets f s = (Inr (f s), s)"

text \<open>A query: it may fail and leaves the state alone.\<close>

definition asks :: "('s \<Rightarrow> 'e + 'a) \<Rightarrow> ('s, 'e, 'a) op" where
  "asks f s = (f s, s)"

text \<open>An operation on one part of the state.\<close>

definition zoom :: "('s \<Rightarrow> 't) \<Rightarrow> ('t \<Rightarrow> 's \<Rightarrow> 's) \<Rightarrow> ('t, 'e, 'a) op \<Rightarrow> ('s, 'e, 'a) op" where
  "zoom get put m s = (case m (get s) of (r, t') \<Rightarrow> (r, put t' s))"

text \<open>The outcome of a call as a value, for code that looks at the error before it goes on.\<close>

definition tryM :: "('s, 'e, 'a) op \<Rightarrow> ('s, 'e2, 'e + 'a) op" where
  "tryM m s = (case m s of (r, s') \<Rightarrow> (Inr r, s'))"

definition mapErr :: "('e \<Rightarrow> 'e2) \<Rightarrow> ('s, 'e, 'a) op \<Rightarrow> ('s, 'e2, 'a) op" where
  "mapErr g m s = (case m s of (Inl e, s') \<Rightarrow> (Inl (g e), s') | (Inr x, s') \<Rightarrow> (Inr x, s'))"

text \<open>A \<open>for range\<close> loop that returns at the first error and collects one value per element.\<close>

fun forM :: "('x \<Rightarrow> ('s, 'e, 'b) op) \<Rightarrow> 'x list \<Rightarrow> ('s, 'e, 'b list) op" where
  "forM f [] = ok []"
| "forM f (x # xs) = bindM (f x) (\<lambda>y. bindM (forM f xs) (\<lambda>ys. ok (y # ys)))"

text \<open>A transaction: on an error the writes are undone by \<open>rollback before after\<close>.\<close>

definition inTx :: "('s \<Rightarrow> 's \<Rightarrow> 's) \<Rightarrow> ('s, 'e, 'a) op \<Rightarrow> ('s, 'e, 'a) op" where
  "inTx rollback m s = (case m s of (Inl e, s') \<Rightarrow> (Inl e, rollback s s') | (Inr x, s') \<Rightarrow> (Inr x, s'))"

subsection \<open>Rules for outcomes\<close>

lemmas op_defs = ok_def fail_def bindM_def failIf_def liftM_def gets_def tryM_def mapErr_def inTx_def

lemma ok_apply [op_simps]: "ok x s = (Inr x, s)" by (simp add: ok_def)
lemma fail_apply [op_simps]: "fail e s = (Inl e, s)" by (simp add: fail_def)
lemma liftM_apply [op_simps]: "liftM r s = (r, s)" by (simp add: liftM_def)
lemma gets_apply [op_simps]: "gets f s = (Inr (f s), s)" by (simp add: gets_def)

lemma bindM_ok [op_simps]: "m s = (Inr x, s') \<Longrightarrow> bindM m f s = f x s'"
  by (simp add: bindM_def)

lemma bindM_fail [op_simps]: "m s = (Inl e, s') \<Longrightarrow> bindM m f s = (Inl e, s')"
  by (simp add: bindM_def)

lemma failIf_apply [op_simps]: "failIf b e s = (if b then (Inl e, s) else (Inr (), s))"
  by (simp add: failIf_def ok_def fail_def)

lemma bindM_Inr_iff:
  "bindM m f s = (Inr y, s2) \<longleftrightarrow> (\<exists>x s1. m s = (Inr x, s1) \<and> f x s1 = (Inr y, s2))"
  by (auto simp: bindM_def split: prod.splits sum.splits)

lemma bindM_Inl_iff:
  "bindM m f s = (Inl e, s2) \<longleftrightarrow>
     m s = (Inl e, s2) \<or> (\<exists>x s1. m s = (Inr x, s1) \<and> f x s1 = (Inl e, s2))"
  by (auto simp: bindM_def split: prod.splits sum.splits)

lemma failIf_Inr_iff: "failIf b e s = (Inr u, s2) \<longleftrightarrow> \<not> b \<and> s2 = s"
  by (auto simp: failIf_def ok_def fail_def)

lemma failIf_Inl_iff: "failIf b e s = (Inl x, s2) \<longleftrightarrow> b \<and> x = e \<and> s2 = s"
  by (auto simp: failIf_def ok_def fail_def)

lemma ok_Inr_iff: "ok x s = (Inr y, s2) \<longleftrightarrow> y = x \<and> s2 = s"
  by (auto simp: ok_def)

lemma gets_Inr_iff: "gets f s = (Inr y, s2) \<longleftrightarrow> y = f s \<and> s2 = s"
  by (auto simp: gets_def)

lemma liftM_Inr_iff: "liftM r s = (Inr y, s2) \<longleftrightarrow> r = Inr y \<and> s2 = s"
  by (auto simp: liftM_def)

lemma tryM_Inr_iff: "tryM m s = (Inr r, s2) \<longleftrightarrow> m s = (r, s2)"
  by (auto simp: tryM_def split: prod.splits)

lemma mapErr_Inr_iff: "mapErr g m s = (Inr x, s2) \<longleftrightarrow> m s = (Inr x, s2)"
  by (auto simp: mapErr_def split: prod.splits sum.splits)

lemma inTx_Inr_iff: "inTx rb m s = (Inr x, s2) \<longleftrightarrow> m s = (Inr x, s2)"
  by (auto simp: inTx_def split: prod.splits sum.splits)

lemma fail_Inr_iff: "fail e s = (Inr x, s2) \<longleftrightarrow> False"
  by (simp add: fail_def)

lemma mapErr_Inl_iff: "mapErr g m s = (Inl e2, s2) \<longleftrightarrow> (\<exists>e. m s = (Inl e, s2) \<and> e2 = g e)"
  by (auto simp: mapErr_def split: prod.splits sum.splits)

lemma asks_Inr_iff: "asks f s = (Inr x, s2) \<longleftrightarrow> f s = Inr x \<and> s2 = s"
  by (auto simp: asks_def)

lemma asks_Inl_iff: "asks f s = (Inl x, s2) \<longleftrightarrow> f s = Inl x \<and> s2 = s"
  by (auto simp: asks_def)

lemma asks_apply [op_simps]: "asks f s = (f s, s)" by (simp add: asks_def)

lemma zoom_iff: "zoom get put m s = (r, s2) \<longleftrightarrow> (\<exists>t'. m (get s) = (r, t') \<and> s2 = put t' s)"
  by (auto simp: zoom_def split: prod.splits)

lemmas Inr_iffs = asks_Inr_iff bindM_Inr_iff failIf_Inr_iff ok_Inr_iff gets_Inr_iff liftM_Inr_iff tryM_Inr_iff
  mapErr_Inr_iff inTx_Inr_iff fail_Inr_iff

subsection \<open>Predicates an operation keeps\<close>

text \<open>
  \<open>keeps I m\<close>: whatever the outcome, \<open>m\<close> leads from a state with \<open>I\<close> to a state with \<open>I\<close>.
  The rules below walk over the combinators, so an invariant is proved once per repository
  method and the service operations follow by \<open>intro keeps_intros\<close>.
\<close>

definition keeps :: "('s \<Rightarrow> bool) \<Rightarrow> ('s, 'e, 'a) op \<Rightarrow> bool" where
  "keeps I m \<longleftrightarrow> (\<forall>s. I s \<longrightarrow> I (snd (m s)))"

lemma keepsI: "(\<And>s. I s \<Longrightarrow> I (snd (m s))) \<Longrightarrow> keeps I m"
  by (simp add: keeps_def)

lemma keepsD: "keeps I m \<Longrightarrow> I s \<Longrightarrow> m s = (r, s') \<Longrightarrow> I s'"
  by (metis keeps_def snd_conv)

lemma keeps_ok [keeps_intros]: "keeps I (ok x)" by (simp add: keeps_def ok_def)
lemma keeps_fail [keeps_intros]: "keeps I (fail e)" by (simp add: keeps_def fail_def)
lemma keeps_gets [keeps_intros]: "keeps I (gets f)" by (simp add: keeps_def gets_def)
lemma keeps_liftM [keeps_intros]: "keeps I (liftM r)" by (simp add: keeps_def liftM_def)

lemma keeps_asks [keeps_intros]: "keeps I (asks f)" by (simp add: keeps_def asks_def)

lemma keeps_zoom:
  assumes "\<And>s. I s \<Longrightarrow> J (get s)" and "keeps J m" and "\<And>s t. I s \<Longrightarrow> J t \<Longrightarrow> I (put t s)"
  shows "keeps I (zoom get put m)"
  using assms by (auto simp: keeps_def zoom_def split: prod.splits) (metis snd_conv)

lemma keeps_failIf [keeps_intros]: "keeps I (failIf b e)"
  by (simp add: keeps_def failIf_def ok_def fail_def)

lemma keeps_bindM [keeps_intros]:
  assumes "keeps I m" and "\<And>x. keeps I (f x)"
  shows "keeps I (bindM m f)"
  using assms by (fastforce simp: keeps_def bindM_def split: prod.splits sum.splits)

text \<open>The continuation may use what the first call established about its result.\<close>

lemma keeps_bindM_dep:
  assumes "keeps I m" and "\<And>x s s'. I s \<Longrightarrow> m s = (Inr x, s') \<Longrightarrow> I s' \<Longrightarrow> I (snd (f x s'))"
  shows "keeps I (bindM m f)"
proof (rule keepsI)
  fix s assume I: "I s"
  obtain r s' where m: "m s = (r, s')" by (cases "m s")
  have I': "I s'" using keepsD [OF assms(1) I m] .
  show "I (snd (bindM m f s))"
    using m I' assms(2) [OF I] by (cases r) (auto simp: bindM_def)
qed

text \<open>A postcondition of the first call that does not depend on the state.\<close>

lemma keeps_bindM_post:
  assumes "keeps I m" and "\<And>x s s'. I s \<Longrightarrow> m s = (Inr x, s') \<Longrightarrow> P x" and "\<And>x. P x \<Longrightarrow> keeps I (f x)"
  shows "keeps I (bindM m f)"
  using assms(1) by (rule keeps_bindM_dep) (use assms(2,3) in \<open>auto simp: keeps_def\<close>)

lemma keeps_failIf_then:
  assumes "\<not> b \<Longrightarrow> keeps I (f ())"
  shows "keeps I (bindM (failIf b e) f)"
  using assms by (cases b) (auto simp: keeps_def bindM_def failIf_def ok_def fail_def)

lemma keeps_liftM_then:
  assumes "\<And>x. r = Inr x \<Longrightarrow> keeps I (f x)"
  shows "keeps I (bindM (liftM r) f)"
  using assms by (cases r) (auto simp: keeps_def bindM_def liftM_def)

lemma keeps_tryM [keeps_intros]: "keeps I m \<Longrightarrow> keeps I (tryM m)"
  by (fastforce simp: keeps_def tryM_def split: prod.splits)

lemma keeps_mapErr [keeps_intros]: "keeps I m \<Longrightarrow> keeps I (mapErr g m)"
  by (fastforce simp: keeps_def mapErr_def split: prod.splits sum.splits)

lemma keeps_forM [keeps_intros]: "(\<And>x. keeps I (f x)) \<Longrightarrow> keeps I (forM f xs)"
  by (induction xs) (auto intro!: keeps_intros)

lemma keeps_forM_set: "(\<And>x. x \<in> set xs \<Longrightarrow> keeps I (f x)) \<Longrightarrow> keeps I (forM f xs)"
  by (induction xs) (auto intro!: keeps_intros)

lemma keeps_inTx [keeps_intros]:
  assumes "keeps I m" and "\<And>s s'. I s \<Longrightarrow> I s' \<Longrightarrow> I (rb s s')"
  shows "keeps I (inTx rb m)"
  using assms by (fastforce simp: keeps_def inTx_def split: prod.splits sum.splits)

lemma keeps_if [keeps_intros]: "keeps I m \<Longrightarrow> keeps I n \<Longrightarrow> keeps I (if b then m else n)"
  by simp

lemma keeps_sum_case [keeps_intros]:
  "(\<And>e. keeps I (f e)) \<Longrightarrow> (\<And>x. keeps I (g x)) \<Longrightarrow> keeps I (case r of Inl e \<Rightarrow> f e | Inr x \<Rightarrow> g x)"
  by (cases r) auto

lemma keeps_option_case [keeps_intros]:
  "keeps I n \<Longrightarrow> (\<And>x. keeps I (g x)) \<Longrightarrow> keeps I (case r of None \<Rightarrow> n | Some x \<Rightarrow> g x)"
  by (cases r) auto

lemma keeps_prod_case [keeps_intros]: "(\<And>a b. keeps I (f a b)) \<Longrightarrow> keeps I (case p of (a, b) \<Rightarrow> f a b)"
  by (cases p) simp

lemma forM_length: "forM f xs s = (Inr ys, s') \<Longrightarrow> length ys = length xs"
  by (induction xs arbitrary: s ys s') (auto simp: Inr_iffs)

section \<open>Strings\<close>

type_synonym gostring = string

definition ascii_space :: "char \<Rightarrow> bool" where
  "ascii_space c \<longleftrightarrow> c = CHR '' '' \<or> c = CHR 0x09 \<or> c = CHR 0x0A \<or> c = CHR 0x0B \<or> c = CHR 0x0C \<or> c = CHR 0x0D"

text \<open>The white-space runes beyond ASCII (\<open>unicode.IsSpace\<close>), in UTF-8.\<close>

definition wide_spaces :: "gostring list" where
  "wide_spaces =
     [[CHR 0xC2, CHR 0x85], [CHR 0xC2, CHR 0xA0], [CHR 0xE1, CHR 0x9A, CHR 0x80],
      [CHR 0xE2, CHR 0x80, CHR 0x80], [CHR 0xE2, CHR 0x80, CHR 0x81], [CHR 0xE2, CHR 0x80, CHR 0x82],
      [CHR 0xE2, CHR 0x80, CHR 0x83], [CHR 0xE2, CHR 0x80, CHR 0x84], [CHR 0xE2, CHR 0x80, CHR 0x85],
      [CHR 0xE2, CHR 0x80, CHR 0x86], [CHR 0xE2, CHR 0x80, CHR 0x87], [CHR 0xE2, CHR 0x80, CHR 0x88],
      [CHR 0xE2, CHR 0x80, CHR 0x89], [CHR 0xE2, CHR 0x80, CHR 0x8A], [CHR 0xE2, CHR 0x80, CHR 0xA8],
      [CHR 0xE2, CHR 0x80, CHR 0xA9], [CHR 0xE2, CHR 0x80, CHR 0xAF], [CHR 0xE2, CHR 0x81, CHR 0x9F],
      [CHR 0xE3, CHR 0x80, CHR 0x80]]"

definition is_ascii :: "char \<Rightarrow> bool" where
  "is_ascii c \<longleftrightarrow> of_char c < (128 :: nat)"

fun find_prefix :: "gostring list \<Rightarrow> gostring \<Rightarrow> nat" where
  "find_prefix [] s = 0"
| "find_prefix (w # ws) s = (if prefix w s then length w else find_prefix ws s)"

text \<open>
  Strip white space at the front. \<open>ws\<close> lists the multi-byte spaces; the same function on the
  reversed string and the reversed encodings strips at the end. The ASCII test first is the
  fast path of \<open>strings.TrimSpace\<close>.
\<close>

function strip_space :: "gostring list \<Rightarrow> gostring \<Rightarrow> gostring" where
  "strip_space ws [] = []"
| "strip_space ws (c # cs) =
     (if is_ascii c then (if ascii_space c then strip_space ws cs else c # cs)
      else (case find_prefix ws (c # cs) of
              0 \<Rightarrow> c # cs
            | Suc n \<Rightarrow> strip_space ws (drop n cs)))"
  by pat_completeness auto
termination
  by (relation "measure (\<lambda>(ws, s). length s)") auto

definition TrimSpace :: "gostring \<Rightarrow> gostring" where
  "TrimSpace s = rev (strip_space (map rev wide_spaces) (rev (strip_space wide_spaces s)))"

definition lower_char :: "char \<Rightarrow> char" where
  "lower_char c = (let n = (of_char c :: nat) in if 65 \<le> n \<and> n \<le> 90 then char_of (n + 32) else c)"

definition ToLower :: "gostring \<Rightarrow> gostring" where
  "ToLower s = map lower_char s"

definition EqualFold :: "gostring \<Rightarrow> gostring \<Rightarrow> bool" where
  "EqualFold a b \<longleftrightarrow> ToLower a = ToLower b"

definition HasPrefix :: "gostring \<Rightarrow> gostring \<Rightarrow> bool" where
  "HasPrefix s p \<longleftrightarrow> prefix p s"

definition HasSuffix :: "gostring \<Rightarrow> gostring \<Rightarrow> bool" where
  "HasSuffix s p \<longleftrightarrow> prefix (rev p) (rev s)"

definition TrimSuffix :: "gostring \<Rightarrow> gostring \<Rightarrow> gostring" where
  "TrimSuffix s p = (if HasSuffix s p then take (length s - length p) s else s)"

fun Contains :: "gostring \<Rightarrow> gostring \<Rightarrow> bool" where
  "Contains [] sub \<longleftrightarrow> sub = []"
| "Contains (c # cs) sub \<longleftrightarrow> prefix sub (c # cs) \<or> Contains cs sub"

text \<open>\<open>strings.ReplaceAll s old \"\"\<close> for a one-character \<open>old\<close>.\<close>

definition DropChar :: "char \<Rightarrow> gostring \<Rightarrow> gostring" where
  "DropChar c s = filter (\<lambda>x. x \<noteq> c) s"

text \<open>Characters of a UTF-8 string: the bytes that are not continuation bytes (10xxxxxx).\<close>

definition continuation :: "char \<Rightarrow> bool" where
  "continuation c \<longleftrightarrow> (of_char c :: nat) div 64 = 2"

definition char_len :: "gostring \<Rightarrow> nat" where
  "char_len s = length (filter (\<lambda>c. \<not> continuation c) s)"

text \<open>The classifications of a byte, read off its bits when they are evaluated.\<close>

lemma is_ascii_bits [code]: "is_ascii (Char b0 b1 b2 b3 b4 b5 b6 b7) \<longleftrightarrow> \<not> b7"
  by (auto simp: is_ascii_def of_bool_def)

lemma continuation_bits [code]: "continuation (Char b0 b1 b2 b3 b4 b5 b6 b7) \<longleftrightarrow> b7 \<and> \<not> b6"
  by (cases b7; cases b6; cases b5; cases b4; cases b3; cases b2; cases b1; cases b0; simp add: continuation_def)

lemma lower_char_bits [code]:
  "lower_char (Char b0 b1 b2 b3 b4 b5 b6 b7) =
     (if \<not> b7 \<and> b6 \<and> \<not> b5 \<and> (b0 \<or> b1 \<or> b2 \<or> b3 \<or> b4) \<and> \<not> (b4 \<and> b3 \<and> (b2 \<or> b1 \<and> b0))
      then Char b0 b1 b2 b3 b4 True b6 b7 else Char b0 b1 b2 b3 b4 b5 b6 b7)"
  by (cases b7; cases b6; cases b5; cases b4; cases b3; cases b2; cases b1; cases b0; simp add: lower_char_def char_of_def bit_numeral_rec bit_0)

subsection \<open>Decimal numbers\<close>

definition digit :: "nat \<Rightarrow> char" where
  "digit d = char_of (48 + d)"

fun FormatUint :: "nat \<Rightarrow> gostring" where
  "FormatUint n = (if n < 10 then [digit n] else FormatUint (n div 10) @ [digit (n mod 10)])"

declare FormatUint.simps [simp del]

definition digit_val :: "char \<Rightarrow> nat option" where
  "digit_val c = (let n = of_char c in if 48 \<le> n \<and> n \<le> 57 then Some (n - 48) else None)"

fun parse_digits :: "nat \<Rightarrow> gostring \<Rightarrow> nat option" where
  "parse_digits acc [] = Some acc"
| "parse_digits acc (c # cs) =
     (case digit_val c of None \<Rightarrow> None | Some d \<Rightarrow> parse_digits (10 * acc + d) cs)"

text \<open>\<open>strconv.ParseUint(s, 10, bits)\<close>: digits only, at least one, and below \<open>2 ^ bits\<close>.\<close>

definition ParseUint :: "nat \<Rightarrow> gostring \<Rightarrow> nat option" where
  "ParseUint bits s =
     (if s = [] then None
      else case parse_digits 0 s of
             None \<Rightarrow> None
           | Some n \<Rightarrow> if n < 2 ^ bits then Some n else None)"

subsection \<open>Facts about strings\<close>

lemma length_strip_space: "length (strip_space ws s) \<le> length s"
proof (induction ws s rule: strip_space.induct)
  case (2 ws c cs)
  then show ?case by (auto split: nat.splits intro: le_trans le_SucI)
qed simp

lemma length_TrimSpace: "length (TrimSpace s) \<le> length s"
  unfolding TrimSpace_def
  by (metis length_rev length_strip_space le_trans)

lemma TrimSpace_Nil [simp]: "TrimSpace [] = []"
  by (simp add: TrimSpace_def)

lemma of_char_char_of_small: "n < 256 \<Longrightarrow> (of_char (char_of n :: char) :: nat) = n"
  by (simp add: of_char_of)

lemma lower_char_idem [simp]: "lower_char (lower_char c) = lower_char c"
  by (auto simp: lower_char_def Let_def of_char_of)

lemma ToLower_idem [simp]: "ToLower (ToLower s) = ToLower s"
  by (simp add: ToLower_def)

lemma length_ToLower [simp]: "length (ToLower s) = length s"
  by (simp add: ToLower_def)

lemma EqualFold_refl [simp]: "EqualFold a a"
  by (simp add: EqualFold_def)

lemma EqualFold_sym: "EqualFold a b \<Longrightarrow> EqualFold b a"
  by (simp add: EqualFold_def)

lemma Contains_iff_sublist: "Contains s sub \<longleftrightarrow> sublist sub s"
  by (induction s) (auto simp: sublist_Cons_right)

lemma HasSuffix_iff_suffix: "HasSuffix s p \<longleftrightarrow> suffix p s"
  by (simp add: HasSuffix_def suffix_to_prefix)

lemma HasPrefix_TrimSuffix_star:
  "HasSuffix p [c] \<Longrightarrow> TrimSuffix p [c] = butlast p"
  by (simp add: TrimSuffix_def butlast_conv_take)

lemma digit_val_digit: "d < 10 \<Longrightarrow> digit_val (digit d) = Some d"
  by (simp add: digit_val_def digit_def of_char_of)

lemma parse_digits_append:
  "parse_digits acc (xs @ ys) =
     (case parse_digits acc xs of None \<Rightarrow> None | Some n \<Rightarrow> parse_digits n ys)"
  by (induction xs arbitrary: acc) (auto split: option.splits)

lemma parse_FormatUint: "parse_digits 0 (FormatUint n) = Some n"
proof (induction n rule: FormatUint.induct)
  case (1 n)
  show ?case
  proof (cases "n < 10")
    case True
    then show ?thesis by (simp add: FormatUint.simps [of n] digit_val_digit)
  next
    case False
    then have "parse_digits 0 (FormatUint (n div 10)) = Some (n div 10)" using 1 by simp
    then show ?thesis
      using False by (simp add: FormatUint.simps [of n] parse_digits_append digit_val_digit)
  qed
qed

lemma FormatUint_nonempty [simp]: "FormatUint n \<noteq> []"
  by (subst FormatUint.simps) simp

lemma ParseUint_FormatUint: "n < 2 ^ bits \<Longrightarrow> ParseUint bits (FormatUint n) = Some n"
  by (simp add: ParseUint_def parse_FormatUint)

lemma FormatUint_inj: "FormatUint m = FormatUint n \<longleftrightarrow> m = n"
  by (metis option.inject parse_FormatUint)

text \<open>Text without white space at its ends is left alone; decimal digits are such text.\<close>

definition plain :: "char \<Rightarrow> bool" where
  "plain c \<longleftrightarrow> is_ascii c \<and> \<not> ascii_space c"

lemma strip_space_plain: "s = [] \<or> plain (hd s) \<Longrightarrow> strip_space ws s = s"
  by (cases s) (auto simp: plain_def)

lemma TrimSpace_plain: "list_all plain s \<Longrightarrow> TrimSpace s = s"
proof -
  assume a: "list_all plain s"
  then have "strip_space wide_spaces s = s"
    by (intro strip_space_plain) (cases s, auto)
  moreover have "strip_space (map rev wide_spaces) (rev s) = rev s"
    using a by (intro strip_space_plain) (cases "rev s", auto simp: list_all_iff hd_rev)
  ultimately show ?thesis by (simp add: TrimSpace_def)
qed

lemma of_char_digit: "d < 10 \<Longrightarrow> (of_char (digit d) :: nat) = 48 + d"
  by (simp add: digit_def of_char_of)

lemma plain_digit: "d < 10 \<Longrightarrow> plain (digit d)"
proof -
  assume d: "d < 10"
  have "c \<noteq> digit d" if "(of_char c :: nat) < 48" for c
    using that of_char_digit [OF d] by auto
  then show ?thesis
    using of_char_digit [OF d] d by (auto simp: plain_def is_ascii_def ascii_space_def)
qed

lemma plain_FormatUint: "list_all plain (FormatUint n)"
proof (induction n rule: FormatUint.induct)
  case (1 n)
  then show ?case by (cases "n < 10") (simp_all add: FormatUint.simps [of n] plain_digit)
qed

lemma colon_not_digit: "d < 10 \<Longrightarrow> digit d \<noteq> CHR '':''"
  using of_char_digit [of d] by auto

lemma FormatUint_no_colon: "CHR '':'' \<notin> set (FormatUint n)"
proof (induction n rule: FormatUint.induct)
  case (1 n)
  then show ?case
    by (cases "n < 10") (simp_all add: FormatUint.simps [of n] colon_not_digit [THEN not_sym])
qed

text \<open>A text is determined by what precedes and what follows its last colon.\<close>

lemma last_colon_inj:
  assumes "xs @ [CHR '':''] @ ds = ys @ [CHR '':''] @ es"
    and "CHR '':'' \<notin> set ds" and "CHR '':'' \<notin> set es"
  shows "xs = ys \<and> ds = es"
proof -
  have "xs = ys \<and> ds = es" if "length xs = length ys"
    using that assms(1) by simp
  moreover have "\<not> length xs < length ys"
  proof
    assume l: "length xs < length ys"
    have "(xs @ [CHR '':''] @ ds) ! length ys = CHR '':''"
      unfolding assms(1) by (simp add: nth_append)
    then have "ds ! (length ys - Suc (length xs)) = CHR '':''"
      using l by (auto simp: nth_append nth_Cons')
    moreover have "length ys - Suc (length xs) < length ds"
      using arg_cong [OF assms(1), of length] l by simp
    ultimately show False using assms(2) nth_mem by metis
  qed
  moreover have "\<not> length ys < length xs"
  proof
    assume l: "length ys < length xs"
    have "(ys @ [CHR '':''] @ es) ! length xs = CHR '':''"
      unfolding assms(1) [symmetric] by (simp add: nth_append)
    then have "es ! (length xs - Suc (length ys)) = CHR '':''"
      using l by (auto simp: nth_append nth_Cons')
    moreover have "length xs - Suc (length ys) < length es"
      using arg_cong [OF assms(1), of length] l by simp
    ultimately show False using assms(3) nth_mem by metis
  qed
  ultimately show ?thesis by linarith
qed

lemma ParseUint_bound: "ParseUint bits s = Some n \<Longrightarrow> n < 2 ^ bits"
  by (auto simp: ParseUint_def split: if_splits option.splits)

section \<open>Times and durations\<close>

type_synonym time = int

abbreviation zero_time :: time where "zero_time \<equiv> 0"

definition second :: int where "second = 1000000000"
definition hour :: int where "hour = 3600 * second"

text \<open>1970-01-01T00:00:00Z, the sentinel the schema uses for \"not set\".\<close>

definition epoch :: time where "epoch = 62135596800 * second"

text \<open>The value an \<open>int64\<close> computation leaves: two's complement wrap-around.\<close>

definition int64 :: "int \<Rightarrow> int" where
  "int64 x = sint (word_of_int x :: 64 word)"

lemma int64_id: "- (2 ^ 63) \<le> x \<Longrightarrow> x < 2 ^ 63 \<Longrightarrow> int64 x = x"
  by (simp add: int64_def sint_sbintrunc' signed_take_bit_int_eq_self)

lemma int64_range: "- (2 ^ 63) \<le> int64 x \<and> int64 x < 2 ^ 63"
proof -
  have "- (2 ^ (LENGTH(64) - 1)) \<le> sint (word_of_int x :: 64 word)"
    and "sint (word_of_int x :: 64 word) < 2 ^ (LENGTH(64) - 1)"
    by (rule sint_ge, rule sint_lt)
  then show ?thesis by (simp add: int64_def)
qed

subsection \<open>Formatting\<close>

text \<open>\<open>t.UTC().Format(time.RFC3339)\<close>: the civil date of the day count, then the time of day.\<close>

definition civil :: "int \<Rightarrow> int \<times> int \<times> int" where
  "civil days =
     (let z = days + 306;
          era = z div 146097;
          doe = z mod 146097;
          yoe = (doe - doe div 1460 + doe div 36524 - doe div 146096) div 365;
          doy = doe - (365 * yoe + yoe div 4 - yoe div 100);
          mp = (5 * doy + 2) div 153;
          d = doy - (153 * mp + 2) div 5 + 1;
          m = (if mp < 10 then mp + 3 else mp - 9)
      in (yoe + era * 400 + (if m \<le> 2 then 1 else 0), m, d))"

definition pad :: "nat \<Rightarrow> int \<Rightarrow> gostring" where
  "pad w n = (let s = FormatUint (nat n) in replicate (w - length s) (CHR ''0'') @ s)"

definition RFC3339 :: "time \<Rightarrow> gostring" where
  "RFC3339 t =
     (let secs = t div second; sod = secs mod 86400 in
      case civil (secs div 86400) of
        (y, m, d) \<Rightarrow>
          pad 4 y @ ''-'' @ pad 2 m @ ''-'' @ pad 2 d @ ''T'' @ pad 2 (sod div 3600) @ '':'' @
          pad 2 (sod div 60 mod 60) @ '':'' @ pad 2 (sod mod 60) @ ''Z'')"

text \<open>The verb \<open>%q\<close> on ASCII text; bytes of multi-byte runes are printed as they are.\<close>

definition hex_digit :: "nat \<Rightarrow> char" where
  "hex_digit d = char_of (if d < 10 then 48 + d else 87 + d)"

definition quote_char :: "char \<Rightarrow> gostring" where
  "quote_char c =
     (let n = (of_char c :: nat) in
      if c = CHR 0x22 then [CHR 0x5C, CHR 0x22]
      else if c = CHR 0x5C then [CHR 0x5C, CHR 0x5C]
      else if n = 7 then [CHR 0x5C, CHR ''a''] else if n = 8 then [CHR 0x5C, CHR ''b'']
      else if n = 9 then [CHR 0x5C, CHR ''t''] else if n = 10 then [CHR 0x5C, CHR ''n'']
      else if n = 11 then [CHR 0x5C, CHR ''v''] else if n = 12 then [CHR 0x5C, CHR ''f'']
      else if n = 13 then [CHR 0x5C, CHR ''r'']
      else if n < 32 \<or> n = 127 then [CHR 0x5C, CHR ''x'', hex_digit (n div 16), hex_digit (n mod 16)]
      else [c])"

definition Quote :: "gostring \<Rightarrow> gostring" where
  "Quote s = [CHR 0x22] @ concat (map quote_char s) @ [CHR 0x22]"

lemma RFC3339_epoch: "RFC3339 epoch = ''1970-01-01T00:00:00Z''"
  by code_simp

lemma epoch_pos [simp]: "0 < epoch" "epoch \<noteq> 0" "0 \<noteq> epoch"
  by (simp_all add: epoch_def second_def)

end
