(* ===== verification/SqlStore.thy ===== *)
theory SqlStore
  imports GoPrelude "HOL-Library.List_Lexorder" "HOL-Library.Char_ord"
begin

text \<open>
  The MySQL side of the repositories: tables, the statements the sqlc queries consist of, and
  the interfaces (\<open>id_rows\<close>, \<open>keyed_rows\<close>) through which every repository relies on its tables.

  A table holds its rows (no statement deletes one; a table whose rows are marked by \<open>deleted_at\<close>
  keeps that column in the row) in the order of their \<open>AUTO_INCREMENT\<close> id, and the next id. What belongs to the
  server and not to the repository is a parameter of the model, the record \<open>env\<close>: the clocks, the
  collation key of \<open>utf8mb4_unicode_ci\<close>, what a \<open>DATETIME(3)\<close> column returns for a stored time,
  \<open>LIKE '%k%'\<close>, and the text a \<open>JSON\<close> column returns for a document (\<open>None\<close> when it is refused). The data source name in \<open>internal/platform/db/db.go\<close> does not set
  \<open>clientFoundRows\<close>, so \<open>RowsAffected\<close> counts the rows an \<open>UPDATE\<close> really changed, and
  \<open>updated_at\<close> moves for exactly those. Connection failures, deadlocks and context cancellation
  are not modelled; calls run one after the other.
\<close>

section \<open>The environment of a call\<close>

record env =
  env_now :: time
  env_db_now :: time
  env_key :: "string \<Rightarrow> string"
  env_col :: "time \<Rightarrow> time"
  env_like :: "string \<Rightarrow> string \<Rightarrow> bool"
  env_json :: "string \<Rightarrow> string option"

definition sql_eq :: "env \<Rightarrow> string \<Rightarrow> string \<Rightarrow> bool" where
  "sql_eq e a b \<longleftrightarrow> env_key e a = env_key e b"

definition sql_in :: "env \<Rightarrow> string \<Rightarrow> string list \<Rightarrow> bool" where
  "sql_in e v xs \<longleftrightarrow> list_ex (sql_eq e v) xs"

lemma sql_eq_refl [simp]: "sql_eq e a a" by (simp add: sql_eq_def)
lemma sql_eq_sym: "sql_eq e a b \<Longrightarrow> sql_eq e b a" by (simp add: sql_eq_def)
lemma sql_eq_trans: "sql_eq e a b \<Longrightarrow> sql_eq e b c \<Longrightarrow> sql_eq e a c" by (simp add: sql_eq_def)

lemma sql_in_member: "v \<in> set xs \<Longrightarrow> sql_in e v xs"
  by (auto simp: sql_in_def list_ex_iff intro: bexI [of _ v])

text \<open>
  A server whose collation tells the lower-case words of the program apart: the key of
  \<open>utf8mb4_unicode_ci\<close> on ASCII text folds case and ignores trailing blanks.
\<close>

definition ascii_key :: "string \<Rightarrow> string" where
  "ascii_key s = ToLower (rev (dropWhile (\<lambda>c. c = CHR '' '') (rev s)))"

definition ascii_env :: "time \<Rightarrow> env" where
  "ascii_env t = \<lparr>env_now = t, env_db_now = t, env_key = ascii_key,
     env_col = (\<lambda>x. x), env_like = (\<lambda>s k. Contains (ToLower s) (ToLower k)), env_json = Some\<rparr>"

section \<open>Tables and statements\<close>

record 'r table =
  t_rows :: "'r list"
  t_next :: nat

definition empty_table :: "'r table" where
  "empty_table = \<lparr>t_rows = [], t_next = 1\<rparr>"

datatype sql_error = SqlTooLong | SqlRange | SqlCheck | SqlDuplicate | SqlForeignKey

text \<open>Columns of a row that are too wide for their \<open>VARCHAR(n)\<close>.\<close>

definition too_long :: "(string \<times> nat) list \<Rightarrow> bool" where
  "too_long cols \<longleftrightarrow> list_ex (\<lambda>(v, n). n < char_len v) cols"

definition row_check :: "bool \<Rightarrow> bool \<Rightarrow> sql_error option" where
  "row_check long checks = (if long then Some SqlTooLong else if \<not> checks then Some SqlCheck else None)"

definition sql_insert ::
  "('r \<Rightarrow> sql_error option) \<Rightarrow> ('r \<Rightarrow> 'r \<Rightarrow> bool) \<Rightarrow> ('r \<Rightarrow> bool) \<Rightarrow> (nat \<Rightarrow> 'r \<Rightarrow> 'r) \<Rightarrow> 'r
     \<Rightarrow> 'r table \<Rightarrow> (sql_error + nat) \<times> 'r table" where
  "sql_insert chk same_key fk with_id row t =
     (case chk row of
        Some err \<Rightarrow> (Inl err, t)
      | None \<Rightarrow>
          if list_ex (same_key row) (t_rows t) then (Inl SqlDuplicate, t)
          else if \<not> fk row then (Inl SqlForeignKey, t)
          else (Inr (t_next t), t\<lparr>t_rows := t_rows t @ [with_id (t_next t) row], t_next := Suc (t_next t)\<rparr>))"

definition upd_row :: "('r \<Rightarrow> bool) \<Rightarrow> ('r \<Rightarrow> 'r) \<Rightarrow> ('r \<Rightarrow> 'r) \<Rightarrow> 'r \<Rightarrow> 'r" where
  "upd_row p f stamp r = (if p r \<and> f r \<noteq> r then stamp (f r) else r)"

text \<open>An \<open>UPDATE\<close>: the number of changed rows, or the constraint that a changed row violates.\<close>

definition sql_update ::
  "('r \<Rightarrow> sql_error option) \<Rightarrow> ('r \<Rightarrow> bool) \<Rightarrow> ('r \<Rightarrow> 'r) \<Rightarrow> ('r \<Rightarrow> 'r)
     \<Rightarrow> 'r table \<Rightarrow> (sql_error + nat) \<times> 'r table" where
  "sql_update chk p f stamp t =
     (case List.find (\<lambda>r. p r \<and> chk (f r) \<noteq> None) (t_rows t) of
        Some r \<Rightarrow> (Inl (the (chk (f r))), t)
      | None \<Rightarrow> (Inr (length (filter (\<lambda>r. p r \<and> f r \<noteq> r) (t_rows t))),
                 t\<lparr>t_rows := map (upd_row p f stamp) (t_rows t)\<rparr>))"

definition sql_one :: "('r \<Rightarrow> bool) \<Rightarrow> 'r table \<Rightarrow> 'r option" where
  "sql_one p t = List.find p (t_rows t)"

definition sql_many :: "('r \<Rightarrow> bool) \<Rightarrow> 'r table \<Rightarrow> 'r list" where
  "sql_many p t = filter p (t_rows t)"

definition sql_count :: "('r \<Rightarrow> bool) \<Rightarrow> 'r table \<Rightarrow> int" where
  "sql_count p t = int (length (filter p (t_rows t)))"

definition page :: "int \<Rightarrow> int \<Rightarrow> 'r list \<Rightarrow> 'r list" where
  "page limit offset rows = take (nat limit) (drop (nat offset) rows)"

text \<open>An \<open>UPDATE\<close> of a table with a unique key.\<close>

definition unique_rows :: "('r \<Rightarrow> 'r \<Rightarrow> bool) \<Rightarrow> 'r list \<Rightarrow> bool" where
  "unique_rows same rows \<longleftrightarrow> sorted_wrt (\<lambda>a b. \<not> same b a) rows"

definition sql_update_unique ::
  "('r \<Rightarrow> 'r \<Rightarrow> bool) \<Rightarrow> ('r \<Rightarrow> sql_error option) \<Rightarrow> ('r \<Rightarrow> bool) \<Rightarrow> ('r \<Rightarrow> 'r) \<Rightarrow> ('r \<Rightarrow> 'r)
     \<Rightarrow> 'r table \<Rightarrow> (sql_error + nat) \<times> 'r table" where
  "sql_update_unique same chk p f stamp t =
     (case sql_update chk p f stamp t of
        (Inl e, t') \<Rightarrow> (Inl e, t)
      | (Inr n, t') \<Rightarrow> if unique_rows same (t_rows t') then (Inr n, t') else (Inl SqlDuplicate, t))"

text \<open>
  A rolled-back table has its old rows; InnoDB does not take the ids back, so the next id is the
  larger of the two.
\<close>

definition tbl_rollback :: "'r table \<Rightarrow> 'r table \<Rightarrow> 'r table" where
  "tbl_rollback t0 t1 = t1\<lparr>t_rows := t_rows t0, t_next := max (t_next t0) (t_next t1)\<rparr>"

subsection \<open>Facts about single statements\<close>

lemma rows_rollback [simp]: "t_rows (tbl_rollback t0 t1) = t_rows t0"
  by (simp add: tbl_rollback_def)

lemma length_page: "length (page l off rows) \<le> nat l"
  by (simp add: page_def)

lemma set_page: "set (page l off rows) \<subseteq> set rows"
  unfolding page_def by (meson set_drop_subset set_take_subset order_trans)

lemma sql_insert_Inr:
  "sql_insert chk same fk wid row t = (Inr n, t') \<longleftrightarrow>
     n = t_next t \<and> chk row = None \<and> \<not> list_ex (same row) (t_rows t) \<and> fk row \<and>
     t' = t\<lparr>t_rows := t_rows t @ [wid (t_next t) row], t_next := Suc (t_next t)\<rparr>"
  by (auto simp: sql_insert_def split: option.splits)

lemma sql_insert_Inl: "sql_insert chk same fk wid row t = (Inl err, t') \<Longrightarrow> t' = t"
  by (auto simp: sql_insert_def split: option.splits if_splits)

lemma find_cong_rows: "(\<And>r. r \<in> set rows \<Longrightarrow> p r = q r) \<Longrightarrow> List.find p rows = List.find q rows"
  by (induction rows) auto

lemma find_append_rows:
  "List.find p (xs @ ys) = (case List.find p xs of None \<Rightarrow> List.find p ys | Some r \<Rightarrow> Some r)"
  by (induction xs) auto

lemma sql_update_Inr:
  "sql_update chk p f stamp t = (Inr n, t') \<longleftrightarrow>
     (\<forall>r \<in> set (t_rows t). p r \<longrightarrow> chk (f r) = None) \<and>
     n = length (filter (\<lambda>r. p r \<and> f r \<noteq> r) (t_rows t)) \<and>
     t' = t\<lparr>t_rows := map (upd_row p f stamp) (t_rows t)\<rparr>"
  by (auto simp: sql_update_def find_None_iff find_Some_iff set_conv_nth split: option.splits)

lemma sql_update_Inl: "sql_update chk p f stamp t = (Inl err, t') \<Longrightarrow> t' = t"
  by (auto simp: sql_update_def split: option.splits)

lemma sql_update_changed:
  "sql_update chk p f stamp t = (Inr n, t') \<Longrightarrow> n \<noteq> 0 \<longleftrightarrow> (\<exists>r \<in> set (t_rows t). p r \<and> f r \<noteq> r)"
  by (auto simp: sql_update_Inr filter_empty_conv)

lemma upd_rows_unchanged:
  "(\<And>r. r \<in> set rows \<Longrightarrow> p r \<Longrightarrow> f r = r) \<Longrightarrow> map (upd_row p f stamp) rows = rows"
  by (rule map_idI) (auto simp: upd_row_def)

lemma sql_update_none_changed: "sql_update chk p f stamp t = (Inr 0, t') \<Longrightarrow> t' = t"
  by (auto simp: sql_update_Inr filter_empty_conv upd_rows_unchanged)

lemma sql_one_mem: "sql_one p t = Some r \<Longrightarrow> r \<in> set (t_rows t) \<and> p r"
  by (auto simp: sql_one_def find_Some_iff)

lemma sql_one_None: "sql_one p t = None \<longleftrightarrow> (\<forall>r \<in> set (t_rows t). \<not> p r)"
  by (auto simp: sql_one_def find_None_iff)

section \<open>The interface of a table with an id column\<close>

definition wf_rows :: "('r \<Rightarrow> nat) \<Rightarrow> 'r table \<Rightarrow> bool" where
  "wf_rows rid t \<longleftrightarrow> sorted_wrt (<) (map rid (t_rows t)) \<and> (\<forall>r \<in> set (t_rows t). 0 < rid r \<and> rid r < t_next t)
     \<and> 0 < t_next t"

locale id_rows =
  fixes rid :: "'r \<Rightarrow> nat"
    and with_id :: "nat \<Rightarrow> 'r \<Rightarrow> 'r"
    and stamp :: "time \<Rightarrow> 'r \<Rightarrow> 'r"
  assumes rid_with_id [simp]: "rid (with_id n r) = n"
    and rid_stamp: "rid (stamp now r) = rid r"
begin

lemma wf_empty: "wf_rows rid empty_table"
  by (simp add: wf_rows_def empty_table_def)

lemma wf_insert:
  assumes "wf_rows rid t" and "sql_insert chk same fk with_id row t = (res, t')"
  shows "wf_rows rid t'"
proof (cases res)
  case (Inl e)
  with assms show ?thesis by (auto dest: sql_insert_Inl)
next
  case (Inr n)
  with assms show ?thesis
    by (auto simp: sql_insert_Inr wf_rows_def sorted_wrt_append less_Suc_eq)
qed

lemma rid_upd_row: "(\<And>r. rid (f r) = rid r) \<Longrightarrow> rid (upd_row p f (stamp now) r) = rid r"
  by (simp add: upd_row_def rid_stamp)

lemma wf_update:
  assumes "\<And>r. rid (f r) = rid r" and "wf_rows rid t"
    and "sql_update chk p f (stamp now) t = (res, t')"
  shows "wf_rows rid t'"
proof (cases res)
  case (Inl e)
  with assms show ?thesis by (auto dest: sql_update_Inl)
next
  case (Inr n)
  have "rid \<circ> upd_row p f (stamp now) = rid"
    by (rule ext) (simp add: rid_upd_row [OF assms(1)])
  with Inr assms(2,3) show ?thesis
    by (auto simp: sql_update_Inr wf_rows_def rid_upd_row [OF assms(1)])
qed

lemma wf_rollback: "wf_rows rid t0 \<Longrightarrow> wf_rows rid (tbl_rollback t0 t1)"
  by (auto simp: wf_rows_def tbl_rollback_def)

lemma row_unique:
  assumes "wf_rows rid t" and "r \<in> set (t_rows t)" and "r' \<in> set (t_rows t)" and "rid r = rid r'"
  shows "r = r'"
proof -
  have "distinct (map rid (t_rows t))"
    using assms(1) by (auto simp: wf_rows_def strict_sorted_iff)
  then show ?thesis using assms(2-4) by (auto simp: distinct_map dest: inj_onD)
qed

lemma one_by_id:
  assumes "wf_rows rid t" and "r \<in> set (t_rows t)" and "q r"
  shows "sql_one (\<lambda>x. rid x = rid r \<and> q x) t = Some r"
proof (cases "sql_one (\<lambda>x. rid x = rid r \<and> q x) t")
  case None
  then show ?thesis using assms by (auto simp: sql_one_None)
next
  case (Some x)
  then have "x \<in> set (t_rows t)" "rid x = rid r" by (auto dest: sql_one_mem)
  then show ?thesis using Some row_unique [OF assms(1) _ assms(2)] by simp
qed

text \<open>What a lookup by id returns after an insert and after an update of that row.\<close>

lemma one_after_insert:
  assumes "wf_rows rid t" and "sql_insert chk same fk with_id row t = (Inr n, t')" and "q (with_id n row)"
  shows "sql_one (\<lambda>x. rid x = n \<and> q x) t' = Some (with_id n row)"
proof -
  have "with_id n row \<in> set (t_rows t')" using assms(2) by (auto simp: sql_insert_Inr)
  then show ?thesis
    using one_by_id [OF wf_insert [OF assms(1,2)], of "with_id n row" q] assms(3) by simp
qed

lemma one_other_after_insert:
  assumes "wf_rows rid t" and "sql_insert chk same fk with_id row t = (Inr n, t')" and "m \<noteq> n"
  shows "sql_one (\<lambda>x. rid x = m \<and> q x) t' = sql_one (\<lambda>x. rid x = m \<and> q x) t"
  using assms by (auto simp: sql_insert_Inr sql_one_def find_append_rows split: option.splits)

lemma one_after_update:
  assumes wf: "wf_rows rid t" and upd: "sql_update chk (\<lambda>x. rid x = i \<and> q x) f (stamp now) t = (Inr n, t')"
    and pos: "n \<noteq> 0" and keep: "\<And>r. rid (f r) = rid r" "\<And>r. q' (stamp now (f r)) = q r"
  shows "\<exists>r. sql_one (\<lambda>x. rid x = i \<and> q x) t = Some r \<and> f r \<noteq> r \<and>
             sql_one (\<lambda>x. rid x = i \<and> q' x) t' = Some (stamp now (f r))"
proof -
  obtain r where r: "r \<in> set (t_rows t)" "rid r = i" "q r" "f r \<noteq> r"
    using sql_update_changed [OF upd] pos by auto
  have "upd_row (\<lambda>x. rid x = i \<and> q x) f (stamp now) r = stamp now (f r)"
    using r by (simp add: upd_row_def)
  then have "stamp now (f r) \<in> set (t_rows t')"
    using upd r(1) by (force simp: sql_update_Inr)
  then have "sql_one (\<lambda>x. rid x = i \<and> q' x) t' = Some (stamp now (f r))"
    using one_by_id [OF wf_update [OF keep(1) wf upd], of "stamp now (f r)" q'] r keep by (simp add: rid_stamp)
  moreover have "sql_one (\<lambda>x. rid x = i \<and> q x) t = Some r"
    using one_by_id [OF wf r(1), of q] r by simp
  ultimately show ?thesis using r(4) by blast
qed

lemma others_after_update:
  assumes "sql_update chk (\<lambda>x. rid x = i \<and> q x) f (stamp now) t = (Inr n, t')"
    and "\<And>r. rid (f r) = rid r"
  shows "filter (\<lambda>x. rid x \<noteq> i) (t_rows t') = filter (\<lambda>x. rid x \<noteq> i) (t_rows t)"
proof -
  have "filter (\<lambda>x. rid x \<noteq> i) (map (upd_row (\<lambda>x. rid x = i \<and> q x) f (stamp now)) rows)
          = filter (\<lambda>x. rid x \<noteq> i) rows" for rows
    by (induction rows) (auto simp: upd_row_def assms(2) rid_stamp)
  then show ?thesis using assms(1) by (simp add: sql_update_Inr)
qed

end

section \<open>Tables with a unique key\<close>

definition table_ok :: "('r \<Rightarrow> nat) \<Rightarrow> ('r \<Rightarrow> 'r \<Rightarrow> bool) \<Rightarrow> ('r \<Rightarrow> bool) \<Rightarrow> 'r table \<Rightarrow> bool" where
  "table_ok rid same ok_row t \<longleftrightarrow> wf_rows rid t \<and> unique_rows same (t_rows t) \<and> (\<forall>r \<in> set (t_rows t). ok_row r)"

lemma sql_update_unique_cases:
  assumes "sql_update_unique same chk p f stamp t = (res, t')"
  shows "t' = t \<or> (t' = t\<lparr>t_rows := map (upd_row p f stamp) (t_rows t)\<rparr> \<and> unique_rows same (t_rows t') \<and>
    (\<forall>r \<in> set (t_rows t). p r \<longrightarrow> chk (f r) = None))"
  using assms by (auto simp: sql_update_unique_def sql_update_Inr split: prod.split_asm sum.split_asm if_split_asm)

locale keyed_rows = id_rows rid with_id stamp
  for rid :: "'r \<Rightarrow> nat" and with_id :: "nat \<Rightarrow> 'r \<Rightarrow> 'r" and stamp :: "time \<Rightarrow> 'r \<Rightarrow> 'r" +
  fixes same :: "'r \<Rightarrow> 'r \<Rightarrow> bool"
  assumes same_with_id: "same (with_id n a) b = same a b"
begin

lemma ok_empty: "table_ok rid same P empty_table"
  by (simp add: table_ok_def wf_empty unique_rows_def) (simp add: empty_table_def)

lemma ok_rollback: "table_ok rid same P t0 \<Longrightarrow> table_ok rid same P (tbl_rollback t0 t1)"
  by (simp add: table_ok_def wf_rollback)

lemma ok_insert:
  assumes "table_ok rid same P t" and "sql_insert chk same fk with_id row t = (res, t')"
    and "chk row = None \<Longrightarrow> fk row \<Longrightarrow> P (with_id (t_next t) row)"
  shows "table_ok rid same P t'"
proof (cases res)
  case (Inl e)
  with assms show ?thesis by (auto dest: sql_insert_Inl)
next
  case (Inr n)
  with assms(2) have t': "t_rows t' = t_rows t @ [with_id (t_next t) row]" and "\<not> list_ex (same row) (t_rows t)"
    "chk row = None" "fk row" by (auto simp: sql_insert_Inr)
  then have "unique_rows same (t_rows t')" "\<forall>r \<in> set (t_rows t'). P r"
    using assms(1,3) by (auto simp: table_ok_def unique_rows_def sorted_wrt_append same_with_id list_ex_iff)
  then show ?thesis using assms(1) wf_insert [OF _ assms(2)] by (simp add: table_ok_def)
qed

lemma ok_update:
  assumes "table_ok rid same P t" and "sql_update_unique same chk p f g t = (res, t')"
    and "\<And>r. rid (f r) = rid r" and "\<And>r. rid (g r) = rid r"
    and "\<And>r. P r \<Longrightarrow> p r \<Longrightarrow> chk (f r) = None \<Longrightarrow> P (g (f r))"
  shows "table_ok rid same P t'"
  using sql_update_unique_cases [OF assms(2)]
proof (elim disjE)
  assume t': "t' = t\<lparr>t_rows := map (upd_row p f g) (t_rows t)\<rparr> \<and> unique_rows same (t_rows t') \<and>
    (\<forall>r \<in> set (t_rows t). p r \<longrightarrow> chk (f r) = None)"
  have "rid (upd_row p f g r) = rid r" for r by (simp add: upd_row_def assms(3,4))
  moreover have "rid \<circ> upd_row p f g = rid" by (rule ext) (simp add: upd_row_def assms(3,4))
  moreover have "P (upd_row p f g r)" if "r \<in> set (t_rows t)" for r
    using that assms(1,5) t' by (auto simp: upd_row_def table_ok_def)
  ultimately show ?thesis using assms(1) t' by (auto simp: table_ok_def wf_rows_def)
qed (use assms(1) in simp)

end

end
