(* ===== verification/AuditLog.thy ===== *)
theory AuditLog
  imports SqlStore
begin

text \<open>
  The package \<open>internal/platform/audit\<close>: the event, the redaction of sensitive keys
  (\<open>redact.go\<close>), and the append-only write (\<open>service.go\<close>, \<open>repository.go\<close>, \<open>audit.sql\<close>).

  A Go value of type \<open>any\<close> is a \<open>goval\<close>: what \<open>reflect\<close> sees of it. A \<open>json.RawMessage\<close> is the
  byte slice that encodes a document, \<open>GRaw\<close>; redaction turns it, as any slice, into the list of its
  elements, the numbers of those bytes: \<open>GBytes\<close>. A nil pointer or map is \<open>GNil\<close>. The snapshot columns hold the redacted value that
  \<open>json.Marshal\<close> encodes. The theorems: nothing under a sensitive key survives redaction,
  every other key keeps its (redacted) value, redaction is idempotent, and the log only grows.
\<close>

section \<open>Values\<close>

datatype json = JNull | JInt int | JStr string | JObj "(string \<times> json) list"

record gofield =
  gf_name :: string
  gf_tag :: "string option"
  gf_exported :: bool

datatype goval =
    GNil
  | GBool bool
  | GInt int
  | GStr string
  | GRaw json
  | GBytes json
  | GPtr goval
  | GMap "(string \<times> goval) list"
  | GSlice "goval list"
  | GStruct "(gofield \<times> goval) list"

text \<open>A \<open>time.Time\<close> is a struct whose three fields are not exported.\<close>

definition time_val :: "time \<Rightarrow> goval" where
  "time_val t = GStruct
     [(\<lparr>gf_name = ''wall'', gf_tag = None, gf_exported = False\<rparr>, GInt 0),
      (\<lparr>gf_name = ''ext'', gf_tag = None, gf_exported = False\<rparr>, GInt t),
      (\<lparr>gf_name = ''loc'', gf_tag = None, gf_exported = False\<rparr>, GNil)]"

definition exported :: "string \<Rightarrow> gofield" where
  "exported n = \<lparr>gf_name = n, gf_tag = None, gf_exported = True\<rparr>"

record event =
  ev_TenantID :: string
  ev_OrgID :: string
  ev_ProjectID :: nat
  ev_ActorID :: string
  ev_ActorType :: string
  ev_Action :: string
  ev_ResourceType :: string
  ev_ResourceID :: string
  ev_Result :: string
  ev_IP :: string
  ev_UserAgent :: string
  ev_RequestID :: string
  ev_Before :: goval
  ev_After :: goval
  ev_Metadata :: goval
  ev_ErrorCode :: string
  ev_ErrorMessage :: string

definition empty_event :: event where
  "empty_event = \<lparr>ev_TenantID = [], ev_OrgID = [], ev_ProjectID = 0, ev_ActorID = [], ev_ActorType = [],
     ev_Action = [], ev_ResourceType = [], ev_ResourceID = [], ev_Result = [], ev_IP = [], ev_UserAgent = [],
     ev_RequestID = [], ev_Before = GNil, ev_After = GNil, ev_Metadata = GNil, ev_ErrorCode = [], ev_ErrorMessage = []\<rparr>"

record audit_row =
  al_ID :: nat
  al_TenantID :: string
  al_OrgID :: string
  al_ProjectID :: nat
  al_ActorID :: string
  al_ActorType :: string
  al_Action :: string
  al_ResourceType :: string
  al_ResourceID :: string
  al_Result :: string
  al_IP :: string
  al_UserAgent :: string
  al_RequestID :: string
  al_ErrorCode :: string
  al_ErrorMessage :: string
  al_Before :: "goval option"
  al_After :: "goval option"
  al_Metadata :: "goval option"
  al_CreatedAt :: time

section \<open>Redaction\<close>

definition exactSensitiveKeys :: "string list" where
  "exactSensitiveKeys = [''authorization'', ''cookie'', ''set-cookie'']"

definition sensitiveSubstrings :: "string list" where
  "sensitiveSubstrings = [''token'', ''password'', ''secret'', ''apikey'']"

definition redactedPlaceholder :: string where
  "redactedPlaceholder = ''[REDACTED]''"

definition normalizeKey :: "string \<Rightarrow> string" where
  "normalizeKey k = DropChar (CHR ''-'') (DropChar (CHR ''_'') (ToLower k))"

definition isSensitiveKey :: "string \<Rightarrow> bool" where
  "isSensitiveKey k \<longleftrightarrow>
     List.member exactSensitiveKeys (ToLower k) \<or> list_ex (Contains (normalizeKey k)) sensitiveSubstrings"

text \<open>The name before the first comma of the \<open>json\<close> tag, or the field's name.\<close>

definition fieldKey :: "gofield \<Rightarrow> string" where
  "fieldKey f =
     (case gf_tag f of
        None \<Rightarrow> gf_name f
      | Some tag \<Rightarrow>
          if tag = [] then gf_name f
          else let name = takeWhile (\<lambda>c. c \<noteq> CHR '','') tag in if name = [] then gf_name f else name)"

text \<open>The loop writes \<open>out[key]\<close> in field order, so of two fields with one key the later one stays.\<close>

definition map_set :: "string \<Rightarrow> goval \<Rightarrow> (string \<times> goval) list \<Rightarrow> (string \<times> goval) list" where
  "map_set k v later = (if map_of later k = None then (k, v) # later else later)"

fun redactValue :: "goval \<Rightarrow> goval"
  and redactMap :: "(string \<times> goval) list \<Rightarrow> (string \<times> goval) list"
  and redactSlice :: "goval list \<Rightarrow> goval list"
  and redactStruct :: "(gofield \<times> goval) list \<Rightarrow> (string \<times> goval) list"
where
  "redactValue (GPtr v) = redactValue v"
| "redactValue (GMap kvs) = GMap (redactMap kvs)"
| "redactValue (GSlice vs) = GSlice (redactSlice vs)"
| "redactValue (GStruct fvs) = GMap (redactStruct fvs)"
| "redactValue GNil = GNil"
| "redactValue (GBool b) = GBool b"
| "redactValue (GInt i) = GInt i"
| "redactValue (GStr s) = GStr s"
| "redactValue (GRaw j) = GBytes j"
| "redactValue (GBytes j) = GBytes j"
| "redactMap [] = []"
| "redactMap ((k, v) # kvs) =
     (k, if isSensitiveKey k then GStr redactedPlaceholder else redactValue v) # redactMap kvs"
| "redactSlice [] = []"
| "redactSlice (v # vs) = redactValue v # redactSlice vs"
| "redactStruct [] = []"
| "redactStruct ((f, v) # fvs) =
     (if \<not> gf_exported f then redactStruct fvs
      else let key = fieldKey f in
        if key = ''-'' then redactStruct fvs
        else map_set key (if isSensitiveKey key then GStr redactedPlaceholder else redactValue v) (redactStruct fvs))"

definition Redact :: "goval \<Rightarrow> goval" where
  "Redact v = (if v = GNil then GNil else redactValue v)"

definition toNullJSON :: "goval \<Rightarrow> goval option" where
  "toNullJSON v = (if v = GNil then None else Some (Redact v))"

section \<open>The append-only log\<close>

definition audit_check :: "env \<Rightarrow> audit_row \<Rightarrow> sql_error option" where
  "audit_check e r = row_check
     (too_long [(al_TenantID r, 64), (al_OrgID r, 64), (al_ActorID r, 64), (al_ActorType r, 32),
        (al_Action r, 128), (al_ResourceType r, 64), (al_ResourceID r, 64), (al_Result r, 16),
        (al_IP r, 64), (al_UserAgent r, 512), (al_RequestID r, 64), (al_ErrorCode r, 64), (al_ErrorMessage r, 512)])
     (sql_in e (al_Result r) [''success'', ''failure''] \<and> sql_in e (al_ActorType r) [''user'', ''system'', ''service''])"

definition audit_entry :: "env \<Rightarrow> event \<Rightarrow> audit_row" where
  "audit_entry e v =
     \<lparr>al_ID = 0, al_TenantID = ev_TenantID v, al_OrgID = ev_OrgID v, al_ProjectID = ev_ProjectID v,
       al_ActorID = ev_ActorID v, al_ActorType = ev_ActorType v, al_Action = ev_Action v,
       al_ResourceType = ev_ResourceType v, al_ResourceID = ev_ResourceID v, al_Result = ev_Result v, al_IP = ev_IP v,
       al_UserAgent = ev_UserAgent v, al_RequestID = ev_RequestID v, al_ErrorCode = ev_ErrorCode v,
       al_ErrorMessage = ev_ErrorMessage v, al_Before = toNullJSON (ev_Before v), al_After = toNullJSON (ev_After v),
       al_Metadata = toNullJSON (ev_Metadata v), al_CreatedAt = env_db_now e\<rparr>"

definition audit_insert :: "env \<Rightarrow> event \<Rightarrow> (audit_row table, sql_error, unit) op" where
  "audit_insert e v t =
     (case sql_insert (audit_check e) (\<lambda>_ _. False) (\<lambda>_. True) (\<lambda>n r. r\<lparr>al_ID := n\<rparr>) (audit_entry e v) t of
        (Inl err, t') \<Rightarrow> (Inl err, t')
      | (Inr n, t') \<Rightarrow> (Inr (), t'))"

definition with_defaults :: "event \<Rightarrow> event" where
  "with_defaults v =
     (let v1 = (if ev_ActorType v = [] then v\<lparr>ev_ActorType := ''user''\<rparr> else v)
      in if ev_Result v1 = [] then v1\<lparr>ev_Result := ''success''\<rparr> else v1)"

definition audit_Record :: "env \<Rightarrow> event \<Rightarrow> (audit_row table, sql_error, unit) op" where
  "audit_Record e v = audit_insert e (with_defaults v)"

section \<open>Facts\<close>

text \<open>What may be written: no struct, pointer or raw document is left, and a sensitive key holds the placeholder.\<close>

fun clean :: "goval \<Rightarrow> bool" where
  "clean (GMap kvs) \<longleftrightarrow> (\<forall>(k, v) \<in> set kvs. if isSensitiveKey k then v = GStr redactedPlaceholder else clean v)"
| "clean (GSlice vs) \<longleftrightarrow> (\<forall>v \<in> set vs. clean v)"
| "clean (GStruct fvs) \<longleftrightarrow> False"
| "clean (GPtr v) \<longleftrightarrow> False"
| "clean (GRaw j) \<longleftrightarrow> False"
| "clean v \<longleftrightarrow> True"

lemma redact_clean:
  "clean (redactValue v)"
  "clean (GMap (redactMap kvs))"
  "clean (GSlice (redactSlice vs))"
  "clean (GMap (redactStruct fvs))"
  by (induction v and kvs and vs and fvs rule: redactValue_redactMap_redactSlice_redactStruct.induct)
     (auto simp: Let_def map_set_def)

lemma redact_clean_id:
  "clean v \<Longrightarrow> redactValue v = v"
  "clean (GMap kvs) \<Longrightarrow> redactMap kvs = kvs"
  "clean (GSlice vs) \<Longrightarrow> redactSlice vs = vs"
  "clean (GStruct fvs) \<Longrightarrow> True"
  by (induction v and kvs and vs and fvs rule: redactValue_redactMap_redactSlice_redactStruct.induct) auto

lemma redactValue_idem: "redactValue (redactValue v) = redactValue v"
  by (simp add: redact_clean_id redact_clean)

lemma map_of_redactMap:
  "map_of (redactMap kvs) k =
     (if isSensitiveKey k then map_option (\<lambda>_. GStr redactedPlaceholder) (map_of kvs k)
      else map_option redactValue (map_of kvs k))"
  by (induction kvs) auto

lemma redactMap_map:
  "redactMap kvs = map (\<lambda>(k, v). (k, if isSensitiveKey k then GStr redactedPlaceholder else redactValue v)) kvs"
  by (induction kvs) auto

lemma fst_redactMap: "map fst (redactMap kvs) = map fst kvs"
  by (induction kvs) auto

text \<open>Redaction of a map or struct depends on its values through their redaction only.\<close>

lemma redactStruct_cong:
  "list_all2 (\<lambda>(f, v) (g, u). f = g \<and> redactValue v = redactValue u) fvs gus \<Longrightarrow> redactStruct fvs = redactStruct gus"
  by (induction rule: list_all2_induct) (auto simp: Let_def)

lemma redactMap_cong:
  "list_all2 (\<lambda>(k, v) (l, u). k = l \<and> redactValue v = redactValue u) kvs lus \<Longrightarrow> redactMap kvs = redactMap lus"
  by (induction rule: list_all2_induct) auto

lemma redact_time_val: "redactValue (time_val t) = GMap []"
  by (simp add: time_val_def)

interpretation audit_rows: id_rows al_ID "\<lambda>n r. r\<lparr>al_ID := n\<rparr>" "\<lambda>_ r. r"
  by unfold_locales auto

lemma audit_insert_apply:
  "audit_insert e v t =
     (case audit_check e (audit_entry e v) of
        Some err \<Rightarrow> (Inl err, t)
      | None \<Rightarrow> (Inr (), t\<lparr>t_rows := t_rows t @ [(audit_entry e v)\<lparr>al_ID := t_next t\<rparr>], t_next := Suc (t_next t)\<rparr>))"
  by (simp add: audit_insert_def sql_insert_def list_ex_iff split: option.split)

lemma with_defaults_fields [simp]:
  "ev_ActorType (with_defaults v) = (if ev_ActorType v = [] then ''user'' else ev_ActorType v)"
  "ev_Result (with_defaults v) = (if ev_Result v = [] then ''success'' else ev_Result v)"
  "ev_TenantID (with_defaults v) = ev_TenantID v" "ev_OrgID (with_defaults v) = ev_OrgID v"
  "ev_ProjectID (with_defaults v) = ev_ProjectID v" "ev_ActorID (with_defaults v) = ev_ActorID v"
  "ev_Action (with_defaults v) = ev_Action v" "ev_ResourceType (with_defaults v) = ev_ResourceType v"
  "ev_ResourceID (with_defaults v) = ev_ResourceID v" "ev_IP (with_defaults v) = ev_IP v"
  "ev_UserAgent (with_defaults v) = ev_UserAgent v" "ev_RequestID (with_defaults v) = ev_RequestID v"
  "ev_Before (with_defaults v) = ev_Before v" "ev_After (with_defaults v) = ev_After v"
  "ev_Metadata (with_defaults v) = ev_Metadata v" "ev_ErrorCode (with_defaults v) = ev_ErrorCode v"
  "ev_ErrorMessage (with_defaults v) = ev_ErrorMessage v"
  by (simp_all add: with_defaults_def Let_def)

text \<open>The row \<open>Record\<close> appends for an event.\<close>

definition audit_written :: "env \<Rightarrow> event \<Rightarrow> nat \<Rightarrow> audit_row" where
  "audit_written e v n = (audit_entry e (with_defaults v))\<lparr>al_ID := n\<rparr>"

lemma audit_Record_Inr:
  "audit_Record e v t = (Inr u, t') \<longleftrightarrow>
     audit_check e (audit_entry e (with_defaults v)) = None \<and>
     t' = t\<lparr>t_rows := t_rows t @ [audit_written e v (t_next t)], t_next := Suc (t_next t)\<rparr>"
  by (auto simp: audit_Record_def audit_insert_apply audit_written_def split: option.splits)

lemma audit_Record_Inl: "audit_Record e v t = (Inl err, t') \<Longrightarrow> t' = t"
  by (auto simp: audit_Record_def audit_insert_apply split: option.splits)

end
