(* ===== verification/RiskModel.thy ===== *)
theory RiskModel
  imports AuditLog
begin

text \<open>
  The data and the pure functions of \<open>internal/risk\<close>: the structs of \<open>model.go\<close> and of the
  repository's parameters, the status machine, the validation of transitions, scoring, rule and
  CPE matching, and the construction of risk parameters (\<open>service.go\<close>). The operations that read
  and write the database are in \<open>RiskStore\<close> and \<open>RiskService\<close>.

  Statuses, actions and severities are Go string constants, and are strings here: a request can
  carry any string, and the code's \<open>switch\<close> statements decide which of them are valid.
\<close>

type_synonym u8 = "8 word"
type_synonym u32 = "32 word"

section \<open>Constants\<close>

abbreviation TypeVulnerability :: string where "TypeVulnerability \<equiv> ''vulnerability''"
abbreviation TypeExpiredCertificate :: string where "TypeExpiredCertificate \<equiv> ''expired_certificate''"
abbreviation TypeHighRiskPort :: string where "TypeHighRiskPort \<equiv> ''high_risk_port''"
abbreviation TypeHighRiskExposure :: string where "TypeHighRiskExposure \<equiv> ''high_risk_exposure''"

abbreviation SeverityInfo :: string where "SeverityInfo \<equiv> ''info''"
abbreviation SeverityLow :: string where "SeverityLow \<equiv> ''low''"
abbreviation SeverityMedium :: string where "SeverityMedium \<equiv> ''medium''"
abbreviation SeverityHigh :: string where "SeverityHigh \<equiv> ''high''"
abbreviation SeverityCritical :: string where "SeverityCritical \<equiv> ''critical''"

abbreviation StatusNew :: string where "StatusNew \<equiv> ''new''"
abbreviation StatusConfirmed :: string where "StatusConfirmed \<equiv> ''confirmed''"
abbreviation StatusAssigned :: string where "StatusAssigned \<equiv> ''assigned''"
abbreviation StatusFixing :: string where "StatusFixing \<equiv> ''fixing''"
abbreviation StatusRiskAccepted :: string where "StatusRiskAccepted \<equiv> ''risk_accepted''"
abbreviation StatusFalsePositive :: string where "StatusFalsePositive \<equiv> ''false_positive''"
abbreviation StatusFixed :: string where "StatusFixed \<equiv> ''fixed''"
abbreviation StatusReopened :: string where "StatusReopened \<equiv> ''reopened''"

abbreviation StatusActionConfirm :: string where "StatusActionConfirm \<equiv> ''confirm''"
abbreviation StatusActionAssign :: string where "StatusActionAssign \<equiv> ''assign''"
abbreviation StatusActionStartFix :: string where "StatusActionStartFix \<equiv> ''start_fix''"
abbreviation StatusActionMarkFixed :: string where "StatusActionMarkFixed \<equiv> ''mark_fixed''"
abbreviation StatusActionReopen :: string where "StatusActionReopen \<equiv> ''reopen''"
abbreviation StatusActionAccept :: string where "StatusActionAccept \<equiv> ''accept''"
abbreviation StatusActionFalsePositive :: string where "StatusActionFalsePositive \<equiv> ''false_positive''"

abbreviation ChangeTypeNew :: string where "ChangeTypeNew \<equiv> ''new''"
abbreviation ChangeTypeReopened :: string where "ChangeTypeReopened \<equiv> ''reopened''"

abbreviation RuleMatchPort :: string where "RuleMatchPort \<equiv> ''port''"
abbreviation RuleMatchService :: string where "RuleMatchService \<equiv> ''service''"
abbreviation RuleMatchWeb :: string where "RuleMatchWeb \<equiv> ''web''"
abbreviation RuleMatchFingerprint :: string where "RuleMatchFingerprint \<equiv> ''fingerprint''"

datatype risk_error =
    ErrInvalidProjectID | ErrInvalidAssetID | ErrInvalidActorID | ErrInvalidRuleID | ErrInvalidSeverity
  | ErrInvalidRiskType | ErrInvalidMatchType | ErrInvalidMatchValue | ErrInvalidStatusAction
  | ErrInvalidStatusTransition | ErrReasonRequired | ErrOwnerRequired | ErrSLARequired
  | ErrApprovedByRequired | ErrSelfApprovalForbidden | ErrReviewRequiredAtMissing | ErrInvalidSLAHours
  | ErrDefinitionDisabled | ErrCPENotMatched | ErrFieldTooLong | ErrNotFound | ErrSql sql_error

section \<open>Structs\<close>

record vuln_definition =
  vd_ID :: nat
  vd_TenantID :: string
  vd_OrgID :: string
  vd_ProjectID :: nat
  vd_RuleID :: string
  vd_CVEID :: string
  vd_Title :: string
  vd_Description :: string
  vd_Severity :: string
  vd_CPEPattern :: string
  vd_Remediation :: string
  vd_Source :: string
  vd_Enabled :: bool
  vd_CreatedAt :: time
  vd_UpdatedAt :: time
  vd_CreatedBy :: string
  vd_UpdatedBy :: string

record risk_rule =
  rr_ID :: nat
  rr_TenantID :: string
  rr_OrgID :: string
  rr_ProjectID :: nat
  rr_RuleID :: string
  rr_Name :: string
  rr_Description :: string
  rr_RiskType :: string
  rr_Severity :: string
  rr_MatchType :: string
  rr_MatchValue :: string
  rr_Remediation :: string
  rr_Source :: string
  rr_Enabled :: bool
  rr_CreatedAt :: time
  rr_UpdatedAt :: time
  rr_CreatedBy :: string
  rr_UpdatedBy :: string

record risk =
  r_ID :: nat
  r_TenantID :: string
  r_OrgID :: string
  r_ProjectID :: nat
  r_AssetID :: nat
  r_ExposureID :: nat
  r_VulnDefinitionID :: nat
  r_RiskKey :: string
  r_RiskType :: string
  r_Title :: string
  r_Severity :: string
  r_Score :: u8
  r_ScoreLevel :: string
  r_ScoreModelVersion :: string
  r_ScoreFactors :: json
  r_ScoredAt :: time
  r_RuleID :: string
  r_Source :: string
  r_EvidenceSummary :: string
  r_EvidenceRef :: string
  r_Status :: string
  r_Owner :: string
  r_BusinessUnit :: string
  r_SLADueAt :: time
  r_Suppressed :: bool
  r_SuppressionRuleID :: nat
  r_SuppressedUntil :: time
  r_FirstSeen :: time
  r_LastSeen :: time
  r_ConfirmedAt :: time
  r_FixedAt :: time
  r_CreatedAt :: time
  r_UpdatedAt :: time
  r_CreatedBy :: string
  r_UpdatedBy :: string

record suppression_rule =
  sr_ID :: nat
  sr_TenantID :: string
  sr_OrgID :: string
  sr_ProjectID :: nat
  sr_Name :: string
  sr_RiskType :: string
  sr_RuleID :: string
  sr_AssetID :: nat
  sr_Reason :: string
  sr_ExpiresAt :: time
  sr_Enabled :: bool
  sr_CreatedAt :: time
  sr_UpdatedAt :: time
  sr_CreatedBy :: string
  sr_UpdatedBy :: string

record risk_decision =
  rd_ID :: nat
  rd_TenantID :: string
  rd_OrgID :: string
  rd_ProjectID :: nat
  rd_RiskID :: nat
  rd_Decision :: string
  rd_Reason :: string
  rd_ApprovedBy :: string
  rd_ExpiresAt :: time
  rd_ReviewRequiredAt :: time
  rd_CreatedAt :: time
  rd_CreatedBy :: string

record sla_policy =
  sp_ID :: nat
  sp_TenantID :: string
  sp_OrgID :: string
  sp_ProjectID :: nat
  sp_Severity :: string
  sp_BusinessUnit :: string
  sp_ResponseHours :: u32
  sp_ResolutionHours :: u32
  sp_Enabled :: bool
  sp_CreatedAt :: time
  sp_UpdatedAt :: time
  sp_CreatedBy :: string
  sp_UpdatedBy :: string

record status_history =
  hs_ID :: nat
  hs_TenantID :: string
  hs_OrgID :: string
  hs_ProjectID :: nat
  hs_RiskID :: nat
  hs_Action :: string
  hs_OldStatus :: string
  hs_NewStatus :: string
  hs_ActorID :: string
  hs_Reason :: string
  hs_RequestID :: string
  hs_CreatedAt :: time

record score_history =
  sh_ID :: nat
  sh_TenantID :: string
  sh_OrgID :: string
  sh_ProjectID :: nat
  sh_RiskID :: nat
  sh_Score :: u8
  sh_ScoreLevel :: string
  sh_ScoreModelVersion :: string
  sh_ScoreFactors :: json
  sh_Reason :: string
  sh_ScoredAt :: time
  sh_CreatedAt :: time
  sh_CreatedBy :: string

record change_event =
  ce_ID :: nat
  ce_TenantID :: string
  ce_OrgID :: string
  ce_ProjectID :: nat
  ce_EntityType :: string
  ce_EntityID :: nat
  ce_ChangeType :: string
  ce_Severity :: string
  ce_Title :: string
  ce_Summary :: string
  ce_Source :: string
  ce_Before :: json
  ce_After :: json
  ce_DetectedAt :: time

text \<open>The inputs of the service; the repository's \<open>Create...Params\<close> are the same structs.\<close>

record definition_input =
  di_TenantID :: string
  di_OrgID :: string
  di_ProjectID :: nat
  di_RuleID :: string
  di_CVEID :: string
  di_Title :: string
  di_Description :: string
  di_Severity :: string
  di_CPEPattern :: string
  di_Remediation :: string
  di_Source :: string
  di_Enabled :: bool
  di_ActorID :: string

record rule_input =
  ri_TenantID :: string
  ri_OrgID :: string
  ri_ProjectID :: nat
  ri_RuleID :: string
  ri_Name :: string
  ri_Description :: string
  ri_RiskType :: string
  ri_Severity :: string
  ri_MatchType :: string
  ri_MatchValue :: string
  ri_Remediation :: string
  ri_Source :: string
  ri_Enabled :: bool
  ri_ActorID :: string

record match_input =
  mi_TenantID :: string
  mi_OrgID :: string
  mi_ProjectID :: nat
  mi_AssetID :: nat
  mi_ExposureID :: nat
  mi_CPE :: string
  mi_EvidenceSummary :: string
  mi_EvidenceRef :: string
  mi_Owner :: string
  mi_BusinessUnit :: string
  mi_Source :: string
  mi_ObservedAt :: time

record rule_target =
  rt_TenantID :: string
  rt_OrgID :: string
  rt_ProjectID :: nat
  rt_AssetID :: nat
  rt_ExposureID :: nat
  rt_ExposureType :: string
  rt_Name :: string
  rt_Value :: string
  rt_Protocol :: string
  rt_Port :: u32
  rt_Service :: string
  rt_Version :: string
  rt_URL :: string
  rt_Fingerprint :: string
  rt_CPE :: string
  rt_EvidenceSummary :: string
  rt_EvidenceRef :: string
  rt_Owner :: string
  rt_BusinessUnit :: string
  rt_Source :: string
  rt_ObservedAt :: time

record audit_meta =
  am_IP :: string
  am_UserAgent :: string
  am_RequestID :: string

record transition_input =
  ti_ProjectID :: nat
  ti_RiskID :: nat
  ti_Action :: string
  ti_ActorID :: string
  ti_Reason :: string
  ti_ApprovedBy :: string
  ti_ExpiresAt :: time
  ti_ReviewRequiredAt :: time
  ti_Owner :: string
  ti_SLADueAt :: time
  ti_Meta :: audit_meta

record suppression_input =
  si_TenantID :: string
  si_OrgID :: string
  si_ProjectID :: nat
  si_Name :: string
  si_RiskType :: string
  si_RuleID :: string
  si_AssetID :: nat
  si_Reason :: string
  si_ExpiresAt :: time
  si_Enabled :: bool
  si_ActorID :: string

record sla_input =
  li_TenantID :: string
  li_OrgID :: string
  li_ProjectID :: nat
  li_Severity :: string
  li_BusinessUnit :: string
  li_ResponseHours :: u32
  li_ResolutionHours :: u32
  li_Enabled :: bool
  li_ActorID :: string

record list_filter =
  lf_ProjectID :: nat
  lf_Severity :: string
  lf_Status :: string
  lf_Owner :: string
  lf_Keyword :: string
  lf_AssetID :: nat
  lf_Limit :: int
  lf_Offset :: int

record apply_result =
  ar_Risks :: "risk list"
  ar_Created :: int
  ar_Updated :: int
  ar_Reopened :: int

record score_result =
  sc_Score :: u8
  sc_ScoreLevel :: string
  sc_ScoreModelVersion :: string
  sc_ScoreFactors :: json
  sc_ScoredAt :: time

record upsert_params =
  up_ID :: nat
  up_TenantID :: string
  up_OrgID :: string
  up_ProjectID :: nat
  up_AssetID :: nat
  up_ExposureID :: nat
  up_VulnDefinitionID :: nat
  up_RiskKey :: string
  up_RiskType :: string
  up_Title :: string
  up_Severity :: string
  up_Score :: u8
  up_ScoreLevel :: string
  up_ScoreModelVersion :: string
  up_ScoreFactors :: json
  up_ScoredAt :: time
  up_RuleID :: string
  up_Source :: string
  up_EvidenceSummary :: string
  up_EvidenceRef :: string
  up_Status :: string
  up_Owner :: string
  up_BusinessUnit :: string
  up_SLADueAt :: time
  up_Suppressed :: bool
  up_SuppressionRuleID :: nat
  up_SuppressedUntil :: time
  up_ObservedAt :: time
  up_ActorID :: string

record status_update =
  su_ProjectID :: nat
  su_RiskID :: nat
  su_OldStatus :: string
  su_NewStatus :: string
  su_Owner :: string
  su_SLADueAt :: time
  su_ConfirmedAt :: time
  su_FixedAt :: time
  su_ActorID :: string

text \<open>\<open>exposure.CertificateFinding\<close>, the finding the exposure service reports to this package.\<close>

record certificate_finding =
  cf_TenantID :: string
  cf_OrgID :: string
  cf_ProjectID :: nat
  cf_AssetID :: nat
  cf_ExposureID :: nat
  cf_ExposureKey :: string
  cf_CertSubject :: string
  cf_CertIssuer :: string
  cf_CertSerial :: string
  cf_Fingerprint :: string
  cf_CertNotBefore :: time
  cf_CertNotAfter :: time
  cf_CertSANs :: "string list"
  cf_State :: string
  cf_Source :: string
  cf_ObservedAt :: time
  cf_ActorID :: string
  cf_BusinessUnit :: string
  cf_Owner :: string
  cf_EvidenceSummary :: string

record score_model =
  sm_Version :: string
  sm_Severity :: "(string \<times> u8) list option"
  sm_InternetExposure :: u8
  sm_ManagementEntry :: u8
  sm_BusinessUnitCriticality :: "(string \<times> u8) list option"

section \<open>Small helpers\<close>

definition defaultString :: "string \<Rightarrow> string \<Rightarrow> string" where
  "defaultString v fallback = (if TrimSpace v = [] then fallback else v)"

definition isZeroTime :: "time \<Rightarrow> bool" where
  "isZeroTime t \<longleftrightarrow> t = zero_time \<or> t = epoch"

definition observedAtOrNow :: "time \<Rightarrow> time \<Rightarrow> time" where
  "observedAtOrNow now t = (if t = zero_time then now else t)"

definition clampLimit :: "int \<Rightarrow> int" where
  "clampLimit limit = (if limit \<le> 0 then 50 else if limit > 200 then 200 else limit)"

definition validSeverity :: "string \<Rightarrow> bool" where
  "validSeverity v \<longleftrightarrow> List.member [SeverityInfo, SeverityLow, SeverityMedium, SeverityHigh, SeverityCritical] v"

definition risk_types :: "string list" where
  "risk_types = [TypeVulnerability, ''weak_config'', ''sensitive_exposure'', ''unknown_asset'', TypeExpiredCertificate,
     TypeHighRiskPort, TypeHighRiskExposure, ''shadow_it'', ''vendor_exposure'']"

definition validRiskType :: "string \<Rightarrow> bool" where
  "validRiskType v \<longleftrightarrow> List.member risk_types v"

definition validRuleRiskType :: "string \<Rightarrow> bool" where
  "validRuleRiskType v \<longleftrightarrow> v \<noteq> TypeVulnerability \<and> validRiskType v"

definition validMatchType :: "string \<Rightarrow> bool" where
  "validMatchType v \<longleftrightarrow> List.member [RuleMatchPort, RuleMatchService, RuleMatchWeb, RuleMatchFingerprint] v"

definition risk_statuses :: "string list" where
  "risk_statuses = [StatusNew, StatusConfirmed, StatusAssigned, StatusFixing,
     StatusRiskAccepted, StatusFalsePositive, StatusFixed, StatusReopened]"

definition validRiskStatus :: "string \<Rightarrow> bool" where
  "validRiskStatus v \<longleftrightarrow> List.member risk_statuses v"

definition allStatusActions :: "string list" where
  "allStatusActions = [StatusActionConfirm, StatusActionAssign, StatusActionStartFix, StatusActionMarkFixed,
     StatusActionReopen, StatusActionAccept, StatusActionFalsePositive]"

definition validStatusAction :: "string \<Rightarrow> bool" where
  "validStatusAction action \<longleftrightarrow> List.member
     [StatusActionConfirm, StatusActionAssign, StatusActionStartFix, StatusActionMarkFixed,
      StatusActionReopen, StatusActionAccept, StatusActionFalsePositive] action"

text \<open>The loop over a table of strings with length limits that both \<open>check...Lengths\<close> run.\<close>

definition over_limit :: "(string \<times> nat) list \<Rightarrow> bool" where
  "over_limit cols \<longleftrightarrow> list_ex (\<lambda>(v, n). length v > n) cols"

definition checkDefinitionLengths :: "definition_input \<Rightarrow> risk_error + unit" where
  "checkDefinitionLengths i =
     (if over_limit [(di_TenantID i, 64), (di_OrgID i, 64), (di_RuleID i, 128), (di_CVEID i, 32),
          (di_Title i, 255), (di_Description i, 2048), (di_CPEPattern i, 255),
          (di_Remediation i, 2048), (di_Source i, 64), (di_ActorID i, 64)]
      then Inl ErrFieldTooLong else Inr ())"

definition checkRuleLengths :: "rule_input \<Rightarrow> risk_error + unit" where
  "checkRuleLengths i =
     (if over_limit [(ri_TenantID i, 64), (ri_OrgID i, 64), (ri_RuleID i, 128), (ri_Name i, 255),
          (ri_Description i, 2048), (ri_RiskType i, 64), (ri_Severity i, 32),
          (ri_MatchType i, 32), (ri_MatchValue i, 255), (ri_Remediation i, 2048),
          (ri_Source i, 64), (ri_ActorID i, 64)]
      then Inl ErrFieldTooLong else Inr ())"

text \<open>\<^verbatim>\<open>actorID == "" || len(actorID) > 64\<close>\<close>

definition bad_actor :: "string \<Rightarrow> bool" where
  "bad_actor a \<longleftrightarrow> a = [] \<or> length a > 64"

end
