(* ===== verification/StatusMachine.thy ===== *)
theory StatusMachine
  imports GoPrelude
begin

text \<open>
  The contract that the risk and the ticket status tables share (\<open>nextRiskStatus\<close> in
  \<open>internal/risk/service.go\<close>, \<open>nextStatus\<close> in \<open>internal/ticket/service.go\<close>): a function from an
  action and a current status to the next status, a vocabulary of actions outside of which every
  call is refused, and a list of statuses that every step stays in. Both packages derive the
  actions they offer to the console by filtering the vocabulary through the table.
\<close>

definition is_ok :: "'e + 'a \<Rightarrow> bool" where
  "is_ok r = (case r of Inl _ \<Rightarrow> False | Inr _ \<Rightarrow> True)"

lemma is_ok_iff: "is_ok r \<longleftrightarrow> (\<exists>x. r = Inr x)"
  by (cases r) (auto simp: is_ok_def)

text \<open>A sequence of actions, refused as a whole at the first action that is refused.\<close>

fun run_actions :: "(string \<Rightarrow> string \<Rightarrow> 'e + string) \<Rightarrow> string \<Rightarrow> string list \<Rightarrow> 'e + string" where
  "run_actions nxt c [] = Inr c"
| "run_actions nxt c (a # as) = (case nxt a c of Inl e \<Rightarrow> Inl e | Inr c' \<Rightarrow> run_actions nxt c' as)"

locale transition_table =
  fixes nxt :: "string \<Rightarrow> string \<Rightarrow> 'e + string"
    and actions :: "string list"
    and statuses :: "string list"
  assumes outside: "a \<notin> set actions \<Longrightarrow> \<exists>e. nxt a c = Inl e"
    and closed: "nxt a c = Inr n \<Longrightarrow> n \<in> set statuses"
begin

lemma offered_iff: "a \<in> set (filter (\<lambda>a. is_ok (nxt a c)) actions) \<longleftrightarrow> (\<exists>n. nxt a c = Inr n)"
  using outside [of a c] by (cases "a \<in> set actions") (auto simp: is_ok_iff)

lemma run_closed: "c \<in> set statuses \<Longrightarrow> run_actions nxt c as = Inr n \<Longrightarrow> n \<in> set statuses"
  by (induction as arbitrary: c) (auto split: sum.splits dest: closed)

text \<open>A property of statuses that every accepted step keeps holds after every accepted run.\<close>

lemma run_invariant:
  assumes step: "\<And>a c n. P c \<Longrightarrow> nxt a c = Inr n \<Longrightarrow> P n"
    and "P c" and "run_actions nxt c as = Inr n"
  shows "P n"
  using assms(2,3) by (induction as arbitrary: c) (auto split: sum.splits dest: step)

lemma run_append:
  "run_actions nxt c (as @ bs) = (case run_actions nxt c as of Inl e \<Rightarrow> Inl e | Inr c' \<Rightarrow> run_actions nxt c' bs)"
  by (induction as arbitrary: c) (auto split: sum.splits)

end

end
