(* ===== verification/RiskLogic.thy ===== *)
theory RiskLogic
  imports RiskModel StatusMachine
begin

text \<open>
  The pure functions of \<open>internal/risk/service.go\<close>: the status machine with its input validation,
  the score model, CPE and rule matching, suppression matching, and the construction of the
  parameters of a risk from a definition match, a rule match or a certificate finding.
\<close>

section \<open>Status machine\<close>

definition nextRiskStatus :: "string \<Rightarrow> string \<Rightarrow> risk_error + string" where
  "nextRiskStatus action current =
     (if action = StatusActionConfirm \<and> List.member [StatusNew, StatusReopened] current then Inr StatusConfirmed
      else if action = StatusActionAssign \<and> List.member [StatusConfirmed, StatusReopened] current then Inr StatusAssigned
      else if action = StatusActionStartFix \<and> current = StatusAssigned then Inr StatusFixing
      else if action = StatusActionMarkFixed \<and> List.member [StatusFixing, StatusAssigned] current then Inr StatusFixed
      else if action = StatusActionReopen \<and> List.member [StatusFixed, StatusRiskAccepted, StatusFalsePositive] current
        then Inr StatusReopened
      else if action = StatusActionAccept \<and> List.member [StatusConfirmed, StatusAssigned, StatusFixing] current
        then Inr StatusRiskAccepted
      else if action = StatusActionFalsePositive \<and> List.member [StatusNew, StatusConfirmed, StatusAssigned, StatusFixing] current
        then Inr StatusFalsePositive
      else Inl ErrInvalidStatusTransition)"

definition AvailableStatusActions :: "string \<Rightarrow> string list" where
  "AvailableStatusActions current = filter (\<lambda>action. is_ok (nextRiskStatus action current)) allStatusActions"

definition isDecisionStatus :: "string \<Rightarrow> bool" where
  "isDecisionStatus status \<longleftrightarrow> status = StatusRiskAccepted \<or> status = StatusFalsePositive"

definition validateTransitionInput :: "transition_input \<Rightarrow> string \<Rightarrow> risk_error + unit" where
  "validateTransitionInput i nxt =
     (if nxt = StatusAssigned then
        (if TrimSpace (ti_Owner i) = [] then Inl ErrOwnerRequired else Inr ())
      else if List.member [StatusFixed, StatusReopened, StatusRiskAccepted, StatusFalsePositive] nxt then
        (if TrimSpace (ti_Reason i) = [] then Inl ErrReasonRequired
         else if isDecisionStatus nxt then
           (let approver = TrimSpace (ti_ApprovedBy i) in
            if approver = [] then Inl ErrApprovedByRequired
            else if EqualFold approver (TrimSpace (ti_ActorID i)) then Inl ErrSelfApprovalForbidden
            else if ti_ExpiresAt i = zero_time \<and> ti_ReviewRequiredAt i = zero_time then Inl ErrReviewRequiredAtMissing
            else Inr ())
         else Inr ())
      else Inr ())"

definition buildStatusUpdate :: "risk \<Rightarrow> transition_input \<Rightarrow> string \<Rightarrow> time \<Rightarrow> status_update" where
  "buildStatusUpdate before i nxt now =
     \<lparr>su_ProjectID = r_ProjectID before, su_RiskID = r_ID before, su_OldStatus = r_Status before, su_NewStatus = nxt,
       su_Owner = (if nxt = StatusAssigned then TrimSpace (ti_Owner i) else r_Owner before),
       su_SLADueAt = (if nxt = StatusAssigned then ti_SLADueAt i else r_SLADueAt before),
       su_ConfirmedAt = (if nxt = StatusConfirmed \<and> isZeroTime (r_ConfirmedAt before) then now else r_ConfirmedAt before),
       su_FixedAt = (if nxt = StatusFixed then now else if nxt = StatusReopened then zero_time else r_FixedAt before),
       su_ActorID = ti_ActorID i\<rparr>"

section \<open>Scoring\<close>

definition clampScore :: "u8 \<Rightarrow> u8" where
  "clampScore v = (if v > 100 then 100 else v)"

definition clampScoreInt :: "int \<Rightarrow> u8" where
  "clampScoreInt v = (if v \<le> 0 then 0 else if v > 100 then 100 else word_of_int v)"

definition scoreLevel :: "u8 \<Rightarrow> string" where
  "scoreLevel score =
     (if score \<ge> 90 then SeverityCritical else if score \<ge> 70 then SeverityHigh
      else if score \<ge> 40 then SeverityMedium else if score \<ge> 10 then SeverityLow else SeverityInfo)"

definition severityScore :: "string \<Rightarrow> u8" where
  "severityScore severity =
     (if severity = SeverityCritical then 95 else if severity = SeverityHigh then 80
      else if severity = SeverityMedium then 50 else if severity = SeverityLow then 25 else 5)"

text \<open>Reading a missing key of a Go map gives the zero value.\<close>

definition map_get :: "(string \<times> u8) list option \<Rightarrow> string \<Rightarrow> u8" where
  "map_get m k = (case m of None \<Rightarrow> 0 | Some kvs \<Rightarrow> (case map_of kvs k of None \<Rightarrow> 0 | Some v \<Rightarrow> v))"

definition default_severity_weights :: "(string \<times> u8) list" where
  "default_severity_weights =
     [(SeverityCritical, 40), (SeverityHigh, 32), (SeverityMedium, 20), (SeverityLow, 8), (SeverityInfo, 2)]"

definition normalizeScoreModel :: "score_model \<Rightarrow> score_model" where
  "normalizeScoreModel m =
     m\<lparr>sm_Version := (if sm_Version m = [] then ''basic-v1'' else sm_Version m),
       sm_Severity := (case sm_Severity m of None \<Rightarrow> Some default_severity_weights | Some w \<Rightarrow> Some w),
       sm_BusinessUnitCriticality :=
         Some (rev (map (\<lambda>(k, v). (ToLower (TrimSpace k), clampScore v))
           (case sm_BusinessUnitCriticality m of None \<Rightarrow> [] | Some kvs \<Rightarrow> kvs)))\<rparr>"

definition defaultScoreModel :: score_model where
  "defaultScoreModel = normalizeScoreModel
     \<lparr>sm_Version = ''basic-v1'', sm_Severity = Some default_severity_weights, sm_InternetExposure = 20,
       sm_ManagementEntry = 10, sm_BusinessUnitCriticality = None\<rparr>"

definition isManagementRisk :: "upsert_params \<Rightarrow> bool" where
  "isManagementRisk p \<longleftrightarrow>
     up_RiskType p = TypeHighRiskPort \<or> up_RiskType p = TypeHighRiskExposure \<or>
     (let title = ToLower (up_Title p) in
      Contains title ''admin'' \<or> Contains title ''management'' \<or> Contains title ''console'')"

text \<open>The factors, in the key order in which \<open>json.Marshal\<close> writes a map.\<close>

definition score_factors :: "score_model \<Rightarrow> upsert_params \<Rightarrow> (string \<times> int) list" where
  "score_factors m p =
     [(''asset_criticality'', uint (map_get (sm_BusinessUnitCriticality m) (ToLower (TrimSpace (up_BusinessUnit p))))),
      (''compensating_control'', 0), (''exploit_maturity'', 0), (''exposure_age'', 0),
      (''internet_exposure'', if up_ExposureID p \<noteq> 0 then uint (sm_InternetExposure m) else 0),
      (''management_entry'', if isManagementRisk p then uint (sm_ManagementEntry m) else 0),
      (''severity'', uint (map_get (sm_Severity m) (up_Severity p))),
      (''threat_intel'', 0)]"

definition scoreRisk :: "env \<Rightarrow> score_model \<Rightarrow> upsert_params \<Rightarrow> time \<Rightarrow> score_result" where
  "scoreRisk e m p scoredAt =
     (let factors = score_factors m p; score = clampScoreInt (sum_list (map snd factors)) in
      \<lparr>sc_Score = score, sc_ScoreLevel = scoreLevel score, sc_ScoreModelVersion = sm_Version m,
        sc_ScoreFactors = JObj (map (\<lambda>(k, v). (k, JInt v)) factors),
        sc_ScoredAt = observedAtOrNow (env_now e) scoredAt\<rparr>)"

definition applyScore :: "env \<Rightarrow> score_model \<Rightarrow> upsert_params \<Rightarrow> time \<Rightarrow> upsert_params" where
  "applyScore e m p scoredAt =
     (let sc = scoreRisk e m p scoredAt in
      p\<lparr>up_Score := sc_Score sc, up_ScoreLevel := sc_ScoreLevel sc,
        up_ScoreModelVersion := sc_ScoreModelVersion sc, up_ScoreFactors := sc_ScoreFactors sc,
        up_ScoredAt := sc_ScoredAt sc\<rparr>)"

definition scoreFromRisk :: "risk \<Rightarrow> score_result" where
  "scoreFromRisk r = \<lparr>sc_Score = r_Score r, sc_ScoreLevel = r_ScoreLevel r,
     sc_ScoreModelVersion = r_ScoreModelVersion r, sc_ScoreFactors = r_ScoreFactors r, sc_ScoredAt = r_ScoredAt r\<rparr>"

definition scoreHistoryParams :: "risk \<Rightarrow> score_result \<Rightarrow> string \<Rightarrow> string \<Rightarrow> score_history" where
  "scoreHistoryParams r sc reason actorID =
     \<lparr>sh_ID = 0, sh_TenantID = r_TenantID r, sh_OrgID = r_OrgID r, sh_ProjectID = r_ProjectID r, sh_RiskID = r_ID r,
       sh_Score = sc_Score sc, sh_ScoreLevel = sc_ScoreLevel sc, sh_ScoreModelVersion = sc_ScoreModelVersion sc,
       sh_ScoreFactors = sc_ScoreFactors sc, sh_Reason = reason, sh_ScoredAt = sc_ScoredAt sc,
       sh_CreatedAt = zero_time, sh_CreatedBy = actorID\<rparr>"

section \<open>Matching\<close>

definition cpeMatches :: "string \<Rightarrow> string \<Rightarrow> bool" where
  "cpeMatches pattern0 cpe0 =
     (let pat = TrimSpace (ToLower pattern0); cpe = TrimSpace (ToLower cpe0) in
      if pat = [] \<or> pat = ''*'' then True
      else if cpe = [] then False
      else if HasSuffix pat ''*'' then HasPrefix cpe (TrimSuffix pat ''*'')
      else pat = cpe)"

definition parseRulePort :: "string \<Rightarrow> u32 option" where
  "parseRulePort value =
     (case ParseUint 32 (TrimSpace value) of
        None \<Rightarrow> None
      | Some port \<Rightarrow> if port > 65535 then None else Some (of_nat port))"

definition defaultRiskTypeForMatch :: "string \<Rightarrow> string" where
  "defaultRiskTypeForMatch matchType = (if matchType = RuleMatchPort then TypeHighRiskPort else TypeHighRiskExposure)"

definition containsFold :: "string \<Rightarrow> string \<Rightarrow> bool" where
  "containsFold value needle \<longleftrightarrow> needle \<noteq> [] \<and> Contains (ToLower value) needle"

definition ruleMatchesTarget :: "risk_rule \<Rightarrow> rule_target \<Rightarrow> bool" where
  "ruleMatchesTarget rule target =
     (let matchValue = ToLower (TrimSpace (rr_MatchValue rule)); mt = rr_MatchType rule in
      if mt = RuleMatchPort then
        (case parseRulePort (rr_MatchValue rule) of None \<Rightarrow> False | Some port \<Rightarrow> rt_Port target = port)
      else if mt = RuleMatchService then EqualFold (TrimSpace (rt_Service target)) (rr_MatchValue rule)
      else if mt = RuleMatchWeb then
        containsFold (rt_URL target) matchValue \<or> containsFold (rt_Name target) matchValue
          \<or> containsFold (rt_Value target) matchValue
      else if mt = RuleMatchFingerprint then
        containsFold (rt_Fingerprint target) matchValue \<or> containsFold (rt_Name target) matchValue
          \<or> containsFold (rt_Value target) matchValue
      else False)"

definition ruleEvidenceSummary :: "risk_rule \<Rightarrow> rule_target \<Rightarrow> string" where
  "ruleEvidenceSummary rule target =
     (let mt = rr_MatchType rule in
      if mt = RuleMatchPort then
        ''high-risk port '' @ FormatUint (unat (rt_Port target)) @ '' matched rule '' @ rr_RuleID rule
      else if mt = RuleMatchService then
        ''service '' @ Quote (rt_Service target) @ '' matched rule '' @ rr_RuleID rule
      else if mt = RuleMatchWeb then ''web exposure matched rule '' @ rr_RuleID rule
      else ''fingerprint matched rule '' @ rr_RuleID rule)"

definition suppressionMatches :: "suppression_rule \<Rightarrow> upsert_params \<Rightarrow> bool" where
  "suppressionMatches rule p =
     (if sr_ProjectID rule \<noteq> up_ProjectID p \<or> \<not> sr_Enabled rule then False
      else if sr_RiskType rule \<noteq> [] \<and> sr_RiskType rule \<noteq> up_RiskType p then False
      else if sr_RuleID rule \<noteq> [] \<and> sr_RuleID rule \<noteq> up_RuleID p then False
      else if sr_AssetID rule \<noteq> 0 \<and> sr_AssetID rule \<noteq> up_AssetID p then False
      else True)"

section \<open>Building a risk\<close>

definition riskKey :: "string \<Rightarrow> nat \<Rightarrow> nat \<Rightarrow> string" where
  "riskKey ruleID assetID exposureID =
     ''vuln:'' @ ruleID @ '':asset:'' @ FormatUint assetID @ '':exposure:'' @ FormatUint exposureID"

definition ruleRiskKey :: "string \<Rightarrow> nat \<Rightarrow> nat \<Rightarrow> string" where
  "ruleRiskKey ruleID assetID exposureID =
     ''rule:'' @ ruleID @ '':asset:'' @ FormatUint assetID @ '':exposure:'' @ FormatUint exposureID"

definition buildRiskParams :: "vuln_definition \<Rightarrow> match_input \<Rightarrow> string \<Rightarrow> time \<Rightarrow> upsert_params" where
  "buildRiskParams d m actorID observedAt =
     \<lparr>up_ID = 0, up_TenantID = mi_TenantID m, up_OrgID = mi_OrgID m, up_ProjectID = vd_ProjectID d,
       up_AssetID = mi_AssetID m, up_ExposureID = mi_ExposureID m, up_VulnDefinitionID = vd_ID d,
       up_RiskKey = riskKey (vd_RuleID d) (mi_AssetID m) (mi_ExposureID m),
       up_RiskType = TypeVulnerability, up_Title = vd_Title d, up_Severity = vd_Severity d,
       up_Score = severityScore (vd_Severity d), up_ScoreLevel = [], up_ScoreModelVersion = [],
       up_ScoreFactors = JNull, up_ScoredAt = zero_time, up_RuleID = vd_RuleID d,
       up_Source = defaultString (mi_Source m) (vd_Source d),
       up_EvidenceSummary = mi_EvidenceSummary m, up_EvidenceRef = mi_EvidenceRef m,
       up_Status = StatusNew, up_Owner = mi_Owner m, up_BusinessUnit = mi_BusinessUnit m, up_SLADueAt = zero_time,
       up_Suppressed = False, up_SuppressionRuleID = 0, up_SuppressedUntil = zero_time,
       up_ObservedAt = observedAt, up_ActorID = actorID\<rparr>"

definition buildRuleRiskParams :: "risk_rule \<Rightarrow> rule_target \<Rightarrow> string \<Rightarrow> time \<Rightarrow> upsert_params" where
  "buildRuleRiskParams rule target actorID observedAt =
     \<lparr>up_ID = 0, up_TenantID = rt_TenantID target, up_OrgID = rt_OrgID target, up_ProjectID = rr_ProjectID rule,
       up_AssetID = rt_AssetID target, up_ExposureID = rt_ExposureID target, up_VulnDefinitionID = 0,
       up_RiskKey = ruleRiskKey (rr_RuleID rule) (rt_AssetID target) (rt_ExposureID target),
       up_RiskType = rr_RiskType rule, up_Title = rr_Name rule, up_Severity = rr_Severity rule,
       up_Score = severityScore (rr_Severity rule), up_ScoreLevel = [], up_ScoreModelVersion = [],
       up_ScoreFactors = JNull, up_ScoredAt = zero_time, up_RuleID = rr_RuleID rule,
       up_Source = defaultString (rt_Source target) (rr_Source rule),
       up_EvidenceSummary = defaultString (rt_EvidenceSummary target) (ruleEvidenceSummary rule target),
       up_EvidenceRef = rt_EvidenceRef target,
       up_Status = StatusNew, up_Owner = rt_Owner target, up_BusinessUnit = rt_BusinessUnit target,
       up_SLADueAt = zero_time, up_Suppressed = False, up_SuppressionRuleID = 0, up_SuppressedUntil = zero_time,
       up_ObservedAt = observedAt, up_ActorID = actorID\<rparr>"

definition certificateRiskParams :: "certificate_finding \<Rightarrow> string \<Rightarrow> time \<Rightarrow> upsert_params" where
  "certificateRiskParams f actorID observedAt =
     (let expired = (cf_State f = ''expired'');
          severity = (if expired then SeverityCritical else SeverityHigh);
          title = (if expired then ''Certificate expired'' else ''Certificate expiring soon'');
          trimmed = TrimSpace (cf_EvidenceSummary f);
          summary = (if trimmed = [] then ''certificate '' @ Quote (cf_CertSubject f) @ '' expires at '' @ RFC3339 (cf_CertNotAfter f)
                     else trimmed)
      in \<lparr>up_ID = 0, up_TenantID = cf_TenantID f, up_OrgID = cf_OrgID f, up_ProjectID = cf_ProjectID f,
           up_AssetID = cf_AssetID f, up_ExposureID = cf_ExposureID f, up_VulnDefinitionID = 0,
           up_RiskKey = ''certificate:expiry:asset:'' @ FormatUint (cf_AssetID f) @ '':exposure:'' @ FormatUint (cf_ExposureID f),
           up_RiskType = TypeExpiredCertificate, up_Title = title, up_Severity = severity,
           up_Score = severityScore severity, up_ScoreLevel = [], up_ScoreModelVersion = [],
           up_ScoreFactors = JNull, up_ScoredAt = zero_time, up_RuleID = ''builtin:certificate_expiry'',
           up_Source = defaultString (cf_Source f) ''discovery'',
           up_EvidenceSummary = summary, up_EvidenceRef = cf_ExposureKey f,
           up_Status = StatusNew, up_Owner = cf_Owner f, up_BusinessUnit = cf_BusinessUnit f, up_SLADueAt = zero_time,
           up_Suppressed = False, up_SuppressionRuleID = 0, up_SuppressedUntil = zero_time,
           up_ObservedAt = observedAt, up_ActorID = actorID\<rparr>)"

definition riskSnapshot :: "risk option \<Rightarrow> json" where
  "riskSnapshot r0 =
     (case r0 of
        None \<Rightarrow> JNull
      | Some r \<Rightarrow> JObj
          [(''asset_id'', JInt (int (r_AssetID r))), (''exposure_id'', JInt (int (r_ExposureID r))),
           (''id'', JInt (int (r_ID r))), (''risk_key'', JStr (r_RiskKey r)), (''score'', JInt (uint (r_Score r))),
           (''severity'', JStr (r_Severity r)), (''status'', JStr (r_Status r)),
           (''vuln_definition_id'', JInt (int (r_VulnDefinitionID r)))])"

definition riskChangeEvent :: "string \<Rightarrow> risk option \<Rightarrow> risk \<Rightarrow> string \<Rightarrow> time \<Rightarrow> change_event" where
  "riskChangeEvent source before after changeType detectedAt =
     \<lparr>ce_ID = 0, ce_TenantID = r_TenantID after, ce_OrgID = r_OrgID after, ce_ProjectID = r_ProjectID after,
       ce_EntityType = ''risk'', ce_EntityID = r_ID after, ce_ChangeType = changeType, ce_Severity = r_Severity after,
       ce_Title = (if changeType = ChangeTypeReopened then ''Risk reopened'' else ''Risk discovered''),
       ce_Summary = r_Title after, ce_Source = source, ce_Before = riskSnapshot before,
       ce_After = riskSnapshot (Some after), ce_DetectedAt = detectedAt\<rparr>"

text \<open>The value \<open>audit.Redact\<close> sees of a \<open>*Risk\<close>: a pointer to a struct without tags.\<close>

definition risk_val :: "risk \<Rightarrow> goval" where
  "risk_val r = GPtr (GStruct
     [(exported ''ID'', GInt (int (r_ID r))), (exported ''TenantID'', GStr (r_TenantID r)), (exported ''OrgID'', GStr (r_OrgID r)),
      (exported ''ProjectID'', GInt (int (r_ProjectID r))), (exported ''AssetID'', GInt (int (r_AssetID r))),
      (exported ''ExposureID'', GInt (int (r_ExposureID r))), (exported ''VulnDefinitionID'', GInt (int (r_VulnDefinitionID r))),
      (exported ''RiskKey'', GStr (r_RiskKey r)), (exported ''RiskType'', GStr (r_RiskType r)), (exported ''Title'', GStr (r_Title r)),
      (exported ''Severity'', GStr (r_Severity r)), (exported ''Score'', GInt (uint (r_Score r))),
      (exported ''ScoreLevel'', GStr (r_ScoreLevel r)), (exported ''ScoreModelVersion'', GStr (r_ScoreModelVersion r)),
      (exported ''ScoreFactors'', GRaw (r_ScoreFactors r)), (exported ''ScoredAt'', time_val (r_ScoredAt r)),
      (exported ''RuleID'', GStr (r_RuleID r)), (exported ''Source'', GStr (r_Source r)),
      (exported ''EvidenceSummary'', GStr (r_EvidenceSummary r)), (exported ''EvidenceRef'', GStr (r_EvidenceRef r)),
      (exported ''Status'', GStr (r_Status r)), (exported ''Owner'', GStr (r_Owner r)), (exported ''BusinessUnit'', GStr (r_BusinessUnit r)),
      (exported ''SLADueAt'', time_val (r_SLADueAt r)), (exported ''Suppressed'', GBool (r_Suppressed r)),
      (exported ''SuppressionRuleID'', GInt (int (r_SuppressionRuleID r))), (exported ''SuppressedUntil'', time_val (r_SuppressedUntil r)),
      (exported ''FirstSeen'', time_val (r_FirstSeen r)), (exported ''LastSeen'', time_val (r_LastSeen r)),
      (exported ''ConfirmedAt'', time_val (r_ConfirmedAt r)), (exported ''FixedAt'', time_val (r_FixedAt r)),
      (exported ''CreatedAt'', time_val (r_CreatedAt r)), (exported ''UpdatedAt'', time_val (r_UpdatedAt r)),
      (exported ''CreatedBy'', GStr (r_CreatedBy r)), (exported ''UpdatedBy'', GStr (r_UpdatedBy r))])"

definition status_audit_event :: "risk \<Rightarrow> risk \<Rightarrow> transition_input \<Rightarrow> event" where
  "status_audit_event before after i =
     \<lparr>ev_TenantID = r_TenantID after, ev_OrgID = r_OrgID after, ev_ProjectID = r_ProjectID after,
       ev_ActorID = ti_ActorID i, ev_ActorType = ''user'', ev_Action = ''risk.status_change'',
       ev_ResourceType = ''risk'', ev_ResourceID = FormatUint (r_ID after), ev_Result = ''success'',
       ev_IP = am_IP (ti_Meta i), ev_UserAgent = am_UserAgent (ti_Meta i), ev_RequestID = am_RequestID (ti_Meta i),
       ev_Before = risk_val before, ev_After = risk_val after,
       ev_Metadata = GMap
         [(''action'', GStr (ti_Action i)), (''old_status'', GStr (r_Status before)), (''new_status'', GStr (r_Status after)),
          (''reason'', GStr (ti_Reason i)), (''approved_by'', GStr (ti_ApprovedBy i)),
          (''expires_at'', time_val (ti_ExpiresAt i)), (''review_required_at'', time_val (ti_ReviewRequiredAt i)),
          (''request_id'', GStr (am_RequestID (ti_Meta i)))],
       ev_ErrorCode = [], ev_ErrorMessage = []\<rparr>"

section \<open>Facts\<close>

subsection \<open>The status machine against its diagram\<close>

text \<open>The life cycle of a risk, one rule per edge: action, from, to.\<close>

inductive risk_edge :: "string \<Rightarrow> string \<Rightarrow> string \<Rightarrow> bool" where
  confirm: "c \<in> {StatusNew, StatusReopened} \<Longrightarrow> risk_edge StatusActionConfirm c StatusConfirmed"
| assign: "c \<in> {StatusConfirmed, StatusReopened} \<Longrightarrow> risk_edge StatusActionAssign c StatusAssigned"
| start_fix: "risk_edge StatusActionStartFix StatusAssigned StatusFixing"
| mark_fixed: "c \<in> {StatusAssigned, StatusFixing} \<Longrightarrow> risk_edge StatusActionMarkFixed c StatusFixed"
| reopen: "c \<in> {StatusFixed, StatusRiskAccepted, StatusFalsePositive} \<Longrightarrow> risk_edge StatusActionReopen c StatusReopened"
| accept: "c \<in> {StatusConfirmed, StatusAssigned, StatusFixing} \<Longrightarrow> risk_edge StatusActionAccept c StatusRiskAccepted"
| false_positive: "c \<in> {StatusNew, StatusConfirmed, StatusAssigned, StatusFixing} \<Longrightarrow>
    risk_edge StatusActionFalsePositive c StatusFalsePositive"

inductive_simps risk_edge_iff: "risk_edge a c n"

lemma edge_next: "risk_edge a c n \<Longrightarrow> nextRiskStatus a c = Inr n"
  by (induction rule: risk_edge.induct) (auto simp: nextRiskStatus_def)

lemma next_edge: "nextRiskStatus a c = Inr n \<Longrightarrow> risk_edge a c n"
  unfolding nextRiskStatus_def by (auto intro: risk_edge.intros split: if_splits)

lemma nextRiskStatus_iff_edge: "nextRiskStatus a c = Inr n \<longleftrightarrow> risk_edge a c n"
  by (blast intro: edge_next next_edge)

lemma nextRiskStatus_error: "nextRiskStatus a c = Inl x \<Longrightarrow> x = ErrInvalidStatusTransition"
  by (auto simp: nextRiskStatus_def split: if_splits)

interpretation risk_table: transition_table nextRiskStatus allStatusActions risk_statuses
proof
  show "\<exists>e. nextRiskStatus a c = Inl e" if "a \<notin> set allStatusActions" for a c
    using that by (simp add: nextRiskStatus_def allStatusActions_def)
  show "n \<in> set risk_statuses" if "nextRiskStatus a c = Inr n" for a c n
    using that by (auto simp: nextRiskStatus_iff_edge risk_edge_iff risk_statuses_def)
qed

lemma nextRiskStatus_valid:
  "nextRiskStatus a c = Inr n \<Longrightarrow> validRiskStatus c \<and> validRiskStatus n \<and> validStatusAction a"
  by (auto simp: nextRiskStatus_iff_edge risk_edge_iff validRiskStatus_def risk_statuses_def validStatusAction_def)

lemma decision_action:
  "nextRiskStatus a c = Inr n \<Longrightarrow> isDecisionStatus n \<longleftrightarrow> a = StatusActionAccept \<or> a = StatusActionFalsePositive"
  by (auto simp: nextRiskStatus_iff_edge risk_edge_iff isDecisionStatus_def)

text \<open>What the validation of a decision guarantees.\<close>

lemma validate_decision:
  assumes "validateTransitionInput i n = Inr ()" and "isDecisionStatus n"
  shows "TrimSpace (ti_Reason i) \<noteq> []" "TrimSpace (ti_ApprovedBy i) \<noteq> []"
    "\<not> EqualFold (TrimSpace (ti_ApprovedBy i)) (TrimSpace (ti_ActorID i))"
    "ti_ExpiresAt i \<noteq> zero_time \<or> ti_ReviewRequiredAt i \<noteq> zero_time"
  using assms by (auto simp: validateTransitionInput_def isDecisionStatus_def Let_def split: if_splits)

lemma buildStatusUpdate_target [simp]:
  "su_ProjectID (buildStatusUpdate b i n now) = r_ProjectID b"
  "su_RiskID (buildStatusUpdate b i n now) = r_ID b"
  "su_OldStatus (buildStatusUpdate b i n now) = r_Status b"
  "su_NewStatus (buildStatusUpdate b i n now) = n"
  "su_ActorID (buildStatusUpdate b i n now) = ti_ActorID i"
  by (simp_all add: buildStatusUpdate_def)

subsection \<open>Scores\<close>

lemma clampScoreInt_unat: "unat (clampScoreInt v) = nat (max 0 (min 100 v))"
proof -
  have "unat (word_of_int v :: 8 word) = nat v" if "0 < v" "v \<le> 100"
    using that by (simp add: unsigned_of_int unat_eq_nat_uint take_bit_int_eq_self)
  then show ?thesis by (auto simp: clampScoreInt_def)
qed

lemma clampScoreInt_mono: "v \<le> w \<Longrightarrow> clampScoreInt v \<le> clampScoreInt w"
  by (simp add: word_le_nat_alt clampScoreInt_unat)

lemma clampScoreInt_le: "clampScoreInt v \<le> 100"
  by (simp add: word_le_nat_alt clampScoreInt_unat)

lemma scoreLevel_valid: "validSeverity (scoreLevel s)"
  by (simp add: scoreLevel_def validSeverity_def)

lemma map_get_critical [simp]:
  "map_get (Some default_severity_weights) SeverityCritical = 40"
  "map_get (Some default_severity_weights) SeverityHigh = 32"
  "map_get (Some default_severity_weights) SeverityMedium = 20"
  "map_get (Some default_severity_weights) SeverityLow = 8"
  "map_get (Some default_severity_weights) SeverityInfo = 2"
  by (simp_all add: map_get_def default_severity_weights_def)

subsection \<open>Keys and ports\<close>

lemma keyed_inj:
  assumes "p @ r @ '':asset:'' @ FormatUint a @ '':exposure:'' @ FormatUint x =
           p @ r' @ '':asset:'' @ FormatUint a' @ '':exposure:'' @ FormatUint x'"
  shows "r = r' \<and> a = a' \<and> x = x'"
proof -
  have "(r @ '':asset:'' @ FormatUint a @ '':exposure'') @ [CHR '':''] @ FormatUint x =
        (r' @ '':asset:'' @ FormatUint a' @ '':exposure'') @ [CHR '':''] @ FormatUint x'"
    using assms by simp
  from last_colon_inj [OF this FormatUint_no_colon FormatUint_no_colon]
  have x: "FormatUint x = FormatUint x'"
    and rest: "r @ '':asset:'' @ FormatUint a @ '':exposure'' = r' @ '':asset:'' @ FormatUint a' @ '':exposure''"
    by auto
  have "(r @ '':asset'') @ [CHR '':''] @ FormatUint a @ '':exposure'' =
        (r' @ '':asset'') @ [CHR '':''] @ FormatUint a' @ '':exposure''"
    using rest by simp
  then have "((r @ '':asset'') @ [CHR '':''] @ FormatUint a) @ '':exposure'' =
             ((r' @ '':asset'') @ [CHR '':''] @ FormatUint a') @ '':exposure''"
    by simp
  then have "(r @ '':asset'') @ [CHR '':''] @ FormatUint a = (r' @ '':asset'') @ [CHR '':''] @ FormatUint a'"
    by (simp only: append_same_eq)
  from last_colon_inj [OF this FormatUint_no_colon FormatUint_no_colon]
  have "FormatUint a = FormatUint a'" and "r @ '':asset'' = r' @ '':asset''" by auto
  with x show ?thesis by (simp add: FormatUint_inj)
qed

lemma parseRulePort_FormatUint: "n \<le> 65535 \<Longrightarrow> parseRulePort (FormatUint n) = Some (of_nat n)"
  by (simp add: parseRulePort_def TrimSpace_plain plain_FormatUint ParseUint_FormatUint)

lemma parseRulePort_bound: "parseRulePort s = Some p \<Longrightarrow> unat p \<le> 65535"
proof -
  assume "parseRulePort s = Some p"
  then obtain n where n: "n \<le> 65535" "p = of_nat n"
    by (auto simp: parseRulePort_def not_less split: option.splits if_splits)
  then show ?thesis by (simp add: unat_of_nat take_bit_nat_eq_self)
qed

lemma parseRulePort_canonical:
  assumes "parseRulePort s = Some p"
  shows "parseRulePort (FormatUint (unat p)) = Some p"
  using parseRulePort_FormatUint [OF parseRulePort_bound [OF assms]] by simp

end
