(* ===== verification/RiskStore.thy ===== *)
theory RiskStore
  imports RiskLogic
begin

text \<open>
  The repository of \<open>internal/risk\<close> (\<open>repository.go\<close>) over the tables of
  \<open>internal/platform/db/schema\<close>, with the statements of \<open>internal/platform/db/query/risk.sql\<close>.
  A row is the struct that the \<open>to...\<close> converters return for it. The state also lists the keys of
  the tables that foreign keys refer to (projects, assets, exposures), which this package reads only.
\<close>

section \<open>State\<close>

record risk_db =
  db_definitions :: "vuln_definition table"
  db_rules :: "risk_rule table"
  db_risks :: "risk table"
  db_suppressions :: "suppression_rule table"
  db_decisions :: "risk_decision table"
  db_slas :: "sla_policy table"
  db_status_history :: "status_history table"
  db_score_history :: "score_history table"
  db_change_events :: "change_event table"
  db_audit :: "audit_row table"
  db_projects :: "nat list"
  db_assets :: "(string \<times> string \<times> nat \<times> nat) list"
  db_exposures :: "(nat \<times> nat) list"

type_synonym 'a risk_op = "(risk_db, risk_error, 'a) op"

definition empty_risk_db :: risk_db where
  "empty_risk_db = \<lparr>db_definitions = empty_table, db_rules = empty_table, db_risks = empty_table,
     db_suppressions = empty_table, db_decisions = empty_table, db_slas = empty_table,
     db_status_history = empty_table, db_score_history = empty_table, db_change_events = empty_table,
     db_audit = empty_table, db_projects = [], db_assets = [], db_exposures = []\<rparr>"

text \<open>What \<open>tx.Rollback()\<close> leaves.\<close>

definition risk_rollback :: "risk_db \<Rightarrow> risk_db \<Rightarrow> risk_db" where
  "risk_rollback d0 d1 =
     d1\<lparr>db_definitions := tbl_rollback (db_definitions d0) (db_definitions d1),
        db_rules := tbl_rollback (db_rules d0) (db_rules d1),
        db_risks := tbl_rollback (db_risks d0) (db_risks d1),
        db_suppressions := tbl_rollback (db_suppressions d0) (db_suppressions d1),
        db_decisions := tbl_rollback (db_decisions d0) (db_decisions d1),
        db_slas := tbl_rollback (db_slas d0) (db_slas d1),
        db_status_history := tbl_rollback (db_status_history d0) (db_status_history d1),
        db_score_history := tbl_rollback (db_score_history d0) (db_score_history d1),
        db_change_events := tbl_rollback (db_change_events d0) (db_change_events d1),
        db_audit := tbl_rollback (db_audit d0) (db_audit d1)\<rparr>"

section \<open>Conversions\<close>

definition nullInt64 :: "nat \<Rightarrow> int option" where
  "nullInt64 v = (if v = 0 then None else if v > 2 ^ 63 - 1 then None else Some (int v))"

definition uint64FromNull :: "int option \<Rightarrow> nat" where
  "uint64FromNull v = (case v of None \<Rightarrow> 0 | Some i \<Rightarrow> if i < 0 then 0 else nat i)"

definition riskTimeForDB :: "time \<Rightarrow> time" where
  "riskTimeForDB t = (if t = zero_time then epoch else t)"

text \<open>What a time column returns after \<open>riskTimeForDB t\<close> was written to it.\<close>

definition db_time :: "env \<Rightarrow> time \<Rightarrow> time" where
  "db_time e t = env_col e (riskTimeForDB t)"

definition observedAt :: "env \<Rightarrow> time \<Rightarrow> time" where
  "observedAt e t = (if t = zero_time then env_now e else t)"

definition found :: "'a option \<Rightarrow> risk_error + 'a" where
  "found o1 = (case o1 of None \<Rightarrow> Inl ErrNotFound | Some x \<Rightarrow> Inr x)"

text \<open>\<open>rowsAffectedErr\<close>: an \<open>UPDATE\<close> that changed no row is \<open>ErrNotFound\<close>.\<close>

definition rowsAffectedErr :: "(risk_db, sql_error, nat) op \<Rightarrow> unit risk_op" where
  "rowsAffectedErr m = bindM (mapErr ErrSql m) (\<lambda>n. failIf (n = 0) ErrNotFound)"

section \<open>Definitions and rules\<close>

definition severities :: "string list" where
  "severities = [SeverityInfo, SeverityLow, SeverityMedium, SeverityHigh, SeverityCritical]"

definition definition_check :: "env \<Rightarrow> vuln_definition \<Rightarrow> sql_error option" where
  "definition_check e d = row_check
     (too_long [(vd_TenantID d, 64), (vd_OrgID d, 64), (vd_RuleID d, 128), (vd_CVEID d, 32), (vd_Title d, 255),
        (vd_Description d, 2048), (vd_Severity d, 32), (vd_CPEPattern d, 255), (vd_Remediation d, 2048),
        (vd_Source d, 64), (vd_CreatedBy d, 64), (vd_UpdatedBy d, 64)])
     (sql_in e (vd_Severity d) severities)"

definition definition_row :: "env \<Rightarrow> definition_input \<Rightarrow> vuln_definition" where
  "definition_row e i =
     \<lparr>vd_ID = 0, vd_TenantID = di_TenantID i, vd_OrgID = di_OrgID i, vd_ProjectID = di_ProjectID i,
       vd_RuleID = di_RuleID i, vd_CVEID = di_CVEID i, vd_Title = di_Title i, vd_Description = di_Description i,
       vd_Severity = di_Severity i, vd_CPEPattern = di_CPEPattern i, vd_Remediation = di_Remediation i,
       vd_Source = di_Source i, vd_Enabled = di_Enabled i, vd_CreatedAt = env_db_now e, vd_UpdatedAt = env_db_now e,
       vd_CreatedBy = di_ActorID i, vd_UpdatedBy = di_ActorID i\<rparr>"

definition repo_CreateDefinition :: "env \<Rightarrow> definition_input \<Rightarrow> nat risk_op" where
  "repo_CreateDefinition e i d =
     mapErr ErrSql (zoom db_definitions (\<lambda>t d. d\<lparr>db_definitions := t\<rparr>)
       (sql_insert (definition_check e) (\<lambda>x y. vd_ProjectID x = vd_ProjectID y \<and> sql_eq e (vd_RuleID x) (vd_RuleID y))
          (\<lambda>x. List.member (db_projects d) (vd_ProjectID x)) (\<lambda>n x. x\<lparr>vd_ID := n\<rparr>) (definition_row e i))) d"

definition repo_GetDefinitionByID :: "nat \<Rightarrow> nat \<Rightarrow> vuln_definition risk_op" where
  "repo_GetDefinitionByID projectID i =
     asks (\<lambda>d. found (sql_one (\<lambda>x. vd_ID x = i \<and> vd_ProjectID x = projectID) (db_definitions d)))"

definition repo_GetDefinitionByRuleID :: "env \<Rightarrow> nat \<Rightarrow> string \<Rightarrow> vuln_definition risk_op" where
  "repo_GetDefinitionByRuleID e projectID ruleID =
     asks (\<lambda>d. found (sql_one (\<lambda>x. vd_ProjectID x = projectID \<and> sql_eq e (vd_RuleID x) ruleID) (db_definitions d)))"

definition repo_ListDefinitions :: "nat \<Rightarrow> vuln_definition list risk_op" where
  "repo_ListDefinitions projectID = gets (\<lambda>d. sql_many (\<lambda>x. vd_ProjectID x = projectID) (db_definitions d))"

definition rule_check :: "env \<Rightarrow> risk_rule \<Rightarrow> sql_error option" where
  "rule_check e r = row_check
     (too_long [(rr_TenantID r, 64), (rr_OrgID r, 64), (rr_RuleID r, 128), (rr_Name r, 255), (rr_Description r, 2048),
        (rr_RiskType r, 64), (rr_Severity r, 32), (rr_MatchType r, 32), (rr_MatchValue r, 255),
        (rr_Remediation r, 2048), (rr_Source r, 64), (rr_CreatedBy r, 64), (rr_UpdatedBy r, 64)])
     (sql_in e (rr_RiskType r) (tl risk_types) \<and> sql_in e (rr_Severity r) severities \<and>
      sql_in e (rr_MatchType r) [RuleMatchPort, RuleMatchService, RuleMatchWeb, RuleMatchFingerprint])"

definition rule_row :: "env \<Rightarrow> rule_input \<Rightarrow> risk_rule" where
  "rule_row e i =
     \<lparr>rr_ID = 0, rr_TenantID = ri_TenantID i, rr_OrgID = ri_OrgID i, rr_ProjectID = ri_ProjectID i,
       rr_RuleID = ri_RuleID i, rr_Name = ri_Name i, rr_Description = ri_Description i, rr_RiskType = ri_RiskType i,
       rr_Severity = ri_Severity i, rr_MatchType = ri_MatchType i, rr_MatchValue = ri_MatchValue i,
       rr_Remediation = ri_Remediation i, rr_Source = ri_Source i, rr_Enabled = ri_Enabled i,
       rr_CreatedAt = env_db_now e, rr_UpdatedAt = env_db_now e, rr_CreatedBy = ri_ActorID i, rr_UpdatedBy = ri_ActorID i\<rparr>"

definition repo_CreateRule :: "env \<Rightarrow> rule_input \<Rightarrow> nat risk_op" where
  "repo_CreateRule e i d =
     mapErr ErrSql (zoom db_rules (\<lambda>t d. d\<lparr>db_rules := t\<rparr>)
       (sql_insert (rule_check e) (\<lambda>x y. rr_ProjectID x = rr_ProjectID y \<and> sql_eq e (rr_RuleID x) (rr_RuleID y))
          (\<lambda>x. List.member (db_projects d) (rr_ProjectID x)) (\<lambda>n x. x\<lparr>rr_ID := n\<rparr>) (rule_row e i))) d"

definition repo_GetRuleByID :: "nat \<Rightarrow> nat \<Rightarrow> risk_rule risk_op" where
  "repo_GetRuleByID projectID i =
     asks (\<lambda>d. found (sql_one (\<lambda>x. rr_ID x = i \<and> rr_ProjectID x = projectID) (db_rules d)))"

definition repo_GetRuleByRuleID :: "env \<Rightarrow> nat \<Rightarrow> string \<Rightarrow> risk_rule risk_op" where
  "repo_GetRuleByRuleID e projectID ruleID =
     asks (\<lambda>d. found (sql_one (\<lambda>x. rr_ProjectID x = projectID \<and> sql_eq e (rr_RuleID x) ruleID) (db_rules d)))"

definition repo_ListEnabledRules :: "nat \<Rightarrow> risk_rule list risk_op" where
  "repo_ListEnabledRules projectID =
     gets (\<lambda>d. sql_many (\<lambda>x. rr_ProjectID x = projectID \<and> rr_Enabled x) (db_rules d))"

definition repo_SetRuleEnabled :: "env \<Rightarrow> nat \<Rightarrow> nat \<Rightarrow> bool \<Rightarrow> string \<Rightarrow> unit risk_op" where
  "repo_SetRuleEnabled e projectID i enabled actorID =
     rowsAffectedErr (zoom db_rules (\<lambda>t d. d\<lparr>db_rules := t\<rparr>)
       (sql_update (rule_check e) (\<lambda>x. rr_ID x = i \<and> rr_ProjectID x = projectID)
          (\<lambda>x. x\<lparr>rr_Enabled := enabled, rr_UpdatedBy := actorID\<rparr>) (\<lambda>x. x\<lparr>rr_UpdatedAt := env_db_now e\<rparr>)))"

section \<open>Risks\<close>

definition risk_check :: "env \<Rightarrow> risk \<Rightarrow> sql_error option" where
  "risk_check e r = row_check
     (too_long [(r_TenantID r, 64), (r_OrgID r, 64), (r_RiskKey r, 512), (r_RiskType r, 64), (r_Title r, 255),
        (r_Severity r, 32), (r_RuleID r, 128), (r_Source r, 64), (r_EvidenceSummary r, 2048), (r_EvidenceRef r, 512),
        (r_Status r, 32), (r_Owner r, 64), (r_BusinessUnit r, 128), (r_CreatedBy r, 64), (r_UpdatedBy r, 64),
        (r_ScoreLevel r, 32), (r_ScoreModelVersion r, 64)])
     (sql_in e (r_RiskType r) risk_types \<and> sql_in e (r_Severity r) severities \<and> r_Score r \<le> 100 \<and>
      sql_in e (r_Status r) risk_statuses)"

text \<open>The foreign keys of \<open>risk\<close>: asset, exposure, definition and suppression rule.\<close>

definition risk_fk :: "risk_db \<Rightarrow> risk \<Rightarrow> bool" where
  "risk_fk d r \<longleftrightarrow>
     List.member (db_assets d) (r_TenantID r, r_OrgID r, r_ProjectID r, r_AssetID r) \<and>
     (r_ExposureID r = 0 \<or> List.member (db_exposures d) (r_ProjectID r, r_ExposureID r)) \<and>
     (r_VulnDefinitionID r = 0 \<or> list_ex (\<lambda>x. vd_ID x = r_VulnDefinitionID r) (t_rows (db_definitions d))) \<and>
     (r_SuppressionRuleID r = 0 \<or> list_ex (\<lambda>x. sr_ID x = r_SuppressionRuleID r) (t_rows (db_suppressions d)))"

definition risk_same_key :: "env \<Rightarrow> risk \<Rightarrow> risk \<Rightarrow> bool" where
  "risk_same_key e x y \<longleftrightarrow> r_ProjectID x = r_ProjectID y \<and> sql_eq e (r_RiskKey x) (r_RiskKey y)"

definition risk_row :: "env \<Rightarrow> upsert_params \<Rightarrow> risk" where
  "risk_row e p =
     \<lparr>r_ID = 0, r_TenantID = up_TenantID p, r_OrgID = up_OrgID p, r_ProjectID = up_ProjectID p, r_AssetID = up_AssetID p,
       r_ExposureID = uint64FromNull (nullInt64 (up_ExposureID p)),
       r_VulnDefinitionID = uint64FromNull (nullInt64 (up_VulnDefinitionID p)),
       r_RiskKey = up_RiskKey p, r_RiskType = up_RiskType p, r_Title = up_Title p, r_Severity = up_Severity p,
       r_Score = up_Score p, r_ScoreLevel = up_ScoreLevel p, r_ScoreModelVersion = up_ScoreModelVersion p,
       r_ScoreFactors = up_ScoreFactors p, r_ScoredAt = db_time e (up_ScoredAt p), r_RuleID = up_RuleID p,
       r_Source = up_Source p, r_EvidenceSummary = up_EvidenceSummary p, r_EvidenceRef = up_EvidenceRef p,
       r_Status = up_Status p, r_Owner = up_Owner p, r_BusinessUnit = up_BusinessUnit p,
       r_SLADueAt = db_time e (up_SLADueAt p), r_Suppressed = up_Suppressed p,
       r_SuppressionRuleID = uint64FromNull (nullInt64 (up_SuppressionRuleID p)),
       r_SuppressedUntil = db_time e (up_SuppressedUntil p),
       r_FirstSeen = env_col e (observedAt e (up_ObservedAt p)), r_LastSeen = env_col e (observedAt e (up_ObservedAt p)),
       r_ConfirmedAt = db_time e zero_time, r_FixedAt = db_time e zero_time,
       r_CreatedAt = env_db_now e, r_UpdatedAt = env_db_now e, r_CreatedBy = up_ActorID p, r_UpdatedBy = up_ActorID p\<rparr>"

definition repo_CreateRisk :: "env \<Rightarrow> upsert_params \<Rightarrow> nat risk_op" where
  "repo_CreateRisk e p d =
     mapErr ErrSql (zoom db_risks (\<lambda>t d. d\<lparr>db_risks := t\<rparr>)
       (sql_insert (risk_check e) (risk_same_key e) (risk_fk d) (\<lambda>n x. x\<lparr>r_ID := n\<rparr>) (risk_row e p))) d"

definition repo_GetRiskByID :: "nat \<Rightarrow> nat \<Rightarrow> risk risk_op" where
  "repo_GetRiskByID projectID i =
     asks (\<lambda>d. found (sql_one (\<lambda>x. r_ID x = i \<and> r_ProjectID x = projectID) (db_risks d)))"

definition repo_GetRiskByKey :: "env \<Rightarrow> nat \<Rightarrow> string \<Rightarrow> risk risk_op" where
  "repo_GetRiskByKey e projectID key =
     asks (\<lambda>d. found (sql_one (\<lambda>x. r_ProjectID x = projectID \<and> sql_eq e (r_RiskKey x) key) (db_risks d)))"

definition repo_ListRisks :: "nat \<Rightarrow> int \<Rightarrow> int \<Rightarrow> risk list risk_op" where
  "repo_ListRisks projectID limit offset =
     gets (\<lambda>d. page limit offset (sql_many (\<lambda>x. r_ProjectID x = projectID) (db_risks d)))"

definition repo_CountRisks :: "nat \<Rightarrow> int risk_op" where
  "repo_CountRisks projectID = gets (\<lambda>d. sql_count (\<lambda>x. r_ProjectID x = projectID) (db_risks d))"

definition risk_filter :: "env \<Rightarrow> list_filter \<Rightarrow> risk \<Rightarrow> bool" where
  "risk_filter e f x \<longleftrightarrow>
     r_ProjectID x = lf_ProjectID f \<and>
     (sql_eq e (lf_Severity f) [] \<or> sql_eq e (r_Severity x) (lf_Severity f)) \<and>
     (sql_eq e (lf_Status f) [] \<or> sql_eq e (r_Status x) (lf_Status f)) \<and>
     (sql_eq e (lf_Owner f) [] \<or> sql_eq e (r_Owner x) (lf_Owner f)) \<and>
     (lf_AssetID f = 0 \<or> r_AssetID x = lf_AssetID f) \<and>
     (sql_eq e (lf_Keyword f) [] \<or> env_like e (r_Title x) (lf_Keyword f) \<or> env_like e (r_BusinessUnit x) (lf_Keyword f))"

definition repo_ListRisksFiltered :: "env \<Rightarrow> list_filter \<Rightarrow> risk list risk_op" where
  "repo_ListRisksFiltered e f =
     gets (\<lambda>d. page (lf_Limit f) (lf_Offset f) (sql_many (risk_filter e f) (db_risks d)))"

definition repo_CountRisksFiltered :: "env \<Rightarrow> list_filter \<Rightarrow> int risk_op" where
  "repo_CountRisksFiltered e f = gets (\<lambda>d. sql_count (risk_filter e f) (db_risks d))"

definition risk_update :: "env \<Rightarrow> (risk \<Rightarrow> bool) \<Rightarrow> (risk \<Rightarrow> risk) \<Rightarrow> unit risk_op" where
  "risk_update e p f =
     rowsAffectedErr (zoom db_risks (\<lambda>t d. d\<lparr>db_risks := t\<rparr>)
       (sql_update (risk_check e) p f (\<lambda>x. x\<lparr>r_UpdatedAt := env_db_now e\<rparr>)))"

definition refreshed :: "env \<Rightarrow> upsert_params \<Rightarrow> risk \<Rightarrow> risk" where
  "refreshed e p x =
     x\<lparr>r_Title := up_Title p, r_Severity := up_Severity p, r_Score := up_Score p, r_ScoreLevel := up_ScoreLevel p,
       r_ScoreModelVersion := up_ScoreModelVersion p, r_ScoreFactors := up_ScoreFactors p,
       r_ScoredAt := db_time e (up_ScoredAt p), r_Source := up_Source p, r_EvidenceSummary := up_EvidenceSummary p,
       r_EvidenceRef := up_EvidenceRef p, r_Owner := up_Owner p, r_BusinessUnit := up_BusinessUnit p,
       r_Suppressed := up_Suppressed p, r_SuppressionRuleID := uint64FromNull (nullInt64 (up_SuppressionRuleID p)),
       r_SuppressedUntil := db_time e (up_SuppressedUntil p), r_LastSeen := env_col e (observedAt e (up_ObservedAt p)),
       r_UpdatedBy := up_ActorID p\<rparr>"

definition repo_RefreshRisk :: "env \<Rightarrow> upsert_params \<Rightarrow> unit risk_op" where
  "repo_RefreshRisk e p =
     risk_update e (\<lambda>x. r_ID x = up_ID p \<and> r_ProjectID x = up_ProjectID p) (refreshed e p)"

definition repo_ReopenRisk :: "env \<Rightarrow> upsert_params \<Rightarrow> unit risk_op" where
  "repo_ReopenRisk e p =
     risk_update e (\<lambda>x. r_ID x = up_ID p \<and> r_ProjectID x = up_ProjectID p \<and> sql_eq e (r_Status x) StatusFixed)
       (\<lambda>x. (refreshed e p x)\<lparr>r_Status := StatusReopened, r_FixedAt := env_col e epoch\<rparr>)"

definition repo_UpdateRiskScore :: "env \<Rightarrow> nat \<Rightarrow> nat \<Rightarrow> score_result \<Rightarrow> string \<Rightarrow> unit risk_op" where
  "repo_UpdateRiskScore e projectID riskID sc actorID =
     risk_update e (\<lambda>x. r_ID x = riskID \<and> r_ProjectID x = projectID)
       (\<lambda>x. x\<lparr>r_Score := sc_Score sc, r_ScoreLevel := sc_ScoreLevel sc, r_ScoreModelVersion := sc_ScoreModelVersion sc,
              r_ScoreFactors := sc_ScoreFactors sc, r_ScoredAt := db_time e (sc_ScoredAt sc), r_UpdatedBy := actorID\<rparr>)"

definition status_written :: "env \<Rightarrow> status_update \<Rightarrow> risk \<Rightarrow> risk" where
  "status_written e u x =
     x\<lparr>r_Status := su_NewStatus u, r_Owner := su_Owner u, r_SLADueAt := db_time e (su_SLADueAt u),
       r_ConfirmedAt := db_time e (su_ConfirmedAt u), r_FixedAt := db_time e (su_FixedAt u), r_UpdatedBy := su_ActorID u\<rparr>"

definition repo_UpdateRiskStatus :: "env \<Rightarrow> status_update \<Rightarrow> unit risk_op" where
  "repo_UpdateRiskStatus e u =
     risk_update e (\<lambda>x. r_ID x = su_RiskID u \<and> r_ProjectID x = su_ProjectID u \<and> sql_eq e (r_Status x) (su_OldStatus u))
       (status_written e u)"

text \<open>The statuses of risks that still count for the SLA.\<close>

definition sla_open :: "env \<Rightarrow> risk \<Rightarrow> bool" where
  "sla_open e x \<longleftrightarrow> \<not> sql_in e (r_Status x) [StatusFixed, StatusRiskAccepted, StatusFalsePositive]"

definition repo_ListOpenRisksForSLARecalc :: "env \<Rightarrow> nat \<Rightarrow> int \<Rightarrow> risk list risk_op" where
  "repo_ListOpenRisksForSLARecalc e projectID limit =
     gets (\<lambda>d. page limit 0 (sql_many (\<lambda>x. r_ProjectID x = projectID \<and> sla_open e x) (db_risks d)))"

definition repo_CountOverdueRisks :: "env \<Rightarrow> nat \<Rightarrow> time \<Rightarrow> int risk_op" where
  "repo_CountOverdueRisks e projectID now =
     gets (\<lambda>d. sql_count (\<lambda>x. r_ProjectID x = projectID \<and> sla_open e x \<and> epoch < r_SLADueAt x \<and> r_SLADueAt x < now)
       (db_risks d))"

section \<open>Histories, decisions and change events\<close>

text \<open>The foreign key \<open>(project_id, risk_id)\<close> of the three tables that hang off a risk.\<close>

definition risk_exists :: "risk_db \<Rightarrow> nat \<Rightarrow> nat \<Rightarrow> bool" where
  "risk_exists d projectID riskID \<longleftrightarrow> list_ex (\<lambda>x. r_ProjectID x = projectID \<and> r_ID x = riskID) (t_rows (db_risks d))"

definition score_history_check :: "env \<Rightarrow> score_history \<Rightarrow> sql_error option" where
  "score_history_check e h = row_check
     (too_long [(sh_TenantID h, 64), (sh_OrgID h, 64), (sh_ScoreLevel h, 32), (sh_ScoreModelVersion h, 64),
        (sh_Reason h, 255), (sh_CreatedBy h, 64)])
     (sh_Score h \<le> 100 \<and> sql_in e (sh_ScoreLevel h) severities)"

definition repo_InsertScoreHistory :: "env \<Rightarrow> score_history \<Rightarrow> unit risk_op" where
  "repo_InsertScoreHistory e h d =
     bindM (mapErr ErrSql (zoom db_score_history (\<lambda>t d. d\<lparr>db_score_history := t\<rparr>)
       (sql_insert (score_history_check e) (\<lambda>_ _. False) (\<lambda>x. risk_exists d (sh_ProjectID x) (sh_RiskID x))
          (\<lambda>n x. x\<lparr>sh_ID := n\<rparr>) (h\<lparr>sh_ScoredAt := db_time e (sh_ScoredAt h), sh_CreatedAt := env_db_now e\<rparr>))))
       (\<lambda>_. ok ()) d"

definition repo_ListScoreHistory :: "nat \<Rightarrow> nat \<Rightarrow> score_history list risk_op" where
  "repo_ListScoreHistory projectID riskID =
     gets (\<lambda>d. sort_key sh_ScoredAt (sql_many (\<lambda>x. sh_ProjectID x = projectID \<and> sh_RiskID x = riskID) (db_score_history d)))"

definition status_history_check :: "env \<Rightarrow> status_history \<Rightarrow> sql_error option" where
  "status_history_check e h = row_check
     (too_long [(hs_TenantID h, 64), (hs_OrgID h, 64), (hs_Action h, 32), (hs_OldStatus h, 32), (hs_NewStatus h, 32),
        (hs_ActorID h, 64), (hs_Reason h, 1024), (hs_RequestID h, 128)])
     (sql_in e (hs_Action h) allStatusActions \<and> sql_in e (hs_OldStatus h) risk_statuses \<and>
      sql_in e (hs_NewStatus h) risk_statuses)"

definition repo_InsertStatusHistory :: "env \<Rightarrow> status_history \<Rightarrow> unit risk_op" where
  "repo_InsertStatusHistory e h d =
     bindM (mapErr ErrSql (zoom db_status_history (\<lambda>t d. d\<lparr>db_status_history := t\<rparr>)
       (sql_insert (status_history_check e) (\<lambda>_ _. False) (\<lambda>x. risk_exists d (hs_ProjectID x) (hs_RiskID x))
          (\<lambda>n x. x\<lparr>hs_ID := n\<rparr>) (h\<lparr>hs_CreatedAt := env_db_now e\<rparr>))))
       (\<lambda>_. ok ()) d"

definition repo_ListStatusHistory :: "nat \<Rightarrow> nat \<Rightarrow> status_history list risk_op" where
  "repo_ListStatusHistory projectID riskID =
     gets (\<lambda>d. sort_key hs_CreatedAt (sql_many (\<lambda>x. hs_ProjectID x = projectID \<and> hs_RiskID x = riskID) (db_status_history d)))"

definition decision_check :: "env \<Rightarrow> risk_decision \<Rightarrow> sql_error option" where
  "decision_check e x = row_check
     (too_long [(rd_TenantID x, 64), (rd_OrgID x, 64), (rd_Decision x, 32), (rd_Reason x, 1024), (rd_ApprovedBy x, 64), (rd_CreatedBy x, 64)])
     (sql_in e (rd_Decision x) [StatusRiskAccepted, StatusFalsePositive])"

definition repo_InsertRiskDecision :: "env \<Rightarrow> risk_decision \<Rightarrow> unit risk_op" where
  "repo_InsertRiskDecision e x d =
     bindM (mapErr ErrSql (zoom db_decisions (\<lambda>t d. d\<lparr>db_decisions := t\<rparr>)
       (sql_insert (decision_check e) (\<lambda>_ _. False) (\<lambda>x. risk_exists d (rd_ProjectID x) (rd_RiskID x))
          (\<lambda>n x. x\<lparr>rd_ID := n\<rparr>)
          (x\<lparr>rd_ExpiresAt := db_time e (rd_ExpiresAt x), rd_ReviewRequiredAt := db_time e (rd_ReviewRequiredAt x),
             rd_CreatedAt := env_db_now e\<rparr>))))
       (\<lambda>_. ok ()) d"

definition repo_ListRiskDecisions :: "nat \<Rightarrow> nat \<Rightarrow> risk_decision list risk_op" where
  "repo_ListRiskDecisions projectID riskID =
     gets (\<lambda>d. sort_key rd_CreatedAt (sql_many (\<lambda>x. rd_ProjectID x = projectID \<and> rd_RiskID x = riskID) (db_decisions d)))"

definition decision_expired :: "env \<Rightarrow> time \<Rightarrow> risk_decision \<Rightarrow> bool" where
  "decision_expired e now x \<longleftrightarrow>
     sql_in e (rd_Decision x) [StatusRiskAccepted, StatusFalsePositive] \<and>
     (epoch < rd_ExpiresAt x \<and> rd_ExpiresAt x \<le> now \<or> epoch < rd_ReviewRequiredAt x \<and> rd_ReviewRequiredAt x \<le> now)"

text \<open>\<open>ORDER BY expires_at, review_required_at, id\<close> as two stable sorts of rows in id order.\<close>

definition repo_ListExpiredRiskDecisions :: "env \<Rightarrow> nat \<Rightarrow> time \<Rightarrow> int \<Rightarrow> risk_decision list risk_op" where
  "repo_ListExpiredRiskDecisions e projectID now limit =
     gets (\<lambda>d. page limit 0 (sort_key rd_ExpiresAt (sort_key rd_ReviewRequiredAt
       (sql_many (\<lambda>x. rd_ProjectID x = projectID \<and> decision_expired e now x) (db_decisions d)))))"

definition change_event_check :: "env \<Rightarrow> change_event \<Rightarrow> sql_error option" where
  "change_event_check e x = row_check
     (too_long [(ce_TenantID x, 64), (ce_OrgID x, 64), (ce_EntityType x, 32), (ce_ChangeType x, 32), (ce_Severity x, 32),
        (ce_Title x, 255), (ce_Summary x, 1024), (ce_Source x, 64)])
     (sql_in e (ce_EntityType x) [''asset'', ''exposure'', ''certificate'', ''risk''] \<and>
      sql_in e (ce_ChangeType x) [''new'', ''removed'', ''reopened'', ''modified''] \<and> sql_in e (ce_Severity x) severities)"

definition repo_InsertChangeEvent :: "env \<Rightarrow> change_event \<Rightarrow> unit risk_op" where
  "repo_InsertChangeEvent e x =
     bindM (mapErr ErrSql (zoom db_change_events (\<lambda>t d. d\<lparr>db_change_events := t\<rparr>)
       (sql_insert (change_event_check e) (\<lambda>_ _. False) (\<lambda>_. True) (\<lambda>n x. x\<lparr>ce_ID := n\<rparr>)
          (x\<lparr>ce_DetectedAt := env_col e (ce_DetectedAt x)\<rparr>))))
       (\<lambda>_. ok ())"

section \<open>Suppression rules and SLA policies\<close>

definition suppression_check :: "suppression_rule \<Rightarrow> sql_error option" where
  "suppression_check x = row_check
     (too_long [(sr_TenantID x, 64), (sr_OrgID x, 64), (sr_Name x, 255), (sr_RiskType x, 64), (sr_RuleID x, 128),
        (sr_Reason x, 1024), (sr_CreatedBy x, 64), (sr_UpdatedBy x, 64)]) True"

definition suppression_row :: "env \<Rightarrow> suppression_input \<Rightarrow> suppression_rule" where
  "suppression_row e i =
     \<lparr>sr_ID = 0, sr_TenantID = si_TenantID i, sr_OrgID = si_OrgID i, sr_ProjectID = si_ProjectID i, sr_Name = si_Name i,
       sr_RiskType = si_RiskType i, sr_RuleID = si_RuleID i, sr_AssetID = si_AssetID i, sr_Reason = si_Reason i,
       sr_ExpiresAt = db_time e (si_ExpiresAt i), sr_Enabled = si_Enabled i, sr_CreatedAt = env_db_now e,
       sr_UpdatedAt = env_db_now e, sr_CreatedBy = si_ActorID i, sr_UpdatedBy = si_ActorID i\<rparr>"

definition repo_CreateSuppressionRule :: "env \<Rightarrow> suppression_input \<Rightarrow> nat risk_op" where
  "repo_CreateSuppressionRule e i d =
     mapErr ErrSql (zoom db_suppressions (\<lambda>t d. d\<lparr>db_suppressions := t\<rparr>)
       (sql_insert suppression_check (\<lambda>_ _. False) (\<lambda>x. List.member (db_projects d) (sr_ProjectID x))
          (\<lambda>n x. x\<lparr>sr_ID := n\<rparr>) (suppression_row e i))) d"

definition repo_GetSuppressionRuleByID :: "nat \<Rightarrow> nat \<Rightarrow> suppression_rule risk_op" where
  "repo_GetSuppressionRuleByID projectID i =
     asks (\<lambda>d. found (sql_one (\<lambda>x. sr_ID x = i \<and> sr_ProjectID x = projectID) (db_suppressions d)))"

definition suppression_active :: "time \<Rightarrow> suppression_rule \<Rightarrow> bool" where
  "suppression_active now x \<longleftrightarrow> sr_Enabled x \<and> (sr_ExpiresAt x = epoch \<or> now < sr_ExpiresAt x)"

definition repo_ListActiveSuppressionRules :: "nat \<Rightarrow> time \<Rightarrow> suppression_rule list risk_op" where
  "repo_ListActiveSuppressionRules projectID now =
     gets (\<lambda>d. sql_many (\<lambda>x. sr_ProjectID x = projectID \<and> suppression_active now x) (db_suppressions d))"

definition repo_ListSuppressionRules :: "nat \<Rightarrow> int \<Rightarrow> int \<Rightarrow> suppression_rule list risk_op" where
  "repo_ListSuppressionRules projectID limit offset =
     gets (\<lambda>d. page limit offset (rev (sql_many (\<lambda>x. sr_ProjectID x = projectID) (db_suppressions d))))"

definition repo_CountSuppressionRules :: "nat \<Rightarrow> int risk_op" where
  "repo_CountSuppressionRules projectID = gets (\<lambda>d. sql_count (\<lambda>x. sr_ProjectID x = projectID) (db_suppressions d))"

definition repo_SetSuppressionRuleEnabled :: "env \<Rightarrow> nat \<Rightarrow> nat \<Rightarrow> bool \<Rightarrow> string \<Rightarrow> unit risk_op" where
  "repo_SetSuppressionRuleEnabled e projectID i enabled actorID =
     rowsAffectedErr (zoom db_suppressions (\<lambda>t d. d\<lparr>db_suppressions := t\<rparr>)
       (sql_update suppression_check (\<lambda>x. sr_ID x = i \<and> sr_ProjectID x = projectID)
          (\<lambda>x. x\<lparr>sr_Enabled := enabled, sr_UpdatedBy := actorID\<rparr>) (\<lambda>x. x\<lparr>sr_UpdatedAt := env_db_now e\<rparr>)))"

definition sla_check :: "env \<Rightarrow> sla_policy \<Rightarrow> sql_error option" where
  "sla_check e x = row_check
     (too_long [(sp_TenantID x, 64), (sp_OrgID x, 64), (sp_Severity x, 32), (sp_BusinessUnit x, 128), (sp_CreatedBy x, 64), (sp_UpdatedBy x, 64)])
     (sql_in e (sp_Severity x) severities \<and> 0 < sp_ResolutionHours x)"

definition sla_row :: "env \<Rightarrow> sla_input \<Rightarrow> sla_policy" where
  "sla_row e i =
     \<lparr>sp_ID = 0, sp_TenantID = li_TenantID i, sp_OrgID = li_OrgID i, sp_ProjectID = li_ProjectID i,
       sp_Severity = li_Severity i, sp_BusinessUnit = li_BusinessUnit i, sp_ResponseHours = li_ResponseHours i,
       sp_ResolutionHours = li_ResolutionHours i, sp_Enabled = li_Enabled i, sp_CreatedAt = env_db_now e,
       sp_UpdatedAt = env_db_now e, sp_CreatedBy = li_ActorID i, sp_UpdatedBy = li_ActorID i\<rparr>"

definition sla_same_key :: "env \<Rightarrow> sla_policy \<Rightarrow> sla_policy \<Rightarrow> bool" where
  "sla_same_key e x y \<longleftrightarrow> sp_ProjectID x = sp_ProjectID y \<and> sql_eq e (sp_Severity x) (sp_Severity y) \<and>
     sql_eq e (sp_BusinessUnit x) (sp_BusinessUnit y)"

text \<open>\<open>INSERT ... ON DUPLICATE KEY UPDATE\<close>: the row count is not looked at.\<close>

definition repo_UpsertSLAPolicy :: "env \<Rightarrow> sla_input \<Rightarrow> unit risk_op" where
  "repo_UpsertSLAPolicy e i d =
     bindM (mapErr ErrSql (zoom db_slas (\<lambda>t d. d\<lparr>db_slas := t\<rparr>)
       (\<lambda>t. let row = sla_row e i in
            if sla_check e row = None \<and> list_ex (sla_same_key e row) (t_rows t)
            then sql_update (sla_check e) (sla_same_key e row)
                   (\<lambda>x. x\<lparr>sp_ResponseHours := sp_ResponseHours row, sp_ResolutionHours := sp_ResolutionHours row,
                          sp_Enabled := sp_Enabled row, sp_UpdatedBy := sp_UpdatedBy row\<rparr>)
                   (\<lambda>x. x\<lparr>sp_UpdatedAt := env_db_now e\<rparr>) t
            else sql_insert (sla_check e) (sla_same_key e) (\<lambda>x. List.member (db_projects d) (sp_ProjectID x))
                   (\<lambda>n x. x\<lparr>sp_ID := n\<rparr>) row t)))
       (\<lambda>_. ok ()) d"

definition repo_GetSLAPolicy :: "env \<Rightarrow> nat \<Rightarrow> string \<Rightarrow> string \<Rightarrow> sla_policy risk_op" where
  "repo_GetSLAPolicy e projectID severity businessUnit =
     asks (\<lambda>d. found (sql_one (\<lambda>x. sp_ProjectID x = projectID \<and> sql_eq e (sp_Severity x) severity \<and>
       sql_eq e (sp_BusinessUnit x) businessUnit \<and> sp_Enabled x) (db_slas d)))"

definition repo_ListSLAPolicies :: "env \<Rightarrow> nat \<Rightarrow> sla_policy list risk_op" where
  "repo_ListSLAPolicies e projectID =
     gets (\<lambda>d. sort_key (\<lambda>x. env_key e (sp_Severity x)) (sort_key (\<lambda>x. env_key e (sp_BusinessUnit x))
       (sql_many (\<lambda>x. sp_ProjectID x = projectID) (db_slas d))))"

text \<open>\<open>audit.Service.Record\<close> on the audit table of the same database.\<close>

definition record_audit :: "env \<Rightarrow> event \<Rightarrow> unit risk_op" where
  "record_audit e v = mapErr ErrSql (zoom db_audit (\<lambda>t d. d\<lparr>db_audit := t\<rparr>) (audit_Record e v))"

end
