(* ===== verification/RiskService.thy ===== *)
theory RiskService
  imports RiskStore
begin

text \<open>
  The operations of \<open>risk.Service\<close> (\<open>internal/risk/service.go\<close>), composed from the repository
  methods the way the Go code composes them. The record \<open>risk_service\<close> is the Go struct: whether a
  \<open>*sql.DB\<close> is set (then every multi-statement write runs in a transaction and audits inside it),
  whether an audit sink is set (used without a database only), and the score model. \<open>rs_env\<close> is the
  environment of the call: \<open>s.now()\<close> returns \<open>env_now\<close> throughout one call.
\<close>

record risk_service =
  rs_env :: env
  rs_db :: bool
  rs_sink :: bool
  rs_model :: score_model

definition runInTx :: "risk_service \<Rightarrow> 'a risk_op \<Rightarrow> 'a risk_op" where
  "runInTx s m = (if rs_db s then inTx risk_rollback m else m)"

abbreviation svc_now :: "risk_service \<Rightarrow> time" where
  "svc_now s \<equiv> env_now (rs_env s)"

section \<open>Definitions, rules, suppression rules and SLA policies\<close>

definition CreateDefinition :: "risk_service \<Rightarrow> definition_input \<Rightarrow> vuln_definition risk_op" where
  "CreateDefinition s i0 =
     bindM (failIf (di_ProjectID i0 = 0) ErrInvalidProjectID) (\<lambda>_.
     let i1 = i0\<lparr>di_RuleID := TrimSpace (di_RuleID i0)\<rparr> in
     bindM (failIf (di_RuleID i1 = [] \<or> length (di_RuleID i1) > 128) ErrInvalidRuleID) (\<lambda>_.
     bindM (failIf (bad_actor (di_ActorID i1)) ErrInvalidActorID) (\<lambda>_.
     let i2 = i1\<lparr>di_Severity := defaultString (TrimSpace (di_Severity i1)) SeverityMedium\<rparr> in
     bindM (failIf (\<not> validSeverity (di_Severity i2)) ErrInvalidSeverity) (\<lambda>_.
     bindM (liftM (checkDefinitionLengths i2)) (\<lambda>_.
     bindM (repo_CreateDefinition (rs_env s) i2) (\<lambda>n.
     repo_GetDefinitionByID (di_ProjectID i2) n))))))"

definition CreateRule :: "risk_service \<Rightarrow> rule_input \<Rightarrow> risk_rule risk_op" where
  "CreateRule s i0 =
     bindM (failIf (ri_ProjectID i0 = 0) ErrInvalidProjectID) (\<lambda>_.
     let i1 = i0\<lparr>ri_RuleID := TrimSpace (ri_RuleID i0)\<rparr> in
     bindM (failIf (ri_RuleID i1 = [] \<or> length (ri_RuleID i1) > 128) ErrInvalidRuleID) (\<lambda>_.
     bindM (failIf (bad_actor (ri_ActorID i1)) ErrInvalidActorID) (\<lambda>_.
     let i2 = i1\<lparr>ri_MatchType := TrimSpace (ToLower (ri_MatchType i1))\<rparr> in
     bindM (failIf (\<not> validMatchType (ri_MatchType i2)) ErrInvalidMatchType) (\<lambda>_.
     let i3 = i2\<lparr>ri_MatchValue := TrimSpace (ri_MatchValue i2)\<rparr> in
     bindM (failIf (ri_MatchValue i3 = [] \<or> length (ri_MatchValue i3) > 255) ErrInvalidMatchValue) (\<lambda>_.
     bindM (if ri_MatchType i3 = RuleMatchPort then
              (case parseRulePort (ri_MatchValue i3) of
                 None \<Rightarrow> fail ErrInvalidMatchValue
               | Some port \<Rightarrow>
                   if port = 0 then fail ErrInvalidMatchValue
                   else ok (i3\<lparr>ri_MatchValue := FormatUint (unat port)\<rparr>))
            else ok i3) (\<lambda>i4.
     let i5 = i4\<lparr>ri_Severity := defaultString (TrimSpace (ri_Severity i4)) SeverityHigh\<rparr> in
     bindM (failIf (\<not> validSeverity (ri_Severity i5)) ErrInvalidSeverity) (\<lambda>_.
     let i6 = i5\<lparr>ri_RiskType := defaultString (TrimSpace (ri_RiskType i5)) (defaultRiskTypeForMatch (ri_MatchType i5))\<rparr> in
     bindM (failIf (\<not> validRuleRiskType (ri_RiskType i6)) ErrInvalidRiskType) (\<lambda>_.
     let i7 = i6\<lparr>ri_Enabled := True\<rparr> in
     bindM (liftM (checkRuleLengths i7)) (\<lambda>_.
     bindM (repo_CreateRule (rs_env s) i7) (\<lambda>n.
     repo_GetRuleByID (ri_ProjectID i7) n))))))))))"

definition SetRuleEnabled :: "risk_service \<Rightarrow> nat \<Rightarrow> nat \<Rightarrow> bool \<Rightarrow> string \<Rightarrow> unit risk_op" where
  "SetRuleEnabled s projectID i enabled actorID =
     bindM (failIf (projectID = 0) ErrInvalidProjectID) (\<lambda>_.
     bindM (failIf (i = 0) ErrInvalidRuleID) (\<lambda>_.
     bindM (failIf (bad_actor actorID) ErrInvalidActorID) (\<lambda>_.
     repo_SetRuleEnabled (rs_env s) projectID i enabled actorID)))"

definition CreateSuppressionRule :: "risk_service \<Rightarrow> suppression_input \<Rightarrow> suppression_rule risk_op" where
  "CreateSuppressionRule s i0 =
     bindM (failIf (si_ProjectID i0 = 0) ErrInvalidProjectID) (\<lambda>_.
     bindM (failIf (bad_actor (si_ActorID i0)) ErrInvalidActorID) (\<lambda>_.
     let i1 = i0\<lparr>si_Name := TrimSpace (si_Name i0)\<rparr> in
     bindM (failIf (si_Name i1 = [] \<or> length (si_Name i1) > 255) ErrFieldTooLong) (\<lambda>_.
     let i2 = i1\<lparr>si_RiskType := TrimSpace (si_RiskType i1)\<rparr> in
     bindM (failIf (si_RiskType i2 \<noteq> [] \<and> \<not> validRiskType (si_RiskType i2)) ErrInvalidRiskType) (\<lambda>_.
     let i3 = i2\<lparr>si_RuleID := TrimSpace (si_RuleID i2), si_Reason := TrimSpace (si_Reason i2)\<rparr> in
     bindM (failIf (si_Reason i3 = []) ErrReasonRequired) (\<lambda>_.
     bindM (failIf (length (si_RuleID i3) > 128 \<or> length (si_Reason i3) > 1024) ErrFieldTooLong) (\<lambda>_.
     let i4 = i3\<lparr>si_Enabled := True\<rparr> in
     bindM (repo_CreateSuppressionRule (rs_env s) i4) (\<lambda>n.
     repo_GetSuppressionRuleByID (si_ProjectID i4) n)))))))"

definition ListSuppressionRules :: "nat \<Rightarrow> int \<Rightarrow> int \<Rightarrow> (suppression_rule list \<times> int) risk_op" where
  "ListSuppressionRules projectID limit offset =
     bindM (failIf (projectID = 0) ErrInvalidProjectID) (\<lambda>_.
     bindM (repo_ListSuppressionRules projectID (clampLimit limit) (if offset < 0 then 0 else offset)) (\<lambda>items.
     bindM (repo_CountSuppressionRules projectID) (\<lambda>total.
     ok (items, total))))"

definition SetSuppressionRuleEnabled :: "risk_service \<Rightarrow> nat \<Rightarrow> nat \<Rightarrow> bool \<Rightarrow> string \<Rightarrow> unit risk_op" where
  "SetSuppressionRuleEnabled s projectID i enabled actorID =
     bindM (failIf (projectID = 0) ErrInvalidProjectID) (\<lambda>_.
     bindM (failIf (i = 0) ErrInvalidRuleID) (\<lambda>_.
     bindM (failIf (bad_actor actorID) ErrInvalidActorID) (\<lambda>_.
     repo_SetSuppressionRuleEnabled (rs_env s) projectID i enabled actorID)))"

definition ListEnabledRules :: "nat \<Rightarrow> risk_rule list risk_op" where
  "ListEnabledRules projectID =
     bindM (failIf (projectID = 0) ErrInvalidProjectID) (\<lambda>_. repo_ListEnabledRules projectID)"

definition UpsertSLAPolicy :: "risk_service \<Rightarrow> sla_input \<Rightarrow> unit risk_op" where
  "UpsertSLAPolicy s i0 =
     bindM (failIf (li_ProjectID i0 = 0) ErrInvalidProjectID) (\<lambda>_.
     let i1 = i0\<lparr>li_Severity := TrimSpace (li_Severity i0)\<rparr> in
     bindM (failIf (\<not> validSeverity (li_Severity i1)) ErrInvalidSeverity) (\<lambda>_.
     let i2 = i1\<lparr>li_BusinessUnit := TrimSpace (li_BusinessUnit i1)\<rparr> in
     bindM (failIf (li_ResolutionHours i2 = 0) ErrInvalidSLAHours) (\<lambda>_.
     bindM (failIf (bad_actor (li_ActorID i2)) ErrInvalidActorID) (\<lambda>_.
     bindM (failIf (length (li_TenantID i2) > 64 \<or> length (li_OrgID i2) > 64 \<or> length (li_BusinessUnit i2) > 128)
              ErrFieldTooLong) (\<lambda>_.
     repo_UpsertSLAPolicy (rs_env s) (i2\<lparr>li_Enabled := True\<rparr>))))))"

definition ListSLAPolicies :: "risk_service \<Rightarrow> nat \<Rightarrow> sla_policy list risk_op" where
  "ListSLAPolicies s projectID =
     bindM (failIf (projectID = 0) ErrInvalidProjectID) (\<lambda>_. repo_ListSLAPolicies (rs_env s) projectID)"

definition findSLAPolicy :: "risk_service \<Rightarrow> nat \<Rightarrow> string \<Rightarrow> string \<Rightarrow> sla_policy risk_op" where
  "findSLAPolicy s projectID severity0 businessUnit0 =
     (let severity = TrimSpace severity0; businessUnit = TrimSpace businessUnit0 in
      bindM (failIf (\<not> validSeverity severity) ErrInvalidSeverity) (\<lambda>_.
      if businessUnit \<noteq> [] then
        bindM (tryM (repo_GetSLAPolicy (rs_env s) projectID severity businessUnit)) (\<lambda>r.
        case r of
          Inr policy \<Rightarrow> ok policy
        | Inl err \<Rightarrow> if err \<noteq> ErrNotFound then fail err else repo_GetSLAPolicy (rs_env s) projectID severity [])
      else repo_GetSLAPolicy (rs_env s) projectID severity []))"

text \<open>\<^verbatim>\<open>from.UTC().Add(time.Duration(policy.ResolutionHours) * time.Hour)\<close>\<close>

definition add_hours :: "time \<Rightarrow> u32 \<Rightarrow> time" where
  "add_hours from hours = from + int64 (int (unat hours) * hour)"

definition ResolveDueAt :: "risk_service \<Rightarrow> nat \<Rightarrow> string \<Rightarrow> string \<Rightarrow> time \<Rightarrow> time risk_op" where
  "ResolveDueAt s projectID severity businessUnit from =
     bindM (failIf (projectID = 0) ErrInvalidProjectID) (\<lambda>_.
     bindM (findSLAPolicy s projectID severity businessUnit) (\<lambda>policy.
     ok (add_hours from (sp_ResolutionHours policy))))"

definition RecalculateSLADueAt :: "risk_service \<Rightarrow> nat \<Rightarrow> int \<Rightarrow> string \<Rightarrow> risk list risk_op" where
  "RecalculateSLADueAt s projectID limit actorID =
     bindM (failIf (projectID = 0) ErrInvalidProjectID) (\<lambda>_.
     bindM (failIf (bad_actor actorID) ErrInvalidActorID) (\<lambda>_.
     bindM (repo_ListOpenRisksForSLARecalc (rs_env s) projectID (clampLimit limit)) (\<lambda>rows.
     forM (\<lambda>r.
       bindM (ResolveDueAt s projectID (r_Severity r) (r_BusinessUnit r)
                (if r_FirstSeen r = zero_time then svc_now s else r_FirstSeen r)) (\<lambda>dueAt.
       bindM (repo_UpdateRiskStatus (rs_env s)
                \<lparr>su_ProjectID = projectID, su_RiskID = r_ID r, su_OldStatus = r_Status r, su_NewStatus = r_Status r,
                  su_Owner = r_Owner r, su_SLADueAt = dueAt, su_ConfirmedAt = r_ConfirmedAt r, su_FixedAt = r_FixedAt r,
                  su_ActorID = actorID\<rparr>) (\<lambda>_.
       repo_GetRiskByID projectID (r_ID r)))) rows)))"

definition CountOverdue :: "risk_service \<Rightarrow> nat \<Rightarrow> time \<Rightarrow> int risk_op" where
  "CountOverdue s projectID now =
     bindM (failIf (projectID = 0) ErrInvalidProjectID) (\<lambda>_.
     repo_CountOverdueRisks (rs_env s) projectID (if now = zero_time then svc_now s else now))"

section \<open>Creating and refreshing risks\<close>

definition applySuppression :: "upsert_params \<Rightarrow> time \<Rightarrow> upsert_params risk_op" where
  "applySuppression p observed =
     bindM (repo_ListActiveSuppressionRules (up_ProjectID p) observed) (\<lambda>rules.
     let p0 = p\<lparr>up_Suppressed := False, up_SuppressionRuleID := 0, up_SuppressedUntil := zero_time\<rparr> in
     case List.find (\<lambda>rule. suppressionMatches rule p0) rules of
       None \<Rightarrow> ok p0
     | Some rule \<Rightarrow> ok (p0\<lparr>up_Suppressed := True, up_SuppressionRuleID := sr_ID rule, up_SuppressedUntil := sr_ExpiresAt rule\<rparr>))"

definition create_branch :: "env \<Rightarrow> upsert_params \<Rightarrow> string \<Rightarrow> time \<Rightarrow> (risk \<times> string) risk_op" where
  "create_branch e p eventSource observed =
     bindM (repo_CreateRisk e p) (\<lambda>n.
     bindM (repo_GetRiskByID (up_ProjectID p) n) (\<lambda>created.
     bindM (repo_InsertScoreHistory e (scoreHistoryParams created (scoreFromRisk created) ''create'' (up_ActorID p))) (\<lambda>_.
     bindM (repo_InsertChangeEvent e (riskChangeEvent eventSource None created ChangeTypeNew observed)) (\<lambda>_.
     ok (created, ChangeTypeNew)))))"

definition reopen_branch :: "env \<Rightarrow> upsert_params \<Rightarrow> risk \<Rightarrow> string \<Rightarrow> time \<Rightarrow> (risk \<times> string) risk_op" where
  "reopen_branch e p existing eventSource observed =
     bindM (repo_ReopenRisk e p) (\<lambda>_.
     bindM (repo_GetRiskByID (up_ProjectID p) (r_ID existing)) (\<lambda>after.
     bindM (repo_InsertScoreHistory e (scoreHistoryParams after (scoreFromRisk after) ''reopen'' (up_ActorID p))) (\<lambda>_.
     bindM (repo_InsertChangeEvent e (riskChangeEvent eventSource (Some existing) after ChangeTypeReopened observed)) (\<lambda>_.
     ok (after, ChangeTypeReopened)))))"

definition refresh_branch :: "env \<Rightarrow> upsert_params \<Rightarrow> risk \<Rightarrow> (risk \<times> string) risk_op" where
  "refresh_branch e p existing =
     bindM (repo_RefreshRisk e p) (\<lambda>_.
     bindM (repo_GetRiskByID (up_ProjectID p) (r_ID existing)) (\<lambda>after.
     bindM (repo_InsertScoreHistory e (scoreHistoryParams after (scoreFromRisk after) ''refresh'' (up_ActorID p))) (\<lambda>_.
     ok (after, []))))"

definition upsertRisk :: "env \<Rightarrow> upsert_params \<Rightarrow> string \<Rightarrow> time \<Rightarrow> (risk \<times> string) risk_op" where
  "upsertRisk e p0 eventSource observed =
     bindM (applySuppression p0 observed) (\<lambda>p.
     bindM (tryM (repo_GetRiskByKey e (up_ProjectID p) (up_RiskKey p))) (\<lambda>r.
     case r of
       Inl err \<Rightarrow> if err \<noteq> ErrNotFound then fail err else create_branch e p eventSource observed
     | Inr existing \<Rightarrow>
         let p1 = p\<lparr>up_ID := r_ID existing\<rparr> in
         if r_Status existing = StatusFixed then reopen_branch e p1 existing eventSource observed
         else refresh_branch e p1 existing))"

definition applyMatch :: "risk_service \<Rightarrow> vuln_definition \<Rightarrow> match_input \<Rightarrow> string \<Rightarrow> (risk \<times> string) risk_op" where
  "applyMatch s d m0 actorID =
     (let m = (if mi_ProjectID m0 = 0 then m0\<lparr>mi_ProjectID := vd_ProjectID d\<rparr> else m0) in
      bindM (failIf (mi_ProjectID m \<noteq> vd_ProjectID d) ErrInvalidProjectID) (\<lambda>_.
      bindM (failIf (mi_AssetID m = 0) ErrInvalidAssetID) (\<lambda>_.
      bindM (failIf (\<not> cpeMatches (vd_CPEPattern d) (mi_CPE m)) ErrCPENotMatched) (\<lambda>_.
      let observed = (if mi_ObservedAt m = zero_time then svc_now s else mi_ObservedAt m);
          p = applyScore (rs_env s) (rs_model s) (buildRiskParams d m actorID observed) observed
      in upsertRisk (rs_env s) p (up_Source p) observed))))"

text \<open>The counters of \<open>ApplyDefinitionResult\<close>, from the outcome of each upsert.\<close>

fun tally :: "(risk \<times> string) list \<Rightarrow> apply_result" where
  "tally [] = \<lparr>ar_Risks = [], ar_Created = 0, ar_Updated = 0, ar_Reopened = 0\<rparr>"
| "tally ((r, outcome) # rest) =
     (let t = tally rest; t' = t\<lparr>ar_Risks := r # ar_Risks t\<rparr> in
      if outcome = ChangeTypeNew then t'\<lparr>ar_Created := ar_Created t + 1\<rparr>
      else if outcome = ChangeTypeReopened then t'\<lparr>ar_Reopened := ar_Reopened t + 1\<rparr>
      else t'\<lparr>ar_Updated := ar_Updated t + 1\<rparr>)"

definition ApplyDefinitionMatches :: "risk_service \<Rightarrow> nat \<Rightarrow> nat \<Rightarrow> match_input list \<Rightarrow> string \<Rightarrow> apply_result risk_op" where
  "ApplyDefinitionMatches s projectID definitionID matches actorID =
     bindM (failIf (projectID = 0 \<or> definitionID = 0) ErrInvalidProjectID) (\<lambda>_.
     bindM (failIf (bad_actor actorID) ErrInvalidActorID) (\<lambda>_.
     bindM (repo_GetDefinitionByID projectID definitionID) (\<lambda>d.
     bindM (failIf (\<not> vd_Enabled d) ErrDefinitionDisabled) (\<lambda>_.
     bindM (runInTx s (forM (\<lambda>m. applyMatch s d m actorID) matches)) (\<lambda>outcomes.
     ok (tally outcomes))))))"

definition applyTarget :: "risk_service \<Rightarrow> nat \<Rightarrow> risk_rule list \<Rightarrow> string \<Rightarrow> rule_target \<Rightarrow> (risk \<times> string) list risk_op" where
  "applyTarget s projectID rules actorID target0 =
     (let target = (if rt_ProjectID target0 = 0 then target0\<lparr>rt_ProjectID := projectID\<rparr> else target0) in
      bindM (failIf (rt_ProjectID target \<noteq> projectID) ErrInvalidProjectID) (\<lambda>_.
      bindM (failIf (rt_AssetID target = 0) ErrInvalidAssetID) (\<lambda>_.
      forM (\<lambda>rule.
        let p0 = buildRuleRiskParams rule target actorID (observedAtOrNow (svc_now s) (rt_ObservedAt target));
            p = applyScore (rs_env s) (rs_model s) p0 (up_ObservedAt p0)
        in upsertRisk (rs_env s) p (up_Source p) (up_ObservedAt p))
        (filter (\<lambda>rule. ruleMatchesTarget rule target) rules))))"

definition ApplyRules :: "risk_service \<Rightarrow> nat \<Rightarrow> rule_target list \<Rightarrow> string \<Rightarrow> apply_result risk_op" where
  "ApplyRules s projectID targets actorID =
     bindM (failIf (projectID = 0) ErrInvalidProjectID) (\<lambda>_.
     bindM (failIf (bad_actor actorID) ErrInvalidActorID) (\<lambda>_.
     bindM (repo_ListEnabledRules projectID) (\<lambda>rules.
     bindM (runInTx s (forM (applyTarget s projectID rules actorID) targets)) (\<lambda>outcomes.
     ok (tally (concat outcomes))))))"

definition ReportCertificateFinding :: "risk_service \<Rightarrow> certificate_finding \<Rightarrow> (nat \<times> string) risk_op" where
  "ReportCertificateFinding s f =
     bindM (failIf (cf_ProjectID f = 0) ErrInvalidProjectID) (\<lambda>_.
     bindM (failIf (cf_AssetID f = 0) ErrInvalidAssetID) (\<lambda>_.
     let actorID = defaultString (cf_ActorID f) ''engine'' in
     bindM (failIf (length actorID > 64) ErrInvalidActorID) (\<lambda>_.
     let observed = observedAtOrNow (svc_now s) (cf_ObservedAt f);
         p = applyScore (rs_env s) (rs_model s) (certificateRiskParams f actorID observed) observed
     in bindM (runInTx s (upsertRisk (rs_env s) p (up_Source p) observed)) (\<lambda>(r, outcome).
        ok (r_ID r, outcome)))))"

section \<open>Reading\<close>

definition GetByID :: "nat \<Rightarrow> nat \<Rightarrow> risk risk_op" where
  "GetByID projectID i = bindM (failIf (projectID = 0) ErrInvalidProjectID) (\<lambda>_. repo_GetRiskByID projectID i)"

definition ListRisks :: "nat \<Rightarrow> int \<Rightarrow> int \<Rightarrow> risk list risk_op" where
  "ListRisks projectID limit offset =
     bindM (failIf (projectID = 0) ErrInvalidProjectID) (\<lambda>_.
     repo_ListRisks projectID (clampLimit limit) (if offset < 0 then 0 else offset))"

definition ListFiltered :: "risk_service \<Rightarrow> list_filter \<Rightarrow> (risk list \<times> int) risk_op" where
  "ListFiltered s f0 =
     bindM (failIf (lf_ProjectID f0 = 0) ErrInvalidProjectID) (\<lambda>_.
     let f1 = f0\<lparr>lf_Severity := TrimSpace (lf_Severity f0)\<rparr> in
     bindM (failIf (lf_Severity f1 \<noteq> [] \<and> \<not> validSeverity (lf_Severity f1)) ErrInvalidSeverity) (\<lambda>_.
     let f2 = f1\<lparr>lf_Status := TrimSpace (lf_Status f1)\<rparr> in
     bindM (failIf (lf_Status f2 \<noteq> [] \<and> \<not> validRiskStatus (lf_Status f2)) ErrInvalidStatusAction) (\<lambda>_.
     let f3 = f2\<lparr>lf_Owner := TrimSpace (lf_Owner f2), lf_Keyword := TrimSpace (lf_Keyword f2)\<rparr> in
     bindM (failIf (length (lf_Owner f3) > 64 \<or> length (lf_Keyword f3) > 128) ErrFieldTooLong) (\<lambda>_.
     let f4 = f3\<lparr>lf_Limit := clampLimit (lf_Limit f3), lf_Offset := (if lf_Offset f3 < 0 then 0 else lf_Offset f3)\<rparr> in
     bindM (repo_ListRisksFiltered (rs_env s) f4) (\<lambda>items.
     bindM (repo_CountRisksFiltered (rs_env s) f4) (\<lambda>total.
     ok (items, total)))))))"

definition CountRisks :: "nat \<Rightarrow> int risk_op" where
  "CountRisks projectID = bindM (failIf (projectID = 0) ErrInvalidProjectID) (\<lambda>_. repo_CountRisks projectID)"

definition ListScoreHistory :: "nat \<Rightarrow> nat \<Rightarrow> score_history list risk_op" where
  "ListScoreHistory projectID riskID =
     bindM (failIf (projectID = 0) ErrInvalidProjectID) (\<lambda>_.
     bindM (failIf (riskID = 0) ErrNotFound) (\<lambda>_. repo_ListScoreHistory projectID riskID))"

definition ListStatusHistory :: "nat \<Rightarrow> nat \<Rightarrow> status_history list risk_op" where
  "ListStatusHistory projectID riskID =
     bindM (failIf (projectID = 0) ErrInvalidProjectID) (\<lambda>_.
     bindM (failIf (riskID = 0) ErrNotFound) (\<lambda>_. repo_ListStatusHistory projectID riskID))"

definition ListRiskDecisions :: "nat \<Rightarrow> nat \<Rightarrow> risk_decision list risk_op" where
  "ListRiskDecisions projectID riskID =
     bindM (failIf (projectID = 0) ErrInvalidProjectID) (\<lambda>_.
     bindM (failIf (riskID = 0) ErrNotFound) (\<lambda>_. repo_ListRiskDecisions projectID riskID))"

section \<open>Scores, status transitions and expired decisions\<close>

text \<open>The parameters that \<open>RecalculateScores\<close> passes to \<open>scoreRisk\<close>: five fields of the risk.\<close>

definition rescore_params :: "risk \<Rightarrow> upsert_params" where
  "rescore_params r =
     \<lparr>up_ID = 0, up_TenantID = [], up_OrgID = [], up_ProjectID = r_ProjectID r, up_AssetID = 0,
       up_ExposureID = r_ExposureID r, up_VulnDefinitionID = 0, up_RiskKey = [], up_RiskType = r_RiskType r,
       up_Title = [], up_Severity = r_Severity r, up_Score = 0, up_ScoreLevel = [], up_ScoreModelVersion = [],
       up_ScoreFactors = JNull, up_ScoredAt = zero_time, up_RuleID = [], up_Source = [], up_EvidenceSummary = [],
       up_EvidenceRef = [], up_Status = [], up_Owner = [], up_BusinessUnit = r_BusinessUnit r, up_SLADueAt = zero_time,
       up_Suppressed = False, up_SuppressionRuleID = 0, up_SuppressedUntil = zero_time, up_ObservedAt = zero_time,
       up_ActorID = []\<rparr>"

definition RecalculateScores :: "risk_service \<Rightarrow> nat \<Rightarrow> nat list \<Rightarrow> string \<Rightarrow> string \<Rightarrow> risk list risk_op" where
  "RecalculateScores s projectID riskIDs actorID reason0 =
     bindM (failIf (projectID = 0) ErrInvalidProjectID) (\<lambda>_.
     bindM (failIf (bad_actor actorID) ErrInvalidActorID) (\<lambda>_.
     let reason = defaultString (TrimSpace reason0) ''recalculate'' in
     bindM (failIf (length reason > 255) ErrFieldTooLong) (\<lambda>_.
     runInTx s (forM (\<lambda>i.
       bindM (failIf (i = 0) ErrNotFound) (\<lambda>_.
       bindM (repo_GetRiskByID projectID i) (\<lambda>r.
       let sc = scoreRisk (rs_env s) (rs_model s) (rescore_params r) (svc_now s) in
       bindM (repo_UpdateRiskScore (rs_env s) (r_ProjectID r) (r_ID r) sc actorID) (\<lambda>_.
       bindM (repo_InsertScoreHistory (rs_env s) (scoreHistoryParams r sc reason actorID)) (\<lambda>_.
       repo_GetRiskByID projectID i))))) riskIDs))))"

text \<open>The due date of a transition: kept when it is set, else taken from the SLA policy.\<close>

definition with_due_date :: "risk_service \<Rightarrow> risk \<Rightarrow> string \<Rightarrow> status_update \<Rightarrow> status_update risk_op" where
  "with_due_date s before nxt u =
     (if isZeroTime (su_SLADueAt u) then
        bindM (tryM (ResolveDueAt s (r_ProjectID before) (r_Severity before) (r_BusinessUnit before) (svc_now s))) (\<lambda>r.
        case r of
          Inr dueAt \<Rightarrow> ok (u\<lparr>su_SLADueAt := dueAt\<rparr>)
        | Inl err \<Rightarrow>
            if nxt = StatusAssigned then (if err = ErrNotFound then fail ErrSLARequired else fail err)
            else ok u)
      else ok u)"

definition history_of :: "risk \<Rightarrow> transition_input \<Rightarrow> string \<Rightarrow> status_history" where
  "history_of before i nxt =
     \<lparr>hs_ID = 0, hs_TenantID = r_TenantID before, hs_OrgID = r_OrgID before, hs_ProjectID = r_ProjectID before,
       hs_RiskID = r_ID before, hs_Action = ti_Action i, hs_OldStatus = r_Status before, hs_NewStatus = nxt,
       hs_ActorID = ti_ActorID i, hs_Reason = ti_Reason i, hs_RequestID = am_RequestID (ti_Meta i), hs_CreatedAt = zero_time\<rparr>"

definition decision_of :: "risk \<Rightarrow> transition_input \<Rightarrow> string \<Rightarrow> risk_decision" where
  "decision_of before i nxt =
     \<lparr>rd_ID = 0, rd_TenantID = r_TenantID before, rd_OrgID = r_OrgID before, rd_ProjectID = r_ProjectID before,
       rd_RiskID = r_ID before, rd_Decision = nxt, rd_Reason = ti_Reason i, rd_ApprovedBy = ti_ApprovedBy i,
       rd_ExpiresAt = ti_ExpiresAt i, rd_ReviewRequiredAt = ti_ReviewRequiredAt i, rd_CreatedAt = zero_time,
       rd_CreatedBy = ti_ActorID i\<rparr>"

definition recordStatusAudit :: "risk_service \<Rightarrow> risk \<Rightarrow> risk \<Rightarrow> transition_input \<Rightarrow> unit risk_op" where
  "recordStatusAudit s before after i =
     (if rs_db s \<or> rs_sink s then record_audit (rs_env s) (status_audit_event before after i) else ok ())"

text \<open>The body of the transaction of \<open>TransitionStatus\<close>; \<open>i\<close> has its action and reason trimmed.\<close>

definition transition_body :: "risk_service \<Rightarrow> transition_input \<Rightarrow> risk risk_op" where
  "transition_body s i =
     bindM (repo_GetRiskByID (ti_ProjectID i) (ti_RiskID i)) (\<lambda>before.
     bindM (liftM (nextRiskStatus (ti_Action i) (r_Status before))) (\<lambda>nxt.
     bindM (liftM (validateTransitionInput i nxt)) (\<lambda>_.
     bindM (with_due_date s before nxt (buildStatusUpdate before i nxt (svc_now s))) (\<lambda>u.
     bindM (repo_UpdateRiskStatus (rs_env s) u) (\<lambda>_.
     bindM (repo_GetRiskByID (ti_ProjectID i) (ti_RiskID i)) (\<lambda>after.
     bindM (repo_InsertStatusHistory (rs_env s) (history_of before i nxt)) (\<lambda>_.
     bindM (if isDecisionStatus nxt then repo_InsertRiskDecision (rs_env s) (decision_of before i nxt) else ok ()) (\<lambda>_.
     bindM (recordStatusAudit s before after i) (\<lambda>_.
     ok after)))))))))"

definition trimmed_transition :: "transition_input \<Rightarrow> transition_input" where
  "trimmed_transition i = i\<lparr>ti_Action := TrimSpace (ti_Action i), ti_Reason := TrimSpace (ti_Reason i)\<rparr>"

definition TransitionStatus :: "risk_service \<Rightarrow> transition_input \<Rightarrow> risk risk_op" where
  "TransitionStatus s i0 =
     bindM (failIf (ti_ProjectID i0 = 0) ErrInvalidProjectID) (\<lambda>_.
     bindM (failIf (ti_RiskID i0 = 0) ErrNotFound) (\<lambda>_.
     bindM (failIf (bad_actor (ti_ActorID i0)) ErrInvalidActorID) (\<lambda>_.
     let i = trimmed_transition i0 in
     bindM (failIf (\<not> validStatusAction (ti_Action i)) ErrInvalidStatusAction) (\<lambda>_.
     bindM (failIf (length (ti_Reason i) > 1024 \<or> length (am_RequestID (ti_Meta i)) > 128) ErrFieldTooLong) (\<lambda>_.
     runInTx s (transition_body s i))))))"

definition reopen_input :: "nat \<Rightarrow> risk_decision \<Rightarrow> string \<Rightarrow> transition_input" where
  "reopen_input projectID d actorID =
     \<lparr>ti_ProjectID = projectID, ti_RiskID = rd_RiskID d, ti_Action = StatusActionReopen, ti_ActorID = actorID,
       ti_Reason = ''risk decision expired or requires review'', ti_ApprovedBy = [], ti_ExpiresAt = zero_time,
       ti_ReviewRequiredAt = zero_time, ti_Owner = [], ti_SLADueAt = zero_time,
       ti_Meta = \<lparr>am_IP = [], am_UserAgent = [], am_RequestID = []\<rparr>\<rparr>"

definition ReopenExpiredDecisions :: "risk_service \<Rightarrow> nat \<Rightarrow> int \<Rightarrow> string \<Rightarrow> apply_result risk_op" where
  "ReopenExpiredDecisions s projectID limit actorID =
     bindM (failIf (projectID = 0) ErrInvalidProjectID) (\<lambda>_.
     bindM (failIf (bad_actor actorID) ErrInvalidActorID) (\<lambda>_.
     bindM (repo_ListExpiredRiskDecisions (rs_env s) projectID (svc_now s) (clampLimit limit)) (\<lambda>decisions.
     bindM (forM (\<lambda>d.
       bindM (tryM (TransitionStatus s (reopen_input projectID d actorID))) (\<lambda>r.
       case r of
         Inr after \<Rightarrow> ok [(after, ChangeTypeReopened)]
       | Inl err \<Rightarrow> if err = ErrInvalidStatusTransition then ok [] else fail err)) decisions) (\<lambda>outcomes.
     ok (tally (concat outcomes))))))"

end
