(* ===== verification/TicketModel.thy ===== *)
theory TicketModel
  imports RiskService
begin

text \<open>
  The package \<open>internal/ticket\<close>: structs (\<open>model.go\<close>), the repository (\<open>repository.go\<close> with
  \<open>query/ticket.sql\<close> and \<open>schema/0016_ticket.sql\<close>) and the service (\<open>service.go\<close>). The risk service is
  an interface value in Go, \<open>riskService\<close>; here it is the record \<open>risk_api\<close> of its three methods, and
  the service holds it or \<open>nil\<close>.

  The state \<open>world\<close> joins the two ticket tables and the risk database. The transaction of the ticket
  service covers its own tables and its audit row only: the risk service is called with its own
  connection, so what it commits stays when the ticket transaction rolls back. The audit row of the
  ticket service is the last statement of both transactions, so a rollback never has one to undo.
\<close>

section \<open>Constants and structs\<close>

abbreviation TStatusOpen :: string where "TStatusOpen \<equiv> ''open''"
abbreviation TStatusAssigned :: string where "TStatusAssigned \<equiv> ''assigned''"
abbreviation TStatusInProgress :: string where "TStatusInProgress \<equiv> ''in_progress''"
abbreviation TStatusPendingRetest :: string where "TStatusPendingRetest \<equiv> ''pending_retest''"
abbreviation TStatusResolved :: string where "TStatusResolved \<equiv> ''resolved''"
abbreviation TStatusClosed :: string where "TStatusClosed \<equiv> ''closed''"
abbreviation TStatusRejected :: string where "TStatusRejected \<equiv> ''rejected''"
abbreviation TStatusExtended :: string where "TStatusExtended \<equiv> ''extended''"
abbreviation TStatusCancelled :: string where "TStatusCancelled \<equiv> ''cancelled''"

abbreviation PriorityMedium :: string where "PriorityMedium \<equiv> ''medium''"

abbreviation ActionAssign :: string where "ActionAssign \<equiv> ''assign''"
abbreviation ActionStart :: string where "ActionStart \<equiv> ''start''"
abbreviation ActionSubmitRetest :: string where "ActionSubmitRetest \<equiv> ''submit_retest''"
abbreviation ActionRetestPass :: string where "ActionRetestPass \<equiv> ''retest_pass''"
abbreviation ActionClose :: string where "ActionClose \<equiv> ''close''"
abbreviation ActionRetestReject :: string where "ActionRetestReject \<equiv> ''retest_reject''"
abbreviation ActionAcceptRisk :: string where "ActionAcceptRisk \<equiv> ''accept_risk''"
abbreviation ActionFalsePositive :: string where "ActionFalsePositive \<equiv> ''false_positive''"
abbreviation ActionExtend :: string where "ActionExtend \<equiv> ''extend''"
abbreviation ActionCancel :: string where "ActionCancel \<equiv> ''cancel''"

datatype ticket_error =
    TErrInvalidProjectID | TErrInvalidTicketID | TErrInvalidRiskID | TErrInvalidActorID | TErrInvalidTitle
  | TErrInvalidAssignee | TErrInvalidPriority | TErrInvalidAction | TErrInvalidTransition | TErrResolutionRequired
  | TErrRetestResultRequired | TErrDueAtRequired | TErrReasonRequired | TErrApprovedByRequired
  | TErrReviewWindowRequired | TErrFieldTooLong | TErrNotFound | TErrRisk risk_error | TErrSql sql_error

record ticket =
  tk_ID :: nat
  tk_TenantID :: string
  tk_OrgID :: string
  tk_ProjectID :: nat
  tk_Title :: string
  tk_Description :: string
  tk_Assignee :: string
  tk_BusinessUnit :: string
  tk_Status :: string
  tk_Priority :: string
  tk_DueAt :: time
  tk_Resolution :: string
  tk_RetestResult :: string
  tk_ExternalTicketID :: string
  tk_ClosedAt :: time
  tk_CreatedAt :: time
  tk_UpdatedAt :: time
  tk_CreatedBy :: string
  tk_UpdatedBy :: string

record ticket_risk =
  tr_ID :: nat
  tr_TenantID :: string
  tr_OrgID :: string
  tr_ProjectID :: nat
  tr_TicketID :: nat
  tr_RiskID :: nat
  tr_CreatedAt :: time
  tr_CreatedBy :: string

record ticket_create_input =
  ci_TenantID :: string
  ci_OrgID :: string
  ci_ProjectID :: nat
  ci_Title :: string
  ci_Description :: string
  ci_Assignee :: string
  ci_BusinessUnit :: string
  ci_Priority :: string
  ci_DueAt :: time
  ci_ExternalTicketID :: string
  ci_RiskIDs :: "nat list"
  ci_ActorID :: string

record ticket_transition_input =
  tt_ProjectID :: nat
  tt_TicketID :: nat
  tt_Action :: string
  tt_ActorID :: string
  tt_Assignee :: string
  tt_DueAt :: time
  tt_Resolution :: string
  tt_RetestResult :: string
  tt_Reason :: string
  tt_ApprovedBy :: string
  tt_ExpiresAt :: time
  tt_ReviewRequiredAt :: time

record ticket_create_params =
  cp_TenantID :: string
  cp_OrgID :: string
  cp_ProjectID :: nat
  cp_Title :: string
  cp_Description :: string
  cp_Assignee :: string
  cp_BusinessUnit :: string
  cp_Status :: string
  cp_Priority :: string
  cp_DueAt :: time
  cp_ExternalTicketID :: string
  cp_ActorID :: string

record ticket_link_params =
  lp_TenantID :: string
  lp_OrgID :: string
  lp_ProjectID :: nat
  lp_TicketID :: nat
  lp_RiskID :: nat
  lp_ActorID :: string

record ticket_status_update =
  tu_ProjectID :: nat
  tu_TicketID :: nat
  tu_OldStatus :: string
  tu_NewStatus :: string
  tu_Assignee :: string
  tu_DueAt :: time
  tu_Resolution :: string
  tu_RetestResult :: string
  tu_ClosedAt :: time
  tu_ActorID :: string

section \<open>State\<close>

record world =
  w_risk :: risk_db
  w_tickets :: "ticket table"
  w_links :: "ticket_risk table"

type_synonym 'a ticket_op = "(world, ticket_error, 'a) op"

record risk_api =
  api_GetByID :: "nat \<Rightarrow> nat \<Rightarrow> risk risk_op"
  api_TransitionStatus :: "transition_input \<Rightarrow> risk risk_op"
  api_ResolveDueAt :: "nat \<Rightarrow> string \<Rightarrow> string \<Rightarrow> time \<Rightarrow> time risk_op"

definition riskService :: "risk_service \<Rightarrow> risk_api" where
  "riskService s = \<lparr>api_GetByID = GetByID, api_TransitionStatus = TransitionStatus s, api_ResolveDueAt = ResolveDueAt s\<rparr>"

record ticket_service =
  ts_env :: env
  ts_db :: bool
  ts_risks :: "risk_api option"
  ts_sink :: bool

text \<open>A call of the risk service: its writes are its own, its error is passed on as it is.\<close>

definition on_risk :: "'a risk_op \<Rightarrow> 'a ticket_op" where
  "on_risk m = mapErr TErrRisk (zoom w_risk (\<lambda>d w. w\<lparr>w_risk := d\<rparr>) m)"

definition ticket_rollback :: "world \<Rightarrow> world \<Rightarrow> world" where
  "ticket_rollback w0 w1 = w1\<lparr>w_tickets := tbl_rollback (w_tickets w0) (w_tickets w1),
     w_links := tbl_rollback (w_links w0) (w_links w1)\<rparr>"

definition ticket_runInTx :: "ticket_service \<Rightarrow> 'a ticket_op \<Rightarrow> 'a ticket_op" where
  "ticket_runInTx s m = (if ts_db s then inTx ticket_rollback m else m)"

section \<open>Repository\<close>

definition timeForDB :: "time \<Rightarrow> time" where
  "timeForDB t = (if t = zero_time then epoch else t)"

definition ticket_statuses :: "string list" where
  "ticket_statuses = [TStatusOpen, TStatusAssigned, TStatusInProgress, TStatusPendingRetest, TStatusResolved,
     TStatusClosed, TStatusRejected, TStatusExtended, TStatusCancelled]"

definition priorities :: "string list" where
  "priorities = [''urgent'', ''high'', PriorityMedium, ''low'']"

definition ticket_check :: "env \<Rightarrow> ticket \<Rightarrow> sql_error option" where
  "ticket_check e t = row_check
     (too_long [(tk_TenantID t, 64), (tk_OrgID t, 64), (tk_Title t, 255), (tk_Description t, 2048), (tk_Assignee t, 64),
        (tk_BusinessUnit t, 128), (tk_Status t, 32), (tk_Priority t, 32), (tk_Resolution t, 2048), (tk_RetestResult t, 2048),
        (tk_ExternalTicketID t, 128), (tk_CreatedBy t, 64), (tk_UpdatedBy t, 64)])
     (sql_in e (tk_Status t) ticket_statuses \<and> sql_in e (tk_Priority t) priorities)"

definition ticket_row :: "env \<Rightarrow> ticket_create_params \<Rightarrow> ticket" where
  "ticket_row e p =
     \<lparr>tk_ID = 0, tk_TenantID = cp_TenantID p, tk_OrgID = cp_OrgID p, tk_ProjectID = cp_ProjectID p, tk_Title = cp_Title p,
       tk_Description = cp_Description p, tk_Assignee = cp_Assignee p, tk_BusinessUnit = cp_BusinessUnit p,
       tk_Status = cp_Status p, tk_Priority = cp_Priority p, tk_DueAt = env_col e (timeForDB (cp_DueAt p)),
       tk_Resolution = [], tk_RetestResult = [], tk_ExternalTicketID = cp_ExternalTicketID p,
       tk_ClosedAt = env_col e epoch, tk_CreatedAt = env_db_now e, tk_UpdatedAt = env_db_now e,
       tk_CreatedBy = cp_ActorID p, tk_UpdatedBy = cp_ActorID p\<rparr>"

definition ticket_repo_Create :: "env \<Rightarrow> ticket_create_params \<Rightarrow> nat ticket_op" where
  "ticket_repo_Create e p w =
     mapErr TErrSql (zoom w_tickets (\<lambda>t w. w\<lparr>w_tickets := t\<rparr>)
       (sql_insert (ticket_check e) (\<lambda>_ _. False) (\<lambda>x. List.member (db_projects (w_risk w)) (tk_ProjectID x))
          (\<lambda>n x. x\<lparr>tk_ID := n\<rparr>) (ticket_row e p))) w"

definition ticket_repo_GetByID :: "nat \<Rightarrow> nat \<Rightarrow> ticket ticket_op" where
  "ticket_repo_GetByID projectID i =
     asks (\<lambda>w. case sql_one (\<lambda>x. tk_ID x = i \<and> tk_ProjectID x = projectID) (w_tickets w) of
                  None \<Rightarrow> Inl TErrNotFound | Some t \<Rightarrow> Inr t)"

definition ticket_repo_List :: "nat \<Rightarrow> int \<Rightarrow> int \<Rightarrow> ticket list ticket_op" where
  "ticket_repo_List projectID limit offset =
     gets (\<lambda>w. page limit offset (sql_many (\<lambda>x. tk_ProjectID x = projectID) (w_tickets w)))"

definition ticket_repo_Count :: "nat \<Rightarrow> int ticket_op" where
  "ticket_repo_Count projectID = gets (\<lambda>w. sql_count (\<lambda>x. tk_ProjectID x = projectID) (w_tickets w))"

definition link_check :: "ticket_risk \<Rightarrow> sql_error option" where
  "link_check l = row_check (too_long [(tr_TenantID l, 64), (tr_OrgID l, 64), (tr_CreatedBy l, 64)]) True"

definition link_row :: "env \<Rightarrow> ticket_link_params \<Rightarrow> ticket_risk" where
  "link_row e p =
     \<lparr>tr_ID = 0, tr_TenantID = lp_TenantID p, tr_OrgID = lp_OrgID p, tr_ProjectID = lp_ProjectID p,
       tr_TicketID = lp_TicketID p, tr_RiskID = lp_RiskID p, tr_CreatedAt = env_db_now e, tr_CreatedBy = lp_ActorID p\<rparr>"

definition link_same_key :: "ticket_risk \<Rightarrow> ticket_risk \<Rightarrow> bool" where
  "link_same_key x y \<longleftrightarrow> tr_ProjectID x = tr_ProjectID y \<and> tr_TicketID x = tr_TicketID y \<and> tr_RiskID x = tr_RiskID y"

definition link_fk :: "world \<Rightarrow> ticket_risk \<Rightarrow> bool" where
  "link_fk w l \<longleftrightarrow>
     list_ex (\<lambda>t. tk_ProjectID t = tr_ProjectID l \<and> tk_ID t = tr_TicketID l) (t_rows (w_tickets w)) \<and>
     risk_exists (w_risk w) (tr_ProjectID l) (tr_RiskID l)"

definition ticket_repo_LinkRisk :: "env \<Rightarrow> ticket_link_params \<Rightarrow> unit ticket_op" where
  "ticket_repo_LinkRisk e p w =
     bindM (mapErr TErrSql (zoom w_links (\<lambda>t w. w\<lparr>w_links := t\<rparr>)
       (sql_insert link_check link_same_key (link_fk w) (\<lambda>n x. x\<lparr>tr_ID := n\<rparr>) (link_row e p))))
       (\<lambda>_. ok ()) w"

definition ticket_repo_ListRisks :: "nat \<Rightarrow> nat \<Rightarrow> ticket_risk list ticket_op" where
  "ticket_repo_ListRisks projectID ticketID =
     gets (\<lambda>w. sql_many (\<lambda>l. tr_ProjectID l = projectID \<and> tr_TicketID l = ticketID) (w_links w))"

definition ticket_written :: "env \<Rightarrow> ticket_status_update \<Rightarrow> ticket \<Rightarrow> ticket" where
  "ticket_written e u x =
     x\<lparr>tk_Status := tu_NewStatus u, tk_Assignee := tu_Assignee u, tk_DueAt := env_col e (timeForDB (tu_DueAt u)),
       tk_Resolution := tu_Resolution u, tk_RetestResult := tu_RetestResult u,
       tk_ClosedAt := env_col e (timeForDB (tu_ClosedAt u)), tk_UpdatedBy := tu_ActorID u\<rparr>"

definition ticket_repo_UpdateStatus :: "env \<Rightarrow> ticket_status_update \<Rightarrow> unit ticket_op" where
  "ticket_repo_UpdateStatus e u =
     bindM (mapErr TErrSql (zoom w_tickets (\<lambda>t w. w\<lparr>w_tickets := t\<rparr>)
       (sql_update (ticket_check e)
          (\<lambda>x. tk_ID x = tu_TicketID u \<and> tk_ProjectID x = tu_ProjectID u \<and> sql_eq e (tk_Status x) (tu_OldStatus u))
          (ticket_written e u) (\<lambda>x. x\<lparr>tk_UpdatedAt := env_db_now e\<rparr>))))
       (\<lambda>n. failIf (n = 0) TErrNotFound)"

section \<open>Pure parts of the service\<close>

definition ticket_defaultString :: "string \<Rightarrow> string \<Rightarrow> string" where
  "ticket_defaultString v fallback = (if v = [] then fallback else v)"

definition validPriority :: "string \<Rightarrow> bool" where
  "validPriority p \<longleftrightarrow> List.member priorities p"

text \<open>The loop over the risk ids with its set of ids already seen.\<close>

fun checkRiskIDs :: "nat list \<Rightarrow> nat list \<Rightarrow> bool" where
  "checkRiskIDs seen [] \<longleftrightarrow> True"
| "checkRiskIDs seen (i # is) \<longleftrightarrow> i \<noteq> 0 \<and> \<not> List.member seen i \<and> checkRiskIDs (i # seen) is"

definition validateCreate :: "ticket_create_input \<Rightarrow> ticket_error + unit" where
  "validateCreate i =
     (if ci_ProjectID i = 0 then Inl TErrInvalidProjectID
      else if bad_actor (ci_ActorID i) then Inl TErrInvalidActorID
      else if TrimSpace (ci_Title i) = [] \<or> length (ci_Title i) > 255 then Inl TErrInvalidTitle
      else if TrimSpace (ci_Assignee i) = [] \<or> length (ci_Assignee i) > 64 then Inl TErrInvalidAssignee
      else if ci_DueAt i = zero_time then Inl TErrDueAtRequired
      else if \<not> validPriority (ticket_defaultString (ci_Priority i) PriorityMedium) then Inl TErrInvalidPriority
      else if length (ci_Description i) > 2048 \<or> length (ci_BusinessUnit i) > 128 \<or> length (ci_ExternalTicketID i) > 128
        then Inl TErrFieldTooLong
      else if ci_RiskIDs i = [] then Inl TErrInvalidRiskID
      else if \<not> checkRiskIDs [] (ci_RiskIDs i) then Inl TErrInvalidRiskID
      else Inr ())"

definition validateTransition :: "ticket_transition_input \<Rightarrow> string \<Rightarrow> ticket_error + unit" where
  "validateTransition i nxt =
     (if nxt = TStatusAssigned then
        (if TrimSpace (tt_Assignee i) = [] then Inl TErrInvalidAssignee
         else if tt_DueAt i = zero_time then Inl TErrDueAtRequired else Inr ())
      else if nxt = TStatusResolved then
        (if TrimSpace (tt_Resolution i) = [] then Inl TErrResolutionRequired else Inr ())
      else if nxt = TStatusClosed then
        (if tt_Action i = ActionRetestPass \<and> TrimSpace (tt_Resolution i) = [] then Inl TErrResolutionRequired else Inr ())
      else if nxt = TStatusRejected then
        (if TrimSpace (tt_RetestResult i) = [] then Inl TErrRetestResultRequired else Inr ())
      else if nxt = TStatusCancelled then
        (if tt_Action i = ActionAcceptRisk \<or> tt_Action i = ActionFalsePositive then
           (if TrimSpace (tt_Reason i) = [] then Inl TErrReasonRequired
            else if TrimSpace (tt_ApprovedBy i) = [] then Inl TErrApprovedByRequired
            else if tt_ExpiresAt i = zero_time \<and> tt_ReviewRequiredAt i = zero_time then Inl TErrReviewWindowRequired
            else Inr ())
         else Inr ())
      else if nxt = TStatusExtended then
        (if tt_DueAt i = zero_time then Inl TErrDueAtRequired else Inr ())
      else Inr ())"

definition allActions :: "string list" where
  "allActions = [ActionAssign, ActionStart, ActionSubmitRetest, ActionRetestPass, ActionClose, ActionRetestReject,
     ActionAcceptRisk, ActionFalsePositive, ActionExtend, ActionCancel]"

definition nextStatus :: "string \<Rightarrow> string \<Rightarrow> ticket_error + string" where
  "nextStatus action current =
     (if action = ActionAssign then
        (if current = TStatusOpen then Inr TStatusAssigned else Inl TErrInvalidTransition)
      else if action = ActionStart then
        (if current = TStatusAssigned \<or> current = TStatusRejected \<or> current = TStatusExtended then Inr TStatusInProgress
         else Inl TErrInvalidTransition)
      else if action = ActionSubmitRetest then
        (if current = TStatusInProgress then Inr TStatusPendingRetest else Inl TErrInvalidTransition)
      else if action = ActionRetestPass then
        (if current = TStatusPendingRetest then Inr TStatusClosed else Inl TErrInvalidTransition)
      else if action = ActionClose then
        (if current = TStatusResolved then Inr TStatusClosed else Inl TErrInvalidTransition)
      else if action = ActionRetestReject then
        (if current = TStatusPendingRetest then Inr TStatusRejected else Inl TErrInvalidTransition)
      else if action = ActionAcceptRisk \<or> action = ActionFalsePositive then
        (if current = TStatusPendingRetest then Inr TStatusCancelled else Inl TErrInvalidTransition)
      else if action = ActionExtend then
        (if current = TStatusAssigned \<or> current = TStatusInProgress \<or> current = TStatusRejected then Inr TStatusExtended
         else Inl TErrInvalidTransition)
      else if action = ActionCancel then
        (if current \<noteq> TStatusClosed then Inr TStatusCancelled else Inl TErrInvalidTransition)
      else Inl TErrInvalidAction)"

definition AvailableActions :: "string \<Rightarrow> string list" where
  "AvailableActions current = filter (\<lambda>action. is_ok (nextStatus action current)) allActions"

definition ticket_buildStatusUpdate :: "ticket \<Rightarrow> ticket_transition_input \<Rightarrow> string \<Rightarrow> time \<Rightarrow> ticket_status_update" where
  "ticket_buildStatusUpdate t i nxt now =
     \<lparr>tu_ProjectID = tk_ProjectID t, tu_TicketID = tk_ID t, tu_OldStatus = tk_Status t, tu_NewStatus = nxt,
       tu_Assignee = (if TrimSpace (tt_Assignee i) \<noteq> [] then TrimSpace (tt_Assignee i) else tk_Assignee t),
       tu_DueAt = (if tt_DueAt i \<noteq> zero_time then tt_DueAt i else tk_DueAt t),
       tu_Resolution = TrimSpace (tt_Resolution i), tu_RetestResult = TrimSpace (tt_RetestResult i),
       tu_ClosedAt = (if nxt = TStatusClosed \<or> nxt = TStatusCancelled then now else tk_ClosedAt t),
       tu_ActorID = tt_ActorID i\<rparr>"

text \<open>The action on a linked risk, with its reason: \<open>None\<close> is the empty action.\<close>

definition linked_action :: "ticket_transition_input \<Rightarrow> string \<Rightarrow> ticket_status_update \<Rightarrow> (string \<times> string) option" where
  "linked_action i nxt u =
     (if nxt = TStatusInProgress then (if tu_OldStatus u = TStatusRejected then None else Some (StatusActionStartFix, []))
      else if nxt = TStatusResolved \<or> nxt = TStatusClosed then
        Some (StatusActionMarkFixed, ticket_defaultString (tu_Resolution u) ''ticket retest passed'')
      else if nxt = TStatusCancelled then
        (if tt_Action i = ActionAcceptRisk then Some (StatusActionAccept, tt_Reason i)
         else if tt_Action i = ActionFalsePositive then Some (StatusActionFalsePositive, tt_Reason i)
         else None)
      else None)"

end
