(* ===== verification/TicketService.thy ===== *)
theory TicketService
  imports TicketModel
begin

text \<open>
  The operations of \<open>ticket.Service\<close> (\<open>internal/ticket/service.go\<close>): creating a ticket for risks,
  which confirms and assigns them, and moving a ticket, which moves its risks along.
\<close>

section \<open>Risks of a ticket\<close>

abbreviation no_meta :: audit_meta where
  "no_meta \<equiv> \<lparr>am_IP = [], am_UserAgent = [], am_RequestID = []\<rparr>"

definition assignRisk :: "ticket_service \<Rightarrow> nat \<Rightarrow> nat \<Rightarrow> string \<Rightarrow> time \<Rightarrow> string \<Rightarrow> unit ticket_op" where
  "assignRisk s projectID riskID assignee dueAt actorID =
     (case ts_risks s of
        None \<Rightarrow> ok ()
      | Some api \<Rightarrow>
          bindM (on_risk (api_GetByID api projectID riskID)) (\<lambda>r.
          bindM (if r_Status r = StatusNew then
                   bindM (on_risk (api_TransitionStatus api
                     \<lparr>ti_ProjectID = projectID, ti_RiskID = riskID, ti_Action = StatusActionConfirm, ti_ActorID = actorID,
                       ti_Reason = [], ti_ApprovedBy = [], ti_ExpiresAt = zero_time, ti_ReviewRequiredAt = zero_time,
                       ti_Owner = [], ti_SLADueAt = zero_time, ti_Meta = no_meta\<rparr>)) (\<lambda>_. ok StatusConfirmed)
                 else ok (r_Status r)) (\<lambda>status.
          if status = StatusConfirmed \<or> status = StatusReopened then
            bindM (on_risk (api_TransitionStatus api
              \<lparr>ti_ProjectID = projectID, ti_RiskID = riskID, ti_Action = StatusActionAssign, ti_ActorID = actorID,
                ti_Reason = [], ti_ApprovedBy = [], ti_ExpiresAt = zero_time, ti_ReviewRequiredAt = zero_time,
                ti_Owner = assignee, ti_SLADueAt = dueAt, ti_Meta = no_meta\<rparr>)) (\<lambda>_. ok ())
          else ok ())))"

fun earliest_due :: "risk_api \<Rightarrow> time \<Rightarrow> nat \<Rightarrow> time \<Rightarrow> nat list \<Rightarrow> time ticket_op" where
  "earliest_due api now projectID earliest [] = ok earliest"
| "earliest_due api now projectID earliest (riskID # rest) =
     bindM (on_risk (api_GetByID api projectID riskID)) (\<lambda>r.
     bindM (on_risk (api_ResolveDueAt api projectID (r_Severity r) (r_BusinessUnit r)
              (if r_FirstSeen r = zero_time then now else r_FirstSeen r))) (\<lambda>dueAt.
     earliest_due api now projectID (if earliest = zero_time \<or> dueAt < earliest then dueAt else earliest) rest))"

definition deriveTicketDueAt :: "ticket_service \<Rightarrow> risk_api \<Rightarrow> nat \<Rightarrow> nat list \<Rightarrow> time ticket_op" where
  "deriveTicketDueAt s api projectID riskIDs = earliest_due api (env_now (ts_env s)) projectID zero_time riskIDs"

definition linked_transition :: "ticket_transition_input \<Rightarrow> nat \<Rightarrow> string \<Rightarrow> string \<Rightarrow> transition_input" where
  "linked_transition i riskID action reason =
     \<lparr>ti_ProjectID = tt_ProjectID i, ti_RiskID = riskID, ti_Action = action, ti_ActorID = tt_ActorID i,
       ti_Reason = reason, ti_ApprovedBy = tt_ApprovedBy i, ti_ExpiresAt = tt_ExpiresAt i,
       ti_ReviewRequiredAt = tt_ReviewRequiredAt i, ti_Owner = [], ti_SLADueAt = zero_time, ti_Meta = no_meta\<rparr>"

definition transitionLinkedRisk ::
  "ticket_service \<Rightarrow> nat \<Rightarrow> ticket_transition_input \<Rightarrow> string \<Rightarrow> ticket_status_update \<Rightarrow> unit ticket_op" where
  "transitionLinkedRisk s riskID i nxt u =
     (case ts_risks s of
        None \<Rightarrow> ok ()
      | Some api \<Rightarrow>
          if nxt = TStatusAssigned then assignRisk s (tt_ProjectID i) riskID (tu_Assignee u) (tu_DueAt u) (tt_ActorID i)
          else (case linked_action i nxt u of
                  None \<Rightarrow> ok ()
                | Some (action, reason) \<Rightarrow>
                    bindM (tryM (on_risk (api_TransitionStatus api (linked_transition i riskID action reason)))) (\<lambda>r.
                    case r of
                      Inr _ \<Rightarrow> ok ()
                    | Inl err \<Rightarrow> if err = TErrRisk ErrInvalidStatusTransition then ok () else fail err)))"

section \<open>Audit\<close>

definition ticket_val :: "ticket \<Rightarrow> goval" where
  "ticket_val t = GPtr (GStruct
     [(exported ''ID'', GInt (int (tk_ID t))), (exported ''TenantID'', GStr (tk_TenantID t)), (exported ''OrgID'', GStr (tk_OrgID t)),
      (exported ''ProjectID'', GInt (int (tk_ProjectID t))), (exported ''Title'', GStr (tk_Title t)),
      (exported ''Description'', GStr (tk_Description t)), (exported ''Assignee'', GStr (tk_Assignee t)),
      (exported ''BusinessUnit'', GStr (tk_BusinessUnit t)), (exported ''Status'', GStr (tk_Status t)),
      (exported ''Priority'', GStr (tk_Priority t)), (exported ''DueAt'', time_val (tk_DueAt t)),
      (exported ''Resolution'', GStr (tk_Resolution t)), (exported ''RetestResult'', GStr (tk_RetestResult t)),
      (exported ''ExternalTicketID'', GStr (tk_ExternalTicketID t)), (exported ''ClosedAt'', time_val (tk_ClosedAt t)),
      (exported ''CreatedAt'', time_val (tk_CreatedAt t)), (exported ''UpdatedAt'', time_val (tk_UpdatedAt t)),
      (exported ''CreatedBy'', GStr (tk_CreatedBy t)), (exported ''UpdatedBy'', GStr (tk_UpdatedBy t))])"

definition ticket_event :: "string \<Rightarrow> string \<Rightarrow> nat \<Rightarrow> string \<Rightarrow> string \<Rightarrow> nat \<Rightarrow> event" where
  "ticket_event tenantID orgID projectID actorID action ticketID =
     empty_event\<lparr>ev_TenantID := tenantID, ev_OrgID := orgID, ev_ProjectID := projectID, ev_ActorID := actorID,
       ev_ActorType := ''user'', ev_Action := action, ev_ResourceType := ''ticket'', ev_ResourceID := FormatUint ticketID\<rparr>"

definition recordAudit :: "ticket_service \<Rightarrow> event \<Rightarrow> unit ticket_op" where
  "recordAudit s v =
     (if ts_db s \<or> ts_sink s then
        mapErr TErrSql (zoom (\<lambda>w. db_audit (w_risk w)) (\<lambda>t w. w\<lparr>w_risk := (w_risk w)\<lparr>db_audit := t\<rparr>\<rparr>) (audit_Record (ts_env s) v))
      else ok ())"

section \<open>Operations\<close>

definition create_params :: "ticket_create_input \<Rightarrow> ticket_create_params" where
  "create_params i =
     \<lparr>cp_TenantID = ci_TenantID i, cp_OrgID = ci_OrgID i, cp_ProjectID = ci_ProjectID i, cp_Title = TrimSpace (ci_Title i),
       cp_Description = TrimSpace (ci_Description i), cp_Assignee = TrimSpace (ci_Assignee i),
       cp_BusinessUnit = TrimSpace (ci_BusinessUnit i), cp_Status = TStatusOpen, cp_Priority = ci_Priority i,
       cp_DueAt = ci_DueAt i, cp_ExternalTicketID = TrimSpace (ci_ExternalTicketID i), cp_ActorID = ci_ActorID i\<rparr>"

definition link_params :: "ticket_create_input \<Rightarrow> nat \<Rightarrow> nat \<Rightarrow> ticket_link_params" where
  "link_params i n riskID =
     \<lparr>lp_TenantID = ci_TenantID i, lp_OrgID = ci_OrgID i, lp_ProjectID = ci_ProjectID i, lp_TicketID = n,
       lp_RiskID = riskID, lp_ActorID = ci_ActorID i\<rparr>"

definition create_body :: "ticket_service \<Rightarrow> ticket_create_input \<Rightarrow> nat ticket_op" where
  "create_body s i =
     bindM (ticket_repo_Create (ts_env s) (create_params i)) (\<lambda>n.
     bindM (forM (\<lambda>riskID.
       bindM (ticket_repo_LinkRisk (ts_env s) (link_params i n riskID)) (\<lambda>_.
       assignRisk s (ci_ProjectID i) riskID (ci_Assignee i) (ci_DueAt i) (ci_ActorID i))) (ci_RiskIDs i)) (\<lambda>_.
     bindM (ticket_repo_GetByID (ci_ProjectID i) n) (\<lambda>created.
     bindM (recordAudit s
       ((ticket_event (ci_TenantID i) (ci_OrgID i) (ci_ProjectID i) (ci_ActorID i) ''ticket.create'' n)
          \<lparr>ev_After := ticket_val created,
            ev_Metadata := GMap [(''risk_ids'', GSlice (map (\<lambda>r. GInt (int r)) (ci_RiskIDs i)))]\<rparr>)) (\<lambda>_.
     ok n))))"

definition with_derived_due :: "ticket_service \<Rightarrow> ticket_create_input \<Rightarrow> ticket_create_input ticket_op" where
  "with_derived_due s i =
     (case ts_risks s of
        Some api \<Rightarrow>
          if ci_DueAt i = zero_time then
            bindM (deriveTicketDueAt s api (ci_ProjectID i) (ci_RiskIDs i)) (\<lambda>dueAt. ok (i\<lparr>ci_DueAt := dueAt\<rparr>))
          else ok i
      | None \<Rightarrow> ok i)"

definition ticket_Create :: "ticket_service \<Rightarrow> ticket_create_input \<Rightarrow> ticket ticket_op" where
  "ticket_Create s i0 =
     bindM (with_derived_due s i0) (\<lambda>i1.
     bindM (liftM (validateCreate i1)) (\<lambda>_.
     let i = i1\<lparr>ci_Priority := ticket_defaultString (TrimSpace (ci_Priority i1)) PriorityMedium\<rparr> in
     bindM (ticket_runInTx s (create_body s i)) (\<lambda>n.
     ticket_repo_GetByID (ci_ProjectID i) n)))"

definition ticket_transition_body :: "ticket_service \<Rightarrow> ticket_transition_input \<Rightarrow> ticket ticket_op" where
  "ticket_transition_body s i =
     bindM (ticket_repo_GetByID (tt_ProjectID i) (tt_TicketID i)) (\<lambda>t.
     bindM (liftM (nextStatus (tt_Action i) (tk_Status t))) (\<lambda>nxt.
     bindM (liftM (validateTransition i nxt)) (\<lambda>_.
     let update = ticket_buildStatusUpdate t i nxt (env_now (ts_env s)) in
     bindM (ticket_repo_UpdateStatus (ts_env s) update) (\<lambda>_.
     bindM (ticket_repo_ListRisks (tt_ProjectID i) (tt_TicketID i)) (\<lambda>links.
     bindM (forM (\<lambda>link. transitionLinkedRisk s (tr_RiskID link) i nxt update) links) (\<lambda>_.
     bindM (ticket_repo_GetByID (tt_ProjectID i) (tt_TicketID i)) (\<lambda>after.
     bindM (recordAudit s
       ((ticket_event (tk_TenantID t) (tk_OrgID t) (tt_ProjectID i) (tt_ActorID i) ''ticket.status_change'' (tt_TicketID i))
          \<lparr>ev_Before := ticket_val t, ev_After := ticket_val after,
            ev_Metadata := GMap [(''action'', GStr (tt_Action i)), (''from'', GStr (tk_Status t)), (''to'', GStr (tk_Status after))]\<rparr>)) (\<lambda>_.
     ok after))))))))"

definition ticket_Transition :: "ticket_service \<Rightarrow> ticket_transition_input \<Rightarrow> ticket ticket_op" where
  "ticket_Transition s i =
     bindM (failIf (tt_ProjectID i = 0) TErrInvalidProjectID) (\<lambda>_.
     bindM (failIf (tt_TicketID i = 0) TErrInvalidTicketID) (\<lambda>_.
     bindM (failIf (bad_actor (tt_ActorID i)) TErrInvalidActorID) (\<lambda>_.
     ticket_runInTx s (ticket_transition_body s i))))"

definition ticket_GetByID :: "nat \<Rightarrow> nat \<Rightarrow> ticket ticket_op" where
  "ticket_GetByID projectID i =
     bindM (failIf (projectID = 0) TErrInvalidProjectID) (\<lambda>_.
     bindM (failIf (i = 0) TErrInvalidTicketID) (\<lambda>_. ticket_repo_GetByID projectID i))"

definition ticket_List :: "nat \<Rightarrow> int \<Rightarrow> int \<Rightarrow> ticket list ticket_op" where
  "ticket_List projectID limit offset =
     bindM (failIf (projectID = 0) TErrInvalidProjectID) (\<lambda>_.
     ticket_repo_List projectID (if limit \<le> 0 \<or> limit > 200 then 50 else limit) (if offset < 0 then 0 else offset))"

definition ticket_Count :: "nat \<Rightarrow> int ticket_op" where
  "ticket_Count projectID = bindM (failIf (projectID = 0) TErrInvalidProjectID) (\<lambda>_. ticket_repo_Count projectID)"

end
