(* ===== verification/RiskFacts.thy ===== *)
theory RiskFacts
  imports RiskService
begin

text \<open>
  What the repository methods of \<open>RiskStore\<close> do to the database, stated once per method.
  The tables are instances of the interface \<open>id_rows\<close>.
\<close>

section \<open>The tables of the package as instances of the table interface\<close>

interpretation risk_rows: id_rows r_ID "\<lambda>n x. x\<lparr>r_ID := n\<rparr>" "\<lambda>now x. x\<lparr>r_UpdatedAt := now\<rparr>"
  by unfold_locales auto

interpretation rule_rows: id_rows rr_ID "\<lambda>n x. x\<lparr>rr_ID := n\<rparr>" "\<lambda>now x. x\<lparr>rr_UpdatedAt := now\<rparr>"
  by unfold_locales auto

interpretation definition_rows: id_rows vd_ID "\<lambda>n x. x\<lparr>vd_ID := n\<rparr>" "\<lambda>now x. x\<lparr>vd_UpdatedAt := now\<rparr>"
  by unfold_locales auto

interpretation suppression_rows: id_rows sr_ID "\<lambda>n x. x\<lparr>sr_ID := n\<rparr>" "\<lambda>now x. x\<lparr>sr_UpdatedAt := now\<rparr>"
  by unfold_locales auto

interpretation sla_rows: id_rows sp_ID "\<lambda>n x. x\<lparr>sp_ID := n\<rparr>" "\<lambda>now x. x\<lparr>sp_UpdatedAt := now\<rparr>"
  by unfold_locales auto

interpretation decision_rows: id_rows rd_ID "\<lambda>n x. x\<lparr>rd_ID := n\<rparr>" "\<lambda>_ x. x"
  by unfold_locales auto

interpretation status_history_rows: id_rows hs_ID "\<lambda>n x. x\<lparr>hs_ID := n\<rparr>" "\<lambda>_ x. x"
  by unfold_locales auto

section \<open>Repository methods\<close>

lemma found_Inr [simp]: "found o1 = Inr x \<longleftrightarrow> o1 = Some x"
  by (auto simp: found_def split: option.splits)

lemma found_Inl [simp]: "found o1 = Inl err \<longleftrightarrow> o1 = None \<and> err = ErrNotFound"
  by (auto simp: found_def split: option.splits)

abbreviation set_rows :: "risk list \<Rightarrow> risk_db \<Rightarrow> risk_db" where
  "set_rows rows d \<equiv> d\<lparr>db_risks := (db_risks d)\<lparr>t_rows := rows\<rparr>\<rparr>"

abbreviation touched :: "env \<Rightarrow> (risk \<Rightarrow> bool) \<Rightarrow> (risk \<Rightarrow> risk) \<Rightarrow> risk \<Rightarrow> risk" where
  "touched e p f \<equiv> upd_row p f (\<lambda>x. x\<lparr>r_UpdatedAt := env_db_now e\<rparr>)"

lemma risk_update_Inr:
  "risk_update e p f d = (Inr u, d') \<longleftrightarrow>
     (\<forall>r \<in> set (t_rows (db_risks d)). p r \<longrightarrow> risk_check e (f r) = None) \<and>
     (\<exists>r \<in> set (t_rows (db_risks d)). p r \<and> f r \<noteq> r) \<and>
     d' = set_rows (map (touched e p f) (t_rows (db_risks d))) d"
proof -
  have "risk_update e p f d = (Inr u, d') \<longleftrightarrow>
    (\<exists>n t'. sql_update (risk_check e) p f (\<lambda>x. x\<lparr>r_UpdatedAt := env_db_now e\<rparr>) (db_risks d) = (Inr n, t') \<and>
       n \<noteq> 0 \<and> d' = d\<lparr>db_risks := t'\<rparr>)"
    unfolding risk_update_def rowsAffectedErr_def by (auto simp: Inr_iffs zoom_iff)
  also have "\<dots> \<longleftrightarrow> (\<forall>r \<in> set (t_rows (db_risks d)). p r \<longrightarrow> risk_check e (f r) = None) \<and>
     (\<exists>r \<in> set (t_rows (db_risks d)). p r \<and> f r \<noteq> r) \<and>
     d' = set_rows (map (touched e p f) (t_rows (db_risks d))) d"
    by (auto simp: sql_update_Inr filter_empty_conv)
  finally show ?thesis .
qed

lemma risk_update_Inl: "risk_update e p f d = (Inl err, d') \<Longrightarrow> d' = d"
  by (auto simp: risk_update_def rowsAffectedErr_def bindM_Inl_iff mapErr_Inl_iff Inr_iffs zoom_iff failIf_Inl_iff
      dest: sql_update_Inl sql_update_none_changed)

text \<open>An update whose condition selects one row by its id.\<close>

lemma risk_update_row:
  assumes wf: "wf_rows r_ID (db_risks d)" and b: "b \<in> set (t_rows (db_risks d))" "p b"
    and sel: "\<And>r. p r \<Longrightarrow> r_ID r = r_ID b" and upd: "risk_update e p f d = (Inr u, d')"
  shows "d' = set_rows (map (\<lambda>r. if r_ID r = r_ID b then (f b)\<lparr>r_UpdatedAt := env_db_now e\<rparr> else r) (t_rows (db_risks d))) d"
    and "risk_check e (f b) = None"
proof -
  have only: "r = b" if "r \<in> set (t_rows (db_risks d))" "r_ID r = r_ID b" for r
    using risk_rows.row_unique [OF wf that(1) b(1) that(2)] .
  have neq: "f b \<noteq> b" using upd [unfolded risk_update_Inr] sel only by blast
  have "touched e p f r = (if r_ID r = r_ID b then (f b)\<lparr>r_UpdatedAt := env_db_now e\<rparr> else r)"
    if r: "r \<in> set (t_rows (db_risks d))" for r
  proof (cases "r_ID r = r_ID b")
    case True
    then have "r = b" by (rule only [OF r])
    then show ?thesis using neq b(2) by (simp add: upd_row_def)
  next
    case False
    then have "\<not> p r" using sel by blast
    then show ?thesis using False by (simp add: upd_row_def)
  qed
  then show "d' = set_rows (map (\<lambda>r. if r_ID r = r_ID b then (f b)\<lparr>r_UpdatedAt := env_db_now e\<rparr> else r) (t_rows (db_risks d))) d"
    using upd by (auto simp: risk_update_Inr cong: map_cong)
  show "risk_check e (f b) = None" using upd b by (auto simp: risk_update_Inr)
qed

lemma repo_CreateRisk_Inr:
  "repo_CreateRisk e p d = (Inr n, d') \<longleftrightarrow>
     (\<exists>t'. sql_insert (risk_check e) (risk_same_key e) (risk_fk d) (\<lambda>n x. x\<lparr>r_ID := n\<rparr>) (risk_row e p) (db_risks d) = (Inr n, t')
       \<and> d' = d\<lparr>db_risks := t'\<rparr>)"
  by (simp add: repo_CreateRisk_def Inr_iffs zoom_iff)

lemma repo_CreateRisk_Inl: "repo_CreateRisk e p d = (Inl err, d') \<Longrightarrow> d' = d"
  by (auto simp: repo_CreateRisk_def mapErr_Inl_iff zoom_iff dest: sql_insert_Inl)

text \<open>The append-only tables: one new row on success, nothing on failure.\<close>

lemma repo_InsertScoreHistory_shape:
  "repo_InsertScoreHistory e h d = (r, d') \<Longrightarrow>
     d' = d \<or> (\<exists>t'. d' = d\<lparr>db_score_history := t'\<rparr>)"
  by (auto simp: repo_InsertScoreHistory_def bindM_def mapErr_def zoom_def ok_def
      split: prod.splits sum.splits)

lemma repo_InsertStatusHistory_Inr:
  "repo_InsertStatusHistory e h d = (Inr u, d') \<longleftrightarrow>
     status_history_check e (h\<lparr>hs_CreatedAt := env_db_now e\<rparr>) = None \<and> risk_exists d (hs_ProjectID h) (hs_RiskID h) \<and>
     d' = d\<lparr>db_status_history := (db_status_history d)\<lparr>
       t_rows := t_rows (db_status_history d) @ [h\<lparr>hs_CreatedAt := env_db_now e, hs_ID := t_next (db_status_history d)\<rparr>],
       t_next := Suc (t_next (db_status_history d))\<rparr>\<rparr>"
  by (auto simp: repo_InsertStatusHistory_def Inr_iffs zoom_iff sql_insert_Inr list_ex_iff)

lemma repo_InsertStatusHistory_Inl: "repo_InsertStatusHistory e h d = (Inl err, d') \<Longrightarrow> d' = d"
  by (auto simp: repo_InsertStatusHistory_def bindM_Inl_iff mapErr_Inl_iff zoom_iff ok_def dest: sql_insert_Inl)

abbreviation stored_decision :: "env \<Rightarrow> risk_decision \<Rightarrow> risk_decision" where
  "stored_decision e x \<equiv> x\<lparr>rd_ExpiresAt := db_time e (rd_ExpiresAt x),
     rd_ReviewRequiredAt := db_time e (rd_ReviewRequiredAt x), rd_CreatedAt := env_db_now e\<rparr>"

lemma repo_InsertRiskDecision_Inr:
  "repo_InsertRiskDecision e x d = (Inr u, d') \<longleftrightarrow>
     decision_check e (stored_decision e x) = None \<and> risk_exists d (rd_ProjectID x) (rd_RiskID x) \<and>
     d' = d\<lparr>db_decisions := (db_decisions d)\<lparr>
       t_rows := t_rows (db_decisions d) @ [(stored_decision e x)\<lparr>rd_ID := t_next (db_decisions d)\<rparr>],
       t_next := Suc (t_next (db_decisions d))\<rparr>\<rparr>"
  by (auto simp: repo_InsertRiskDecision_def Inr_iffs zoom_iff sql_insert_Inr list_ex_iff)

lemma repo_InsertRiskDecision_Inl: "repo_InsertRiskDecision e x d = (Inl err, d') \<Longrightarrow> d' = d"
  by (auto simp: repo_InsertRiskDecision_def bindM_Inl_iff mapErr_Inl_iff zoom_iff ok_def dest: sql_insert_Inl)

lemma repo_InsertChangeEvent_shape:
  "repo_InsertChangeEvent e x d = (r, d') \<Longrightarrow> \<exists>t'. d' = d\<lparr>db_change_events := t'\<rparr>"
  by (auto simp: repo_InsertChangeEvent_def bindM_def mapErr_def zoom_def ok_def split: prod.splits sum.splits)

lemma record_audit_Inr:
  "record_audit e v d = (Inr u, d') \<longleftrightarrow>
     audit_check e (audit_entry e (with_defaults v)) = None \<and>
     d' = d\<lparr>db_audit := (db_audit d)\<lparr>t_rows := t_rows (db_audit d) @ [audit_written e v (t_next (db_audit d))],
       t_next := Suc (t_next (db_audit d))\<rparr>\<rparr>"
  by (auto simp: record_audit_def Inr_iffs zoom_iff audit_Record_Inr)

lemma record_audit_Inl: "record_audit e v d = (Inl err, d') \<Longrightarrow> d' = d"
  by (auto simp: record_audit_def mapErr_Inl_iff zoom_iff dest: audit_Record_Inl)

end
