(* ===== verification/RiskInv.thy ===== *)
theory RiskInv
  imports RiskFacts
begin

text \<open>
  The invariant of the risk database and its preservation. \<open>risk_inv k\<close> says, for a server whose
  collation key is \<open>k\<close>: ids are unique and below the next id, a project has one risk per key and one
  SLA policy per severity and business unit, statuses are those of the code, scores are at most 100,
  every decision was approved by somebody other than its author, every status-history row is a step
  of the status machine, decisions and history rows belong to a risk of their project, and a risk
  that is accepted or a false positive has a decision row that says so. Every operation keeps it
  (\<open>keeps\<close>); \<open>TransitionStatus\<close> keeps the last part because its statements are one transaction.
  \<open>risk_step\<close> is one call of an operation, and \<open>risk_reachable\<close> the states that calls lead to.
\<close>

section \<open>The invariant\<close>

definition risk_ident :: "(string \<Rightarrow> string) \<Rightarrow> risk \<Rightarrow> nat \<times> string" where
  "risk_ident k r = (r_ProjectID r, k (r_RiskKey r))"

definition risks_ok :: "(string \<Rightarrow> string) \<Rightarrow> risk table \<Rightarrow> bool" where
  "risks_ok k t \<longleftrightarrow> wf_rows r_ID t \<and> distinct (map (risk_ident k) (t_rows t)) \<and>
     (\<forall>r \<in> set (t_rows t). validRiskStatus (r_Status r) \<and> r_Score r \<le> 100)"

definition sla_ident :: "(string \<Rightarrow> string) \<Rightarrow> sla_policy \<Rightarrow> nat \<times> string \<times> string" where
  "sla_ident k p = (sp_ProjectID p, k (sp_Severity p), k (sp_BusinessUnit p))"

definition slas_ok :: "(string \<Rightarrow> string) \<Rightarrow> sla_policy table \<Rightarrow> bool" where
  "slas_ok k t \<longleftrightarrow> wf_rows sp_ID t \<and> distinct (map (sla_ident k) (t_rows t)) \<and>
     (\<forall>p \<in> set (t_rows t). 0 < sp_ResolutionHours p)"

text \<open>A decision with a reason and with an approver who did not take it.\<close>

definition four_eyes :: "risk_decision \<Rightarrow> bool" where
  "four_eyes x \<longleftrightarrow> isDecisionStatus (rd_Decision x) \<and> TrimSpace (rd_Reason x) \<noteq> [] \<and>
     TrimSpace (rd_ApprovedBy x) \<noteq> [] \<and> \<not> EqualFold (TrimSpace (rd_ApprovedBy x)) (TrimSpace (rd_CreatedBy x))"

definition legal_step :: "status_history \<Rightarrow> bool" where
  "legal_step h \<longleftrightarrow> nextRiskStatus (hs_Action h) (hs_OldStatus h) = Inr (hs_NewStatus h)"

definition decisions_ok :: "risk_db \<Rightarrow> bool" where
  "decisions_ok d \<longleftrightarrow> wf_rows rd_ID (db_decisions d) \<and>
     (\<forall>x \<in> set (t_rows (db_decisions d)). four_eyes x \<and> risk_exists d (rd_ProjectID x) (rd_RiskID x))"

definition history_ok :: "risk_db \<Rightarrow> bool" where
  "history_ok d \<longleftrightarrow> wf_rows hs_ID (db_status_history d) \<and>
     (\<forall>h \<in> set (t_rows (db_status_history d)). legal_step h \<and> risk_exists d (hs_ProjectID h) (hs_RiskID h))"

definition has_decision :: "risk_decision list \<Rightarrow> risk \<Rightarrow> bool" where
  "has_decision xs r \<longleftrightarrow>
     list_ex (\<lambda>x. rd_ProjectID x = r_ProjectID r \<and> rd_RiskID x = r_ID r \<and> rd_Decision x = r_Status r) xs"

definition decided :: "risk_db \<Rightarrow> bool" where
  "decided d \<longleftrightarrow> (\<forall>r \<in> set (t_rows (db_risks d)). isDecisionStatus (r_Status r) \<longrightarrow>
     has_decision (t_rows (db_decisions d)) r)"

definition catalog_ok :: "risk_db \<Rightarrow> bool" where
  "catalog_ok d \<longleftrightarrow> wf_rows vd_ID (db_definitions d) \<and> wf_rows rr_ID (db_rules d) \<and> wf_rows sr_ID (db_suppressions d)"

definition risk_inv :: "(string \<Rightarrow> string) \<Rightarrow> risk_db \<Rightarrow> bool" where
  "risk_inv k d \<longleftrightarrow> risks_ok k (db_risks d) \<and> slas_ok k (db_slas d) \<and> decisions_ok d \<and> history_ok d \<and>
     decided d \<and> catalog_ok d"

lemmas risk_inv_defs = risk_inv_def decisions_ok_def history_ok_def decided_def catalog_ok_def risk_exists_def

lemma risk_inv_empty: "risk_inv k empty_risk_db"
  by (simp add: risk_inv_defs risks_ok_def slas_ok_def empty_risk_db_def risk_rows.wf_empty sla_rows.wf_empty
      decision_rows.wf_empty status_history_rows.wf_empty definition_rows.wf_empty rule_rows.wf_empty
      suppression_rows.wf_empty) (simp add: empty_table_def)

lemma risk_inv_rollback: "risk_inv k d0 \<Longrightarrow> risk_inv k (risk_rollback d0 d1)"
  by (simp add: risk_inv_defs risks_ok_def slas_ok_def risk_rollback_def risk_rows.wf_rollback sla_rows.wf_rollback
      decision_rows.wf_rollback status_history_rows.wf_rollback definition_rows.wf_rollback rule_rows.wf_rollback
      suppression_rows.wf_rollback)

lemma risk_inv_wf: "risk_inv k d \<Longrightarrow> wf_rows r_ID (db_risks d)"
  by (simp add: risk_inv_def risks_ok_def)

section \<open>Statements that write risks\<close>

text \<open>An \<open>UPDATE risk\<close> that leaves the identity of a row alone.\<close>

definition same_identity :: "risk \<Rightarrow> risk \<Rightarrow> bool" where
  "same_identity x y \<longleftrightarrow> r_ID x = r_ID y \<and> r_ProjectID x = r_ProjectID y \<and> r_RiskKey x = r_RiskKey y"

lemma touched_identity: "(\<And>r. same_identity (f r) r) \<Longrightarrow> same_identity (touched e p f r) r"
  by (simp add: upd_row_def same_identity_def)

lemma risks_ok_update:
  assumes ok: "risks_ok k t" and ident: "\<And>r. same_identity (f r) r"
    and status: "\<And>r. r \<in> set (t_rows t) \<Longrightarrow> p r \<Longrightarrow> validRiskStatus (r_Status (f r))"
    and chk: "\<And>r. r \<in> set (t_rows t) \<Longrightarrow> p r \<Longrightarrow> risk_check e (f r) = None"
  shows "risks_ok k (t\<lparr>t_rows := map (touched e p f) (t_rows t)\<rparr>)"
proof -
  have ids: "r_ID (touched e p f r) = r_ID r" "risk_ident k (touched e p f r) = risk_ident k r" for r
    using touched_identity [where f = f and e = e and p = p and r = r] ident by (auto simp: same_identity_def risk_ident_def)
  have "r_Score (f r) \<le> 100" if "r \<in> set (t_rows t)" "p r" for r
    using chk [OF that] by (auto simp: risk_check_def row_check_def split: if_splits)
  then have "validRiskStatus (r_Status (touched e p f r)) \<and> r_Score (touched e p f r) \<le> 100"
    if "r \<in> set (t_rows t)" for r
    using ok status [OF that] that by (auto simp: upd_row_def risks_ok_def)
  then show ?thesis
    using ok by (auto simp: risks_ok_def wf_rows_def ids comp_def)
qed

lemma risk_exists_update:
  assumes "\<And>r. same_identity (f r) r"
  shows "risk_exists (set_rows (map (touched e p f) (t_rows (db_risks d))) d) q i = risk_exists d q i"
  using touched_identity [where f = f and e = e and p = p] assms
  by (auto simp: risk_exists_def list_ex_iff same_identity_def)

text \<open>The update keeps \<open>decided\<close> when it leaves the status of a row alone or sets it to an open status.\<close>

lemma risk_inv_update:
  assumes inv: "risk_inv k d" and ident: "\<And>r. same_identity (f r) r"
    and status: "\<And>r. r \<in> set (t_rows (db_risks d)) \<Longrightarrow> p r \<Longrightarrow>
      r_Status (f r) = r_Status r \<or> validRiskStatus (r_Status (f r)) \<and> \<not> isDecisionStatus (r_Status (f r))"
    and chk: "\<And>r. r \<in> set (t_rows (db_risks d)) \<Longrightarrow> p r \<Longrightarrow> risk_check e (f r) = None"
  shows "risk_inv k (set_rows (map (touched e p f) (t_rows (db_risks d))) d)"
proof -
  let ?d = "set_rows (map (touched e p f) (t_rows (db_risks d))) d"
  have old: "risks_ok k (db_risks d)" using inv by (simp add: risk_inv_def)
  have "validRiskStatus (r_Status (f r))" if "r \<in> set (t_rows (db_risks d))" "p r" for r
    using status [OF that] old that(1) by (auto simp: risks_ok_def)
  then have risks: "risks_ok k (db_risks ?d)"
    using risks_ok_update [OF old ident _ chk] by simp
  have "has_decision (t_rows (db_decisions d)) (touched e p f r)"
    if r: "r \<in> set (t_rows (db_risks d))" and dec: "isDecisionStatus (r_Status (touched e p f r))" for r
  proof -
    have same: "r_Status (touched e p f r) = r_Status r"
      using status [OF r] dec by (auto simp: upd_row_def)
    then have "has_decision (t_rows (db_decisions d)) r"
      using inv r dec by (simp add: risk_inv_def decided_def)
    then show ?thesis
      using same touched_identity [where f = f and e = e and p = p and r = r] ident by (simp add: has_decision_def same_identity_def)
  qed
  then have "decided ?d" by (simp add: decided_def)
  then show ?thesis
    using inv risks by (simp add: risk_inv_def decisions_ok_def history_ok_def catalog_ok_def risk_exists_update [OF ident])
qed

lemma keeps_risk_update:
  assumes "\<And>r. same_identity (f r) r"
    and "\<And>r. r_Status (f r) = r_Status r \<or> validRiskStatus (r_Status (f r)) \<and> \<not> isDecisionStatus (r_Status (f r))"
  shows "keeps (risk_inv k) (risk_update e p f)"
proof (rule keepsI)
  fix d assume inv: "risk_inv k d"
  obtain res d' where u: "risk_update e p f d = (res, d')" by (cases "risk_update e p f d")
  have "risk_inv k d'"
  proof (cases res)
    case (Inl err)
    then show ?thesis using u inv by (auto dest: risk_update_Inl)
  next
    case (Inr v)
    then show ?thesis
      using u risk_inv_update [OF inv assms(1) assms(2)] by (auto simp: risk_update_Inr)
  qed
  then show "risk_inv k (snd (risk_update e p f d))" by (simp add: u)
qed

lemma same_identity_writes [simp]:
  "same_identity (refreshed e p r) r"
  "same_identity ((refreshed e p r)\<lparr>r_Status := st, r_FixedAt := ft\<rparr>) r"
  "same_identity (status_written e u r) r"
  "r_Status (refreshed e p r) = r_Status r" "r_Status (status_written e u r) = su_NewStatus u"
  by (simp_all add: same_identity_def refreshed_def status_written_def)

lemma reopened_is_open: "validRiskStatus StatusReopened \<and> \<not> isDecisionStatus StatusReopened"
  by (simp add: validRiskStatus_def risk_statuses_def isDecisionStatus_def)

lemma keeps_RefreshRisk [keeps_intros]: "keeps (risk_inv k) (repo_RefreshRisk e p)"
  unfolding repo_RefreshRisk_def by (rule keeps_risk_update) simp_all

lemma keeps_ReopenRisk [keeps_intros]: "keeps (risk_inv k) (repo_ReopenRisk e p)"
  unfolding repo_ReopenRisk_def by (rule keeps_risk_update) (simp_all add: reopened_is_open)

lemma keeps_UpdateRiskScore [keeps_intros]: "keeps (risk_inv k) (repo_UpdateRiskScore e q i sc a)"
  unfolding repo_UpdateRiskScore_def by (rule keeps_risk_update) (simp_all add: same_identity_def)

lemma keeps_UpdateRiskStatus_open:
  assumes "validRiskStatus (su_NewStatus u)" and "\<not> isDecisionStatus (su_NewStatus u)"
  shows "keeps (risk_inv k) (repo_UpdateRiskStatus e u)"
  unfolding repo_UpdateRiskStatus_def by (rule keeps_risk_update) (simp_all add: assms)

lemma keeps_CreateRisk:
  assumes status: "up_Status p = StatusNew" and key: "env_key e = k"
  shows "keeps (risk_inv k) (repo_CreateRisk e p)"
proof (rule keepsI)
  fix d assume inv: "risk_inv k d"
  obtain res d' where c: "repo_CreateRisk e p d = (res, d')" by (cases "repo_CreateRisk e p d")
  have "risk_inv k d'"
  proof (cases res)
    case (Inl err)
    then show ?thesis using c inv by (auto dest: repo_CreateRisk_Inl)
  next
    case (Inr n)
    let ?new = "(risk_row e p)\<lparr>r_ID := t_next (db_risks d)\<rparr>"
    obtain t' where ins: "sql_insert (risk_check e) (risk_same_key e) (risk_fk d) (\<lambda>n x. x\<lparr>r_ID := n\<rparr>) (risk_row e p) (db_risks d) = (Inr n, t')"
      and d': "d' = d\<lparr>db_risks := t'\<rparr>"
      using c Inr by (auto simp: repo_CreateRisk_Inr)
    have t': "t' = (db_risks d)\<lparr>t_rows := t_rows (db_risks d) @ [?new], t_next := Suc (t_next (db_risks d))\<rparr>"
      and fresh: "\<not> list_ex (risk_same_key e (risk_row e p)) (t_rows (db_risks d))"
      and chk: "risk_check e (risk_row e p) = None"
      using ins by (auto simp: sql_insert_Inr)
    have st: "r_Status ?new = StatusNew" and id: "risk_ident k ?new = (up_ProjectID p, k (up_RiskKey p))"
      using status by (simp_all add: risk_row_def risk_ident_def)
    have "r_Score ?new \<le> 100"
      using chk by (auto simp: risk_check_def row_check_def split: if_splits)
    moreover have "risk_ident k ?new \<notin> risk_ident k ` set (t_rows (db_risks d))"
      using fresh key unfolding id
      by (auto simp: list_ex_iff risk_same_key_def risk_row_def risk_ident_def sql_eq_def)
    ultimately have "risks_ok k t'"
      using inv risk_rows.wf_insert [OF risk_inv_wf [OF inv] ins] st
      by (simp add: risk_inv_def risks_ok_def t' validRiskStatus_def risk_statuses_def)
    then show ?thesis
      using inv st by (auto simp: risk_inv_defs d' t' isDecisionStatus_def list_ex_iff)
  qed
  then show "risk_inv k (snd (repo_CreateRisk e p d))" by (simp add: c)
qed

section \<open>Statements on the other tables\<close>

lemma risk_inv_unread [simp]:
  "risk_inv k (d\<lparr>db_score_history := t1\<rparr>) = risk_inv k d"
  "risk_inv k (d\<lparr>db_change_events := t2\<rparr>) = risk_inv k d"
  "risk_inv k (d\<lparr>db_audit := t3\<rparr>) = risk_inv k d"
  "risk_inv k (d\<lparr>db_projects := ps\<rparr>) = risk_inv k d"
  "risk_inv k (d\<lparr>db_assets := as\<rparr>) = risk_inv k d"
  "risk_inv k (d\<lparr>db_exposures := xs\<rparr>) = risk_inv k d"
  by (simp_all add: risk_inv_defs)

lemma keeps_InsertScoreHistory [keeps_intros]: "keeps (risk_inv k) (repo_InsertScoreHistory e h)"
  by (rule keepsI) (metis repo_InsertScoreHistory_shape prod.collapse risk_inv_unread(1))

lemma keeps_InsertChangeEvent [keeps_intros]: "keeps (risk_inv k) (repo_InsertChangeEvent e x)"
  by (rule keepsI) (metis repo_InsertChangeEvent_shape prod.collapse risk_inv_unread(2))

lemma risk_inv_definitions: "risk_inv k d \<Longrightarrow> wf_rows vd_ID t \<Longrightarrow> risk_inv k (d\<lparr>db_definitions := t\<rparr>)"
  by (simp add: risk_inv_defs)

lemma risk_inv_rules: "risk_inv k d \<Longrightarrow> wf_rows rr_ID t \<Longrightarrow> risk_inv k (d\<lparr>db_rules := t\<rparr>)"
  by (simp add: risk_inv_defs)

lemma risk_inv_suppressions: "risk_inv k d \<Longrightarrow> wf_rows sr_ID t \<Longrightarrow> risk_inv k (d\<lparr>db_suppressions := t\<rparr>)"
  by (simp add: risk_inv_defs)

lemma risk_inv_slas: "risk_inv k d \<Longrightarrow> slas_ok k t \<Longrightarrow> risk_inv k (d\<lparr>db_slas := t\<rparr>)"
  by (simp add: risk_inv_defs)

lemma risk_inv_catalog: "risk_inv k d \<Longrightarrow>
    wf_rows vd_ID (db_definitions d) \<and> wf_rows rr_ID (db_rules d) \<and> wf_rows sr_ID (db_suppressions d) \<and> slas_ok k (db_slas d)"
  by (simp add: risk_inv_def catalog_ok_def)

lemma keeps_CreateDefinition [keeps_intros]: "keeps (risk_inv k) (repo_CreateDefinition e i)"
  by (rule keepsI) (auto simp: repo_CreateDefinition_def mapErr_def zoom_def split: prod.splits sum.splits
      dest!: definition_rows.wf_insert [rotated] intro!: risk_inv_definitions dest: risk_inv_catalog)

lemma keeps_CreateRule [keeps_intros]: "keeps (risk_inv k) (repo_CreateRule e i)"
  by (rule keepsI) (auto simp: repo_CreateRule_def mapErr_def zoom_def split: prod.splits sum.splits
      dest!: rule_rows.wf_insert [rotated] intro!: risk_inv_rules dest: risk_inv_catalog)

lemma keeps_CreateSuppressionRule [keeps_intros]: "keeps (risk_inv k) (repo_CreateSuppressionRule e i)"
  by (rule keepsI) (auto simp: repo_CreateSuppressionRule_def mapErr_def zoom_def split: prod.splits sum.splits
      dest!: suppression_rows.wf_insert [rotated] intro!: risk_inv_suppressions dest: risk_inv_catalog)

lemma keeps_rowsAffectedErr: "keeps I m \<Longrightarrow> keeps I (rowsAffectedErr m)"
  unfolding rowsAffectedErr_def by (intro keeps_intros)

lemma keeps_repo_SetRuleEnabled [keeps_intros]: "keeps (risk_inv k) (repo_SetRuleEnabled e q i b a)"
  unfolding repo_SetRuleEnabled_def
proof (intro keeps_rowsAffectedErr keeps_zoom [where J = "wf_rows rr_ID"])
  show "keeps (wf_rows rr_ID) (sql_update (rule_check e) (\<lambda>x. rr_ID x = i \<and> rr_ProjectID x = q)
      (\<lambda>x. x\<lparr>rr_Enabled := b, rr_UpdatedBy := a\<rparr>) (\<lambda>x. x\<lparr>rr_UpdatedAt := env_db_now e\<rparr>))"
    by (rule keepsI, rule rule_rows.wf_update [OF _ _ surjective_pairing]) simp_all
qed (auto intro: risk_inv_rules dest: risk_inv_catalog)

lemma keeps_repo_SetSuppressionRuleEnabled [keeps_intros]:
  "keeps (risk_inv k) (repo_SetSuppressionRuleEnabled e q i b a)"
  unfolding repo_SetSuppressionRuleEnabled_def
proof (intro keeps_rowsAffectedErr keeps_zoom [where J = "wf_rows sr_ID"])
  show "keeps (wf_rows sr_ID) (sql_update suppression_check (\<lambda>x. sr_ID x = i \<and> sr_ProjectID x = q)
      (\<lambda>x. x\<lparr>sr_Enabled := b, sr_UpdatedBy := a\<rparr>) (\<lambda>x. x\<lparr>sr_UpdatedAt := env_db_now e\<rparr>))"
    by (rule keepsI, rule suppression_rows.wf_update [OF _ _ surjective_pairing]) simp_all
qed (auto intro: risk_inv_suppressions dest: risk_inv_catalog)

lemma sla_check_hours: "sla_check e x = None \<Longrightarrow> 0 < sp_ResolutionHours x"
  by (auto simp: sla_check_def row_check_def split: if_splits)

text \<open>A policy is inserted under a new identity or overwritten in place.\<close>

lemma slas_ok_update:
  assumes old: "slas_ok k t" and upd: "sql_update (sla_check e) p f (\<lambda>x. x\<lparr>sp_UpdatedAt := now\<rparr>) t = (res, t')"
    and ident: "\<And>x. sp_ID (f x) = sp_ID x" "\<And>x. sla_ident k (f x) = sla_ident k x"
  shows "slas_ok k t'"
proof (cases res)
  case (Inl err)
  then show ?thesis using old upd by (auto dest: sql_update_Inl)
next
  case (Inr n)
  let ?g = "upd_row p f (\<lambda>x. x\<lparr>sp_UpdatedAt := now\<rparr>)"
  have "sla_ident k (?g x) = sla_ident k x" for x
    using ident(2) [of x] by (simp add: upd_row_def sla_ident_def)
  moreover have "0 < sp_ResolutionHours (?g x)" if "x \<in> set (t_rows t)" for x
    using that old upd Inr by (auto simp: upd_row_def slas_ok_def sql_update_Inr dest!: sla_check_hours)
  moreover have "wf_rows sp_ID t'"
    using old by (intro sla_rows.wf_update [OF ident(1) _ upd]) (simp add: slas_ok_def)
  ultimately show ?thesis
    using old upd Inr by (simp add: slas_ok_def sql_update_Inr comp_def)
qed

lemma slas_ok_insert:
  assumes old: "slas_ok k t" and key: "env_key e = k"
    and ins: "sql_insert (sla_check e) (sla_same_key e) fk (\<lambda>n x. x\<lparr>sp_ID := n\<rparr>) row t = (res, t')"
  shows "slas_ok k t'"
proof (cases res)
  case (Inl err)
  then show ?thesis using old ins by (auto dest: sql_insert_Inl)
next
  case (Inr n)
  have "wf_rows sp_ID t'" using old by (intro sla_rows.wf_insert [OF _ ins]) (simp add: slas_ok_def)
  moreover have "sla_ident k (row\<lparr>sp_ID := n\<rparr>) \<notin> sla_ident k ` set (t_rows t)"
    using ins Inr key by (auto simp: sql_insert_Inr list_ex_iff sla_same_key_def sla_ident_def sql_eq_def)
  ultimately show ?thesis
    using old ins Inr by (auto simp: slas_ok_def sql_insert_Inr dest: sla_check_hours)
qed

lemma keeps_repo_UpsertSLAPolicy:
  assumes "env_key e = k"
  shows "keeps (risk_inv k) (repo_UpsertSLAPolicy e i)"
proof (rule keepsI)
  fix d assume inv: "risk_inv k d"
  then have old: "slas_ok k (db_slas d)" by (simp add: risk_inv_def)
  show "risk_inv k (snd (repo_UpsertSLAPolicy e i d))"
    unfolding repo_UpsertSLAPolicy_def bindM_def mapErr_def zoom_def Let_def
    by (auto simp: ok_def split: prod.splits sum.splits if_splits intro!: risk_inv_slas [OF inv]
        elim!: slas_ok_insert [OF old assms] slas_ok_update [OF old] simp: sla_ident_def)
qed

section \<open>Service operations\<close>

lemmas service_read_defs = repo_GetRiskByID_def repo_GetRiskByKey_def repo_GetDefinitionByID_def repo_GetRuleByID_def
  repo_GetSuppressionRuleByID_def repo_ListEnabledRules_def repo_ListActiveSuppressionRules_def repo_GetSLAPolicy_def
  repo_ListOpenRisksForSLARecalc_def repo_ListExpiredRiskDecisions_def

lemma keeps_runInTx [keeps_intros]: "keeps (risk_inv k) m \<Longrightarrow> keeps (risk_inv k) (runInTx s m)"
  unfolding runInTx_def by (intro keeps_intros risk_inv_rollback)

lemma keeps_read [keeps_intros]:
  "keeps I (repo_GetRiskByID q i)" "keeps I (repo_GetRiskByKey e q key)" "keeps I (repo_GetDefinitionByID q i)"
  "keeps I (repo_GetRuleByID q i)" "keeps I (repo_GetSuppressionRuleByID q i)" "keeps I (repo_ListEnabledRules q)"
  "keeps I (repo_ListActiveSuppressionRules q now)" "keeps I (repo_GetSLAPolicy e q sev bu)"
  "keeps I (repo_ListOpenRisksForSLARecalc e q lim)" "keeps I (repo_ListExpiredRiskDecisions e q now lim)"
  unfolding service_read_defs by (rule keeps_intros)+

lemma keeps_findSLAPolicy [keeps_intros]: "keeps I (findSLAPolicy s q sev bu)"
  unfolding findSLAPolicy_def Let_def by (intro keeps_intros)

lemma keeps_ResolveDueAt [keeps_intros]: "keeps I (ResolveDueAt s q sev bu from)"
  unfolding ResolveDueAt_def by (intro keeps_intros)

lemma keeps_svc_CreateDefinition: "keeps (risk_inv k) (CreateDefinition s i)"
  unfolding CreateDefinition_def Let_def by (intro keeps_intros)

lemma keeps_svc_CreateRule: "keeps (risk_inv k) (CreateRule s i)"
  unfolding CreateRule_def Let_def by (intro keeps_intros)

lemma keeps_SetRuleEnabled: "keeps (risk_inv k) (SetRuleEnabled s q i b a)"
  unfolding SetRuleEnabled_def by (intro keeps_intros)

lemma keeps_svc_CreateSuppressionRule: "keeps (risk_inv k) (CreateSuppressionRule s i)"
  unfolding CreateSuppressionRule_def Let_def by (intro keeps_intros)

lemma keeps_SetSuppressionRuleEnabled: "keeps (risk_inv k) (SetSuppressionRuleEnabled s q i b a)"
  unfolding SetSuppressionRuleEnabled_def by (intro keeps_intros)

lemma keeps_UpsertSLAPolicy: "env_key (rs_env s) = k \<Longrightarrow> keeps (risk_inv k) (UpsertSLAPolicy s i)"
  unfolding UpsertSLAPolicy_def Let_def by (intro keeps_intros keeps_repo_UpsertSLAPolicy)

lemma applySuppression_keeps_fields:
  assumes "applySuppression p observed d = (Inr p', d')"
  shows "up_Status p' = up_Status p \<and> up_ProjectID p' = up_ProjectID p \<and> up_RiskKey p' = up_RiskKey p \<and> d' = d"
  using assms
  by (auto simp: applySuppression_def Inr_iffs repo_ListActiveSuppressionRules_def Let_def split: option.splits)

lemma keeps_applySuppression [keeps_intros]: "keeps I (applySuppression p observed)"
  unfolding applySuppression_def Let_def by (intro keeps_intros)

lemma keeps_upsertRisk:
  assumes status: "up_Status p = StatusNew" and key: "env_key e = k"
  shows "keeps (risk_inv k) (upsertRisk e p src observed)"
  unfolding upsertRisk_def
proof (rule keeps_bindM_post [where P = "\<lambda>p'. up_Status p' = StatusNew"])
  fix p' :: upsert_params assume "up_Status p' = StatusNew"
  then have "keeps (risk_inv k) (create_branch e p' src observed)"
    unfolding create_branch_def by (intro keeps_intros keeps_CreateRisk [OF _ key])
  then show "keeps (risk_inv k) (bindM (tryM (repo_GetRiskByKey e (up_ProjectID p') (up_RiskKey p'))) (\<lambda>r.
     case r of
       Inl err \<Rightarrow> if err \<noteq> ErrNotFound then fail err else create_branch e p' src observed
     | Inr existing \<Rightarrow>
         let p1 = p'\<lparr>up_ID := r_ID existing\<rparr> in
         if r_Status existing = StatusFixed then reopen_branch e p1 existing src observed
         else refresh_branch e p1 existing))"
    unfolding reopen_branch_def refresh_branch_def Let_def by (intro keeps_intros)
qed (use status in \<open>auto intro: keeps_intros dest: applySuppression_keeps_fields\<close>)

lemma applyScore_keeps_fields [simp]:
  "up_Status (applyScore e m p t) = up_Status p" "up_ObservedAt (applyScore e m p t) = up_ObservedAt p"
  "up_Source (applyScore e m p t) = up_Source p" "up_RiskKey (applyScore e m p t) = up_RiskKey p"
  "up_ProjectID (applyScore e m p t) = up_ProjectID p"
  by (simp_all add: applyScore_def Let_def)

lemma built_status [simp]:
  "up_Status (buildRiskParams v m a t) = StatusNew" "up_Status (buildRuleRiskParams rule target a t) = StatusNew"
  "up_Status (certificateRiskParams f a t) = StatusNew"
  by (simp_all add: buildRiskParams_def buildRuleRiskParams_def certificateRiskParams_def Let_def)

lemma keeps_applyMatch: "env_key (rs_env s) = k \<Longrightarrow> keeps (risk_inv k) (applyMatch s v m a)"
  unfolding applyMatch_def Let_def by (intro keeps_intros keeps_upsertRisk) simp_all

lemma keeps_ApplyDefinitionMatches:
  "env_key (rs_env s) = k \<Longrightarrow> keeps (risk_inv k) (ApplyDefinitionMatches s q i ms a)"
  unfolding ApplyDefinitionMatches_def by (intro keeps_intros keeps_applyMatch)

lemma keeps_applyTarget: "env_key (rs_env s) = k \<Longrightarrow> keeps (risk_inv k) (applyTarget s q rules a t)"
  unfolding applyTarget_def Let_def by (intro keeps_intros keeps_upsertRisk) simp_all

lemma keeps_ApplyRules: "env_key (rs_env s) = k \<Longrightarrow> keeps (risk_inv k) (ApplyRules s q ts a)"
  unfolding ApplyRules_def by (intro keeps_intros keeps_applyTarget)

lemma keeps_ReportCertificateFinding:
  "env_key (rs_env s) = k \<Longrightarrow> keeps (risk_inv k) (ReportCertificateFinding s f)"
  unfolding ReportCertificateFinding_def Let_def
  by (intro keeps_intros keeps_upsertRisk) (auto split: prod.splits intro: keeps_intros)

lemma keeps_RecalculateScores: "keeps (risk_inv k) (RecalculateScores s q ids a reason)"
  unfolding RecalculateScores_def Let_def by (intro keeps_intros)

lemma sla_open_status: "sla_open e r \<Longrightarrow> \<not> isDecisionStatus (r_Status r)"
  by (auto simp: sla_open_def sql_in_def isDecisionStatus_def)

text \<open>The listed risks are open and their statuses are valid, so writing those back keeps the invariant.\<close>

lemma open_risks_listed:
  assumes "risk_inv k d" and "repo_ListOpenRisksForSLARecalc e q lim d = (Inr rs, d')" and "r \<in> set rs"
  shows "validRiskStatus (r_Status r) \<and> \<not> isDecisionStatus (r_Status r)"
proof -
  have "r \<in> set (t_rows (db_risks d)) \<and> sla_open e r"
    using assms(2,3) set_page by (fastforce simp: repo_ListOpenRisksForSLARecalc_def gets_Inr_iff sql_many_def)
  then show ?thesis using assms(1) by (auto simp: risk_inv_def risks_ok_def dest: sla_open_status)
qed

lemma keeps_RecalculateSLADueAt: "keeps (risk_inv k) (RecalculateSLADueAt s q lim a)"
  unfolding RecalculateSLADueAt_def
proof (rule keeps_failIf_then, rule keeps_failIf_then,
    rule keeps_bindM_post [where P = "\<lambda>rs. \<forall>r \<in> set rs. validRiskStatus (r_Status r) \<and> \<not> isDecisionStatus (r_Status r)"])
  fix rs assume "\<forall>r \<in> set rs. validRiskStatus (r_Status r) \<and> \<not> isDecisionStatus (r_Status r)"
  then show "keeps (risk_inv k) (forM (\<lambda>r.
       bindM (ResolveDueAt s q (r_Severity r) (r_BusinessUnit r)
                (if r_FirstSeen r = zero_time then svc_now s else r_FirstSeen r)) (\<lambda>dueAt.
       bindM (repo_UpdateRiskStatus (rs_env s)
                \<lparr>su_ProjectID = q, su_RiskID = r_ID r, su_OldStatus = r_Status r, su_NewStatus = r_Status r,
                  su_Owner = r_Owner r, su_SLADueAt = dueAt, su_ConfirmedAt = r_ConfirmedAt r, su_FixedAt = r_FixedAt r,
                  su_ActorID = a\<rparr>) (\<lambda>_.
       repo_GetRiskByID q (r_ID r)))) rs)"
    by (intro keeps_forM_set keeps_bindM keeps_ResolveDueAt keeps_read keeps_UpdateRiskStatus_open) simp_all
qed (auto intro: keeps_intros dest: open_risks_listed)

end
