(* ===== verification/RiskTransition.thy ===== *)
theory RiskTransition
  imports RiskInv
begin

text \<open>
  What \<open>TransitionStatus\<close> does, in one statement: \<open>transitioned\<close> is the database after a successful
  transition, \<open>transition_body_Inr\<close> derives it from the statements of the transaction, and a failed
  transition inside a transaction leaves every row as it was. On top of it the step relation of the
  risk database and the reachability of its states.
\<close>

section \<open>A successful transition\<close>

lemma keeps_with_due_date [keeps_intros]: "keeps I (with_due_date s b n u)"
  unfolding with_due_date_def by (intro keeps_intros)

lemma with_due_date_Inr:
  assumes "with_due_date s b n u d = (Inr u', d')"
  shows "d' = d \<and> u' = u\<lparr>su_SLADueAt := su_SLADueAt u'\<rparr> \<and> (\<not> isZeroTime (su_SLADueAt u) \<longrightarrow> su_SLADueAt u' = su_SLADueAt u)"
proof -
  have "d' = d" using keepsD [OF keeps_with_due_date [of "(=) d"] refl assms] by simp
  moreover obtain r d1 where "ResolveDueAt s (r_ProjectID b) (r_Severity b) (r_BusinessUnit b) (svc_now s) d = (r, d1)"
    by (cases "ResolveDueAt s (r_ProjectID b) (r_Severity b) (r_BusinessUnit b) (svc_now s) d")
  ultimately show ?thesis
    using assms by (cases r) (auto simp: with_due_date_def bindM_def tryM_def ok_def fail_def split: if_split_asm)
qed

text \<open>The row that a transition writes, with \<open>due\<close> as its due date.\<close>

definition written_risk :: "env \<Rightarrow> risk \<Rightarrow> transition_input \<Rightarrow> string \<Rightarrow> time \<Rightarrow> risk" where
  "written_risk e before i nxt due =
     (status_written e ((buildStatusUpdate before i nxt (env_now e))\<lparr>su_SLADueAt := due\<rparr>) before)\<lparr>r_UpdatedAt := env_db_now e\<rparr>"

definition append_row :: "'r \<Rightarrow> 'r table \<Rightarrow> 'r table" where
  "append_row x t = t\<lparr>t_rows := t_rows t @ [x], t_next := Suc (t_next t)\<rparr>"

definition transitioned :: "risk_service \<Rightarrow> transition_input \<Rightarrow> risk \<Rightarrow> string \<Rightarrow> risk \<Rightarrow> risk_db \<Rightarrow> risk_db" where
  "transitioned s i before nxt after d =
     d\<lparr>db_risks := (db_risks d)\<lparr>t_rows := map (\<lambda>r. if r_ID r = r_ID before then after else r) (t_rows (db_risks d))\<rparr>,
       db_status_history := append_row
         ((history_of before i nxt)\<lparr>hs_CreatedAt := env_db_now (rs_env s), hs_ID := t_next (db_status_history d)\<rparr>)
         (db_status_history d),
       db_decisions := (if isDecisionStatus nxt
         then append_row ((stored_decision (rs_env s) (decision_of before i nxt))\<lparr>rd_ID := t_next (db_decisions d)\<rparr>) (db_decisions d)
         else db_decisions d),
       db_audit := (if rs_db s \<or> rs_sink s
         then append_row (audit_written (rs_env s) (status_audit_event before after i) (t_next (db_audit d))) (db_audit d)
         else db_audit d)\<rparr>"

lemma append_row_fields [simp]: "t_rows (append_row x t) = t_rows t @ [x]" "t_next (append_row x t) = Suc (t_next t)"
  by (simp_all add: append_row_def)

lemma transitioned_fields [simp]:
  "db_risks (transitioned s i b n a d) =
     (db_risks d)\<lparr>t_rows := map (\<lambda>r. if r_ID r = r_ID b then a else r) (t_rows (db_risks d))\<rparr>"
  "db_status_history (transitioned s i b n a d) = append_row
     ((history_of b i n)\<lparr>hs_CreatedAt := env_db_now (rs_env s), hs_ID := t_next (db_status_history d)\<rparr>) (db_status_history d)"
  "db_decisions (transitioned s i b n a d) = (if isDecisionStatus n
     then append_row ((stored_decision (rs_env s) (decision_of b i n))\<lparr>rd_ID := t_next (db_decisions d)\<rparr>) (db_decisions d)
     else db_decisions d)"
  "db_audit (transitioned s i b n a d) = (if rs_db s \<or> rs_sink s
     then append_row (audit_written (rs_env s) (status_audit_event b a i) (t_next (db_audit d))) (db_audit d)
     else db_audit d)"
  "db_slas (transitioned s i b n a d) = db_slas d" "db_definitions (transitioned s i b n a d) = db_definitions d"
  "db_rules (transitioned s i b n a d) = db_rules d" "db_suppressions (transitioned s i b n a d) = db_suppressions d"
  by (simp_all add: transitioned_def)

lemma written_risk_simps [simp]:
  "r_ID (written_risk e b i n due) = r_ID b" "r_ProjectID (written_risk e b i n due) = r_ProjectID b"
  "r_RiskKey (written_risk e b i n due) = r_RiskKey b" "r_Status (written_risk e b i n due) = n"
  "r_Score (written_risk e b i n due) = r_Score b"
  "r_Owner (written_risk e b i n due) = (if n = StatusAssigned then TrimSpace (ti_Owner i) else r_Owner b)"
  "r_SLADueAt (written_risk e b i n due) = db_time e due" "r_UpdatedBy (written_risk e b i n due) = ti_ActorID i"
  by (simp_all add: written_risk_def status_written_def) (simp add: buildStatusUpdate_def)

text \<open>The conditional \<open>UPDATE ... AND status = old\<close> rewrites exactly the row that was read.\<close>

lemma UpdateRiskStatus_row:
  assumes wf: "wf_rows r_ID (db_risks d)" and b: "b \<in> set (t_rows (db_risks d))"
    and u: "su_RiskID u = r_ID b" "su_ProjectID u = r_ProjectID b" "su_OldStatus u = r_Status b"
    and upd: "repo_UpdateRiskStatus e u d = (Inr v, d')"
  shows "d' = set_rows (map (\<lambda>r. if r_ID r = r_ID b then (status_written e u b)\<lparr>r_UpdatedAt := env_db_now e\<rparr> else r)
                         (t_rows (db_risks d))) d"
    and "risk_check e (status_written e u b) = None"
  by (rule risk_update_row [OF wf b _ _ upd [unfolded repo_UpdateRiskStatus_def]]; simp add: u)+

lemma one_by_replace:
  assumes "x \<in> set rows" and "r_ID y = r_ID x"
  shows "List.find (\<lambda>r. r_ID r = r_ID x \<and> r_ProjectID r = r_ProjectID y)
           (map (\<lambda>r. if r_ID r = r_ID x then y else r) rows) = Some y"
  using assms by (induction rows) auto

lemma GetRiskByID_Inr:
  "repo_GetRiskByID q i d = (Inr r, d') \<longleftrightarrow>
     d' = d \<and> sql_one (\<lambda>x. r_ID x = i \<and> r_ProjectID x = q) (db_risks d) = Some r"
  by (auto simp: repo_GetRiskByID_def Inr_iffs)

lemma GetRiskByID_mem:
  "repo_GetRiskByID q i d = (Inr r, d') \<Longrightarrow> d' = d \<and> r \<in> set (t_rows (db_risks d)) \<and> r_ID r = i \<and> r_ProjectID r = q"
  by (auto simp: GetRiskByID_Inr dest: sql_one_mem)

lemma transition_body_Inr:
  assumes wf: "wf_rows r_ID (db_risks d)" and run: "transition_body s i d = (Inr after, d')"
  obtains before nxt due where
    "before \<in> set (t_rows (db_risks d))" "r_ID before = ti_RiskID i" "r_ProjectID before = ti_ProjectID i"
    "nextRiskStatus (ti_Action i) (r_Status before) = Inr nxt" "validateTransitionInput i nxt = Inr ()"
    "with_due_date s before nxt (buildStatusUpdate before i nxt (svc_now s)) d =
       (Inr ((buildStatusUpdate before i nxt (svc_now s))\<lparr>su_SLADueAt := due\<rparr>), d)"
    "after = written_risk (rs_env s) before i nxt due" "r_Score after \<le> 100"
    "d' = transitioned s i before nxt after d"
proof -
  obtain before nxt u d1 d2 d3 d4 where
    get: "repo_GetRiskByID (ti_ProjectID i) (ti_RiskID i) d = (Inr before, d)"
    and nxt: "nextRiskStatus (ti_Action i) (r_Status before) = Inr nxt"
    and valid: "validateTransitionInput i nxt = Inr ()"
    and due1: "with_due_date s before nxt (buildStatusUpdate before i nxt (svc_now s)) d = (Inr u, d1)"
    and upd1: "repo_UpdateRiskStatus (rs_env s) u d1 = (Inr (), d2)"
    and get2: "repo_GetRiskByID (ti_ProjectID i) (ti_RiskID i) d2 = (Inr after, d2)"
    and hist: "repo_InsertStatusHistory (rs_env s) (history_of before i nxt) d2 = (Inr (), d3)"
    and dec: "(if isDecisionStatus nxt then repo_InsertRiskDecision (rs_env s) (decision_of before i nxt) else ok ()) d3 = (Inr (), d4)"
    and aud: "recordStatusAudit s before after i d4 = (Inr (), d')"
    using run by (auto simp: transition_body_def Inr_iffs GetRiskByID_Inr)
  have d1: "d1 = d" using with_due_date_Inr [OF due1] by simp
  note due = due1 [unfolded d1] and upd = upd1 [unfolded d1]
  have b: "before \<in> set (t_rows (db_risks d))" "r_ID before = ti_RiskID i" "r_ProjectID before = ti_ProjectID i"
    using GetRiskByID_mem [OF get] by auto
  have u: "u = (buildStatusUpdate before i nxt (svc_now s))\<lparr>su_SLADueAt := su_SLADueAt u\<rparr>"
    using with_due_date_Inr [OF due] by simp
  have ut: "su_RiskID u = r_ID before" "su_ProjectID u = r_ProjectID before" "su_OldStatus u = r_Status before"
    by (subst u; simp)+
  let ?w = "written_risk (rs_env s) before i nxt (su_SLADueAt u)"
  have w: "(status_written (rs_env s) u before)\<lparr>r_UpdatedAt := env_db_now (rs_env s)\<rparr> = ?w"
    unfolding written_risk_def by (subst (1) u) simp
  have d2: "d2 = set_rows (map (\<lambda>r. if r_ID r = r_ID before then ?w else r) (t_rows (db_risks d))) d"
    using UpdateRiskStatus_row(1) [OF wf b(1) ut upd] by (simp add: w)
  have after: "after = ?w"
    using get2 one_by_replace [OF b(1), of ?w] b by (simp add: GetRiskByID_Inr d2 sql_one_def)
  have "r_Score (status_written (rs_env s) u before) \<le> 100"
    using UpdateRiskStatus_row(2) [OF wf b(1) ut upd] by (auto simp: risk_check_def row_check_def split: if_splits)
  then have score: "r_Score after \<le> 100" by (simp add: after status_written_def)
  have "d' = transitioned s i before nxt after d"
    using hist dec aud unfolding after
    by (auto simp: transitioned_def append_row_def d2 repo_InsertStatusHistory_Inr repo_InsertRiskDecision_Inr
        recordStatusAudit_def record_audit_Inr ok_Inr_iff split: if_splits)
  then show ?thesis using that [OF b nxt valid _ after score] due u by simp
qed

section \<open>The invariant across a transition\<close>

lemma four_eyes_decision:
  assumes "validateTransitionInput i nxt = Inr ()" and "isDecisionStatus nxt"
  shows "four_eyes (decision_of before i nxt)"
  using validate_decision [OF assms] assms(2) by (simp add: four_eyes_def decision_of_def)

lemma stored_decision_simps [simp]:
  "four_eyes ((stored_decision e x)\<lparr>rd_ID := n\<rparr>) = four_eyes x"
  "rd_ProjectID (decision_of b i nxt) = r_ProjectID b" "rd_RiskID (decision_of b i nxt) = r_ID b"
  "rd_Decision (decision_of b i nxt) = nxt"
  by (simp_all add: four_eyes_def decision_of_def)

lemma legal_history: "nextRiskStatus (ti_Action i) (r_Status before) = Inr nxt \<Longrightarrow> legal_step (history_of before i nxt)"
  by (simp add: legal_step_def history_of_def)

lemma wf_append_row:
  assumes "wf_rows rid t" and "rid x = t_next t"
  shows "wf_rows rid (append_row x t)"
  using assms by (auto simp: wf_rows_def append_row_def sorted_wrt_append less_Suc_eq)

lemma risks_ok_replace:
  assumes ok: "risks_ok k t" and b: "b \<in> set (t_rows t)" and y: "same_identity y b"
    and st: "validRiskStatus (r_Status y)" "r_Score y \<le> 100"
  shows "risks_ok k (t\<lparr>t_rows := map (\<lambda>r. if r_ID r = r_ID b then y else r) (t_rows t)\<rparr>)"
proof -
  let ?g = "\<lambda>r. if r_ID r = r_ID b then y else r"
  have wf: "wf_rows r_ID t" using ok by (simp add: risks_ok_def)
  have ident: "risk_ident k (?g r) = risk_ident k r" if "r \<in> set (t_rows t)" for r
    using y risk_rows.row_unique [OF wf that b] by (auto simp: same_identity_def risk_ident_def)
  have ids: "r_ID \<circ> ?g = r_ID" using y by (auto simp: same_identity_def)
  have "map (risk_ident k \<circ> ?g) (t_rows t) = map (risk_ident k) (t_rows t)"
    using ident by (intro map_cong) auto
  then show ?thesis
    using ok st y by (auto simp: risks_ok_def wf_rows_def ids same_identity_def simp del: map_eq_conv)
qed

lemma risk_exists_transitioned:
  assumes "wf_rows r_ID (db_risks d)" and "b \<in> set (t_rows (db_risks d))" and "same_identity after b"
  shows "risk_exists (transitioned s i b nxt after d) q j = risk_exists d q j"
proof -
  have "\<exists>r' \<in> set (t_rows (db_risks d)). r_ProjectID (if r_ID r' = r_ID b then after else r') = r_ProjectID r \<and>
          r_ID (if r_ID r' = r_ID b then after else r') = r_ID r" if "r \<in> set (t_rows (db_risks d))" for r
    using that assms(3) risk_rows.row_unique [OF assms(1) that assms(2)] by (intro bexI [of _ r]) (auto simp: same_identity_def)
  then show ?thesis
    using assms(2,3) by (fastforce simp: risk_exists_def list_ex_iff same_identity_def)
qed

lemma decided_transitioned:
  assumes inv: "risk_inv k d" and b: "b \<in> set (t_rows (db_risks d))" and after: "same_identity after b" "r_Status after = nxt"
  shows "decided (transitioned s i b nxt after d)"
proof -
  have "has_decision (t_rows (db_decisions (transitioned s i b nxt after d))) r"
    if r: "r \<in> set (t_rows (db_risks (transitioned s i b nxt after d)))" and dec: "isDecisionStatus (r_Status r)" for r
  proof (cases "r = after")
    case True
    then show ?thesis
      using dec after by (simp add: has_decision_def decision_of_def same_identity_def)
  next
    case False
    then have "r \<in> set (t_rows (db_risks d))" using r by (auto split: if_splits)
    then have "has_decision (t_rows (db_decisions d)) r" using inv dec by (simp add: risk_inv_def decided_def)
    then show ?thesis by (auto simp: has_decision_def)
  qed
  then show ?thesis unfolding decided_def by blast
qed

lemma risk_inv_transitioned:
  assumes inv: "risk_inv k d" and b: "before \<in> set (t_rows (db_risks d))"
    and nxt: "nextRiskStatus (ti_Action i) (r_Status before) = Inr nxt" and valid: "validateTransitionInput i nxt = Inr ()"
    and after: "after = written_risk (rs_env s) before i nxt due" "r_Score after \<le> 100"
  shows "risk_inv k (transitioned s i before nxt after d)"
proof -
  let ?d = "transitioned s i before nxt after d"
  have same: "same_identity after before" "r_Status after = nxt" by (simp_all add: after(1) same_identity_def)
  note ex = risk_exists_transitioned [OF risk_inv_wf [OF inv] b same(1)]
  have here: "risk_exists d (r_ProjectID before) (r_ID before)"
    using b by (auto simp: risk_exists_def list_ex_iff)
  have "risks_ok k (db_risks ?d)"
    using inv risks_ok_replace [OF _ b same(1)] nextRiskStatus_valid [OF nxt] after(2) same(2)
    by (simp add: risk_inv_def transitioned_def)
  moreover have "decisions_ok ?d"
  proof (cases "isDecisionStatus nxt")
    case True
    have "four_eyes (decision_of before i nxt)" by (rule four_eyes_decision [OF valid True])
    with True inv here show ?thesis by (simp add: risk_inv_def decisions_ok_def ex wf_append_row)
  next
    case False
    with inv show ?thesis by (simp add: risk_inv_def decisions_ok_def ex)
  qed
  moreover have "history_ok ?d"
    using inv here legal_history [OF nxt]
    by (simp add: risk_inv_def history_ok_def ex wf_append_row legal_step_def history_of_def)
  ultimately show ?thesis
    using inv decided_transitioned [OF inv b same, of s i] by (simp add: risk_inv_def catalog_ok_def)
qed

lemma TransitionStatus_Inr:
  "TransitionStatus s i d = (Inr after, d') \<longleftrightarrow>
     ti_ProjectID i \<noteq> 0 \<and> ti_RiskID i \<noteq> 0 \<and> \<not> bad_actor (ti_ActorID i) \<and>
     validStatusAction (TrimSpace (ti_Action i)) \<and> length (TrimSpace (ti_Reason i)) \<le> 1024 \<and>
     length (am_RequestID (ti_Meta i)) \<le> 128 \<and> transition_body s (trimmed_transition i) d = (Inr after, d')"
  by (auto simp: TransitionStatus_def Let_def Inr_iffs runInTx_def trimmed_transition_def)

text \<open>In a transaction a refused transition leaves the rows of every table as they were.\<close>

definition same_rows :: "risk_db \<Rightarrow> risk_db \<Rightarrow> bool" where
  "same_rows d d' \<longleftrightarrow>
     t_rows (db_definitions d') = t_rows (db_definitions d) \<and> t_rows (db_rules d') = t_rows (db_rules d) \<and>
     t_rows (db_risks d') = t_rows (db_risks d) \<and> t_rows (db_suppressions d') = t_rows (db_suppressions d) \<and>
     t_rows (db_decisions d') = t_rows (db_decisions d) \<and> t_rows (db_slas d') = t_rows (db_slas d) \<and>
     t_rows (db_status_history d') = t_rows (db_status_history d) \<and>
     t_rows (db_score_history d') = t_rows (db_score_history d) \<and>
     t_rows (db_change_events d') = t_rows (db_change_events d) \<and> t_rows (db_audit d') = t_rows (db_audit d)"

lemma same_rows_refl [simp]: "same_rows d d" by (simp add: same_rows_def)

lemma same_rows_rollback [simp]: "same_rows d (risk_rollback d d1)"
  by (simp add: same_rows_def risk_rollback_def)

lemma runInTx_Inl:
  "rs_db s \<Longrightarrow> runInTx s m d = (Inl err, d') \<Longrightarrow> \<exists>d1. m d = (Inl err, d1) \<and> d' = risk_rollback d d1"
  by (auto simp: runInTx_def inTx_def split: prod.splits sum.splits)

lemma TransitionStatus_Inl:
  "rs_db s \<Longrightarrow> TransitionStatus s i d = (Inl err, d') \<Longrightarrow> same_rows d d'"
  by (auto simp: TransitionStatus_def Let_def bindM_Inl_iff failIf_Inl_iff failIf_Inr_iff dest!: runInTx_Inl)

lemma keeps_TransitionStatus:
  assumes "rs_db s"
  shows "keeps (risk_inv k) (TransitionStatus s i)"
proof -
  have "keeps (risk_inv k) (runInTx s (transition_body s j))" for j
  proof (rule keepsI)
    fix d assume inv: "risk_inv k d"
    obtain res d' where run: "runInTx s (transition_body s j) d = (res, d')"
      by (cases "runInTx s (transition_body s j) d")
    have "risk_inv k d'"
    proof (cases res)
      case (Inl err)
      then show ?thesis using run runInTx_Inl [OF assms] risk_inv_rollback [OF inv] by blast
    next
      case (Inr after)
      then have "transition_body s j d = (Inr after, d')" using run by (simp add: runInTx_def inTx_Inr_iff split: if_splits)
      then show ?thesis
        by (rule transition_body_Inr [OF risk_inv_wf [OF inv]]) (simp add: risk_inv_transitioned [OF inv])
    qed
    then show "risk_inv k (snd (runInTx s (transition_body s j) d))" by (simp add: run)
  qed
  then show ?thesis unfolding TransitionStatus_def Let_def by (intro keeps_bindM keeps_failIf)
qed

lemma keeps_ReopenExpiredDecisions:
  "rs_db s \<Longrightarrow> keeps (risk_inv k) (ReopenExpiredDecisions s q lim a)"
  unfolding ReopenExpiredDecisions_def by (intro keeps_intros keeps_TransitionStatus)

section \<open>Steps and reachable states\<close>

text \<open>
  The service as \<open>cmd/api\<close> and \<open>cmd/worker\<close> wire it: with a database handle. \<open>risk_step k\<close> is one call
  of an operation that writes, with any input, clock and score model, successful or not, on a server
  with collation key \<open>k\<close>; the other components write projects, assets and exposures.
\<close>

definition wired :: "(string \<Rightarrow> string) \<Rightarrow> risk_service \<Rightarrow> bool" where
  "wired k s \<longleftrightarrow> env_key (rs_env s) = k \<and> rs_db s"

inductive risk_step :: "(string \<Rightarrow> string) \<Rightarrow> risk_db \<Rightarrow> risk_db \<Rightarrow> bool" for k where
  create_definition: "wired k s \<Longrightarrow> risk_step k d (snd (CreateDefinition s di d))"
| create_rule: "wired k s \<Longrightarrow> risk_step k d (snd (CreateRule s ri d))"
| set_rule: "wired k s \<Longrightarrow> risk_step k d (snd (SetRuleEnabled s q n b a d))"
| create_suppression: "wired k s \<Longrightarrow> risk_step k d (snd (CreateSuppressionRule s si d))"
| set_suppression: "wired k s \<Longrightarrow> risk_step k d (snd (SetSuppressionRuleEnabled s q n b a d))"
| upsert_sla: "wired k s \<Longrightarrow> risk_step k d (snd (UpsertSLAPolicy s li d))"
| recalculate_sla: "wired k s \<Longrightarrow> risk_step k d (snd (RecalculateSLADueAt s q lim a d))"
| apply_definition: "wired k s \<Longrightarrow> risk_step k d (snd (ApplyDefinitionMatches s q n ms a d))"
| apply_rules: "wired k s \<Longrightarrow> risk_step k d (snd (ApplyRules s q ts a d))"
| certificate: "wired k s \<Longrightarrow> risk_step k d (snd (ReportCertificateFinding s cf d))"
| recalculate_scores: "wired k s \<Longrightarrow> risk_step k d (snd (RecalculateScores s q ids a reason d))"
| transition: "wired k s \<Longrightarrow> risk_step k d (snd (TransitionStatus s ti d))"
| reopen_expired: "wired k s \<Longrightarrow> risk_step k d (snd (ReopenExpiredDecisions s q lim a d))"
| others: "risk_step k d (d\<lparr>db_projects := ps, db_assets := as, db_exposures := xs\<rparr>)"

lemmas service_keeps = keeps_svc_CreateDefinition keeps_svc_CreateRule keeps_SetRuleEnabled
  keeps_svc_CreateSuppressionRule keeps_SetSuppressionRuleEnabled keeps_UpsertSLAPolicy keeps_RecalculateSLADueAt
  keeps_ApplyDefinitionMatches keeps_ApplyRules keeps_ReportCertificateFinding keeps_RecalculateScores
  keeps_TransitionStatus keeps_ReopenExpiredDecisions

lemma keeps_apply: "keeps I m \<Longrightarrow> I d \<Longrightarrow> I (snd (m d))"
  by (simp add: keeps_def)

lemma risk_step_inv: "risk_step k d d' \<Longrightarrow> risk_inv k d \<Longrightarrow> risk_inv k d'"
  by (induction rule: risk_step.induct) (auto simp: wired_def intro: keeps_apply service_keeps)

inductive risk_reachable :: "(string \<Rightarrow> string) \<Rightarrow> risk_db \<Rightarrow> bool" for k where
  init: "risk_reachable k empty_risk_db"
| step: "risk_reachable k d \<Longrightarrow> risk_step k d d' \<Longrightarrow> risk_reachable k d'"

lemma reachable_inv: "risk_reachable k d \<Longrightarrow> risk_inv k d"
  by (induction rule: risk_reachable.induct) (auto intro: risk_inv_empty risk_step_inv)

end
