(* ===== verification/TicketFacts.thy ===== *)
theory TicketFacts
  imports TicketService RiskTransition
begin

text \<open>
  The contract between the ticket service and the risk service. \<open>risk_port\<close> is the Go interface
  \<open>riskService\<close> with the laws the ticket service relies on; its lemmas say what a ticket operation does
  to the risks of the ticket. The risk service is an instance (\<open>risk_client\<close>). The second half is
  the ticket table: the status machine, the invariant, and the effect of the two operations.
\<close>

section \<open>The interface of the risk service\<close>

definition status_of :: "risk_api \<Rightarrow> nat \<Rightarrow> nat \<Rightarrow> risk_db \<Rightarrow> string option" where
  "status_of api q j d = (case fst (api_GetByID api q j d) of Inl _ \<Rightarrow> None | Inr r \<Rightarrow> Some (r_Status r))"

text \<open>The status in which a ticket transition leaves a linked risk that is in status \<open>c\<close>.\<close>

definition follows :: "ticket_transition_input \<Rightarrow> string \<Rightarrow> ticket_status_update \<Rightarrow> string \<Rightarrow> string" where
  "follows i nxt u c =
     (if nxt = TStatusAssigned then
        (if List.member [StatusNew, StatusConfirmed, StatusReopened] c then StatusAssigned else c)
      else (case linked_action i nxt u of
              None \<Rightarrow> c
            | Some (action, _) \<Rightarrow> (case nextRiskStatus action c of Inl _ \<Rightarrow> c | Inr n \<Rightarrow> n)))"

lemma on_risk_Inr: "on_risk m w = (Inr x, w') \<longleftrightarrow> (\<exists>d'. m (w_risk w) = (Inr x, d') \<and> w' = w\<lparr>w_risk := d'\<rparr>)"
  by (simp add: on_risk_def Inr_iffs zoom_iff)

lemma on_risk_Inl:
  "on_risk m w = (Inl e, w') \<longleftrightarrow> (\<exists>err d'. m (w_risk w) = (Inl err, d') \<and> e = TErrRisk err \<and> w' = w\<lparr>w_risk := d'\<rparr>)"
  by (auto simp: on_risk_def mapErr_Inl_iff zoom_iff)

lemma trim_risk_actions [simp]:
  "TrimSpace StatusActionConfirm = StatusActionConfirm" "TrimSpace StatusActionAssign = StatusActionAssign"
  "TrimSpace StatusActionStartFix = StatusActionStartFix" "TrimSpace StatusActionMarkFixed = StatusActionMarkFixed"
  "TrimSpace StatusActionAccept = StatusActionAccept" "TrimSpace StatusActionFalsePositive = StatusActionFalsePositive"
  by code_simp+

lemma trim_linked_action: "linked_action i nxt u = Some (action, reason) \<Longrightarrow> TrimSpace action = action"
  by (auto simp: linked_action_def split: if_splits) (metis trim_risk_actions(6))

lemma next_confirm: "nextRiskStatus StatusActionConfirm c = Inr n \<Longrightarrow> n = StatusConfirmed"
  and next_assign: "nextRiskStatus StatusActionAssign c = Inr n \<Longrightarrow> n = StatusAssigned"
  by (auto simp: nextRiskStatus_iff_edge risk_edge_iff)

locale risk_port =
  fixes api :: risk_api and valid :: "risk_db \<Rightarrow> bool"
  assumes get_reads: "snd (api_GetByID api q j d) = d"
    and due_reads: "snd (api_ResolveDueAt api q sev bu from d) = d"
    and audit_valid: "valid d \<Longrightarrow> valid (d\<lparr>db_audit := t\<rparr>)"
    and audit_get: "fst (api_GetByID api q j (d\<lparr>db_audit := t\<rparr>)) = fst (api_GetByID api q j d)"
    and trans_valid: "valid d \<Longrightarrow> valid (snd (api_TransitionStatus api i d))"
    and trans_done: "valid d \<Longrightarrow> api_TransitionStatus api i d = (Inr after, d') \<Longrightarrow>
      \<exists>before. fst (api_GetByID api (ti_ProjectID i) (ti_RiskID i) d) = Inr before \<and>
        nextRiskStatus (TrimSpace (ti_Action i)) (r_Status before) = Inr (r_Status after) \<and>
        fst (api_GetByID api (ti_ProjectID i) (ti_RiskID i) d') = Inr after"
    and trans_refused: "api_TransitionStatus api i d = (Inl ErrInvalidStatusTransition, d') \<Longrightarrow>
      \<exists>before e. fst (api_GetByID api (ti_ProjectID i) (ti_RiskID i) d) = Inr before \<and>
        nextRiskStatus (TrimSpace (ti_Action i)) (r_Status before) = Inl e"
    and trans_failed: "valid d \<Longrightarrow> api_TransitionStatus api i d = (Inl e, d') \<Longrightarrow>
      fst (api_GetByID api q j d') = fst (api_GetByID api q j d)"
    and trans_others: "valid d \<Longrightarrow> api_TransitionStatus api i d = (res, d') \<Longrightarrow> j \<noteq> ti_RiskID i \<Longrightarrow>
      fst (api_GetByID api q j d') = fst (api_GetByID api q j d)"
begin

lemma get_same: "api_GetByID api q j d = (r, d') \<Longrightarrow> d' = d"
  by (metis get_reads snd_conv)

lemma due_same: "api_ResolveDueAt api q sev bu from d = (r, d') \<Longrightarrow> d' = d"
  by (metis due_reads snd_conv)

lemma keeps_get: "keeps (\<lambda>w. valid (w_risk w)) (on_risk (api_GetByID api q j))"
  unfolding on_risk_def by (intro keeps_mapErr keeps_zoom [where J = valid]) (auto simp: keeps_def get_reads)

lemma keeps_due: "keeps (\<lambda>w. valid (w_risk w)) (on_risk (api_ResolveDueAt api q sev bu from))"
  unfolding on_risk_def by (intro keeps_mapErr keeps_zoom [where J = valid]) (auto simp: keeps_def due_reads)

lemma keeps_trans: "keeps (\<lambda>w. valid (w_risk w)) (on_risk (api_TransitionStatus api i))"
  unfolding on_risk_def by (intro keeps_mapErr keeps_zoom [where J = valid]) (auto simp: keeps_def trans_valid)

lemma keeps_assignRisk:
  "ts_risks s = Some api \<Longrightarrow> keeps (\<lambda>w. valid (w_risk w)) (assignRisk s q j a due actor)"
  by (simp add: assignRisk_def) (intro keeps_intros keeps_get keeps_trans)

lemma keeps_transitionLinkedRisk:
  "ts_risks s = Some api \<Longrightarrow> keeps (\<lambda>w. valid (w_risk w)) (transitionLinkedRisk s j i nxt u)"
  by (auto simp: transitionLinkedRisk_def split: option.splits intro!: keeps_intros keeps_trans keeps_assignRisk)

text \<open>Only the named risk moves; it moves along the status machine.\<close>

lemma trans_status:
  assumes "valid d" and "api_TransitionStatus api i d = (Inr after, d')"
  shows "\<exists>c. status_of api (ti_ProjectID i) (ti_RiskID i) d = Some c \<and>
             nextRiskStatus (TrimSpace (ti_Action i)) c = Inr (r_Status after) \<and>
             status_of api (ti_ProjectID i) (ti_RiskID i) d' = Some (r_Status after)"
  using trans_done [OF assms] by (auto simp: status_of_def)

lemma trans_status_others:
  "valid d \<Longrightarrow> api_TransitionStatus api i d = (res, d') \<Longrightarrow> j \<noteq> ti_RiskID i \<Longrightarrow> status_of api q j d' = status_of api q j d"
  by (simp add: status_of_def trans_others)

lemma trans_status_failed:
  "valid d \<Longrightarrow> api_TransitionStatus api i d = (Inl e, d') \<Longrightarrow> status_of api q j d' = status_of api q j d"
  by (simp add: status_of_def trans_failed)

text \<open>One risk: the relation that a call for risk \<open>j\<close> leaves between the world before and after it.\<close>

definition moved :: "nat \<Rightarrow> nat \<Rightarrow> (string \<Rightarrow> string) \<Rightarrow> world \<Rightarrow> world \<Rightarrow> bool" where
  "moved q j f w w' \<longleftrightarrow> w_tickets w' = w_tickets w \<and> w_links w' = w_links w \<and> valid (w_risk w') \<and>
     status_of api q j (w_risk w') = map_option f (status_of api q j (w_risk w)) \<and>
     (\<forall>q' j'. j' \<noteq> j \<longrightarrow> status_of api q' j' (w_risk w') = status_of api q' j' (w_risk w))"

lemma moved_trans:
  assumes "valid (w_risk w)" and "on_risk (api_TransitionStatus api i) w = (Inr after, w')"
    and "\<And>c n. nextRiskStatus (TrimSpace (ti_Action i)) c = Inr n \<Longrightarrow> f c = n"
  shows "moved (ti_ProjectID i) (ti_RiskID i) f w w'"
proof -
  obtain d' where d': "api_TransitionStatus api i (w_risk w) = (Inr after, d')" "w' = w\<lparr>w_risk := d'\<rparr>"
    using assms(2) by (auto simp: on_risk_Inr)
  show ?thesis
    using trans_status [OF assms(1) d'(1)] trans_status_others [OF assms(1) d'(1)] trans_valid [OF assms(1), of i] d' assms(3)
    by (auto simp: moved_def)
qed

lemma moved_id: "valid (w_risk w) \<Longrightarrow> (\<And>c. status_of api q j (w_risk w) = Some c \<Longrightarrow> f c = c) \<Longrightarrow> moved q j f w w"
  by (cases "status_of api q j (w_risk w)") (simp_all add: moved_def)

lemma moved_compose: "moved q j f w w1 \<Longrightarrow> moved q j g w1 w2 \<Longrightarrow> moved q j (\<lambda>c. g (f c)) w w2"
  by (auto simp: moved_def option.map_comp comp_def)

lemma moved_cong:
  "moved q j f w w' \<Longrightarrow> (\<And>c. status_of api q j (w_risk w) = Some c \<Longrightarrow> f c = g c) \<Longrightarrow> moved q j g w w'"
  by (cases "status_of api q j (w_risk w)") (simp_all add: moved_def)

lemma assign_moved:
  assumes api: "ts_risks s = Some api" and v: "valid (w_risk w)" and run: "assignRisk s q j a due actor w = (Inr u, w')"
  shows "moved q j (\<lambda>c. if List.member [StatusNew, StatusConfirmed, StatusReopened] c then StatusAssigned else c) w w'"
proof -
  obtain r where r: "api_GetByID api q j (w_risk w) = (Inr r, w_risk w)"
    using run by (auto simp: assignRisk_def api Inr_iffs on_risk_Inr dest: get_same)
  then have st: "status_of api q j (w_risk w) = Some (r_Status r)" by (simp add: status_of_def)
  have assigns: "moved q j (\<lambda>_. StatusAssigned) w1 w2"
    if "valid (w_risk w1)" "on_risk (api_TransitionStatus api
         \<lparr>ti_ProjectID = q, ti_RiskID = j, ti_Action = StatusActionAssign, ti_ActorID = actor,
           ti_Reason = [], ti_ApprovedBy = [], ti_ExpiresAt = zero_time, ti_ReviewRequiredAt = zero_time,
           ti_Owner = a, ti_SLADueAt = due, ti_Meta = no_meta\<rparr>) w1 = (Inr after, w2)" for w1 w2 after
    using moved_trans [OF that, of "\<lambda>_. StatusAssigned"] by (auto dest: next_assign)
  show ?thesis
  proof (cases "r_Status r = StatusNew")
    case True
    then obtain w1 after1 after2 where
      c: "on_risk (api_TransitionStatus api
         \<lparr>ti_ProjectID = q, ti_RiskID = j, ti_Action = StatusActionConfirm, ti_ActorID = actor,
           ti_Reason = [], ti_ApprovedBy = [], ti_ExpiresAt = zero_time, ti_ReviewRequiredAt = zero_time,
           ti_Owner = [], ti_SLADueAt = zero_time, ti_Meta = no_meta\<rparr>) w = (Inr after1, w1)"
      and a: "on_risk (api_TransitionStatus api
         \<lparr>ti_ProjectID = q, ti_RiskID = j, ti_Action = StatusActionAssign, ti_ActorID = actor,
           ti_Reason = [], ti_ApprovedBy = [], ti_ExpiresAt = zero_time, ti_ReviewRequiredAt = zero_time,
           ti_Owner = a, ti_SLADueAt = due, ti_Meta = no_meta\<rparr>) w1 = (Inr after2, w')"
      using run r by (auto simp: assignRisk_def api Inr_iffs on_risk_def zoom_def)
    have m1: "moved q j (\<lambda>_. StatusConfirmed) w w1"
      using moved_trans [OF v c, of "\<lambda>_. StatusConfirmed"] by (auto dest: next_confirm)
    then have "valid (w_risk w1)" by (simp add: moved_def)
    from moved_compose [OF m1 assigns [OF this a]] show ?thesis
      by (rule moved_cong) (use st True in auto)
  next
    case False
    show ?thesis
    proof (cases "r_Status r = StatusConfirmed \<or> r_Status r = StatusReopened")
      case True
      then obtain after where "on_risk (api_TransitionStatus api
         \<lparr>ti_ProjectID = q, ti_RiskID = j, ti_Action = StatusActionAssign, ti_ActorID = actor,
           ti_Reason = [], ti_ApprovedBy = [], ti_ExpiresAt = zero_time, ti_ReviewRequiredAt = zero_time,
           ti_Owner = a, ti_SLADueAt = due, ti_Meta = no_meta\<rparr>) w = (Inr after, w')"
        using run r False by (auto simp: assignRisk_def api Inr_iffs on_risk_def zoom_def)
      from assigns [OF v this] show ?thesis by (rule moved_cong) (use st True in auto)
    next
      case False2: False
      then have "w' = w" using run r False by (auto simp: assignRisk_def api Inr_iffs on_risk_def zoom_def)
      then show ?thesis using st False False2 by (simp, intro moved_id [OF v]) simp
    qed
  qed
qed

lemma linked_moved:
  assumes api: "ts_risks s = Some api" and v: "valid (w_risk w)" and q: "q = tt_ProjectID i"
    and run: "transitionLinkedRisk s j i nxt u w = (Inr x, w')"
  shows "moved q j (follows i nxt u) w w'"
proof (cases "nxt = TStatusAssigned")
  case True
  then have "follows i nxt u = (\<lambda>c. if List.member [StatusNew, StatusConfirmed, StatusReopened] c then StatusAssigned else c)"
    by (simp add: follows_def fun_eq_iff)
  moreover have "assignRisk s q j (tu_Assignee u) (tu_DueAt u) (tt_ActorID i) w = (Inr x, w')"
    using run True by (simp add: transitionLinkedRisk_def api q)
  ultimately show ?thesis using assign_moved [OF api v] by simp
next
  case other: False
  show ?thesis
  proof (cases "linked_action i nxt u")
    case None
    then have "w' = w" using run other by (simp add: transitionLinkedRisk_def api ok_def)
    then show ?thesis using moved_id [OF v] None other by (simp add: follows_def)
  next
    case (Some ar)
    obtain action reason where ar: "ar = (action, reason)" by (cases ar)
    note trim = trim_linked_action [OF Some [unfolded ar]]
    let ?in = "linked_transition i j action reason"
    obtain res d' where t: "api_TransitionStatus api ?in (w_risk w) = (res, d')" by (cases "api_TransitionStatus api ?in (w_risk w)")
    have fields: "ti_ProjectID ?in = q" "ti_RiskID ?in = j" "ti_Action ?in = action"
      by (simp_all add: linked_transition_def q)
    have fol: "follows i nxt u = (\<lambda>c. case nextRiskStatus action c of Inl _ \<Rightarrow> c | Inr n \<Rightarrow> n)"
      using other Some ar by (simp add: follows_def fun_eq_iff)
    show ?thesis
    proof (cases res)
      case (Inr after)
      then have w': "on_risk (api_TransitionStatus api ?in) w = (Inr after, w')"
        using run other Some ar t by (auto simp: transitionLinkedRisk_def api on_risk_def zoom_def mapErr_def bindM_def tryM_def ok_def)
      show ?thesis using moved_trans [OF v w', of "follows i nxt u"] fields trim by (simp add: fol)
    next
      case (Inl e)
      then have e: "e = ErrInvalidStatusTransition" and w': "w' = w\<lparr>w_risk := d'\<rparr>"
        using run other Some ar t
        by (auto simp: transitionLinkedRisk_def api on_risk_def zoom_def mapErr_def bindM_def tryM_def ok_def fail_def split: if_splits)
      obtain before e' where "fst (api_GetByID api q j (w_risk w)) = Inr before" "nextRiskStatus action (r_Status before) = Inl e'"
        using trans_refused [of ?in "w_risk w" d'] t Inl e fields trim by auto
      then have "map_option (follows i nxt u) (status_of api q j (w_risk w)) = status_of api q j (w_risk w)"
        by (simp add: status_of_def fol)
      moreover have "status_of api q' j' d' = status_of api q' j' (w_risk w)" for q' j'
        using trans_status_failed [OF v] t Inl by blast
      moreover have "valid d'" using trans_valid [OF v, of ?in] t by simp
      ultimately show ?thesis using w' by (simp add: moved_def)
    qed
  qed
qed

text \<open>All risks of a ticket, each once.\<close>

lemma all_linked_moved:
  assumes api: "ts_risks s = Some api" and "valid (w_risk w)"
    and "distinct (map tr_RiskID links)"
    and "forM (\<lambda>l. transitionLinkedRisk s (tr_RiskID l) i nxt u) links w = (Inr xs, w')"
  shows "valid (w_risk w') \<and> w_tickets w' = w_tickets w \<and> w_links w' = w_links w \<and>
    (\<forall>l \<in> set links. status_of api (tt_ProjectID i) (tr_RiskID l) (w_risk w') =
       map_option (follows i nxt u) (status_of api (tt_ProjectID i) (tr_RiskID l) (w_risk w))) \<and>
    (\<forall>q j. j \<notin> tr_RiskID ` set links \<longrightarrow> status_of api q j (w_risk w') = status_of api q j (w_risk w))"
  using assms(2-4)
proof (induction links arbitrary: w xs)
  case Nil
  then show ?case by (simp add: ok_def)
next
  case (Cons l links)
  obtain x w1 ys where first: "transitionLinkedRisk s (tr_RiskID l) i nxt u w = (Inr x, w1)"
    and rest: "forM (\<lambda>l. transitionLinkedRisk s (tr_RiskID l) i nxt u) links w1 = (Inr ys, w')"
    using Cons.prems(3) by (auto simp: Inr_iffs)
  have m: "moved (tt_ProjectID i) (tr_RiskID l) (follows i nxt u) w w1"
    by (rule linked_moved [OF api Cons.prems(1) refl first])
  then have v1: "valid (w_risk w1)" and w1: "w_tickets w1 = w_tickets w" "w_links w1 = w_links w"
    and own: "status_of api (tt_ProjectID i) (tr_RiskID l) (w_risk w1) =
      map_option (follows i nxt u) (status_of api (tt_ProjectID i) (tr_RiskID l) (w_risk w))"
    and oth: "\<And>q j. j \<noteq> tr_RiskID l \<Longrightarrow> status_of api q j (w_risk w1) = status_of api q j (w_risk w)"
    by (auto simp: moved_def)
  have neq: "tr_RiskID l' \<noteq> tr_RiskID l" if "l' \<in> set links" for l'
    using Cons.prems(2) that by (metis distinct.simps(2) list.simps(9) image_eqI set_map)
  show ?case using Cons.IH [OF v1 _ rest] Cons.prems(2) own oth neq w1 by auto
qed

end

section \<open>The risk service implements the interface\<close>

lemma GetByID_eq:
  "GetByID q j d = ((if q = 0 then Inl ErrInvalidProjectID
     else found (sql_one (\<lambda>x. r_ID x = j \<and> r_ProjectID x = q) (db_risks d))), d)"
  by (simp add: GetByID_def repo_GetRiskByID_def bindM_def failIf_def ok_def fail_def asks_def)

lemma GetByID_same_risks: "t_rows (db_risks d') = t_rows (db_risks d) \<Longrightarrow> fst (GetByID q j d') = fst (GetByID q j d)"
  by (simp add: GetByID_eq sql_one_def)

lemma TransitionStatus_done:
  assumes inv: "risk_inv k d" and run: "TransitionStatus s i d = (Inr after, d')"
  obtains before nxt due where
    "before \<in> set (t_rows (db_risks d))" "r_ID before = ti_RiskID i" "r_ProjectID before = ti_ProjectID i"
    "nextRiskStatus (TrimSpace (ti_Action i)) (r_Status before) = Inr nxt"
    "validateTransitionInput (trimmed_transition i) nxt = Inr ()"
    "after = written_risk (rs_env s) before (trimmed_transition i) nxt due"
    "d' = transitioned s (trimmed_transition i) before nxt after d"
proof -
  have body: "transition_body s (trimmed_transition i) d = (Inr after, d')"
    using run by (simp add: TransitionStatus_Inr)
  show ?thesis
    by (rule transition_body_Inr [OF risk_inv_wf [OF inv] body]) (rule that, auto simp: trimmed_transition_def)
qed

lemma find_others_replaced:
  "r_ID y = b \<Longrightarrow> j \<noteq> b \<Longrightarrow>
   List.find (\<lambda>r. r_ID r = j \<and> r_ProjectID r = q) (map (\<lambda>r. if r_ID r = b then y else r) rows) =
   List.find (\<lambda>r. r_ID r = j \<and> r_ProjectID r = q) rows"
  by (induction rows) auto

lemma GetByID_transitioned_other:
  "r_ID after = r_ID b \<Longrightarrow> j \<noteq> r_ID b \<Longrightarrow>
   fst (GetByID q j (transitioned s i b n after d)) = fst (GetByID q j d)"
  by (simp add: GetByID_eq sql_one_def find_others_replaced)

lemma TransitionStatus_get:
  assumes inv: "risk_inv k d" and run: "TransitionStatus s i d = (Inr after, d')"
  shows "\<exists>before. fst (GetByID (ti_ProjectID i) (ti_RiskID i) d) = Inr before \<and>
    nextRiskStatus (TrimSpace (ti_Action i)) (r_Status before) = Inr (r_Status after) \<and>
    fst (GetByID (ti_ProjectID i) (ti_RiskID i) d') = Inr after"
proof (rule TransitionStatus_done [OF assms])
  fix before nxt due
  assume b: "before \<in> set (t_rows (db_risks d))" "r_ID before = ti_RiskID i" "r_ProjectID before = ti_ProjectID i"
    and nxt: "nextRiskStatus (TrimSpace (ti_Action i)) (r_Status before) = Inr nxt"
    and after: "after = written_risk (rs_env s) before (trimmed_transition i) nxt due"
    and d': "d' = transitioned s (trimmed_transition i) before nxt after d"
  have q: "ti_ProjectID i \<noteq> 0" using run by (simp add: TransitionStatus_Inr)
  have "sql_one (\<lambda>x. r_ID x = ti_RiskID i \<and> r_ProjectID x = ti_ProjectID i) (db_risks d) = Some before"
    using risk_rows.one_by_id [OF risk_inv_wf [OF inv] b(1), of "\<lambda>x. r_ProjectID x = ti_ProjectID i"] b by simp
  moreover have "r_ID after = r_ID before" "r_ProjectID after = r_ProjectID before" by (simp_all add: after)
  then have "sql_one (\<lambda>x. r_ID x = ti_RiskID i \<and> r_ProjectID x = ti_ProjectID i) (db_risks d') = Some after"
    using one_by_replace [OF b(1), of after] b(2,3) by (simp add: d' sql_one_def)
  ultimately show ?thesis using q nxt after by (auto simp: GetByID_eq)
qed

lemma with_due_date_no_transition_error:
  "with_due_date s b n u d \<noteq> (Inl ErrInvalidStatusTransition, d')"
  unfolding with_due_date_def ResolveDueAt_def findSLAPolicy_def repo_GetSLAPolicy_def Let_def
  by (auto simp: bindM_def tryM_def ok_def fail_def failIf_def asks_def found_def split: if_splits option.splits sum.splits prod.splits)

lemma validate_no_transition_error: "validateTransitionInput i n \<noteq> Inl ErrInvalidStatusTransition"
  by (auto simp: validateTransitionInput_def Let_def)

lemma risk_update_no_transition_error: "risk_update e p f d \<noteq> (Inl ErrInvalidStatusTransition, d')"
  by (auto simp: risk_update_def rowsAffectedErr_def bindM_Inl_iff mapErr_Inl_iff failIf_Inl_iff)

lemma TransitionStatus_refused:
  assumes "TransitionStatus s i d = (Inl ErrInvalidStatusTransition, d')"
  shows "\<exists>before e. fst (GetByID (ti_ProjectID i) (ti_RiskID i) d) = Inr before \<and>
    nextRiskStatus (TrimSpace (ti_Action i)) (r_Status before) = Inl e"
proof -
  obtain d1 where q: "ti_ProjectID i \<noteq> 0" and body: "transition_body s (trimmed_transition i) d = (Inl ErrInvalidStatusTransition, d1)"
    using assms
    by (auto simp: TransitionStatus_def Let_def bindM_Inl_iff failIf_Inl_iff failIf_Inr_iff runInTx_def inTx_def
        split: if_splits prod.splits sum.splits)
  then show ?thesis
    by (auto simp: transition_body_def trimmed_transition_def bindM_Inl_iff liftM_def liftM_Inr_iff
        GetByID_eq repo_GetRiskByID_def asks_def repo_UpdateRiskStatus_def with_due_date_no_transition_error
        validate_no_transition_error risk_update_no_transition_error
        repo_InsertStatusHistory_def repo_InsertRiskDecision_def recordStatusAudit_def record_audit_def mapErr_Inl_iff ok_def
        split: if_splits)
qed

interpretation risk_client: risk_port "riskService (s\<lparr>rs_db := True\<rparr>)" "risk_inv k" for s k
proof
  let ?s = "s\<lparr>rs_db := True\<rparr>"
  show "snd (api_GetByID (riskService ?s) q j d) = d" for q j d
    by (simp add: riskService_def GetByID_eq)
  show "snd (api_ResolveDueAt (riskService ?s) q sev bu t0 d) = d" for q sev bu t0 d
    using keeps_ResolveDueAt [of "(=) d"] by (simp add: riskService_def keeps_def)
  show "risk_inv k d \<Longrightarrow> risk_inv k (d\<lparr>db_audit := t\<rparr>)" for d t by simp
  show "fst (api_GetByID (riskService ?s) q j (d\<lparr>db_audit := t\<rparr>)) = fst (api_GetByID (riskService ?s) q j d)" for q j d t
    by (simp add: riskService_def GetByID_eq)
  show "risk_inv k d \<Longrightarrow> risk_inv k (snd (api_TransitionStatus (riskService ?s) i d))" for d i
    using keeps_apply [OF keeps_TransitionStatus [of ?s]] by (simp add: riskService_def)
  show "\<exists>before. fst (api_GetByID (riskService ?s) (ti_ProjectID i) (ti_RiskID i) d) = Inr before \<and>
      nextRiskStatus (TrimSpace (ti_Action i)) (r_Status before) = Inr (r_Status after) \<and>
      fst (api_GetByID (riskService ?s) (ti_ProjectID i) (ti_RiskID i) d') = Inr after"
    if "risk_inv k d" "api_TransitionStatus (riskService ?s) i d = (Inr after, d')" for d i after d'
    using TransitionStatus_get that by (simp add: riskService_def)
  show "\<exists>before e. fst (api_GetByID (riskService ?s) (ti_ProjectID i) (ti_RiskID i) d) = Inr before \<and>
      nextRiskStatus (TrimSpace (ti_Action i)) (r_Status before) = Inl e"
    if "api_TransitionStatus (riskService ?s) i d = (Inl ErrInvalidStatusTransition, d')" for i d d'
    using TransitionStatus_refused that by (simp add: riskService_def)
  show failed: "fst (api_GetByID (riskService ?s) q j d') = fst (api_GetByID (riskService ?s) q j d)"
    if "api_TransitionStatus (riskService ?s) i d = (Inl e, d')" for d i e d' q j
  proof -
    have "same_rows d d'" using TransitionStatus_Inl [of ?s i d e d'] that by (simp add: riskService_def)
    then show ?thesis unfolding riskService_def risk_api.simps by (intro GetByID_same_risks) (simp add: same_rows_def)
  qed
  show "fst (api_GetByID (riskService ?s) q j d') = fst (api_GetByID (riskService ?s) q j d)"
    if inv: "risk_inv k d" and run: "api_TransitionStatus (riskService ?s) i d = (res, d')" and j: "j \<noteq> ti_RiskID i" for d i res d' j q
  proof (cases res)
    case (Inl e)
    then show ?thesis using failed run by simp
  next
    case (Inr after)
    then have "TransitionStatus ?s i d = (Inr after, d')" using run by (simp add: riskService_def)
    then show ?thesis
      by (rule TransitionStatus_done [OF inv]) (simp add: riskService_def GetByID_transitioned_other j)
  qed
qed

end
