(* ===== verification/TicketInv.thy ===== *)
theory TicketInv
  imports TicketFacts
begin

text \<open>
  The ticket tables: their status machine as an instance of \<open>transition_table\<close>, the invariant
  \<open>ticket_inv\<close>, its preservation, the reachable states of both components together, and what a
  successful ticket transition does to the ticket and to the risks linked to it.
\<close>

section \<open>Status machine\<close>

text \<open>The life cycle of a ticket, one rule per edge: action, from, to.\<close>

inductive ticket_edge :: "string \<Rightarrow> string \<Rightarrow> string \<Rightarrow> bool" where
  assign: "ticket_edge ActionAssign TStatusOpen TStatusAssigned"
| start: "c \<in> {TStatusAssigned, TStatusRejected, TStatusExtended} \<Longrightarrow> ticket_edge ActionStart c TStatusInProgress"
| submit_retest: "ticket_edge ActionSubmitRetest TStatusInProgress TStatusPendingRetest"
| retest_pass: "ticket_edge ActionRetestPass TStatusPendingRetest TStatusClosed"
| close: "ticket_edge ActionClose TStatusResolved TStatusClosed"
| retest_reject: "ticket_edge ActionRetestReject TStatusPendingRetest TStatusRejected"
| decision: "a \<in> {ActionAcceptRisk, ActionFalsePositive} \<Longrightarrow> ticket_edge a TStatusPendingRetest TStatusCancelled"
| extend: "c \<in> {TStatusAssigned, TStatusInProgress, TStatusRejected} \<Longrightarrow> ticket_edge ActionExtend c TStatusExtended"
| cancel: "c \<noteq> TStatusClosed \<Longrightarrow> ticket_edge ActionCancel c TStatusCancelled"

inductive_simps ticket_edge_iff: "ticket_edge a c n"

lemma ticket_edge_next: "ticket_edge a c n \<Longrightarrow> nextStatus a c = Inr n"
  by (induction rule: ticket_edge.induct) (auto simp: nextStatus_def)

lemma ticket_next_edge: "nextStatus a c = Inr n \<Longrightarrow> ticket_edge a c n"
  unfolding nextStatus_def ticket_edge_iff by (simp split: if_split_asm) (elim disjE; simp)?

lemma nextStatus_iff_edge: "nextStatus a c = Inr n \<longleftrightarrow> ticket_edge a c n"
  by (blast intro: ticket_edge_next ticket_next_edge)

interpretation ticket_table: transition_table nextStatus allActions ticket_statuses
proof
  show "\<exists>e. nextStatus a c = Inl e" if "a \<notin> set allActions" for a c
    using that by (simp add: nextStatus_def allActions_def)
  show "n \<in> set ticket_statuses" if "nextStatus a c = Inr n" for a c n
    using that by (auto simp: nextStatus_iff_edge ticket_edge_iff ticket_statuses_def)
qed

text \<open>The statuses a ticket can have: no action leads to \<open>resolved\<close>.\<close>

definition live_status :: "string \<Rightarrow> bool" where
  "live_status c \<longleftrightarrow> List.member (removeAll TStatusResolved ticket_statuses) c"

lemma nextStatus_live: "nextStatus a c = Inr n \<Longrightarrow> live_status n"
  by (auto simp: nextStatus_iff_edge ticket_edge_iff live_status_def ticket_statuses_def)

section \<open>The invariant of the ticket tables\<close>

interpretation ticket_rows: id_rows tk_ID "\<lambda>n x. x\<lparr>tk_ID := n\<rparr>" "\<lambda>now x. x\<lparr>tk_UpdatedAt := now\<rparr>"
  by unfold_locales auto

interpretation link_rows: id_rows tr_ID "\<lambda>n x. x\<lparr>tr_ID := n\<rparr>" "\<lambda>_ x. x"
  by unfold_locales auto

definition link_ident :: "ticket_risk \<Rightarrow> nat \<times> nat \<times> nat" where
  "link_ident l = (tr_ProjectID l, tr_TicketID l, tr_RiskID l)"

definition ticket_exists :: "world \<Rightarrow> nat \<Rightarrow> nat \<Rightarrow> bool" where
  "ticket_exists w q i \<longleftrightarrow> list_ex (\<lambda>t. tk_ProjectID t = q \<and> tk_ID t = i) (t_rows (w_tickets w))"

definition ticket_inv :: "world \<Rightarrow> bool" where
  "ticket_inv w \<longleftrightarrow> wf_rows tk_ID (w_tickets w) \<and> wf_rows tr_ID (w_links w) \<and>
     (\<forall>t \<in> set (t_rows (w_tickets w)). live_status (tk_Status t)) \<and>
     distinct (map link_ident (t_rows (w_links w))) \<and>
     (\<forall>l \<in> set (t_rows (w_links w)). ticket_exists w (tr_ProjectID l) (tr_TicketID l))"

lemma ticket_inv_risk [simp]: "ticket_inv (w\<lparr>w_risk := d\<rparr>) = ticket_inv w"
  by (simp add: ticket_inv_def ticket_exists_def)

lemma ticket_rollback_risk [simp]: "w_risk (ticket_rollback w0 w1) = w_risk w1"
  by (simp add: ticket_rollback_def)

lemma ticket_inv_rollback: "ticket_inv w0 \<Longrightarrow> ticket_inv (ticket_rollback w0 w1)"
  by (simp add: ticket_inv_def ticket_exists_def ticket_rollback_def ticket_rows.wf_rollback link_rows.wf_rollback)

lemma keeps_on_risk [keeps_intros]: "keeps ticket_inv (on_risk m)"
  unfolding on_risk_def by (intro keeps_mapErr keeps_zoom [where J = "\<lambda>_. True"]) (auto simp: keeps_def)

lemma keeps_recordAudit [keeps_intros]: "keeps ticket_inv (recordAudit s v)"
proof -
  have "keeps ticket_inv (zoom (\<lambda>w. db_audit (w_risk w)) (\<lambda>t w. w\<lparr>w_risk := (w_risk w)\<lparr>db_audit := t\<rparr>\<rparr>) (audit_Record (ts_env s) v))"
    by (rule keeps_zoom [where J = "\<lambda>_. True"]) (auto simp: keeps_def)
  then show ?thesis unfolding recordAudit_def by (intro keeps_intros)
qed

lemma keeps_ticket_reads [keeps_intros]:
  "keeps I (ticket_repo_GetByID q i)" "keeps I (ticket_repo_ListRisks q i)"
  unfolding ticket_repo_GetByID_def ticket_repo_ListRisks_def by (rule keeps_intros)+

lemma ticket_Create_Inr:
  "ticket_repo_Create e p w = (Inr n, w') \<longleftrightarrow>
     n = t_next (w_tickets w) \<and> ticket_check e (ticket_row e p) = None \<and> List.member (db_projects (w_risk w)) (cp_ProjectID p) \<and>
     w' = w\<lparr>w_tickets := append_row ((ticket_row e p)\<lparr>tk_ID := n\<rparr>) (w_tickets w)\<rparr>"
  by (auto simp: ticket_repo_Create_def Inr_iffs zoom_iff sql_insert_Inr list_ex_iff append_row_def ticket_row_def)

lemma ticket_Create_Inl: "ticket_repo_Create e p w = (Inl x, w') \<Longrightarrow> w' = w"
  by (auto simp: ticket_repo_Create_def mapErr_Inl_iff zoom_iff dest: sql_insert_Inl)

lemma keeps_ticket_repo_Create:
  assumes "live_status (cp_Status p)"
  shows "keeps ticket_inv (ticket_repo_Create e p)"
proof (rule keepsI)
  fix w assume inv: "ticket_inv w"
  obtain res w' where c: "ticket_repo_Create e p w = (res, w')" by (cases "ticket_repo_Create e p w")
  have "ticket_inv w'"
  proof (cases res)
    case (Inl x)
    then show ?thesis using c inv by (auto dest: ticket_Create_Inl)
  next
    case (Inr n)
    then show ?thesis using c inv assms
      by (auto simp: ticket_Create_Inr ticket_inv_def ticket_exists_def wf_append_row ticket_row_def list_ex_iff)
  qed
  then show "ticket_inv (snd (ticket_repo_Create e p w))" by (simp add: c)
qed

lemma LinkRisk_Inr:
  "ticket_repo_LinkRisk e p w = (Inr u, w') \<longleftrightarrow>
     link_check (link_row e p) = None \<and> \<not> list_ex (link_same_key (link_row e p)) (t_rows (w_links w)) \<and> link_fk w (link_row e p) \<and>
     w' = w\<lparr>w_links := append_row ((link_row e p)\<lparr>tr_ID := t_next (w_links w)\<rparr>) (w_links w)\<rparr>"
  by (auto simp: ticket_repo_LinkRisk_def Inr_iffs zoom_iff sql_insert_Inr append_row_def)

lemma LinkRisk_Inl: "ticket_repo_LinkRisk e p w = (Inl x, w') \<Longrightarrow> w' = w"
  by (auto simp: ticket_repo_LinkRisk_def bindM_Inl_iff mapErr_Inl_iff zoom_iff ok_def dest: sql_insert_Inl)

lemma keeps_LinkRisk [keeps_intros]: "keeps ticket_inv (ticket_repo_LinkRisk e p)"
proof (rule keepsI)
  fix w assume inv: "ticket_inv w"
  obtain res w' where c: "ticket_repo_LinkRisk e p w = (res, w')" by (cases "ticket_repo_LinkRisk e p w")
  have "ticket_inv w'"
  proof (cases res)
    case (Inl x)
    then show ?thesis using c inv by (auto dest: LinkRisk_Inl)
  next
    case (Inr n)
    have "link_ident ((link_row e p)\<lparr>tr_ID := t_next (w_links w)\<rparr>) \<notin> link_ident ` set (t_rows (w_links w))"
      using c Inr by (auto simp: LinkRisk_Inr list_ex_iff link_same_key_def link_ident_def)
    moreover have "ticket_exists w (lp_ProjectID p) (lp_TicketID p)"
      using c Inr by (auto simp: LinkRisk_Inr link_fk_def link_row_def ticket_exists_def)
    ultimately show ?thesis using c Inr inv
      by (auto simp: LinkRisk_Inr ticket_inv_def ticket_exists_def wf_append_row link_row_def)
  qed
  then show "ticket_inv (snd (ticket_repo_LinkRisk e p w))" by (simp add: c)
qed

abbreviation ticket_touched :: "env \<Rightarrow> ticket_status_update \<Rightarrow> ticket \<Rightarrow> ticket" where
  "ticket_touched e u \<equiv> upd_row
     (\<lambda>x. tk_ID x = tu_TicketID u \<and> tk_ProjectID x = tu_ProjectID u \<and> sql_eq e (tk_Status x) (tu_OldStatus u))
     (ticket_written e u) (\<lambda>x. x\<lparr>tk_UpdatedAt := env_db_now e\<rparr>)"

lemma UpdateStatus_Inr:
  "ticket_repo_UpdateStatus e u w = (Inr v, w') \<Longrightarrow>
     w' = w\<lparr>w_tickets := (w_tickets w)\<lparr>t_rows := map (ticket_touched e u) (t_rows (w_tickets w))\<rparr>\<rparr>"
  by (auto simp: ticket_repo_UpdateStatus_def Inr_iffs zoom_iff sql_update_Inr)

lemma UpdateStatus_Inl: "ticket_repo_UpdateStatus e u w = (Inl x, w') \<Longrightarrow> w' = w"
  by (auto simp: ticket_repo_UpdateStatus_def bindM_Inl_iff mapErr_Inl_iff Inr_iffs zoom_iff failIf_Inl_iff
      dest: sql_update_Inl sql_update_none_changed)

lemma ticket_written_ident [simp]:
  "tk_ID (ticket_written e u x) = tk_ID x" "tk_ProjectID (ticket_written e u x) = tk_ProjectID x"
  "tk_Status (ticket_written e u x) = tu_NewStatus u"
  by (simp_all add: ticket_written_def)

lemma ticket_touched_ident [simp]:
  "tk_ID (ticket_touched e u x) = tk_ID x" "tk_ProjectID (ticket_touched e u x) = tk_ProjectID x"
  by (simp_all add: upd_row_def)

lemma keeps_UpdateStatus:
  assumes "live_status (tu_NewStatus u)"
  shows "keeps ticket_inv (ticket_repo_UpdateStatus e u)"
proof (rule keepsI)
  fix w assume inv: "ticket_inv w"
  obtain res w' where c: "ticket_repo_UpdateStatus e u w = (res, w')" by (cases "ticket_repo_UpdateStatus e u w")
  have "ticket_inv w'"
  proof (cases res)
    case (Inl x)
    then show ?thesis using c inv by (auto dest: UpdateStatus_Inl)
  next
    case (Inr n)
    have "live_status (tk_Status (ticket_touched e u t))" if "t \<in> set (t_rows (w_tickets w))" for t
      using that inv assms by (auto simp: upd_row_def ticket_inv_def)
    then show ?thesis using UpdateStatus_Inr [of e u w n w'] c Inr inv
      by (auto simp: ticket_inv_def ticket_exists_def wf_rows_def comp_def list_ex_iff)
  qed
  then show "ticket_inv (snd (ticket_repo_UpdateStatus e u w))" by (simp add: c)
qed

lemma keeps_ticket_runInTx: "keeps ticket_inv m \<Longrightarrow> keeps ticket_inv (ticket_runInTx s m)"
  unfolding ticket_runInTx_def by (intro keeps_intros ticket_inv_rollback)

lemma keeps_tickets_assignRisk [keeps_intros]: "keeps ticket_inv (assignRisk s q j a due actor)"
  unfolding assignRisk_def by (intro keeps_intros)

lemma keeps_tickets_transitionLinkedRisk [keeps_intros]: "keeps ticket_inv (transitionLinkedRisk s j i nxt u)"
  by (auto simp: transitionLinkedRisk_def split: option.splits intro!: keeps_intros)

lemma keeps_earliest_due [keeps_intros]: "keeps ticket_inv (earliest_due api now q e0 ids)"
  by (induction ids arbitrary: e0) (auto intro!: keeps_intros)

lemma keeps_with_derived_due: "keeps ticket_inv (with_derived_due s i)"
  unfolding with_derived_due_def deriveTicketDueAt_def by (intro keeps_intros)

lemma keeps_ticket_Create: "keeps ticket_inv (ticket_Create s i)"
proof -
  have "live_status TStatusOpen" by (simp add: live_status_def ticket_statuses_def)
  then have "keeps ticket_inv (create_body s j)" for j
    unfolding create_body_def by (intro keeps_intros keeps_ticket_repo_Create) (simp add: create_params_def)
  then show ?thesis
    unfolding ticket_Create_def Let_def by (intro keeps_bindM keeps_with_derived_due keeps_liftM keeps_ticket_runInTx keeps_ticket_reads)
qed

lemma keeps_ticket_transition_body: "keeps ticket_inv (ticket_transition_body s i)"
  unfolding ticket_transition_body_def Let_def
  by (rule keeps_bindM, rule keeps_ticket_reads, rule keeps_liftM_then, intro keeps_intros keeps_UpdateStatus)
    (simp add: ticket_buildStatusUpdate_def nextStatus_live)

lemma keeps_ticket_Transition: "keeps ticket_inv (ticket_Transition s i)"
  unfolding ticket_Transition_def by (intro keeps_bindM keeps_failIf keeps_ticket_runInTx keeps_ticket_transition_body)

section \<open>Both components together\<close>

text \<open>What the ticket operations keep of the risk database, from the contract of the risk service.\<close>

context risk_port
begin

lemma keeps_valid_audit: "keeps (\<lambda>w. valid (w_risk w)) (recordAudit s v)"
proof -
  have "keeps (\<lambda>w. valid (w_risk w)) (zoom (\<lambda>w. db_audit (w_risk w)) (\<lambda>t w. w\<lparr>w_risk := (w_risk w)\<lparr>db_audit := t\<rparr>\<rparr>) (audit_Record (ts_env s) v))"
    by (rule keeps_zoom [where J = "\<lambda>_. True"]) (auto simp: keeps_def audit_valid)
  then show ?thesis unfolding recordAudit_def by (intro keeps_intros)
qed

lemma keeps_valid_tickets:
  "keeps (\<lambda>w. valid (w_risk w)) (ticket_repo_Create e p)" "keeps (\<lambda>w. valid (w_risk w)) (ticket_repo_LinkRisk e lp)"
  "keeps (\<lambda>w. valid (w_risk w)) (ticket_repo_UpdateStatus e u)"
  unfolding ticket_repo_UpdateStatus_def
  by (auto simp: keeps_def ticket_repo_Create_def ticket_repo_LinkRisk_def bindM_def mapErr_def zoom_def ok_def failIf_def fail_def
      split: prod.splits sum.splits)

lemma keeps_valid_tx:
  "keeps (\<lambda>w. valid (w_risk w)) m \<Longrightarrow> keeps (\<lambda>w. valid (w_risk w)) (ticket_runInTx s m)"
  unfolding ticket_runInTx_def by (intro keeps_intros) simp_all

lemma keeps_valid_due: "keeps (\<lambda>w. valid (w_risk w)) (earliest_due api now q e0 ids)"
  by (induction ids arbitrary: e0) (auto intro!: keeps_intros keeps_get keeps_due)

lemma keeps_valid_derived_due:
  "ts_risks s = Some api \<Longrightarrow> keeps (\<lambda>w. valid (w_risk w)) (with_derived_due s i)"
  by (simp add: with_derived_due_def deriveTicketDueAt_def keeps_bindM keeps_ok keeps_valid_due)

lemma keeps_valid_Create:
  assumes "ts_risks s = Some api"
  shows "keeps (\<lambda>w. valid (w_risk w)) (ticket_Create s i)"
  unfolding ticket_Create_def Let_def create_body_def
  by (intro keeps_intros keeps_valid_derived_due [OF assms] keeps_valid_tx keeps_valid_tickets keeps_valid_audit
      keeps_assignRisk [OF assms])

lemma keeps_valid_Transition:
  assumes "ts_risks s = Some api"
  shows "keeps (\<lambda>w. valid (w_risk w)) (ticket_Transition s i)"
  unfolding ticket_Transition_def ticket_transition_body_def Let_def
  by (intro keeps_intros keeps_valid_tx keeps_valid_tickets keeps_valid_audit keeps_transitionLinkedRisk [OF assms])

end

definition world_inv :: "(string \<Rightarrow> string) \<Rightarrow> world \<Rightarrow> bool" where
  "world_inv k w \<longleftrightarrow> risk_inv k (w_risk w) \<and> ticket_inv w"

definition empty_world :: world where
  "empty_world = \<lparr>w_risk = empty_risk_db, w_tickets = empty_table, w_links = empty_table\<rparr>"

text \<open>The ticket service as \<open>cmd/api\<close> wires it: with a database and the risk service of the same process.\<close>

definition ticket_wired :: "(string \<Rightarrow> string) \<Rightarrow> ticket_service \<Rightarrow> bool" where
  "ticket_wired k s \<longleftrightarrow> ts_db s \<and> (\<exists>r. wired k r \<and> ts_risks s = Some (riskService r))"

inductive world_step :: "(string \<Rightarrow> string) \<Rightarrow> world \<Rightarrow> world \<Rightarrow> bool" for k where
  risk: "risk_step k (w_risk w) d' \<Longrightarrow> world_step k w (w\<lparr>w_risk := d'\<rparr>)"
| ticket_create: "ticket_wired k s \<Longrightarrow> world_step k w (snd (ticket_Create s ci w))"
| ticket_transition: "ticket_wired k s \<Longrightarrow> world_step k w (snd (ticket_Transition s tti w))"

inductive world_reachable :: "(string \<Rightarrow> string) \<Rightarrow> world \<Rightarrow> bool" for k where
  init: "world_reachable k empty_world"
| step: "world_reachable k w \<Longrightarrow> world_step k w w' \<Longrightarrow> world_reachable k w'"

lemma wired_service: "wired k r \<Longrightarrow> riskService r = riskService (r\<lparr>rs_db := True\<rparr>)"
  by (cases r) (simp add: wired_def)

lemma ticket_Create_risks: "ticket_wired k s \<Longrightarrow> risk_inv k (w_risk w) \<Longrightarrow> risk_inv k (w_risk (snd (ticket_Create s i w)))"
  by (auto simp: ticket_wired_def wired_service intro: keeps_apply [OF risk_client.keeps_valid_Create])

lemma ticket_Transition_risks:
  "ticket_wired k s \<Longrightarrow> risk_inv k (w_risk w) \<Longrightarrow> risk_inv k (w_risk (snd (ticket_Transition s i w)))"
  by (auto simp: ticket_wired_def wired_service intro: keeps_apply [OF risk_client.keeps_valid_Transition])

lemma world_step_inv: "world_step k w w' \<Longrightarrow> world_inv k w \<Longrightarrow> world_inv k w'"
  by (induction rule: world_step.induct)
    (auto simp: world_inv_def risk_step_inv ticket_Create_risks ticket_Transition_risks
      intro: keeps_apply [OF keeps_ticket_Create] keeps_apply [OF keeps_ticket_Transition])

lemma world_inv_empty: "world_inv k empty_world"
  by (simp add: world_inv_def empty_world_def risk_inv_empty ticket_inv_def ticket_rows.wf_empty link_rows.wf_empty)
    (simp add: empty_table_def)

lemma world_reachable_inv: "world_reachable k w \<Longrightarrow> world_inv k w"
  by (induction rule: world_reachable.induct) (auto intro: world_inv_empty world_step_inv)

section \<open>A successful ticket transition\<close>

lemma ticket_GetByID_Inr:
  "ticket_repo_GetByID q i w = (Inr t, w') \<longleftrightarrow>
     w' = w \<and> sql_one (\<lambda>x. tk_ID x = i \<and> tk_ProjectID x = q) (w_tickets w) = Some t"
  by (auto simp: ticket_repo_GetByID_def asks_def split: option.splits)

lemma find_replaced_ticket:
  "t \<in> set rows \<Longrightarrow> tk_ID y = tk_ID t \<Longrightarrow>
   List.find (\<lambda>x. tk_ID x = tk_ID t \<and> tk_ProjectID x = tk_ProjectID y) (map (\<lambda>x. if tk_ID x = tk_ID t then y else x) rows) = Some y"
  by (induction rows) auto

text \<open>The row a transition writes to the ticket table.\<close>

definition written_ticket :: "env \<Rightarrow> ticket \<Rightarrow> ticket_transition_input \<Rightarrow> string \<Rightarrow> ticket" where
  "written_ticket e t i nxt =
     (ticket_written e (ticket_buildStatusUpdate t i nxt (env_now e)) t)\<lparr>tk_UpdatedAt := env_db_now e\<rparr>"

lemma written_ticket_simps [simp]:
  "tk_ID (written_ticket e t i n) = tk_ID t" "tk_ProjectID (written_ticket e t i n) = tk_ProjectID t"
  "tk_Status (written_ticket e t i n) = n"
  by (simp_all add: written_ticket_def ticket_buildStatusUpdate_def)

lemma ticket_UpdateStatus_row:
  assumes inv: "ticket_inv w" and t: "t \<in> set (t_rows (w_tickets w))"
    and upd: "ticket_repo_UpdateStatus e (ticket_buildStatusUpdate t i nxt (env_now e)) w = (Inr v, w')"
  shows "w' = w\<lparr>w_tickets := (w_tickets w)\<lparr>t_rows :=
     map (\<lambda>x. if tk_ID x = tk_ID t then written_ticket e t i nxt else x) (t_rows (w_tickets w))\<rparr>\<rparr>"
proof -
  let ?u = "ticket_buildStatusUpdate t i nxt (env_now e)"
  let ?p = "\<lambda>x. tk_ID x = tu_TicketID ?u \<and> tk_ProjectID x = tu_ProjectID ?u \<and> sql_eq e (tk_Status x) (tu_OldStatus ?u)"
  have wf: "wf_rows tk_ID (w_tickets w)" using inv by (simp add: ticket_inv_def)
  obtain x where x: "x \<in> set (t_rows (w_tickets w))" "?p x" "ticket_written e ?u x \<noteq> x"
    using upd by (auto simp: ticket_repo_UpdateStatus_def Inr_iffs zoom_iff sql_update_Inr filter_empty_conv)
  have "x = t" using ticket_rows.row_unique [OF wf x(1) t] x(2) by (simp add: ticket_buildStatusUpdate_def)
  then have neq: "ticket_written e ?u t \<noteq> t" using x(3) by simp
  have "ticket_touched e ?u y = (if tk_ID y = tk_ID t then written_ticket e t i nxt else y)"
    if "y \<in> set (t_rows (w_tickets w))" for y
    using neq ticket_rows.row_unique [OF wf that t]
    by (auto simp: upd_row_def written_ticket_def ticket_buildStatusUpdate_def)
  then show ?thesis using UpdateStatus_Inr [OF upd] by (simp cong: map_cong)
qed

lemma audit_world:
  "recordAudit s v w = (Inr u, w') \<Longrightarrow> \<exists>t. w' = w\<lparr>w_risk := (w_risk w)\<lparr>db_audit := t\<rparr>\<rparr>"
  by (cases w) (auto simp: recordAudit_def Inr_iffs zoom_iff split: if_splits intro: exI [of _ "db_audit (w_risk w)"])

lemma links_of_ticket_distinct:
  assumes "ticket_inv w"
  shows "distinct (map tr_RiskID (filter (\<lambda>l. tr_ProjectID l = q \<and> tr_TicketID l = i) (t_rows (w_links w))))"
proof -
  have "distinct (map link_ident (t_rows (w_links w)))" using assms by (simp add: ticket_inv_def)
  then show ?thesis by (induction "t_rows (w_links w)" arbitrary: w) (auto simp: distinct_map inj_on_def link_ident_def)
qed

definition linked_risks :: "world \<Rightarrow> nat \<Rightarrow> nat \<Rightarrow> nat list" where
  "linked_risks w q i = map tr_RiskID (sql_many (\<lambda>l. tr_ProjectID l = q \<and> tr_TicketID l = i) (w_links w))"

text \<open>
  The relation between the worlds before and after a successful transition of ticket \<open>t\<close> to \<open>nxt\<close>:
  its row is the written one, other tickets and all links are as they were, every linked risk has
  followed, and no other risk has changed its status.
\<close>

definition ticket_moved :: "ticket_service \<Rightarrow> risk_api \<Rightarrow> ticket_transition_input \<Rightarrow> ticket \<Rightarrow> string \<Rightarrow> world \<Rightarrow> world \<Rightarrow> bool" where
  "ticket_moved s api i t nxt w w' \<longleftrightarrow>
     t_rows (w_tickets w') = map (\<lambda>x. if tk_ID x = tk_ID t then written_ticket (ts_env s) t i nxt else x) (t_rows (w_tickets w)) \<and>
     w_links w' = w_links w \<and>
     (\<forall>j \<in> set (linked_risks w (tt_ProjectID i) (tt_TicketID i)).
        status_of api (tt_ProjectID i) j (w_risk w') =
          map_option (follows i nxt (ticket_buildStatusUpdate t i nxt (env_now (ts_env s)))) (status_of api (tt_ProjectID i) j (w_risk w))) \<and>
     (\<forall>q j. j \<notin> set (linked_risks w (tt_ProjectID i) (tt_TicketID i)) \<longrightarrow>
        status_of api q j (w_risk w') = status_of api q j (w_risk w))"

lemma ticket_Transition_Inr:
  "ticket_Transition s i w = (Inr t', w') \<longleftrightarrow>
     tt_ProjectID i \<noteq> 0 \<and> tt_TicketID i \<noteq> 0 \<and> \<not> bad_actor (tt_ActorID i) \<and>
     ticket_transition_body s i w = (Inr t', w')"
  by (auto simp: ticket_Transition_def Inr_iffs ticket_runInTx_def)

context risk_port
begin

lemma audit_status: "status_of api q j (d\<lparr>db_audit := t\<rparr>) = status_of api q j d"
  by (simp add: status_of_def audit_get)

lemma transition_effect:
  assumes api: "ts_risks s = Some api" and v: "valid (w_risk w)" and inv: "ticket_inv w"
    and run: "ticket_transition_body s i w = (Inr t', w')"
  shows "\<exists>t nxt. t \<in> set (t_rows (w_tickets w)) \<and> tk_ID t = tt_TicketID i \<and> tk_ProjectID t = tt_ProjectID i \<and>
    nextStatus (tt_Action i) (tk_Status t) = Inr nxt \<and> validateTransition i nxt = Inr () \<and>
    t' = written_ticket (ts_env s) t i nxt \<and> ticket_moved s api i t nxt w w'"
proof -
  obtain t nxt w1 links w2 xs ev where
    get: "ticket_repo_GetByID (tt_ProjectID i) (tt_TicketID i) w = (Inr t, w)"
    and nxt: "nextStatus (tt_Action i) (tk_Status t) = Inr nxt" and valid: "validateTransition i nxt = Inr ()"
    and upd: "ticket_repo_UpdateStatus (ts_env s) (ticket_buildStatusUpdate t i nxt (env_now (ts_env s))) w = (Inr (), w1)"
    and links: "links = sql_many (\<lambda>l. tr_ProjectID l = tt_ProjectID i \<and> tr_TicketID l = tt_TicketID i) (w_links w1)"
    and loop: "forM (\<lambda>l. transitionLinkedRisk s (tr_RiskID l) i nxt (ticket_buildStatusUpdate t i nxt (env_now (ts_env s)))) links w1 = (Inr xs, w2)"
    and get2: "ticket_repo_GetByID (tt_ProjectID i) (tt_TicketID i) w2 = (Inr t', w2)"
    and aud: "recordAudit s ev w2 = (Inr (), w')"
    using run by (auto simp: ticket_transition_body_def Let_def Inr_iffs ticket_GetByID_Inr ticket_repo_ListRisks_def)
  have t: "t \<in> set (t_rows (w_tickets w))" "tk_ID t = tt_TicketID i" "tk_ProjectID t = tt_ProjectID i"
    using get by (auto simp: ticket_GetByID_Inr dest: sql_one_mem)
  note w1 = ticket_UpdateStatus_row [OF inv t(1) upd]
  have "distinct (map tr_RiskID links)"
    using links_of_ticket_distinct [OF inv] by (simp add: links w1 sql_many_def)
  moreover have "valid (w_risk w1)" using v by (simp add: w1)
  ultimately have m: "w_tickets w2 = w_tickets w1" "w_links w2 = w_links w1"
    "\<And>l. l \<in> set links \<Longrightarrow> status_of api (tt_ProjectID i) (tr_RiskID l) (w_risk w2) =
       map_option (follows i nxt (ticket_buildStatusUpdate t i nxt (env_now (ts_env s)))) (status_of api (tt_ProjectID i) (tr_RiskID l) (w_risk w1))"
    "\<And>q j. j \<notin> tr_RiskID ` set links \<Longrightarrow> status_of api q j (w_risk w2) = status_of api q j (w_risk w1)"
    using all_linked_moved [OF api _ _ loop] by auto
  obtain a where w': "w' = w2\<lparr>w_risk := (w_risk w2)\<lparr>db_audit := a\<rparr>\<rparr>" using audit_world [OF aud] by blast
  have "t' = written_ticket (ts_env s) t i nxt"
    using get2 find_replaced_ticket [OF t(1), of "written_ticket (ts_env s) t i nxt"] t(2,3)
    by (simp add: ticket_GetByID_Inr m w1 sql_one_def)
  moreover have "set (linked_risks w (tt_ProjectID i) (tt_TicketID i)) = tr_RiskID ` set links"
    by (simp add: linked_risks_def links w1)
  then have "ticket_moved s api i t nxt w w'"
    using m by (auto simp: ticket_moved_def w' w1 audit_status)
  ultimately show ?thesis using t nxt valid by blast
qed

end

end
