(* ===== verification/Scenario.thy ===== *)
theory Scenario
  imports TicketInv
begin

text \<open>
  A small run of the program, used to exercise the theorems on concrete data: a project with one
  asset and an SLA policy, two risks reported by the certificate scanner, one of them confirmed and
  then accepted for five hours with the approval of a second person, and a ticket for the other. The
  states are computed by the operations of the model; the \<open>..._eq\<close> lemmas are their values.
\<close>

section \<open>Environment and inputs\<close>

definition at_hour :: "int \<Rightarrow> time" where
  "at_hour n = epoch + n * hour"

definition demo_service :: "int \<Rightarrow> risk_service" where
  "demo_service n = \<lparr>rs_env = ascii_env (at_hour n), rs_db = True, rs_sink = False, rs_model = defaultScoreModel\<rparr>"

definition demo_tickets :: "int \<Rightarrow> ticket_service" where
  "demo_tickets n = \<lparr>ts_env = ascii_env (at_hour n), ts_db = True, ts_risks = Some (riskService (demo_service n)), ts_sink = True\<rparr>"

definition demo_base :: risk_db where
  "demo_base = empty_risk_db\<lparr>db_projects := [1], db_assets := [(''t'', ''o'', 1, 7), (''t'', ''o'', 1, 8)], db_exposures := []\<rparr>"

definition demo_finding :: "nat \<Rightarrow> certificate_finding" where
  "demo_finding a = \<lparr>cf_TenantID = ''t'', cf_OrgID = ''o'', cf_ProjectID = 1, cf_AssetID = a, cf_ExposureID = 0,
     cf_ExposureKey = [], cf_CertSubject = ''CN=a'', cf_CertIssuer = [], cf_CertSerial = [], cf_Fingerprint = [],
     cf_CertNotBefore = 0, cf_CertNotAfter = 0, cf_CertSANs = [], cf_State = ''expired'', cf_Source = [], cf_ObservedAt = 0,
     cf_ActorID = [], cf_BusinessUnit = [], cf_Owner = [], cf_EvidenceSummary = ''expired''\<rparr>"

definition demo_action :: "string \<Rightarrow> transition_input" where
  "demo_action a = \<lparr>ti_ProjectID = 1, ti_RiskID = 1, ti_Action = a, ti_ActorID = ''alice'', ti_Reason = ''legacy'',
     ti_ApprovedBy = ''bob'', ti_ExpiresAt = at_hour 8, ti_ReviewRequiredAt = 0, ti_Owner = ''carol'',
     ti_SLADueAt = at_hour 9, ti_Meta = no_meta\<rparr>"

definition demo_sla :: sla_input where
  "demo_sla = \<lparr>li_TenantID = ''t'', li_OrgID = ''o'', li_ProjectID = 1, li_Severity = ''critical'', li_BusinessUnit = [],
     li_ResponseHours = 4, li_ResolutionHours = 24, li_Enabled = False, li_ActorID = ''alice''\<rparr>"

definition demo_ticket :: "nat list \<Rightarrow> ticket_create_input" where
  "demo_ticket ids = \<lparr>ci_TenantID = ''t'', ci_OrgID = ''o'', ci_ProjectID = 1, ci_Title = ''fix it'', ci_Description = [],
     ci_Assignee = ''dave'', ci_BusinessUnit = [], ci_Priority = [], ci_DueAt = at_hour 30, ci_ExternalTicketID = [],
     ci_RiskIDs = ids, ci_ActorID = ''alice''\<rparr>"

definition demo_move :: "string \<Rightarrow> ticket_transition_input" where
  "demo_move a = \<lparr>tt_ProjectID = 1, tt_TicketID = 1, tt_Action = a, tt_ActorID = ''alice'', tt_Assignee = ''dave'',
     tt_DueAt = at_hour 40, tt_Resolution = ''patched'', tt_RetestResult = [], tt_Reason = [], tt_ApprovedBy = [],
     tt_ExpiresAt = 0, tt_ReviewRequiredAt = 0\<rparr>"

section \<open>The states of the run\<close>

definition demo_sla_set :: risk_db where
  "demo_sla_set = snd (UpsertSLAPolicy (demo_service 0) demo_sla demo_base)"

definition demo_reported :: risk_db where
  "demo_reported = snd (ReportCertificateFinding (demo_service 1) (demo_finding 7) demo_sla_set)"

definition demo_new :: risk_db where
  "demo_new = snd (ReportCertificateFinding (demo_service 1) (demo_finding 8) demo_reported)"

definition demo_confirmed :: risk_db where
  "demo_confirmed = snd (TransitionStatus (demo_service 2) (demo_action ''confirm'') demo_new)"

definition demo_accepted :: risk_db where
  "demo_accepted = snd (TransitionStatus (demo_service 3) (demo_action '' accept '') demo_confirmed)"

definition demo_world :: world where
  "demo_world = \<lparr>w_risk = demo_accepted, w_tickets = empty_table, w_links = empty_table\<rparr>"

definition demo_ticketed :: world where
  "demo_ticketed = snd (ticket_Create (demo_tickets 4) (demo_ticket [2]) demo_world)"

section \<open>The value of the state with two new risks\<close>

definition demo_factors :: json where
  "demo_factors = JObj [(''asset_criticality'', JInt 0), (''compensating_control'', JInt 0), (''exploit_maturity'', JInt 0),
     (''exposure_age'', JInt 0), (''internet_exposure'', JInt 0), (''management_entry'', JInt 0), (''severity'', JInt 40),
     (''threat_intel'', JInt 0)]"

definition demo_risk :: "nat \<Rightarrow> nat \<Rightarrow> risk" where
  "demo_risk i a =
     \<lparr>r_ID = i, r_TenantID = ''t'', r_OrgID = ''o'', r_ProjectID = 1, r_AssetID = a, r_ExposureID = 0, r_VulnDefinitionID = 0,
       r_RiskKey = ''certificate:expiry:asset:'' @ FormatUint a @ '':exposure:0'', r_RiskType = TypeExpiredCertificate,
       r_Title = ''Certificate expired'', r_Severity = ''critical'', r_Score = 40, r_ScoreLevel = ''medium'',
       r_ScoreModelVersion = ''basic-v1'', r_ScoreFactors = demo_factors, r_ScoredAt = 62135600400000000000,
       r_RuleID = ''builtin:certificate_expiry'', r_Source = ''discovery'', r_EvidenceSummary = ''expired'', r_EvidenceRef = [],
       r_Status = ''new'', r_Owner = [], r_BusinessUnit = [], r_SLADueAt = 62135596800000000000, r_Suppressed = False,
       r_SuppressionRuleID = 0, r_SuppressedUntil = 62135596800000000000, r_FirstSeen = 62135600400000000000,
       r_LastSeen = 62135600400000000000, r_ConfirmedAt = 62135596800000000000, r_FixedAt = 62135596800000000000,
       r_CreatedAt = 62135600400000000000, r_UpdatedAt = 62135600400000000000, r_CreatedBy = ''engine'', r_UpdatedBy = ''engine''\<rparr>"

definition demo_policy :: sla_policy where
  "demo_policy = \<lparr>sp_ID = 1, sp_TenantID = ''t'', sp_OrgID = ''o'', sp_ProjectID = 1, sp_Severity = ''critical'',
     sp_BusinessUnit = [], sp_ResponseHours = 4, sp_ResolutionHours = 24, sp_Enabled = True,
     sp_CreatedAt = 62135596800000000000, sp_UpdatedAt = 62135596800000000000, sp_CreatedBy = ''alice'', sp_UpdatedBy = ''alice''\<rparr>"

definition demo_score :: "nat \<Rightarrow> score_history" where
  "demo_score i = \<lparr>sh_ID = i, sh_TenantID = ''t'', sh_OrgID = ''o'', sh_ProjectID = 1, sh_RiskID = i, sh_Score = 40,
     sh_ScoreLevel = ''medium'', sh_ScoreModelVersion = ''basic-v1'', sh_ScoreFactors = demo_factors, sh_Reason = ''create'',
     sh_ScoredAt = 62135600400000000000, sh_CreatedAt = 62135600400000000000, sh_CreatedBy = ''engine''\<rparr>"

definition demo_change :: "nat \<Rightarrow> nat \<Rightarrow> change_event" where
  "demo_change i a = (riskChangeEvent ''discovery'' None (demo_risk i a) ''new'' 62135600400000000000)\<lparr>ce_ID := i\<rparr>"

lemma demo_new_eq [code]:
  "demo_new = demo_base\<lparr>db_risks := \<lparr>t_rows = [demo_risk 1 7, demo_risk 2 8], t_next = 3\<rparr>,
     db_slas := \<lparr>t_rows = [demo_policy], t_next = 2\<rparr>,
     db_score_history := \<lparr>t_rows = [demo_score 1, demo_score 2], t_next = 3\<rparr>,
     db_change_events := \<lparr>t_rows = [demo_change 1 7, demo_change 2 8], t_next = 3\<rparr>\<rparr>"
  by code_simp

lemma demo_new_reachable: "risk_reachable ascii_key demo_new"
proof -
  have w: "wired ascii_key (demo_service n)" for n
    by (simp add: wired_def demo_service_def ascii_env_def)
  have "risk_reachable ascii_key demo_base"
    unfolding demo_base_def by (rule risk_reachable.step [OF risk_reachable.init risk_step.others])
  then show ?thesis
    unfolding demo_new_def demo_reported_def demo_sla_set_def
    by (intro risk_reachable.step [OF _ risk_step.certificate [OF w]] risk_reachable.step [OF _ risk_step.upsert_sla [OF w]])
qed

lemma demo_accepted_reachable: "risk_reachable ascii_key demo_accepted"
  unfolding demo_accepted_def demo_confirmed_def
  by (intro risk_reachable.step [OF _ risk_step.transition] demo_new_reachable)
    (simp_all add: wired_def demo_service_def ascii_env_def)

lemma demo_inv: "risk_inv ascii_key demo_new" "risk_inv ascii_key demo_accepted"
  by (rule reachable_inv [OF demo_new_reachable] reachable_inv [OF demo_accepted_reachable])+

end
