(* ===== verification/RiskProperties.thy ===== *)
theory RiskProperties
  imports Scenario
begin

text \<open>
  The properties of the risk component, each stated over the definitions that model
  \<open>internal/risk\<close>, with concrete instances from the run in \<open>Scenario\<close>.
\<close>

section \<open>Status transitions\<close>

text \<open>C3: a successful \<open>TransitionStatus\<close> changes exactly one risk, along an edge of the status
  machine and after the input validation; it appends one history row, a decision row when the
  new status is a decision, and one audit row, and changes nothing else.\<close>

theorem transition_exact_effect:
  assumes "risk_inv k d" and "TransitionStatus s i d = (Inr after, d')"
  shows "\<exists>before nxt due.
    before \<in> set (t_rows (db_risks d)) \<and> r_ID before = ti_RiskID i \<and> r_ProjectID before = ti_ProjectID i \<and>
    risk_edge (TrimSpace (ti_Action i)) (r_Status before) nxt \<and>
    validateTransitionInput (trimmed_transition i) nxt = Inr () \<and>
    after = written_risk (rs_env s) before (trimmed_transition i) nxt due \<and>
    d' = transitioned s (trimmed_transition i) before nxt after d"
  by (rule TransitionStatus_done [OF assms]) (auto simp: nextRiskStatus_iff_edge)

lemma demo_confirm_ok: "is_ok (fst (TransitionStatus (demo_service 2) (demo_action ''confirm'') demo_new))"
  by code_simp

theorem transition_exact_effect_witness:
  "\<exists>after d'. TransitionStatus (demo_service 2) (demo_action ''confirm'') demo_new = (Inr after, d') \<and>
    r_Status after = StatusConfirmed \<and> length (t_rows (db_status_history d')) = 1"
proof -
  obtain after d' where run: "TransitionStatus (demo_service 2) (demo_action ''confirm'') demo_new = (Inr after, d')"
    using demo_confirm_ok by (cases "TransitionStatus (demo_service 2) (demo_action ''confirm'') demo_new") (auto simp: is_ok_iff)
  have trim: "TrimSpace (ti_Action (demo_action ''confirm'')) = StatusActionConfirm" by code_simp
  have "t_rows (db_status_history demo_new) = []" by code_simp
  then show ?thesis
    using run transition_exact_effect [OF demo_inv(1) run] by (auto simp: trim risk_edge_iff)
qed




text \<open>the actions offered for a status are exactly the actions the transition endpoint accepts from
  it, and each of them is a valid action.\<close>

theorem offered_actions_exact:
  "set (AvailableStatusActions c) = {a. \<exists>n. nextRiskStatus a c = Inr n} \<and>
   list_all validStatusAction (AvailableStatusActions c)"
proof
  show "set (AvailableStatusActions c) = {a. \<exists>n. nextRiskStatus a c = Inr n}"
    unfolding AvailableStatusActions_def using risk_table.offered_iff by blast
  show "list_all validStatusAction (AvailableStatusActions c)"
    by (auto simp: AvailableStatusActions_def list_all_iff is_ok_iff dest: nextRiskStatus_valid)
qed

text \<open>every risk status can be left, a fixed, accepted or false-positive risk by \<open>reopen\<close> only; and any
  sequence of accepted actions that starts in a valid status ends in a valid status.\<close>

theorem no_dead_status:
  assumes "validRiskStatus c"
  shows "AvailableStatusActions c \<noteq> [] \<and>
    (List.member [StatusFixed, StatusRiskAccepted, StatusFalsePositive] c \<longrightarrow> AvailableStatusActions c = [StatusActionReopen]) \<and>
    (\<forall>as n. run_actions nextRiskStatus c as = Inr n \<longrightarrow> validRiskStatus n)"
proof -
  have "validRiskStatus n" if "run_actions nextRiskStatus c as = Inr n" for as n
    using risk_table.run_closed [OF _ that] assms by (simp add: validRiskStatus_def)
  moreover have "AvailableStatusActions c \<noteq> [] \<and>
    (List.member [StatusFixed, StatusRiskAccepted, StatusFalsePositive] c \<longrightarrow> AvailableStatusActions c = [StatusActionReopen])"
  proof -
    have "list_all (\<lambda>c. AvailableStatusActions c \<noteq> [] \<and>
      (List.member [StatusFixed, StatusRiskAccepted, StatusFalsePositive] c \<longrightarrow> AvailableStatusActions c = [StatusActionReopen])) risk_statuses"
      by code_simp
    then show ?thesis using assms by (simp add: validRiskStatus_def list_all_iff)
  qed
  ultimately show ?thesis by blast
qed

theorem no_dead_status_witness:
  "validRiskStatus StatusFixed \<and> AvailableStatusActions StatusFixed = [StatusActionReopen]"
proof -
  have "validRiskStatus StatusFixed" by code_simp
  then show ?thesis using no_dead_status [of StatusFixed] by simp
qed

section \<open>Discovery of risks\<close>

lemma GetRiskByKey_cases:
  "repo_GetRiskByKey e q key d = (case sql_one (\<lambda>x. r_ProjectID x = q \<and> sql_eq e (r_RiskKey x) key) (db_risks d) of
     None \<Rightarrow> (Inl ErrNotFound, d) | Some x \<Rightarrow> (Inr x, d))"
  by (simp add: repo_GetRiskByKey_def asks_def found_def split: option.split)

lemma ScoreHistory_risks: "repo_InsertScoreHistory e h d = (r, d') \<Longrightarrow> db_risks d' = db_risks d"
  by (drule repo_InsertScoreHistory_shape) auto

lemma ChangeEvent_risks: "repo_InsertChangeEvent e x d = (r, d') \<Longrightarrow> db_risks d' = db_risks d"
  by (drule repo_InsertChangeEvent_shape) auto

lemma create_branch_effect:
  assumes wf: "wf_rows r_ID (db_risks d)" and run: "create_branch e p src t d = (Inr (r, outcome), d')"
  shows "outcome = ChangeTypeNew \<and> r_Status r = up_Status p \<and> r_RiskKey r = up_RiskKey p \<and>
    t_rows (db_risks d') = t_rows (db_risks d) @ [r]"
proof -
  obtain n d1 where c: "repo_CreateRisk e p d = (Inr n, d1)" and g: "repo_GetRiskByID (up_ProjectID p) n d1 = (Inr r, d1)"
    and out: "outcome = ChangeTypeNew" and d': "db_risks d' = db_risks d1"
    using run by (auto simp: create_branch_def Inr_iffs GetRiskByID_Inr dest!: ScoreHistory_risks ChangeEvent_risks)
  obtain t' where ins: "sql_insert (risk_check e) (risk_same_key e) (risk_fk d) (\<lambda>n x. x\<lparr>r_ID := n\<rparr>) (risk_row e p) (db_risks d) = (Inr n, t')"
    and d1: "d1 = d\<lparr>db_risks := t'\<rparr>"
    using c by (auto simp: repo_CreateRisk_Inr)
  have "r = (risk_row e p)\<lparr>r_ID := n\<rparr>"
    using g risk_rows.one_after_insert [OF wf ins, of "\<lambda>x. r_ProjectID x = up_ProjectID p"]
    by (simp add: GetRiskByID_Inr d1 risk_row_def)
  then show ?thesis using out d' ins by (auto simp: d1 sql_insert_Inr risk_row_def)
qed

text \<open>Rewriting the row of an existing risk and reading it back.\<close>

lemma rewritten_row:
  assumes wf: "wf_rows r_ID (db_risks d)" and b: "b \<in> set (t_rows (db_risks d))" "p b"
    and sel: "\<And>r. p r \<Longrightarrow> r_ID r = r_ID b" and upd: "risk_update e p f d = (Inr u, d1)"
    and ident: "r_ID (f b) = r_ID b" "r_ProjectID (f b) = q"
    and get: "repo_GetRiskByID q (r_ID b) d1 = (Inr r, d2)"
  shows "r = (f b)\<lparr>r_UpdatedAt := env_db_now e\<rparr> \<and>
    t_rows (db_risks d1) = map (\<lambda>y. if r_ID y = r_ID b then r else y) (t_rows (db_risks d))"
proof -
  note d1 = risk_update_row(1) [OF wf b sel upd]
  have "r = (f b)\<lparr>r_UpdatedAt := env_db_now e\<rparr>"
    using get one_by_replace [OF b(1), of "(f b)\<lparr>r_UpdatedAt := env_db_now e\<rparr>"] ident
    by (simp add: GetRiskByID_Inr d1 sql_one_def)
  then show ?thesis by (simp add: d1)
qed

lemma reopen_branch_effect:
  assumes wf: "wf_rows r_ID (db_risks d)" and b: "b \<in> set (t_rows (db_risks d))" "r_ProjectID b = up_ProjectID p" "r_Status b = StatusFixed"
    and run: "reopen_branch e (p\<lparr>up_ID := r_ID b\<rparr>) b src t d = (Inr (r, outcome), d')"
  shows "outcome = ChangeTypeReopened \<and> r_Status r = StatusReopened \<and> r_FirstSeen r = r_FirstSeen b \<and>
    t_rows (db_risks d') = map (\<lambda>y. if r_ID y = r_ID b then r else y) (t_rows (db_risks d))"
proof -
  obtain d1 where u: "repo_ReopenRisk e (p\<lparr>up_ID := r_ID b\<rparr>) d = (Inr (), d1)"
    and g: "repo_GetRiskByID (up_ProjectID p) (r_ID b) d1 = (Inr r, d1)"
    and out: "outcome = ChangeTypeReopened" and d': "db_risks d' = db_risks d1"
    using run by (auto simp: reopen_branch_def Inr_iffs GetRiskByID_Inr dest!: ScoreHistory_risks ChangeEvent_risks)
  have "r = ((refreshed e (p\<lparr>up_ID := r_ID b\<rparr>) b)\<lparr>r_Status := StatusReopened, r_FixedAt := env_col e epoch\<rparr>)\<lparr>r_UpdatedAt := env_db_now e\<rparr> \<and>
    t_rows (db_risks d1) = map (\<lambda>y. if r_ID y = r_ID b then r else y) (t_rows (db_risks d))"
    by (rule rewritten_row [OF wf b(1) _ _ u [unfolded repo_ReopenRisk_def] _ _ g]) (simp_all add: b refreshed_def)
  then show ?thesis using out d' by (simp add: refreshed_def)
qed

lemma refresh_branch_effect:
  assumes wf: "wf_rows r_ID (db_risks d)" and b: "b \<in> set (t_rows (db_risks d))" "r_ProjectID b = up_ProjectID p"
    and run: "refresh_branch e (p\<lparr>up_ID := r_ID b\<rparr>) b d = (Inr (r, outcome), d')"
  shows "outcome = [] \<and> r_Status r = r_Status b \<and> r_FirstSeen r = r_FirstSeen b \<and>
    t_rows (db_risks d') = map (\<lambda>y. if r_ID y = r_ID b then r else y) (t_rows (db_risks d))"
proof -
  obtain d1 where u: "repo_RefreshRisk e (p\<lparr>up_ID := r_ID b\<rparr>) d = (Inr (), d1)"
    and g: "repo_GetRiskByID (up_ProjectID p) (r_ID b) d1 = (Inr r, d1)"
    and out: "outcome = []" and d': "db_risks d' = db_risks d1"
    using run by (auto simp: refresh_branch_def Inr_iffs GetRiskByID_Inr dest!: ScoreHistory_risks)
  have "r = (refreshed e (p\<lparr>up_ID := r_ID b\<rparr>) b)\<lparr>r_UpdatedAt := env_db_now e\<rparr> \<and>
    t_rows (db_risks d1) = map (\<lambda>y. if r_ID y = r_ID b then r else y) (t_rows (db_risks d))"
    by (rule rewritten_row [OF wf b(1) _ _ u [unfolded repo_RefreshRisk_def] _ _ g]) (simp_all add: b refreshed_def)
  then show ?thesis using out d' by (simp add: refreshed_def)
qed

text \<open>C22: reporting a finding creates one risk when its key is new in the project, and otherwise rewrites the
  one risk that has the key: a fixed risk is reopened, in every other status (accepted and false
  positive included) the status and the first-seen time stay. No other risk changes.\<close>

theorem rediscovery:
  assumes "risk_inv k d" and "upsertRisk e p src t d = (Inr (r, outcome), d')"
  shows "case sql_one (\<lambda>x. r_ProjectID x = up_ProjectID p \<and> sql_eq e (r_RiskKey x) (up_RiskKey p)) (db_risks d) of
      None \<Rightarrow> outcome = ChangeTypeNew \<and> r_Status r = up_Status p \<and> r_RiskKey r = up_RiskKey p \<and>
        t_rows (db_risks d') = t_rows (db_risks d) @ [r]
    | Some x \<Rightarrow>
        t_rows (db_risks d') = map (\<lambda>y. if r_ID y = r_ID x then r else y) (t_rows (db_risks d)) \<and>
        r_FirstSeen r = r_FirstSeen x \<and>
        (if r_Status x = StatusFixed then outcome = ChangeTypeReopened \<and> r_Status r = StatusReopened
         else outcome = [] \<and> r_Status r = r_Status x)"
proof -
  note wf = risk_inv_wf [OF assms(1)]
  obtain p' d0 where sup: "applySuppression p t d = (Inr p', d0)"
    and rest0: "bindM (tryM (repo_GetRiskByKey e (up_ProjectID p') (up_RiskKey p'))) (\<lambda>r.
     case r of
       Inl err \<Rightarrow> if err \<noteq> ErrNotFound then fail err else create_branch e p' src t
     | Inr existing \<Rightarrow>
         let p1 = p'\<lparr>up_ID := r_ID existing\<rparr> in
         if r_Status existing = StatusFixed then reopen_branch e p1 existing src t
         else refresh_branch e p1 existing) d0 = (Inr (r, outcome), d')"
    using assms(2) unfolding upsertRisk_def by (subst (asm) bindM_Inr_iff) blast
  have same: "up_Status p' = up_Status p" "up_ProjectID p' = up_ProjectID p" "up_RiskKey p' = up_RiskKey p"
    and "d0 = d"
    using applySuppression_keeps_fields [OF sup] by simp_all
  note rest = rest0 [unfolded \<open>d0 = d\<close>]
  show ?thesis
  proof (cases "sql_one (\<lambda>x. r_ProjectID x = up_ProjectID p \<and> sql_eq e (r_RiskKey x) (up_RiskKey p)) (db_risks d)")
    case None
    then have "create_branch e p' src t d = (Inr (r, outcome), d')"
      using rest by (simp add: GetRiskByKey_cases same bindM_def tryM_def)
    then show ?thesis using None create_branch_effect [OF wf] same by simp
  next
    case (Some x)
    then have x: "x \<in> set (t_rows (db_risks d))" "r_ProjectID x = up_ProjectID p'" using same by (auto dest: sql_one_mem)
    have "(if r_Status x = StatusFixed then reopen_branch e (p'\<lparr>up_ID := r_ID x\<rparr>) x src t
         else refresh_branch e (p'\<lparr>up_ID := r_ID x\<rparr>) x) d = (Inr (r, outcome), d')"
      using rest Some by (simp add: GetRiskByKey_cases same bindM_def tryM_def Let_def)
    then show ?thesis
      using Some reopen_branch_effect [OF wf x] refresh_branch_effect [OF wf x] by (auto split: if_splits)
  qed
qed

definition demo_upsert :: upsert_params where
  "demo_upsert = applyScore (ascii_env (at_hour 6)) defaultScoreModel
     (certificateRiskParams (demo_finding 7) ''engine'' (at_hour 6)) (at_hour 6)"

theorem rediscovery_witness:
  "\<exists>r outcome d'. upsertRisk (ascii_env (at_hour 6)) demo_upsert ''discovery'' (at_hour 6) demo_new = (Inr (r, outcome), d') \<and>
    outcome = [] \<and> r_Status r = StatusNew \<and> length (t_rows (db_risks d')) = 2"
proof -
  let ?run = "upsertRisk (ascii_env (at_hour 6)) demo_upsert ''discovery'' (at_hour 6) demo_new"
  have "is_ok (fst ?run)" by code_simp
  then obtain r outcome d' where run: "?run = (Inr (r, outcome), d')" by (cases ?run) (auto simp: is_ok_iff)
  have "map_option (\<lambda>x. (r_ID x, r_Status x)) (sql_one (\<lambda>x. r_ProjectID x = up_ProjectID demo_upsert \<and>
      sql_eq (ascii_env (at_hour 6)) (r_RiskKey x) (up_RiskKey demo_upsert)) (db_risks demo_new)) = Some (1, StatusNew)"
    by code_simp
  moreover have "length (t_rows (db_risks demo_new)) = 2" by code_simp
  ultimately show ?thesis using run rediscovery [OF demo_inv(1) run] by (auto split: option.splits)
qed

text \<open>the keys of definition matches and of rule matches determine the rule, the asset and the exposure,
  and the two kinds never collide.\<close>

theorem risk_keys_injective:
  "(riskKey r a x = riskKey r' a' x' \<longleftrightarrow> r = r' \<and> a = a' \<and> x = x') \<and>
   (ruleRiskKey r a x = ruleRiskKey r' a' x' \<longleftrightarrow> r = r' \<and> a = a' \<and> x = x') \<and>
   riskKey r a x \<noteq> ruleRiskKey r' a' x'"
  using keyed_inj [of "''vuln:''" r a x r' a' x'] keyed_inj [of "''rule:''" r a x r' a' x']
  by (auto simp: riskKey_def ruleRiskKey_def)

text \<open>\<open>applySuppression\<close> always returns; it suppresses a finding exactly when a rule of the project that is
  enabled and not expired at the observation time matches it, by the first such rule.\<close>

theorem suppression_exact:
  "\<exists>p'. applySuppression p t d = (Inr p', d) \<and>
     (up_Suppressed p' \<longleftrightarrow> (\<exists>rule \<in> set (t_rows (db_suppressions d)).
        sr_ProjectID rule = up_ProjectID p \<and> suppression_active t rule \<and> suppressionMatches rule p)) \<and>
     (case List.find (\<lambda>rule. sr_ProjectID rule = up_ProjectID p \<and> suppression_active t rule \<and> suppressionMatches rule p)
             (t_rows (db_suppressions d)) of
        None \<Rightarrow> up_SuppressionRuleID p' = 0
      | Some rule \<Rightarrow> up_SuppressionRuleID p' = sr_ID rule \<and> up_SuppressedUntil p' = sr_ExpiresAt rule)"
proof -
  let ?p0 = "p\<lparr>up_Suppressed := False, up_SuppressionRuleID := 0, up_SuppressedUntil := zero_time\<rparr>"
  let ?rows = "t_rows (db_suppressions d)"
  have same: "suppressionMatches rule ?p0 = suppressionMatches rule p" for rule
    by (simp add: suppressionMatches_def)
  have find: "List.find (\<lambda>rule. suppressionMatches rule ?p0) (filter (\<lambda>x. sr_ProjectID x = up_ProjectID p \<and> suppression_active t x) rs) =
      List.find (\<lambda>rule. sr_ProjectID rule = up_ProjectID p \<and> suppression_active t rule \<and> suppressionMatches rule p) rs" for rs
    by (induction rs) (auto simp: same)
  have run: "applySuppression p t d = (case List.find (\<lambda>rule. sr_ProjectID rule = up_ProjectID p \<and> suppression_active t rule \<and> suppressionMatches rule p) ?rows of
      None \<Rightarrow> (Inr ?p0, d)
    | Some rule \<Rightarrow> (Inr (?p0\<lparr>up_Suppressed := True, up_SuppressionRuleID := sr_ID rule, up_SuppressedUntil := sr_ExpiresAt rule\<rparr>), d))"
    by (simp add: applySuppression_def repo_ListActiveSuppressionRules_def sql_many_def bindM_def gets_def Let_def find ok_def split: option.split)
  show ?thesis
  proof (cases "List.find (\<lambda>rule. sr_ProjectID rule = up_ProjectID p \<and> suppression_active t rule \<and> suppressionMatches rule p) ?rows")
    case None
    moreover from this have "\<not> (\<exists>rule \<in> set ?rows. sr_ProjectID rule = up_ProjectID p \<and> suppression_active t rule \<and> suppressionMatches rule p)"
      by (auto simp: find_None_iff)
    ultimately show ?thesis using run by simp
  next
    case (Some rule)
    moreover from this have "\<exists>rule \<in> set ?rows. sr_ProjectID rule = up_ProjectID p \<and> suppression_active t rule \<and> suppressionMatches rule p"
      by (auto simp: find_Some_iff)
    ultimately show ?thesis using run by simp
  qed
qed

section \<open>Scores\<close>



text \<open>A risk that counts as a management entry because of its title alone gets the management weight
  when it is created, and loses it when its score is recalculated: \<open>RecalculateScores\<close> does not pass
  the title on.\<close>

theorem rescore_loses_management_title:
  assumes "isManagementRisk p" and "up_RiskType p \<noteq> TypeHighRiskPort" and "up_RiskType p \<noteq> TypeHighRiskExposure"
  shows "map_of (score_factors m p) ''management_entry'' = Some (uint (sm_ManagementEntry m)) \<and>
    map_of (score_factors m (rescore_params (risk_row e p))) ''management_entry'' = Some 0"
  using assms by (simp add: score_factors_def isManagementRisk_def rescore_params_def risk_row_def ToLower_def Let_def)

theorem rescore_loses_management_title_witness:
  "map_of (score_factors defaultScoreModel (demo_upsert\<lparr>up_Title := ''Admin console''\<rparr>)) ''management_entry'' = Some 10 \<and>
   map_of (score_factors defaultScoreModel (rescore_params (risk_row (ascii_env 0) (demo_upsert\<lparr>up_Title := ''Admin console''\<rparr>)))) ''management_entry'' = Some 0"
proof -
  let ?p = "demo_upsert\<lparr>up_Title := ''Admin console''\<rparr>"
  have "isManagementRisk ?p" "up_RiskType ?p \<noteq> TypeHighRiskPort" "up_RiskType ?p \<noteq> TypeHighRiskExposure" by code_simp+
  moreover have "uint (sm_ManagementEntry defaultScoreModel) = 10" by code_simp
  ultimately show ?thesis using rescore_loses_management_title [of ?p defaultScoreModel "ascii_env 0"] by simp
qed

end
