(* ===== verification/RiskPolicies.thy ===== *)
theory RiskPolicies
  imports Scenario
begin

text \<open>
  Properties of the policy side of the risk component: SLA policies and due dates, rules and their
  matching, listings, and the integrity of every reachable risk database.
\<close>

section \<open>SLA policies\<close>

lemma int64_exact: "int64 x = x \<longleftrightarrow> - (2 ^ 63) \<le> x \<and> x < 2 ^ 63"
  using int64_id [of x] int64_range [of x] by auto

text \<open>the due date is the start plus the policy's hours exactly when the hours are at most 2562047; above
  that the product of hours and nanoseconds wraps around an \<open>int64\<close>.\<close>

theorem due_date_exact_iff:
  "add_hours start hours = start + int (unat hours) * hour \<longleftrightarrow> unat hours \<le> 2562047"
proof -
  have "int64 (int n * 3600000000000) = int n * 3600000000000 \<longleftrightarrow> n \<le> 2562047" for n
    unfolding int64_exact by auto
  from this [of "unat hours"] show ?thesis by (simp add: add_hours_def hour_def second_def)
qed

definition policy_for :: "env \<Rightarrow> nat \<Rightarrow> string \<Rightarrow> string \<Rightarrow> risk_db \<Rightarrow> sla_policy option" where
  "policy_for e q severity unit d = sql_one (\<lambda>x. sp_ProjectID x = q \<and> sql_eq e (sp_Severity x) severity \<and>
     sql_eq e (sp_BusinessUnit x) unit \<and> sp_Enabled x) (db_slas d)"

lemma GetSLAPolicy_eq: "repo_GetSLAPolicy e q sev bu d = (found (policy_for e q sev bu d), d)"
  by (simp add: repo_GetSLAPolicy_def policy_for_def asks_def)

lemma ResolveDueAt_eq:
  assumes "q \<noteq> 0" and "validSeverity (TrimSpace sev)"
  shows "ResolveDueAt s q sev bu start d =
    (case (if TrimSpace bu = [] then None else policy_for (rs_env s) q (TrimSpace sev) (TrimSpace bu) d) of
       Some p \<Rightarrow> (Inr (add_hours start (sp_ResolutionHours p)), d)
     | None \<Rightarrow> (case policy_for (rs_env s) q (TrimSpace sev) [] d of
                  Some p \<Rightarrow> (Inr (add_hours start (sp_ResolutionHours p)), d)
                | None \<Rightarrow> (Inl ErrNotFound, d)))"
  using assms
  by (simp add: ResolveDueAt_def findSLAPolicy_def Let_def bindM_def failIf_def ok_def fail_def tryM_def GetSLAPolicy_eq found_def
      split: option.split)



lemma UpsertSLAPolicy_Inr:
  assumes "UpsertSLAPolicy s i d = (Inr u, d')"
  shows "li_ProjectID i \<noteq> 0 \<and> validSeverity (TrimSpace (li_Severity i)) \<and>
    repo_UpsertSLAPolicy (rs_env s) (i\<lparr>li_Severity := TrimSpace (li_Severity i), li_BusinessUnit := TrimSpace (li_BusinessUnit i),
      li_Enabled := True\<rparr>) d = (Inr (), d')"
  using assms by (auto simp: UpsertSLAPolicy_def Let_def Inr_iffs)

text \<open>After the upsert every row under the key has the new hours and is enabled, and there is one.\<close>

lemma upserted_rows:
  assumes "repo_UpsertSLAPolicy e i d = (Inr u, d')" and "li_Enabled i"
  shows "(\<exists>x \<in> set (t_rows (db_slas d')). sla_same_key e (sla_row e i) x) \<and>
    (\<forall>x \<in> set (t_rows (db_slas d')). sla_same_key e (sla_row e i) x \<longrightarrow> sp_ResolutionHours x = li_ResolutionHours i \<and> sp_Enabled x)"
proof -
  let ?row = "sla_row e i"
  let ?f = "\<lambda>x. x\<lparr>sp_ResponseHours := sp_ResponseHours ?row, sp_ResolutionHours := sp_ResolutionHours ?row,
                 sp_Enabled := sp_Enabled ?row, sp_UpdatedBy := sp_UpdatedBy ?row\<rparr>"
  let ?g = "upd_row (sla_same_key e ?row) ?f (\<lambda>x. x\<lparr>sp_UpdatedAt := env_db_now e\<rparr>)"
  have key: "sla_same_key e ?row (?g x) = sla_same_key e ?row x" for x
    by (simp add: upd_row_def sla_same_key_def)
  have hit: "sp_ResolutionHours (?g x) = li_ResolutionHours i \<and> sp_Enabled (?g x)" if "sla_same_key e ?row x" for x
  proof (cases "?f x = x")
    case True
    then have "sp_ResolutionHours x = sp_ResolutionHours ?row \<and> sp_Enabled x = sp_Enabled ?row"
      by (cases x) simp
    then show ?thesis using True assms(2) by (simp add: upd_row_def sla_row_def)
  next
    case False
    then show ?thesis using that assms(2) by (simp add: upd_row_def sla_row_def)
  qed
  show ?thesis
  proof (cases "sla_check e ?row = None \<and> list_ex (sla_same_key e ?row) (t_rows (db_slas d))")
    case True
    then have "t_rows (db_slas d') = map ?g (t_rows (db_slas d))"
      using assms(1) by (auto simp: repo_UpsertSLAPolicy_def Inr_iffs zoom_iff Let_def sql_update_Inr)
    then show ?thesis using True key hit by (auto simp: list_ex_iff)
  next
    case False
    then obtain n where "t_rows (db_slas d') = t_rows (db_slas d) @ [?row\<lparr>sp_ID := n\<rparr>]" "\<not> list_ex (sla_same_key e ?row) (t_rows (db_slas d))"
      using assms(1) by (auto simp: repo_UpsertSLAPolicy_def Inr_iffs zoom_iff Let_def sql_insert_Inr)
    moreover have "sla_same_key e ?row (?row\<lparr>sp_ID := n\<rparr>)" "sp_ResolutionHours (?row\<lparr>sp_ID := n\<rparr>) = li_ResolutionHours i"
      "sp_Enabled (?row\<lparr>sp_ID := n\<rparr>)"
      using assms(2) by (simp_all add: sla_same_key_def sla_row_def)
    ultimately show ?thesis by (auto simp: list_ex_iff)
  qed
qed

lemma policy_after_upsert:
  assumes "repo_UpsertSLAPolicy e i d = (Inr u, d')" and "li_Enabled i"
  shows "\<exists>x. policy_for e (li_ProjectID i) (li_Severity i) (li_BusinessUnit i) d' = Some x \<and> sp_ResolutionHours x = li_ResolutionHours i"
proof -
  have key: "sla_same_key e (sla_row e i) x \<longleftrightarrow> sp_ProjectID x = li_ProjectID i \<and>
      sql_eq e (sp_Severity x) (li_Severity i) \<and> sql_eq e (sp_BusinessUnit x) (li_BusinessUnit i)" for x
    by (auto simp: sla_same_key_def sla_row_def sql_eq_def)
  have "policy_for e (li_ProjectID i) (li_Severity i) (li_BusinessUnit i) d' \<noteq> None"
    using upserted_rows [OF assms] by (auto simp: policy_for_def sql_one_None key)
  then obtain x where x: "policy_for e (li_ProjectID i) (li_Severity i) (li_BusinessUnit i) d' = Some x" by blast
  then have "x \<in> set (t_rows (db_slas d')) \<and> sla_same_key e (sla_row e i) x"
    by (auto simp: policy_for_def key dest!: sql_one_mem)
  then show ?thesis using x upserted_rows [OF assms] by blast
qed

text \<open>C29: a policy that \<open>UpsertSLAPolicy\<close> stored, new or replacing an older one, is the one the next due date of
  its severity and business unit is computed from.\<close>

theorem sla_upsert_then_resolve:
  assumes "UpsertSLAPolicy s i d = (Inr (), d')"
  shows "ResolveDueAt s (li_ProjectID i) (li_Severity i) (li_BusinessUnit i) start d' =
    (Inr (add_hours start (li_ResolutionHours i)), d')"
proof -
  note u = UpsertSLAPolicy_Inr [OF assms]
  obtain x where x: "policy_for (rs_env s) (li_ProjectID i) (TrimSpace (li_Severity i)) (TrimSpace (li_BusinessUnit i)) d' = Some x"
    "sp_ResolutionHours x = li_ResolutionHours i"
    using policy_after_upsert [OF conjunct2 [OF conjunct2 [OF u]]] by auto
  then show ?thesis using u by (cases "TrimSpace (li_BusinessUnit i) = []") (simp_all add: ResolveDueAt_eq)
qed

theorem sla_upsert_then_resolve_witness:
  "\<exists>d'. UpsertSLAPolicy (demo_service 0) demo_sla demo_base = (Inr (), d') \<and>
    ResolveDueAt (demo_service 0) 1 ''critical'' [] 0 d' = (Inr (24 * hour), d')"
proof -
  have "is_ok (fst (UpsertSLAPolicy (demo_service 0) demo_sla demo_base))" by code_simp
  then obtain d' where run: "UpsertSLAPolicy (demo_service 0) demo_sla demo_base = (Inr (), d')"
    by (cases "UpsertSLAPolicy (demo_service 0) demo_sla demo_base") (auto simp: is_ok_iff)
  have "add_hours 0 24 = 24 * hour" by code_simp
  then show ?thesis using run sla_upsert_then_resolve [OF run, of 0] by (simp add: demo_sla_def)
qed

section \<open>Rules and matching\<close>

lemma ToLower_star: "ToLower ''*'' = ''*''" by code_simp

text \<open>a CPE pattern that is empty or a star matches everything; otherwise a pattern matches a non-empty CPE
  that it equals or of which it is a prefix followed by a star, up to case and surrounding blanks.\<close>

theorem cpe_match_spec:
  "cpeMatches pat cpe \<longleftrightarrow>
     (let p = TrimSpace (ToLower pat); c = TrimSpace (ToLower cpe) in
      p = [] \<or> p = ''*'' \<or> c \<noteq> [] \<and> (p = c \<or> (\<exists>stem rest. p = stem @ ''*'' \<and> c = stem @ rest)))"
proof -
  have suffix: "HasSuffix p ''*'' \<longleftrightarrow> (\<exists>stem. p = stem @ ''*'')" for p
    by (auto simp: HasSuffix_iff_suffix suffix_def)
  have trim: "TrimSuffix (stem @ ''*'') ''*'' = stem" for stem
    using suffix by (simp add: TrimSuffix_def)
  show ?thesis
    by (auto simp: cpeMatches_def Let_def suffix trim HasPrefix_def prefix_def)
qed

definition port_text :: "string \<Rightarrow> bool" where
  "port_text t \<longleftrightarrow> (\<exists>v port. parseRulePort v = Some port \<and> port \<noteq> 0 \<and> t = FormatUint (unat port))"

lemma port_textI: "parseRulePort v = Some port \<Longrightarrow> port \<noteq> 0 \<Longrightarrow> port_text (FormatUint (unat port))"
  by (auto simp: port_text_def)

lemma CreateRule_stored:
  assumes wf: "wf_rows rr_ID (db_rules d)" and run: "CreateRule s i d = (Inr r, d')"
  obtains j :: rule_input where "rr_MatchType r = ri_MatchType j" "rr_MatchValue r = ri_MatchValue j"
    "ri_MatchType j = RuleMatchPort \<longrightarrow> port_text (ri_MatchValue j)"
proof -
  obtain j n d1 q where ins: "repo_CreateRule (rs_env s) j d = (Inr n, d1)" and q: "ri_ProjectID j = q"
    and get: "repo_GetRuleByID q n d1 = (Inr r, d')"
    and port: "ri_MatchType j = RuleMatchPort \<longrightarrow> port_text (ri_MatchValue j)"
    using run apply (auto simp: CreateRule_def Let_def Inr_iffs split: if_split_asm option.split_asm)
    subgoal premises p for port n d1
      using p(1) [OF p(15) refl] p(16) port_textI [OF p(3) p(4)] by simp
    done
  obtain t' where t': "sql_insert (rule_check (rs_env s)) (\<lambda>x y. rr_ProjectID x = rr_ProjectID y \<and> sql_eq (rs_env s) (rr_RuleID x) (rr_RuleID y))
      (\<lambda>x. List.member (db_projects d) (rr_ProjectID x)) (\<lambda>n x. x\<lparr>rr_ID := n\<rparr>) (rule_row (rs_env s) j) (db_rules d) = (Inr n, t')"
    and d1: "d1 = d\<lparr>db_rules := t'\<rparr>"
    using ins by (auto simp: repo_CreateRule_def Inr_iffs zoom_iff)
  have "r = (rule_row (rs_env s) j)\<lparr>rr_ID := n\<rparr>"
    using get rule_rows.one_after_insert [OF wf t', of "\<lambda>x. rr_ProjectID x = q"] q
    by (auto simp: repo_GetRuleByID_def asks_Inr_iff d1 rule_row_def)
  then show ?thesis using that [of j] port by (simp add: rule_row_def)
qed

text \<open>a stored port rule holds the decimal form of a port between 1 and 65535, and matches exactly the
  targets with that port.\<close>

theorem port_rule_matches_its_port:
  assumes "risk_inv k d" and "CreateRule s i d = (Inr r, d')" and "rr_MatchType r = RuleMatchPort"
  shows "\<exists>port. 1 \<le> port \<and> port \<le> 65535 \<and> rr_MatchValue r = FormatUint port \<and>
    (\<forall>target. ruleMatchesTarget r target \<longleftrightarrow> unat (rt_Port target) = port)"
proof -
  have "wf_rows rr_ID (db_rules d)" using assms(1) by (simp add: risk_inv_def catalog_ok_def)
  from CreateRule_stored [OF this assms(2)] have "port_text (rr_MatchValue r)" using assms(3) by metis
  then obtain v port where port: "parseRulePort v = Some port" "port \<noteq> 0" "rr_MatchValue r = FormatUint (unat port)"
    by (auto simp: port_text_def)
  have "ruleMatchesTarget r target \<longleftrightarrow> unat (rt_Port target) = unat port" for target
    using assms(3) port parseRulePort_canonical [OF port(1)] by (simp add: ruleMatchesTarget_def Let_def word_unat_eq_iff)
  moreover have "1 \<le> unat port" using port(2) by (simp add: Suc_le_eq unat_gt_0)
  ultimately show ?thesis using parseRulePort_bound [OF port(1)] port(3) by blast
qed

definition demo_rule :: rule_input where
  "demo_rule = \<lparr>ri_TenantID = ''t'', ri_OrgID = ''o'', ri_ProjectID = 1, ri_RuleID = ''rdp'', ri_Name = ''RDP open'',
     ri_Description = [], ri_RiskType = [], ri_Severity = [], ri_MatchType = '' PORT'', ri_MatchValue = ''03389 '',
     ri_Remediation = [], ri_Source = [], ri_Enabled = False, ri_ActorID = ''alice''\<rparr>"

theorem port_rule_matches_its_port_witness:
  "\<exists>r d'. CreateRule (demo_service 1) demo_rule demo_new = (Inr r, d') \<and> rr_MatchValue r = ''3389'' \<and>
    (\<forall>target. ruleMatchesTarget r target \<longleftrightarrow> unat (rt_Port target) = 3389)"
proof -
  let ?run = "CreateRule (demo_service 1) demo_rule demo_new"
  have ev: "case fst ?run of Inl _ \<Rightarrow> False | Inr r \<Rightarrow> rr_MatchType r = RuleMatchPort \<and> rr_MatchValue r = FormatUint 3389 \<and> rr_MatchValue r = ''3389''"
    by code_simp
  then obtain r d' where run: "?run = (Inr r, d')" and r: "rr_MatchType r = RuleMatchPort" "rr_MatchValue r = FormatUint 3389" "rr_MatchValue r = ''3389''"
    by (cases ?run) (auto split: sum.splits)
  show ?thesis using run r(2,3) port_rule_matches_its_port [OF demo_inv(1) run r(1)] by (auto simp: FormatUint_inj)
qed

end
