(* ===== verification/RiskSafety.thy ===== *)
theory RiskSafety
  imports Scenario
begin

text \<open>
  Safety of the risk database over every run: integrity of reachable states, append-only histories,
  bounded pages and the round trip of nullable ids.
\<close>

section \<open>Reachable states\<close>

text \<open>C15: in every state the risk operations can reach, a project has at most one risk per key up to the
  collation of the database, ids are distinct, statuses are valid and scores are at most 100.\<close>

theorem reachable_risks_integrity:
  assumes "risk_reachable k d"
  shows "distinct (map r_ID (t_rows (db_risks d))) \<and>
    distinct (map (\<lambda>r. (r_ProjectID r, k (r_RiskKey r))) (t_rows (db_risks d))) \<and>
    (\<forall>r \<in> set (t_rows (db_risks d)). validRiskStatus (r_Status r) \<and> r_Score r \<le> 100)"
proof -
  have "risks_ok k (db_risks d)" using reachable_inv [OF assms] by (simp add: risk_inv_def)
  then show ?thesis
    by (auto simp: risks_ok_def wf_rows_def strict_sorted_iff risk_ident_def [abs_def])
qed

theorem reachable_risks_integrity_witness:
  "risk_reachable ascii_key demo_new \<and> distinct (map r_ID (t_rows (db_risks demo_new))) \<and> length (t_rows (db_risks demo_new)) = 2"
proof -
  have "length (t_rows (db_risks demo_new)) = 2" by code_simp
  then show ?thesis using reachable_risks_integrity [OF demo_new_reachable] demo_new_reachable by blast
qed

text \<open>C31: in every reachable state each row of the status history is an edge of the life cycle and belongs to
  a risk of its project.\<close>

theorem reachable_history_legal:
  assumes "risk_reachable k d" and "h \<in> set (t_rows (db_status_history d))"
  shows "risk_edge (hs_Action h) (hs_OldStatus h) (hs_NewStatus h) \<and>
    (\<exists>r \<in> set (t_rows (db_risks d)). r_ID r = hs_RiskID h \<and> r_ProjectID r = hs_ProjectID h)"
  using reachable_inv [OF assms(1)] assms(2)
  by (auto simp: risk_inv_def history_ok_def legal_step_def risk_exists_def list_ex_iff nextRiskStatus_iff_edge)

theorem reachable_history_legal_witness:
  "\<exists>h \<in> set (t_rows (db_status_history demo_accepted)). risk_edge (hs_Action h) (hs_OldStatus h) StatusRiskAccepted"
proof -
  have "\<exists>h \<in> set (t_rows (db_status_history demo_accepted)). hs_NewStatus h = StatusRiskAccepted" by code_simp
  then show ?thesis using reachable_history_legal [OF demo_accepted_reachable] by metis
qed

section \<open>Append-only tables\<close>

definition appended :: "risk_db \<Rightarrow> risk_db \<Rightarrow> bool" where
  "appended d0 d \<longleftrightarrow>
     prefix (t_rows (db_audit d0)) (t_rows (db_audit d)) \<and>
     prefix (t_rows (db_status_history d0)) (t_rows (db_status_history d)) \<and>
     prefix (t_rows (db_decisions d0)) (t_rows (db_decisions d)) \<and>
     prefix (t_rows (db_score_history d0)) (t_rows (db_score_history d)) \<and>
     prefix (t_rows (db_change_events d0)) (t_rows (db_change_events d))"

lemma appended_refl: "appended d d" by (simp add: appended_def)

lemma appended_trans: "appended d0 d1 \<Longrightarrow> appended d1 d2 \<Longrightarrow> appended d0 d2"
  by (auto simp: appended_def intro: prefix_order.trans)

lemma appended_other [simp]:
  "appended d0 (d\<lparr>db_risks := t1\<rparr>) = appended d0 d" "appended d0 (d\<lparr>db_rules := t2\<rparr>) = appended d0 d"
  "appended d0 (d\<lparr>db_definitions := t3\<rparr>) = appended d0 d" "appended d0 (d\<lparr>db_suppressions := t4\<rparr>) = appended d0 d"
  "appended d0 (d\<lparr>db_slas := t5\<rparr>) = appended d0 d"
  "appended d0 (d\<lparr>db_projects := ps, db_assets := as, db_exposures := xs\<rparr>) = appended d0 d"
  by (simp_all add: appended_def)

lemma keeps_appended_zoom:
  "(\<And>d t. appended d0 (put t d) = appended d0 d) \<Longrightarrow> keeps (appended d0) (zoom get put m)"
  by (auto simp: keeps_def zoom_def split: prod.splits)

lemma insert_prefix: "sql_insert chk same fk wid row t = (r, t') \<Longrightarrow> prefix (t_rows t) (t_rows t')"
  by (cases r) (auto simp: sql_insert_Inr dest: sql_insert_Inl)

lemma keeps_appended_catalog:
  "keeps (appended d0) (repo_CreateDefinition e di)" "keeps (appended d0) (repo_CreateRule e ri)"
  "keeps (appended d0) (repo_CreateSuppressionRule e si)" "keeps (appended d0) (repo_CreateRisk e p)"
  "keeps (appended d0) (repo_UpsertSLAPolicy e li)"
  by (auto simp: keeps_def repo_CreateDefinition_def repo_CreateRule_def repo_CreateSuppressionRule_def repo_CreateRisk_def
      repo_UpsertSLAPolicy_def bindM_def mapErr_def zoom_def ok_def split: prod.splits sum.splits)

lemma keeps_appended_update:
  "keeps (appended d0) (risk_update e p f)" "keeps (appended d0) (repo_SetRuleEnabled e q i b a)"
  "keeps (appended d0) (repo_SetSuppressionRuleEnabled e q i b a)"
  unfolding risk_update_def repo_SetRuleEnabled_def repo_SetSuppressionRuleEnabled_def
  by (intro keeps_rowsAffectedErr keeps_appended_zoom; simp)+

lemma keeps_appended_insert:
  "keeps (appended d0) (repo_InsertScoreHistory e sh)" "keeps (appended d0) (repo_InsertStatusHistory e hs)"
  "keeps (appended d0) (repo_InsertRiskDecision e rd)" "keeps (appended d0) (repo_InsertChangeEvent e ce)"
  by (auto simp: keeps_def appended_def repo_InsertScoreHistory_def repo_InsertStatusHistory_def repo_InsertRiskDecision_def
      repo_InsertChangeEvent_def bindM_def mapErr_def zoom_def ok_def split: prod.splits sum.splits
      dest!: insert_prefix intro: prefix_order.trans)

lemma keeps_appended_audit: "keeps (appended d0) (record_audit e v)"
proof (rule keepsI)
  fix d assume a: "appended d0 d"
  obtain r d' where run: "record_audit e v d = (r, d')" by (cases "record_audit e v d")
  have "appended d d'"
    using run by (cases r) (auto simp: record_audit_Inr appended_def dest: record_audit_Inl)
  then show "appended d0 (snd (record_audit e v d))" using a run by (simp add: appended_trans)
qed

lemma keeps_appended_tx: "keeps (appended d0) m \<Longrightarrow> keeps (appended d0) (runInTx s m)"
  unfolding runInTx_def by (intro keeps_intros) (simp_all add: appended_def risk_rollback_def)

lemma keeps_appended_upsert: "keeps (appended d0) (upsertRisk e p src t)"
  unfolding upsertRisk_def create_branch_def reopen_branch_def refresh_branch_def repo_RefreshRisk_def repo_ReopenRisk_def Let_def
  by (intro keeps_bindM keeps_tryM keeps_sum_case keeps_if keeps_fail keeps_ok keeps_read keeps_applySuppression
      keeps_appended_update keeps_appended_catalog keeps_appended_insert)

lemma keeps_appended_transition: "keeps (appended d0) (TransitionStatus s i)"
  unfolding TransitionStatus_def transition_body_def recordStatusAudit_def repo_UpdateRiskStatus_def Let_def
  by (intro keeps_bindM keeps_failIf keeps_appended_tx keeps_read keeps_liftM keeps_with_due_date keeps_appended_update
      keeps_appended_insert keeps_appended_audit keeps_if keeps_ok)

lemma appends_apply: "keeps (appended d) m \<Longrightarrow> appended d (snd (m d))"
  by (simp add: keeps_def appended_refl)

lemma keeps_appended_report: "keeps (appended d0) (ReportCertificateFinding s cf)"
  unfolding ReportCertificateFinding_def Let_def
  by (intro keeps_bindM keeps_failIf keeps_appended_tx keeps_appended_upsert) (auto split: prod.splits intro: keeps_ok)

lemma keeps_appended_ops:
  "keeps (appended d0) (CreateDefinition s di)" "keeps (appended d0) (CreateRule s ri)"
  "keeps (appended d0) (SetRuleEnabled s q n b a)" "keeps (appended d0) (CreateSuppressionRule s si)"
  "keeps (appended d0) (SetSuppressionRuleEnabled s q n b a)" "keeps (appended d0) (UpsertSLAPolicy s li)"
  "keeps (appended d0) (RecalculateSLADueAt s q lim a)" "keeps (appended d0) (ApplyDefinitionMatches s q n ms a)"
  "keeps (appended d0) (ApplyRules s q ts a)" "keeps (appended d0) (RecalculateScores s q ids a reason)"
  "keeps (appended d0) (ReopenExpiredDecisions s q lim a)"
  unfolding CreateDefinition_def CreateRule_def SetRuleEnabled_def CreateSuppressionRule_def SetSuppressionRuleEnabled_def
    UpsertSLAPolicy_def RecalculateSLADueAt_def ApplyDefinitionMatches_def applyMatch_def ApplyRules_def applyTarget_def
    RecalculateScores_def ReopenExpiredDecisions_def repo_UpdateRiskStatus_def repo_UpdateRiskScore_def Let_def
  by (intro keeps_intros keeps_appended_tx keeps_appended_upsert keeps_appended_transition keeps_appended_update
      keeps_appended_insert keeps_appended_catalog)+

lemma risk_step_appends: "risk_step k d d' \<Longrightarrow> appended d d'"
  by (induction rule: risk_step.induct)
    (auto simp: appended_refl intro: appends_apply keeps_appended_ops keeps_appended_transition keeps_appended_report)

text \<open>C21: no operation of the risk service changes or removes a row of the audit log, the status history, the
  decisions, the score history or the change events: each table only grows at its end.\<close>

theorem histories_append_only:
  assumes "risk_step k d d'"
  shows "prefix (t_rows (db_audit d)) (t_rows (db_audit d')) \<and>
    prefix (t_rows (db_status_history d)) (t_rows (db_status_history d')) \<and>
    prefix (t_rows (db_decisions d)) (t_rows (db_decisions d')) \<and>
    prefix (t_rows (db_score_history d)) (t_rows (db_score_history d')) \<and>
    prefix (t_rows (db_change_events d)) (t_rows (db_change_events d'))"
  using risk_step_appends [OF assms] by (simp add: appended_def)

theorem histories_append_only_witness:
  "prefix (t_rows (db_status_history demo_confirmed)) (t_rows (db_status_history demo_accepted))"
proof -
  have "risk_step ascii_key demo_confirmed demo_accepted"
    unfolding demo_accepted_def by (rule risk_step.transition) (simp add: wired_def demo_service_def ascii_env_def)
  then show ?thesis using histories_append_only by blast
qed

section \<open>Listings and stored ids\<close>

text \<open>a filtered listing returns at most 200 risks, all of the requested project and matching the filter, in id
  order, with the total number of matches; it writes nothing.\<close>

theorem filtered_page:
  assumes "ListFiltered s f d = (Inr (items, cnt), d')"
  shows "d' = d \<and> length items \<le> 200 \<and> int (length items) \<le> cnt \<and>
    (\<forall>r \<in> set items. r \<in> set (t_rows (db_risks d)) \<and> r_ProjectID r = lf_ProjectID f) \<and> subseq items (t_rows (db_risks d))"
proof -
  define g where "g = f\<lparr>lf_Severity := TrimSpace (lf_Severity f), lf_Status := TrimSpace (lf_Status f),
    lf_Owner := TrimSpace (lf_Owner f), lf_Keyword := TrimSpace (lf_Keyword f), lf_Limit := clampLimit (lf_Limit f),
    lf_Offset := (if lf_Offset f < 0 then 0 else lf_Offset f)\<rparr>"
  have items: "items = page (clampLimit (lf_Limit f)) (lf_Offset g) (sql_many (risk_filter (rs_env s) g) (db_risks d))"
    and cnt: "cnt = sql_count (risk_filter (rs_env s) g) (db_risks d)" and g: "lf_ProjectID g = lf_ProjectID f" and d': "d' = d"
    using assms unfolding g_def
    by (simp_all add: ListFiltered_def Let_def Inr_iffs repo_ListRisksFiltered_def repo_CountRisksFiltered_def)
  have sub: "subseq items (sql_many (risk_filter (rs_env s) g) (db_risks d))"
    unfolding items page_def by (meson subseq_order.trans prefix_imp_subseq suffix_imp_subseq take_is_prefix suffix_drop)
  also have "subseq (sql_many (risk_filter (rs_env s) g) (db_risks d)) (t_rows (db_risks d))"
    by (simp add: sql_many_def subseq_filter_left)
  finally have "subseq items (t_rows (db_risks d))" .
  moreover have "nat (clampLimit (lf_Limit f)) \<le> 200" by (auto simp: clampLimit_def)
  then have "length items \<le> 200"
    using length_page [of "clampLimit (lf_Limit f)"] unfolding items by (rule order_trans [rotated])
  moreover have "int (length items) \<le> cnt"
    using list_emb_length [OF sub] by (simp add: cnt sql_count_def sql_many_def)
  moreover have "r \<in> set (t_rows (db_risks d)) \<and> r_ProjectID r = lf_ProjectID f" if "r \<in> set items" for r
    using that set_page by (fastforce simp: items sql_many_def risk_filter_def g)
  ultimately show ?thesis using d' by blast
qed

theorem filtered_page_witness:
  "\<exists>items cnt. ListFiltered (demo_service 2) \<lparr>lf_ProjectID = 1, lf_Severity = ''critical'', lf_Status = [], lf_Owner = [],
     lf_Keyword = [], lf_AssetID = 0, lf_Limit = 1, lf_Offset = 0\<rparr> demo_new = (Inr (items, cnt), demo_new) \<and>
   length items = 1 \<and> cnt = 2 \<and> set items \<subseteq> set (t_rows (db_risks demo_new))"
proof -
  let ?run = "ListFiltered (demo_service 2) \<lparr>lf_ProjectID = 1, lf_Severity = ''critical'', lf_Status = [], lf_Owner = [],
     lf_Keyword = [], lf_AssetID = 0, lf_Limit = 1, lf_Offset = 0\<rparr> demo_new"
  have "case fst ?run of Inl _ \<Rightarrow> False | Inr (items, cnt) \<Rightarrow> length items = 1 \<and> cnt = 2" by code_simp
  then obtain items cnt d' where run: "?run = (Inr (items, cnt), d')" "length items = 1" "cnt = 2"
    by (cases ?run) (auto split: sum.splits)
  then show ?thesis using filtered_page [OF run(1)] by auto
qed

text \<open>an identifier goes through its nullable column unchanged up to the largest \<open>int64\<close>; a larger one, and
  0, is stored as \<open>NULL\<close> and read back as 0.\<close>

theorem nullable_id_roundtrip:
  "uint64FromNull (nullInt64 v) = (if v < 2 ^ 63 then v else 0)"
  by (auto simp: nullInt64_def uint64FromNull_def)

end
