(* ===== verification/RiskFindings.thy ===== *)
theory RiskFindings
  imports Scenario
begin

text \<open>
  Places where the risk service and its intent differ, each as a theorem: an update that changes
  nothing is answered with \<open>ErrNotFound\<close>, a review window at the sentinel time never closes, a request
  id that the service accepts is too long for the audit log, and the sweep of expired decisions
  reopens a risk whose acceptance was renewed.
\<close>

section \<open>Updates that change nothing\<close>

text \<open>setting a rule to the value it already has, by the actor who set it last, is answered with
  \<open>ErrNotFound\<close> although the rule exists: \<open>rowsAffectedErr\<close> counts changed rows.\<close>

theorem unchanged_rule_reported_missing:
  assumes "risk_inv k d" and "r \<in> set (t_rows (db_rules d))" and "rule_check (rs_env s) r = None"
    and "r_q = rr_ProjectID r" and "r_q \<noteq> 0" and "\<not> bad_actor (rr_UpdatedBy r)"
  shows "SetRuleEnabled s r_q (rr_ID r) (rr_Enabled r) (rr_UpdatedBy r) d = (Inl ErrNotFound, d)"
proof -
  let ?p = "\<lambda>x. rr_ID x = rr_ID r \<and> rr_ProjectID x = r_q"
  let ?f = "\<lambda>x. x\<lparr>rr_Enabled := rr_Enabled r, rr_UpdatedBy := rr_UpdatedBy r\<rparr>"
  have wf: "wf_rows rr_ID (db_rules d)" using assms(1) by (simp add: risk_inv_def catalog_ok_def)
  have only: "x = r" if "x \<in> set (t_rows (db_rules d))" "?p x" for x
    using rule_rows.row_unique [OF wf that(1) assms(2)] that(2) by simp
  have "0 < rr_ID r" using wf assms(2) by (simp add: wf_rows_def)
  moreover have "sql_update (rule_check (rs_env s)) ?p ?f (\<lambda>x. x\<lparr>rr_UpdatedAt := env_db_now (rs_env s)\<rparr>) (db_rules d) = (Inr 0, db_rules d)"
  proof -
    have "?f x = x" if "x \<in> set (t_rows (db_rules d))" "?p x" for x using only [OF that] by simp
    moreover have "rule_check (rs_env s) (?f x) = None" if "x \<in> set (t_rows (db_rules d))" "?p x" for x
      using only [OF that] assms(3) by simp
    ultimately show ?thesis by (simp add: sql_update_Inr filter_empty_conv upd_rows_unchanged)
  qed
  ultimately show ?thesis
    using assms(5,6)
    by (simp add: SetRuleEnabled_def repo_SetRuleEnabled_def rowsAffectedErr_def bindM_def failIf_def mapErr_def zoom_def ok_def fail_def)
qed

definition demo_rule :: rule_input where
  "demo_rule = \<lparr>ri_TenantID = ''t'', ri_OrgID = ''o'', ri_ProjectID = 1, ri_RuleID = ''r'', ri_Name = ''telnet'', ri_Description = [],
     ri_RiskType = [], ri_Severity = ''high'', ri_MatchType = ''port'', ri_MatchValue = ''23'', ri_Remediation = [],
     ri_Source = [], ri_Enabled = True, ri_ActorID = ''alice''\<rparr>"

definition demo_ruled :: risk_db where
  "demo_ruled = snd (CreateRule (demo_service 0) demo_rule demo_base)"

theorem unchanged_rule_reported_missing_witness:
  "List.find (\<lambda>r. rr_ID r = 1 \<and> rr_ProjectID r = 1 \<and> rr_Enabled r) (t_rows (db_rules demo_ruled)) \<noteq> None \<and>
   SetRuleEnabled (demo_service 1) 1 1 True ''alice'' demo_ruled = (Inl ErrNotFound, demo_ruled)"
proof -
  have "risk_reachable ascii_key demo_base"
    unfolding demo_base_def by (rule risk_reachable.step [OF risk_reachable.init risk_step.others])
  then have "risk_reachable ascii_key demo_ruled"
    unfolding demo_ruled_def
    by (rule risk_reachable.step [OF _ risk_step.create_rule]) (simp add: wired_def demo_service_def ascii_env_def)
  then have inv: "risk_inv ascii_key demo_ruled" by (rule reachable_inv)
  let ?r = "hd (t_rows (db_rules demo_ruled))"
  have there: "t_rows (db_rules demo_ruled) \<noteq> []" by code_simp
  have vals: "rr_ID ?r = 1" "rr_ProjectID ?r = 1" "rr_Enabled ?r" "rr_UpdatedBy ?r = ''alice''" by code_simp+
  have chk: "rule_check (rs_env (demo_service 1)) ?r = None" "\<not> bad_actor ''alice''" by code_simp+
  have "List.find (\<lambda>r. rr_ID r = 1 \<and> rr_ProjectID r = 1 \<and> rr_Enabled r) (t_rows (db_rules demo_ruled)) \<noteq> None" by code_simp
  then show ?thesis
    using unchanged_rule_reported_missing [OF inv hd_in_set [OF there] chk(1), of 1] vals chk(2) by simp
qed

section \<open>The review window at the sentinel time\<close>

text \<open>An acceptance or false-positive decision must have an expiry or a review date, but the sentinel date
  1970-01-01 passes that check and stands for ``none'' in the database: whatever input the validation accepts, it
  accepts with that date alone, and the stored decision is then never due for review.\<close>

theorem sentinel_window_never_reviewed:
  assumes "env_col e epoch = epoch" and "validateTransitionInput i nxt = Inr ()"
  shows "validateTransitionInput (i\<lparr>ti_ExpiresAt := epoch, ti_ReviewRequiredAt := zero_time\<rparr>) nxt = Inr () \<and>
    (\<forall>now. \<not> decision_expired e now
       (stored_decision e (decision_of b (i\<lparr>ti_ExpiresAt := epoch, ti_ReviewRequiredAt := zero_time\<rparr>) nxt)))"
proof (intro conjI allI)
  show "validateTransitionInput (i\<lparr>ti_ExpiresAt := epoch, ti_ReviewRequiredAt := zero_time\<rparr>) nxt = Inr ()"
    using assms(2) unfolding validateTransitionInput_def Let_def by (auto split: if_split_asm)
  show "\<not> decision_expired e now
       (stored_decision e (decision_of b (i\<lparr>ti_ExpiresAt := epoch, ti_ReviewRequiredAt := zero_time\<rparr>) nxt))" for now
    using assms(1) by (simp add: decision_expired_def decision_of_def db_time_def riskTimeForDB_def)
qed

theorem sentinel_window_never_reviewed_witness:
  "validateTransitionInput ((demo_action ''accept'')\<lparr>ti_ExpiresAt := epoch, ti_ReviewRequiredAt := zero_time\<rparr>) StatusRiskAccepted
     = Inr ()"
proof -
  have "validateTransitionInput (demo_action ''accept'') StatusRiskAccepted = Inr ()" by code_simp
  from sentinel_window_never_reviewed [of "ascii_env 0", OF _ this] show ?thesis by (simp add: ascii_env_def)
qed

section \<open>Request ids\<close>

text \<open>with a database, a transition whose request id has more than 64 characters never succeeds, although the
  service accepts request ids of up to 128 bytes: the audit log keeps 64 characters.\<close>

theorem long_request_id_fails:
  assumes "rs_db s" and "64 < char_len (am_RequestID (ti_Meta i))"
  shows "\<exists>err. fst (TransitionStatus s i d) = Inl err"
proof (rule ccontr)
  assume "\<not> (\<exists>err. fst (TransitionStatus s i d) = Inl err)"
  then obtain r d' where "TransitionStatus s i d = (Inr r, d')"
    by (cases "TransitionStatus s i d"; cases "fst (TransitionStatus s i d)") auto
  then obtain before after d1 d2 where
    "record_audit (rs_env s) (status_audit_event before after (trimmed_transition i)) d1 = (Inr (), d2)"
    using assms(1) by (auto simp: TransitionStatus_def Let_def runInTx_def inTx_def transition_body_def recordStatusAudit_def
        Inr_iffs split: prod.splits sum.splits)
  then have "audit_check (rs_env s) (audit_entry (rs_env s)
      (with_defaults (status_audit_event before after (trimmed_transition i)))) = None"
    by (simp add: record_audit_Inr)
  then show False
    using assms(2) by (simp add: audit_check_def row_check_def too_long_def audit_entry_def status_audit_event_def
        trimmed_transition_def split: if_split_asm)
qed

definition traced :: "nat \<Rightarrow> transition_input" where
  "traced n = (demo_action ''confirm'')\<lparr>ti_Meta := no_meta\<lparr>am_RequestID := replicate n (CHR ''a'')\<rparr>\<rparr>"

theorem long_request_id_fails_witness:
  "is_ok (fst (TransitionStatus (demo_service 2) (traced 64) demo_new)) \<and>
   (\<exists>err. fst (TransitionStatus (demo_service 2) (traced 65) demo_new) = Inl err)"
proof -
  have "is_ok (fst (TransitionStatus (demo_service 2) (traced 64) demo_new))" by code_simp
  moreover have "64 < char_len (am_RequestID (ti_Meta (traced 65)))" by code_simp
  then have "\<exists>err. fst (TransitionStatus (demo_service 2) (traced 65) demo_new) = Inl err"
    by (intro long_request_id_fails) (simp_all add: demo_service_def)
  ultimately show ?thesis by blast
qed

section \<open>A renewed decision\<close>

definition demo_renewed :: risk_db where
  "demo_renewed = snd (TransitionStatus (demo_service 5) ((demo_action ''false_positive'')\<lparr>ti_ExpiresAt := at_hour 100\<rparr>)
     (snd (TransitionStatus (demo_service 4) (demo_action ''confirm'')
       (snd (TransitionStatus (demo_service 3) (demo_action ''reopen'')
         (snd (TransitionStatus (demo_service 2) (demo_action ''false_positive'') demo_new)))))))"

text \<open>A risk dismissed as a false positive until hour 8, reopened, and dismissed again until hour 100 is reopened by
  the sweep at hour 9: \<open>ListExpiredRiskDecisions\<close> returns every expired decision of the project, not the latest
  decision of each risk.\<close>

theorem sweep_reopens_renewed_decision:
  "(case ReopenExpiredDecisions (demo_service 9) 1 50 ''cron'' demo_renewed of
      (Inr res, d) \<Rightarrow> ar_Reopened res = 1 \<and> map r_Status (t_rows (db_risks d)) = [StatusReopened, StatusNew] \<and>
        map hs_OldStatus (t_rows (db_status_history d)) =
          [StatusNew, StatusFalsePositive, StatusReopened, StatusConfirmed, StatusFalsePositive] \<and>
        map rd_ExpiresAt (t_rows (db_decisions d)) = [at_hour 8, at_hour 100]
    | _ \<Rightarrow> False)"
  by code_simp

end
