(* ===== verification/AuditProperties.thy ===== *)
theory AuditProperties
  imports Scenario
begin

text \<open>
  The properties of the audit package: nothing under a sensitive key is written, everything else is
  kept, redaction is idempotent, and what redaction loses of times and raw documents.
\<close>

text \<open>C26: \<open>Record\<close> either appends one row to the audit log, whose three snapshots hold nothing but the placeholder
  under a sensitive key at any depth and whose actor type and result are never empty, or writes nothing.\<close>

theorem record_appends_redacted:
  assumes "audit_Record e v t = (res, t')"
  shows "(\<exists>err. res = Inl err \<and> t' = t) \<or>
    (\<exists>row. res = Inr () \<and> t_rows t' = t_rows t @ [row] \<and> al_ID row = t_next t \<and>
       (\<forall>x \<in> set_option (al_Before row) \<union> set_option (al_After row) \<union> set_option (al_Metadata row). clean x) \<and>
       al_ActorType row \<noteq> [] \<and> al_Result row \<noteq> [])"
proof (cases res)
  case (Inl err)
  then show ?thesis using assms by (auto dest: audit_Record_Inl)
next
  case (Inr u)
  then have "t_rows t' = t_rows t @ [audit_written e v (t_next t)]" using assms by (simp add: audit_Record_Inr)
  moreover have "clean x" if "toNullJSON y = Some x" for x y
    using that by (auto simp: toNullJSON_def Redact_def redact_clean split: if_split_asm)
  ultimately show ?thesis using Inr by (auto simp: audit_written_def audit_entry_def)
qed

theorem record_appends_redacted_witness:
  "\<exists>row. audit_Record (ascii_env 5) (empty_event\<lparr>ev_After := GMap [(''api_key'', GStr ''k1''), (''name'', GStr ''n'')]\<rparr>) empty_table
     = (Inr (), empty_table\<lparr>t_rows := [row], t_next := 2\<rparr>) \<and> clean (the (al_After row)) \<and> al_ActorType row \<noteq> []"
proof -
  let ?v = "empty_event\<lparr>ev_After := GMap [(''api_key'', GStr ''k1''), (''name'', GStr ''n'')]\<rparr>"
  let ?row = "audit_written (ascii_env 5) ?v 1"
  have run: "audit_Record (ascii_env 5) ?v empty_table = (Inr (), empty_table\<lparr>t_rows := [?row], t_next := 2\<rparr>)" by code_simp
  have "al_After ?row = Some (the (al_After ?row))" by code_simp
  then show ?thesis using run record_appends_redacted [OF run] by (auto simp: empty_table_def)
qed

text \<open>Redaction of a map keeps its keys; a sensitive key holds the placeholder, every other key the redacted value
  it had, and redacting twice is redacting once.\<close>

theorem redaction_exact:
  "map_of (redactMap kvs) k =
     (case map_of kvs k of None \<Rightarrow> None | Some v \<Rightarrow> Some (if isSensitiveKey k then GStr redactedPlaceholder else redactValue v)) \<and>
   map fst (redactMap kvs) = map fst kvs \<and> Redact (Redact v) = Redact v"
  by (simp add: map_of_redactMap Redact_def redactValue_idem fst_redactMap split: option.split)

lemma audit_written_cong:
  assumes "toNullJSON b = toNullJSON (ev_Before v)" and "toNullJSON m = toNullJSON (ev_Metadata v)"
  shows "audit_written e (v\<lparr>ev_Before := b, ev_Metadata := m\<rparr>) n = audit_written e v n"
  using assms by (simp add: audit_written_def audit_entry_def)

text \<open>The audit row of a status change is the same for any expiry and review date of the decision and for any times
  in the two snapshots: \<open>Redact\<close> turns a \<open>time.Time\<close>, a struct without exported fields, into an empty object.\<close>

theorem audit_loses_times:
  "audit_written e (status_audit_event b a (i\<lparr>ti_ExpiresAt := x, ti_ReviewRequiredAt := y\<rparr>)) n =
   audit_written e (status_audit_event b a i) n \<and>
   audit_written e (status_audit_event (b\<lparr>r_SLADueAt := z\<rparr>) a i) n = audit_written e (status_audit_event b a i) n"
proof -
  let ?v = "status_audit_event b a i" and ?j = "i\<lparr>ti_ExpiresAt := x, ti_ReviewRequiredAt := y\<rparr>"
  let ?b = "risk_val (b\<lparr>r_SLADueAt := z\<rparr>)" and ?m = "ev_Metadata (status_audit_event b a ?j)"
  have "toNullJSON ?m = toNullJSON (ev_Metadata ?v)"
    by (simp add: status_audit_event_def toNullJSON_def Redact_def redact_time_val del: redactMap.simps)
      (rule redactMap_cong; simp add: redact_time_val del: redactMap.simps)
  moreover have "toNullJSON ?b = toNullJSON (ev_Before ?v)"
    by (simp add: status_audit_event_def risk_val_def toNullJSON_def Redact_def del: redactStruct.simps)
      (rule redactStruct_cong; simp add: redact_time_val del: redactStruct.simps)
  moreover have "status_audit_event b a ?j = ?v\<lparr>ev_Before := ev_Before ?v, ev_Metadata := ?m\<rparr>" by (simp add: status_audit_event_def)
  moreover have "status_audit_event (b\<lparr>r_SLADueAt := z\<rparr>) a i = ?v\<lparr>ev_Before := ?b, ev_Metadata := ev_Metadata ?v\<rparr>"
    by (simp add: status_audit_event_def)
  ultimately show ?thesis by (metis audit_written_cong)
qed

end
