(* ===== verification/TicketProperties.thy ===== *)
theory TicketProperties
  imports Scenario
begin

text \<open>
  The properties of the ticket service: its status machine, the validation of a new ticket, the
  derived due date, what a created ticket is and does to its risks, and the limits of its transaction.
\<close>

section \<open>Status machine\<close>

text \<open>C32: \<open>nextStatus\<close> accepts exactly the edges of the ticket life cycle, and \<open>AvailableActions\<close> offers exactly
  the actions that have an edge from the current status, each once.\<close>

theorem ticket_machine_is_diagram:
  "(nextStatus a c = Inr n \<longleftrightarrow> ticket_edge a c n) \<and>
   (b \<in> set (AvailableActions c) \<longleftrightarrow> (\<exists>m. ticket_edge b c m)) \<and> distinct (AvailableActions c)"
proof -
  have "distinct allActions" by code_simp
  then show ?thesis
    unfolding AvailableActions_def ticket_table.offered_iff by (simp add: nextStatus_iff_edge)
qed

section \<open>Validation\<close>

lemma guard_iff: "((if b then Inl x else r) = Inr y) \<longleftrightarrow> \<not> b \<and> r = Inr y"
  by simp

lemma checkRiskIDs_iff: "checkRiskIDs seen ids \<longleftrightarrow> 0 \<notin> set ids \<and> distinct ids \<and> set ids \<inter> set seen = {}"
  by (induction ids arbitrary: seen) auto

text \<open>a ticket is accepted exactly when it has a project, an actor, a title and an assignee, a due date, a known
  priority, texts that fit, and a non-empty list of distinct risk ids other than 0.\<close>

theorem create_validation_exact:
  "validateCreate i = Inr () \<longleftrightarrow>
     ci_ProjectID i \<noteq> 0 \<and> \<not> bad_actor (ci_ActorID i) \<and>
     TrimSpace (ci_Title i) \<noteq> [] \<and> length (ci_Title i) \<le> 255 \<and>
     TrimSpace (ci_Assignee i) \<noteq> [] \<and> length (ci_Assignee i) \<le> 64 \<and> ci_DueAt i \<noteq> zero_time \<and>
     (ci_Priority i = [] \<or> ci_Priority i \<in> set priorities) \<and>
     length (ci_Description i) \<le> 2048 \<and> length (ci_BusinessUnit i) \<le> 128 \<and> length (ci_ExternalTicketID i) \<le> 128 \<and>
     ci_RiskIDs i \<noteq> [] \<and> distinct (ci_RiskIDs i) \<and> 0 \<notin> set (ci_RiskIDs i)"
proof -
  have "validPriority (ticket_defaultString p PriorityMedium) \<longleftrightarrow> p = [] \<or> p \<in> set priorities" for p
    by (auto simp: validPriority_def ticket_defaultString_def priorities_def)
  then show ?thesis
    unfolding validateCreate_def guard_iff checkRiskIDs_iff by (simp add: not_less) blast
qed

section \<open>The derived due date\<close>

text \<open>The due date of one risk by its SLA policy, counted from when it was first seen.\<close>

definition due_of :: "risk_service \<Rightarrow> time \<Rightarrow> nat \<Rightarrow> risk_db \<Rightarrow> nat \<Rightarrow> time option" where
  "due_of rs now q d j =
     (case fst (GetByID q j d) of
        Inl _ \<Rightarrow> None
      | Inr r \<Rightarrow> (case fst (ResolveDueAt rs q (r_Severity r) (r_BusinessUnit r)
                         (if r_FirstSeen r = zero_time then now else r_FirstSeen r) d) of
                    Inl _ \<Rightarrow> None | Inr due \<Rightarrow> Some due))"

lemma ResolveDueAt_reads: "ResolveDueAt rs q sev bu t d = (r, d') \<Longrightarrow> d' = d"
  by (drule keepsD [OF keeps_ResolveDueAt [of "(=) d"] refl]) simp

lemma earliest_due_Inr:
  assumes "earliest_due (riskService rs) now q e0 ids w = (Inr t, w')" and "\<And>j. j \<in> set ids \<Longrightarrow> due_of rs now q (w_risk w) j \<noteq> Some 0"
  shows "w' = w \<and> (\<forall>j \<in> set ids. \<exists>x. due_of rs now q (w_risk w) j = Some x \<and> t \<le> x) \<and> (e0 \<noteq> 0 \<longrightarrow> t \<le> e0) \<and>
    (t = e0 \<or> (\<exists>j \<in> set ids. due_of rs now q (w_risk w) j = Some t)) \<and> (ids \<noteq> [] \<and> e0 = 0 \<longrightarrow> t \<noteq> 0)"
  using assms
proof (induction ids arbitrary: e0)
  case Nil
  then show ?case by (simp add: ok_def)
next
  case (Cons j ids)
  obtain r due d' where r: "GetByID q j (w_risk w) = (Inr r, w_risk w)"
    and due: "ResolveDueAt rs q (r_Severity r) (r_BusinessUnit r) (if r_FirstSeen r = zero_time then now else r_FirstSeen r) (w_risk w)
      = (Inr due, d')"
    and rest1: "earliest_due (riskService rs) now q (if e0 = zero_time \<or> due < e0 then due else e0) ids (w\<lparr>w_risk := d'\<rparr>) = (Inr t, w')"
    using Cons.prems(1) by (auto simp: riskService_def Inr_iffs on_risk_Inr GetByID_eq)
  have "d' = w_risk w" using ResolveDueAt_reads [OF due] .
  with rest1 have rest: "earliest_due (riskService rs) now q (if e0 = zero_time \<or> due < e0 then due else e0) ids w = (Inr t, w')"
    by simp
  have j: "due_of rs now q (w_risk w) j = Some due" using r due by (simp add: due_of_def)
  then have "due \<noteq> 0" using Cons.prems(2) [of j] by simp
  with Cons.IH [OF rest] Cons.prems(2) j show ?case by (auto split: if_split_asm)
qed

text \<open>a ticket created without a due date gets the earliest of the due dates of its risks by their SLA policies; every
  risk must have one.\<close>

theorem derived_due_is_earliest:
  assumes "ts_risks s = Some (riskService rs)" and "ci_DueAt i = zero_time" and "ci_RiskIDs i \<noteq> []"
    and "\<And>j. j \<in> set (ci_RiskIDs i) \<Longrightarrow> due_of rs (env_now (ts_env s)) (ci_ProjectID i) (w_risk w) j \<noteq> Some 0"
    and "with_derived_due s i w = (Inr i', w')"
  shows "w' = w \<and> i' = i\<lparr>ci_DueAt := ci_DueAt i'\<rparr> \<and>
    (\<forall>j \<in> set (ci_RiskIDs i). \<exists>x. due_of rs (env_now (ts_env s)) (ci_ProjectID i) (w_risk w) j = Some x \<and> ci_DueAt i' \<le> x) \<and>
    (\<exists>j \<in> set (ci_RiskIDs i). due_of rs (env_now (ts_env s)) (ci_ProjectID i) (w_risk w) j = Some (ci_DueAt i'))"
proof -
  obtain t where run: "earliest_due (riskService rs) (env_now (ts_env s)) (ci_ProjectID i) zero_time (ci_RiskIDs i) w = (Inr t, w')"
    and i': "i' = i\<lparr>ci_DueAt := t\<rparr>"
    using assms(1,2,5) by (auto simp: with_derived_due_def deriveTicketDueAt_def Inr_iffs)
  show ?thesis using earliest_due_Inr [OF run assms(4)] assms(3) by (auto simp: i')
qed

theorem derived_due_is_earliest_witness:
  "\<exists>i'. with_derived_due (demo_tickets 4) ((demo_ticket [2, 1])\<lparr>ci_DueAt := zero_time\<rparr>)
     \<lparr>w_risk = demo_new, w_tickets = empty_table, w_links = empty_table\<rparr> =
       (Inr i', \<lparr>w_risk = demo_new, w_tickets = empty_table, w_links = empty_table\<rparr>) \<and> ci_DueAt i' = at_hour 25"
proof -
  let ?i = "(demo_ticket [2, 1])\<lparr>ci_DueAt := zero_time\<rparr>"
  let ?w = "\<lparr>w_risk = demo_new, w_tickets = empty_table, w_links = empty_table\<rparr>"
  have dues: "due_of (demo_service 4) (at_hour 4) 1 demo_new 2 = Some (at_hour 25)"
    "due_of (demo_service 4) (at_hour 4) 1 demo_new 1 = Some (at_hour 25)" by code_simp+
  have nz: "at_hour 25 \<noteq> 0" by code_simp
  have "is_ok (fst (with_derived_due (demo_tickets 4) ?i ?w))" by code_simp
  then obtain i' w' where run: "with_derived_due (demo_tickets 4) ?i ?w = (Inr i', w')"
    by (cases "with_derived_due (demo_tickets 4) ?i ?w") (auto simp: is_ok_iff)
  have hyps: "ts_risks (demo_tickets 4) = Some (riskService (demo_service 4))" "ci_DueAt ?i = zero_time" "ci_RiskIDs ?i \<noteq> []"
    "\<And>j. j \<in> set (ci_RiskIDs ?i) \<Longrightarrow>
       due_of (demo_service 4) (env_now (ts_env (demo_tickets 4))) (ci_ProjectID ?i) (w_risk ?w) j \<noteq> Some 0"
    using dues nz by (auto simp: demo_tickets_def demo_ticket_def ascii_env_def)
  have "w' = ?w" and "\<exists>j \<in> set (ci_RiskIDs ?i).
       due_of (demo_service 4) (env_now (ts_env (demo_tickets 4))) (ci_ProjectID ?i) (w_risk ?w) j = Some (ci_DueAt i')"
    using derived_due_is_earliest [OF hyps run] by blast+
  moreover have "ci_RiskIDs ?i = [2, 1]" "ci_ProjectID ?i = 1" "env_now (ts_env (demo_tickets 4)) = at_hour 4"
    by (simp_all add: demo_tickets_def demo_ticket_def ascii_env_def)
  ultimately have "ci_DueAt i' = at_hour 25" using dues by simp
  then show ?thesis using run \<open>w' = ?w\<close> by blast
qed

section \<open>Creating a ticket\<close>

text \<open>The status of a risk after a ticket was created for it.\<close>

definition taken_up :: "string \<Rightarrow> string" where
  "taken_up c = (if List.member [StatusNew, StatusConfirmed, StatusReopened] c then StatusAssigned else c)"

lemma LinkRisk_world:
  "ticket_repo_LinkRisk e (link_params i n j) w = (Inr u, w') \<Longrightarrow>
     w_risk w' = w_risk w \<and> w_tickets w' = w_tickets w \<and>
     map link_ident (t_rows (w_links w')) = map link_ident (t_rows (w_links w)) @ [(ci_ProjectID i, n, j)]"
  by (auto simp: LinkRisk_Inr link_ident_def link_row_def link_params_def)

context risk_port
begin

lemma assign_exists:
  assumes "ts_risks s = Some api" and "assignRisk s q j a due actor w = (Inr u, w')"
  shows "\<exists>c. status_of api q j (w_risk w) = Some c"
proof -
  obtain r d where "api_GetByID api q j (w_risk w) = (Inr r, d)"
    using assms by (auto simp: assignRisk_def Inr_iffs on_risk_Inr)
  then show ?thesis by (simp add: status_of_def)
qed

lemma create_loop:
  assumes api: "ts_risks s = Some api" and "valid (w_risk w)" and "distinct ids"
    and "forM (\<lambda>j. bindM (ticket_repo_LinkRisk e (link_params i n j)) (\<lambda>_. assignRisk s q j a due actor)) ids w = (Inr xs, w')"
  shows "valid (w_risk w') \<and> w_tickets w' = w_tickets w \<and>
    map link_ident (t_rows (w_links w')) = map link_ident (t_rows (w_links w)) @ map (\<lambda>j. (ci_ProjectID i, n, j)) ids \<and>
    (\<forall>j \<in> set ids. \<exists>c. status_of api q j (w_risk w) = Some c \<and> status_of api q j (w_risk w') = Some (taken_up c)) \<and>
    (\<forall>p j. j \<notin> set ids \<longrightarrow> status_of api p j (w_risk w') = status_of api p j (w_risk w))"
  using assms(2-4)
proof (induction ids arbitrary: w xs)
  case Nil
  then show ?case by (simp add: ok_def)
next
  case (Cons j ids)
  obtain u1 w1 u2 w2 ys where link: "ticket_repo_LinkRisk e (link_params i n j) w = (Inr u1, w1)"
    and assign: "assignRisk s q j a due actor w1 = (Inr u2, w2)"
    and rest: "forM (\<lambda>j. bindM (ticket_repo_LinkRisk e (link_params i n j)) (\<lambda>_. assignRisk s q j a due actor)) ids w2 = (Inr ys, w')"
    using Cons.prems(3) by (auto simp: Inr_iffs)
  note w1 = LinkRisk_world [OF link]
  then have "valid (w_risk w1)" using Cons.prems(1) by simp
  note ex = assign_exists [OF api assign]
  from assign_moved [OF api \<open>valid (w_risk w1)\<close> assign] have m: "moved q j taken_up w1 w2" by (simp add: taken_up_def [abs_def])
  then have v2: "valid (w_risk w2)" by (simp add: moved_def)
  have "distinct ids" and neq: "j \<notin> set ids" and "\<And>j'. j' \<in> set ids \<Longrightarrow> j' \<noteq> j" using Cons.prems(2) by auto
  with Cons.IH [OF v2 _ rest] m w1 ex show ?case by (auto simp: moved_def)
qed

lemma create_effect:
  assumes api: "ts_risks s = Some api" and v: "valid (w_risk w)" and ids: "distinct (ci_RiskIDs i)"
    and run: "create_body s i w = (Inr n, w')"
  shows "n = t_next (w_tickets w) \<and>
    w_tickets w' = append_row ((ticket_row (ts_env s) (create_params i))\<lparr>tk_ID := n\<rparr>) (w_tickets w) \<and>
    map link_ident (t_rows (w_links w')) = map link_ident (t_rows (w_links w)) @ map (\<lambda>j. (ci_ProjectID i, n, j)) (ci_RiskIDs i) \<and>
    (\<forall>j \<in> set (ci_RiskIDs i). \<exists>c. status_of api (ci_ProjectID i) j (w_risk w) = Some c \<and>
       status_of api (ci_ProjectID i) j (w_risk w') = Some (taken_up c)) \<and>
    (\<forall>p j. j \<notin> set (ci_RiskIDs i) \<longrightarrow> status_of api p j (w_risk w') = status_of api p j (w_risk w))"
proof -
  obtain w1 w2 xs ev where create: "ticket_repo_Create (ts_env s) (create_params i) w = (Inr n, w1)"
    and loop: "forM (\<lambda>j. bindM (ticket_repo_LinkRisk (ts_env s) (link_params i n j))
        (\<lambda>_. assignRisk s (ci_ProjectID i) j (ci_Assignee i) (ci_DueAt i) (ci_ActorID i))) (ci_RiskIDs i) w1 = (Inr xs, w2)"
    and aud: "recordAudit s ev w2 = (Inr (), w')"
    using run by (auto simp: create_body_def Inr_iffs ticket_GetByID_Inr)
  have w1: "n = t_next (w_tickets w)"
    "w1 = w\<lparr>w_tickets := append_row ((ticket_row (ts_env s) (create_params i))\<lparr>tk_ID := n\<rparr>) (w_tickets w)\<rparr>"
    using create by (auto simp: ticket_Create_Inr)
  then have v1: "valid (w_risk w1)" using v by simp
  obtain t where "w' = w2\<lparr>w_risk := (w_risk w2)\<lparr>db_audit := t\<rparr>\<rparr>" using audit_world [OF aud] by blast
  with create_loop [OF api v1 ids loop] w1 show ?thesis by (simp add: audit_status)
qed

end

lemma ticket_Create_Inr_parts:
  assumes "ticket_Create s i w = (Inr t, w')"
  obtains i1 w1 n where "with_derived_due s i w = (Inr i1, w1)" "validateCreate i1 = Inr ()"
    "create_body s (i1\<lparr>ci_Priority := ticket_defaultString (TrimSpace (ci_Priority i1)) PriorityMedium\<rparr>) w1 = (Inr n, w')"
    "ticket_repo_GetByID (ci_ProjectID i1) n w' = (Inr t, w')"
  using assms by (auto simp: ticket_Create_def Let_def Inr_iffs ticket_runInTx_def ticket_GetByID_Inr split: if_split_asm)

lemma ticket_Create_mem: "ticket_Create s i w = (Inr t, w') \<Longrightarrow> t \<in> set (t_rows (w_tickets w'))"
  by (erule ticket_Create_Inr_parts) (auto simp: ticket_GetByID_Inr dest: sql_one_mem)

lemma with_derived_due_input:
  assumes "with_derived_due s i w = (Inr i1, w1)"
  shows "i1 = i\<lparr>ci_DueAt := ci_DueAt i1\<rparr>"
  using assms by (auto simp: with_derived_due_def Inr_iffs split: option.splits if_split_asm)

lemma with_derived_due_reads:
  assumes "ts_risks s = Some (riskService rs)" and "with_derived_due s i w = (Inr i1, w1)"
  shows "w1 = w"
proof -
  have reads: "keeps ((=) w) (on_risk (GetByID q j))" "keeps ((=) w) (on_risk (ResolveDueAt rs q sev bu t))" for q j sev bu t
    by (auto simp: keeps_def on_risk_def mapErr_def zoom_def GetByID_eq dest: ResolveDueAt_reads split: prod.splits sum.splits)
  have "keeps ((=) w) (earliest_due (riskService rs) now q e0 ids)" for now q e0 ids
    by (induction ids arbitrary: e0) (auto simp: riskService_def intro!: keeps_intros reads)
  then have "keeps ((=) w) (with_derived_due s i)"
    unfolding with_derived_due_def deriveTicketDueAt_def assms(1) by (simp add: keeps_bindM keeps_ok)
  from keepsD [OF this refl assms(2)] show ?thesis by simp
qed

lemma find_appended: "(\<And>x. x \<in> set xs \<Longrightarrow> \<not> p x) \<Longrightarrow> p y \<Longrightarrow> List.find p (xs @ [y]) = Some y"
  by (induction xs) auto

lemma linked_risks_ident:
  "linked_risks w q n = map (\<lambda>(_, _, j). j) (filter (\<lambda>(p, m, _). p = q \<and> m = n) (map link_ident (t_rows (w_links w))))"
  by (simp add: linked_risks_def sql_many_def filter_map comp_def link_ident_def)

lemma no_links_yet:
  assumes "ticket_inv w"
  shows "filter (\<lambda>(p, m, _). p = q \<and> m = t_next (w_tickets w)) (map link_ident (t_rows (w_links w))) = []"
proof -
  have "tr_TicketID l < t_next (w_tickets w)" if "l \<in> set (t_rows (w_links w))" for l
    using assms that by (force simp: ticket_inv_def ticket_exists_def list_ex_iff wf_rows_def)
  then show ?thesis by (fastforce simp: filter_empty_conv link_ident_def)
qed

text \<open>C25: a successful \<open>Create\<close> appends exactly one ticket, open and with the next id, linked to the risks of the
  input in their order; each of those risks exists, and is assigned when it was new, confirmed or reopened and as it was
  otherwise; no other risk changes its status.\<close>

theorem created_ticket_effect:
  assumes "ticket_wired k s" and "world_inv k w" and "ticket_Create s i w = (Inr t, w')"
  shows "t_rows (w_tickets w') = t_rows (w_tickets w) @ [t] \<and> tk_ID t = t_next (w_tickets w) \<and>
    tk_ProjectID t = ci_ProjectID i \<and> tk_Status t = TStatusOpen \<and>
    linked_risks w' (ci_ProjectID i) (tk_ID t) = ci_RiskIDs i \<and> ci_RiskIDs i \<noteq> [] \<and>
    (\<forall>j \<in> set (ci_RiskIDs i). \<exists>c. status_of (the (ts_risks s)) (ci_ProjectID i) j (w_risk w) = Some c \<and>
       status_of (the (ts_risks s)) (ci_ProjectID i) j (w_risk w') = Some (taken_up c)) \<and>
    (\<forall>p j. j \<notin> set (ci_RiskIDs i) \<longrightarrow>
       status_of (the (ts_risks s)) p j (w_risk w') = status_of (the (ts_risks s)) p j (w_risk w))"
proof -
  obtain rs where rs: "wired k rs" "ts_risks s = Some (riskService rs)" using assms(1) by (auto simp: ticket_wired_def)
  have api: "ts_risks s = Some (riskService (rs\<lparr>rs_db := True\<rparr>))" using rs wired_service by simp
  have inv: "risk_inv k (w_risk w)" "ticket_inv w" using assms(2) by (simp_all add: world_inv_def)
  obtain i1 w1 n where due: "with_derived_due s i w = (Inr i1, w1)" and valid: "validateCreate i1 = Inr ()"
    and body: "create_body s (i1\<lparr>ci_Priority := ticket_defaultString (TrimSpace (ci_Priority i1)) PriorityMedium\<rparr>) w1 = (Inr n, w')"
    and get: "ticket_repo_GetByID (ci_ProjectID i1) n w' = (Inr t, w')"
    using ticket_Create_Inr_parts [OF assms(3)] .
  have w1: "w1 = w" by (rule with_derived_due_reads [OF rs(2) due])
  have i1: "ci_ProjectID i1 = ci_ProjectID i" "ci_RiskIDs i1 = ci_RiskIDs i"
    by (subst with_derived_due_input [OF due]; simp)+
  have ids: "distinct (ci_RiskIDs i)" "ci_RiskIDs i \<noteq> []"
    using valid i1 unfolding validateCreate_def guard_iff checkRiskIDs_iff by simp_all
  note eff = risk_client.create_effect [OF api inv(1) _ body [unfolded w1]]
  have n: "n = t_next (w_tickets w)"
    and rows: "t_rows (w_tickets w') = t_rows (w_tickets w) @
      [(ticket_row (ts_env s) (create_params (i1\<lparr>ci_Priority := ticket_defaultString (TrimSpace (ci_Priority i1)) PriorityMedium\<rparr>)))\<lparr>tk_ID := n\<rparr>]"
    and links: "map link_ident (t_rows (w_links w')) = map link_ident (t_rows (w_links w)) @ map (\<lambda>j. (ci_ProjectID i, n, j)) (ci_RiskIDs i)"
    using eff ids(1) i1 by simp_all
  have old: "tk_ID x \<noteq> n" if "x \<in> set (t_rows (w_tickets w))" for x
    using inv(2) that by (auto simp: n ticket_inv_def wf_rows_def)
  have t: "t = (ticket_row (ts_env s) (create_params (i1\<lparr>ci_Priority := ticket_defaultString (TrimSpace (ci_Priority i1)) PriorityMedium\<rparr>)))\<lparr>tk_ID := n\<rparr>"
    using get old by (simp add: ticket_GetByID_Inr sql_one_def rows find_appended ticket_row_def create_params_def i1)
  have "linked_risks w' (ci_ProjectID i) n = ci_RiskIDs i"
    using no_links_yet [OF inv(2)] by (simp add: linked_risks_ident links n filter_map comp_def)
  moreover have "tk_ProjectID t = ci_ProjectID i" "tk_Status t = TStatusOpen" "tk_ID t = n"
    by (simp_all add: t ticket_row_def create_params_def i1)
  moreover have "t_rows (w_tickets w') = t_rows (w_tickets w) @ [t]" by (simp add: rows t)
  ultimately show ?thesis using eff ids i1 n api by simp
qed


text \<open>The world with two new risks and no tickets.\<close>

definition demo_start :: world where
  "demo_start = \<lparr>w_risk = demo_new, w_tickets = empty_table, w_links = empty_table\<rparr>"

lemma demo_start_inv: "world_inv ascii_key demo_start"
  using demo_inv(1) world_inv_empty [of ascii_key] by (simp add: world_inv_def demo_start_def empty_world_def ticket_inv_def ticket_exists_def)

lemma demo_tickets_wired: "ticket_wired ascii_key (demo_tickets n)"
  by (auto simp: ticket_wired_def demo_tickets_def wired_def demo_service_def ascii_env_def intro!: exI [of _ "demo_service n"])

theorem created_ticket_effect_witness:
  "\<exists>t w'. ticket_Create (demo_tickets 4) (demo_ticket [2]) demo_start = (Inr t, w') \<and> tk_ID t = 1 \<and> tk_Status t = TStatusOpen \<and>
     linked_risks w' 1 1 = [2] \<and>
     status_of (riskService (demo_service 4)) 1 1 (w_risk w') = status_of (riskService (demo_service 4)) 1 1 demo_new"
proof -
  let ?run = "ticket_Create (demo_tickets 4) (demo_ticket [2]) demo_start"
  have "is_ok (fst ?run)" by code_simp
  then obtain t w' where run: "?run = (Inr t, w')" by (cases ?run) (auto simp: is_ok_iff)
  have vals: "ci_ProjectID (demo_ticket [2]) = 1" "ci_RiskIDs (demo_ticket [2]) = [2]" "t_next (w_tickets demo_start) = 1"
    "the (ts_risks (demo_tickets 4)) = riskService (demo_service 4)" "w_risk demo_start = demo_new"
    by (simp_all add: demo_ticket_def demo_start_def empty_table_def demo_tickets_def)
  show ?thesis
    using created_ticket_effect [OF demo_tickets_wired demo_start_inv run] run unfolding vals by auto
qed

section \<open>Failures\<close>

lemma ticket_runInTx_Inl:
  "ts_db s \<Longrightarrow> ticket_runInTx s m w = (Inl e, w') \<Longrightarrow>
     t_rows (w_tickets w') = t_rows (w_tickets w) \<and> t_rows (w_links w') = t_rows (w_links w)"
  by (auto simp: ticket_runInTx_def inTx_def ticket_rollback_def tbl_rollback_def split: prod.splits sum.splits)

text \<open>A ticket transition that fails leaves every row of the ticket and link tables as it was.\<close>

theorem failed_ticket_transition_rolls_back:
  assumes "ts_db s" and "ticket_Transition s i w = (Inl err, w')"
  shows "t_rows (w_tickets w') = t_rows (w_tickets w) \<and> t_rows (w_links w') = t_rows (w_links w)"
  using assms ticket_runInTx_Inl [OF assms(1), of "ticket_transition_body s i" w err w']
  by (auto simp: ticket_Transition_def bindM_def failIf_def ok_def fail_def split: if_split_asm)

theorem failed_ticket_transition_rolls_back_witness:
  "\<exists>err w'. ticket_Transition (demo_tickets 5) (demo_move ''start'') demo_start = (Inl err, w') \<and> t_rows (w_tickets w') = []"
proof -
  let ?run = "ticket_Transition (demo_tickets 5) (demo_move ''start'') demo_start"
  have "\<not> is_ok (fst ?run)" by code_simp
  then obtain err w' where run: "?run = (Inl err, w')" by (cases ?run; cases "fst ?run") (auto simp: is_ok_def)
  have "ts_db (demo_tickets 5)" by (simp add: demo_tickets_def)
  from failed_ticket_transition_rolls_back [OF this run] show ?thesis
    using run by (auto simp: demo_start_def empty_table_def)
qed

text \<open>A ticket for risk 1 and for a risk that does not exist is refused and leaves no ticket, but risk 1 is confirmed
  and assigned by then and stays so: the risk service commits on its own connection.\<close>

theorem refused_ticket_leaves_risk_assigned:
  "(case ticket_Create (demo_tickets 4) (demo_ticket [1, 999]) demo_start of
      (Inl err, w') \<Rightarrow> err = TErrSql SqlForeignKey \<and> t_rows (w_tickets w') = [] \<and> t_rows (w_links w') = [] \<and>
        map r_Status (t_rows (db_risks (w_risk w'))) = [StatusAssigned, StatusNew]
    | _ \<Rightarrow> False)"
  by code_simp

end
