(* ===== verification/GoNet.thy ===== *)
theory GoNet
  imports GoPrelude
begin

text \<open>
  The parts of the standard packages \<open>strings\<close>, \<open>net/netip\<close> and \<open>net/url\<close> that the scope
  authorisation uses: splitting of text, IP addresses and prefixes with their parsers and printers,
  and \<open>url.Parse\<close> with the accessors \<open>Hostname\<close> and \<open>Port\<close>.

  An address (\<open>netip.Addr\<close>) is invalid, an IPv4 address or an IPv6 address with its zone (empty for
  none); the bits are words. A \<open>netip.Prefix\<close> keeps \<open>bitsPlusOne\<close>, 0 for an invalid prefix. A
  parsed URL keeps what the program reads of it; of the user information only its presence.
  \<open>lower_text\<close> is \<open>strings.ToLower\<close> with the two non-ASCII runes whose lower case is an ASCII letter
  (U+212A and U+0130); other bytes outside ASCII stay as they are.
\<close>

unbundle bit_operations_syntax

section \<open>Text\<close>

text \<open>\<open>strings.Split(s, sep)\<close> for a separator of one byte.\<close>

fun split_char :: "char \<Rightarrow> gostring \<Rightarrow> gostring list" where
  "split_char c [] = [[]]"
| "split_char c (x # xs) =
     (if x = c then [] # split_char c xs
      else case split_char c xs of [] \<Rightarrow> [[x]] | p # ps \<Rightarrow> (x # p) # ps)"

text \<open>\<open>strings.Cut\<close> at the first and at the last occurrence of a byte; \<open>None\<close> when there is none.\<close>

definition cut_first :: "char \<Rightarrow> gostring \<Rightarrow> (gostring \<times> gostring) option" where
  "cut_first c s = (if c \<in> set s then Some (takeWhile (\<lambda>x. x \<noteq> c) s, tl (dropWhile (\<lambda>x. x \<noteq> c) s)) else None)"

definition cut_last :: "char \<Rightarrow> gostring \<Rightarrow> (gostring \<times> gostring) option" where
  "cut_last c s = (case cut_first c (rev s) of None \<Rightarrow> None | Some (b, a) \<Rightarrow> Some (rev a, rev b))"

fun lower_text :: "gostring \<Rightarrow> gostring" where
  "lower_text [] = []"
| "lower_text (c # cs) =
     (if prefix [CHR 0xE2, CHR 0x84, CHR 0xAA] (c # cs) then CHR ''k'' # lower_text (drop 2 cs)
      else if prefix [CHR 0xC4, CHR 0xB0] (c # cs) then CHR ''i'' # lower_text (drop 1 cs)
      else lower_char c # lower_text cs)"

definition TrimPrefix :: "gostring \<Rightarrow> gostring \<Rightarrow> gostring" where
  "TrimPrefix s p = (if HasPrefix s p then drop (length p) s else s)"

definition is_digit :: "char \<Rightarrow> bool" where
  "is_digit c \<longleftrightarrow> digit_val c \<noteq> None"

definition hex_val :: "char \<Rightarrow> nat option" where
  "hex_val c = (let n = of_char c in
     if 48 \<le> n \<and> n \<le> 57 then Some (n - 48)
     else if 97 \<le> n \<and> n \<le> 102 then Some (n - 87)
     else if 65 \<le> n \<and> n \<le> 70 then Some (n - 55) else None)"

text \<open>\<open>strconv.Atoi\<close>.\<close>

definition Atoi :: "gostring \<Rightarrow> int option" where
  "Atoi s =
     (let neg = HasPrefix s ''-''; ds = (if neg \<or> HasPrefix s ''+'' then tl s else s) in
      case ds of [] \<Rightarrow> None
      | _ \<Rightarrow> (case parse_digits 0 ds of
                None \<Rightarrow> None
              | Some n \<Rightarrow> (let v = (if neg then - int n else int n) in
                          if - (2 ^ 63) \<le> v \<and> v < 2 ^ 63 then Some v else None)))"

section \<open>Addresses\<close>

datatype addr = InvalidAddr | V4 "32 word" | V6 "128 word" (zone: gostring)

fun IsValid :: "addr \<Rightarrow> bool" where
  "IsValid InvalidAddr \<longleftrightarrow> False" | "IsValid (V4 a) \<longleftrightarrow> True" | "IsValid (V6 a z) \<longleftrightarrow> True"

fun Is4 :: "addr \<Rightarrow> bool" where
  "Is4 (V4 a) \<longleftrightarrow> True" | "Is4 InvalidAddr \<longleftrightarrow> False" | "Is4 (V6 a z) \<longleftrightarrow> False"

fun Is6 :: "addr \<Rightarrow> bool" where
  "Is6 (V6 a z) \<longleftrightarrow> True" | "Is6 InvalidAddr \<longleftrightarrow> False" | "Is6 (V4 a) \<longleftrightarrow> False"

fun hasZone :: "addr \<Rightarrow> bool" where
  "hasZone (V6 a z) \<longleftrightarrow> z \<noteq> []" | "hasZone InvalidAddr \<longleftrightarrow> False" | "hasZone (V4 a) \<longleftrightarrow> False"

fun withoutZone :: "addr \<Rightarrow> addr" where
  "withoutZone (V6 a z) = V6 a []" | "withoutZone InvalidAddr = InvalidAddr" | "withoutZone (V4 a) = V4 a"

fun BitLen :: "addr \<Rightarrow> nat" where
  "BitLen InvalidAddr = 0" | "BitLen (V4 a) = 32" | "BitLen (V6 a z) = 128"

fun Is4In6 :: "addr \<Rightarrow> bool" where
  "Is4In6 (V6 a z) \<longleftrightarrow> drop_bit 32 a = 0xFFFF" | "Is4In6 InvalidAddr \<longleftrightarrow> False" | "Is4In6 (V4 a) \<longleftrightarrow> False"

fun Unmap :: "addr \<Rightarrow> addr" where
  "Unmap (V6 a z) = (if drop_bit 32 a = 0xFFFF then V4 (ucast a) else V6 a z)"
| "Unmap InvalidAddr = InvalidAddr" | "Unmap (V4 a) = V4 a"

fun IsLoopback :: "addr \<Rightarrow> bool" where
  "IsLoopback (V4 a) \<longleftrightarrow> drop_bit 24 a = 127" | "IsLoopback (V6 a z) \<longleftrightarrow> a = 1" | "IsLoopback InvalidAddr \<longleftrightarrow> False"

fun IsPrivate :: "addr \<Rightarrow> bool" where
  "IsPrivate (V4 a) \<longleftrightarrow> drop_bit 24 a = 10 \<or> drop_bit 20 a = 0xAC1 \<or> drop_bit 16 a = 0xC0A8"
| "IsPrivate (V6 a z) \<longleftrightarrow> drop_bit 121 a = 0x7E"
| "IsPrivate InvalidAddr \<longleftrightarrow> False"

fun IsLinkLocalUnicast :: "addr \<Rightarrow> bool" where
  "IsLinkLocalUnicast (V4 a) \<longleftrightarrow> drop_bit 16 a = 0xA9FE"
| "IsLinkLocalUnicast (V6 a z) \<longleftrightarrow> drop_bit 118 a = 0x3FA"
| "IsLinkLocalUnicast InvalidAddr \<longleftrightarrow> False"

fun IsMulticast :: "addr \<Rightarrow> bool" where
  "IsMulticast (V4 a) \<longleftrightarrow> drop_bit 28 a = 0xE"
| "IsMulticast (V6 a z) \<longleftrightarrow> drop_bit 120 a = 0xFF"
| "IsMulticast InvalidAddr \<longleftrightarrow> False"

text \<open>Equality of addresses includes the zone.\<close>

definition IsUnspecified :: "addr \<Rightarrow> bool" where
  "IsUnspecified x \<longleftrightarrow> x = V4 0 \<or> x = V6 0 []"

definition IsGlobalUnicast :: "addr \<Rightarrow> bool" where
  "IsGlobalUnicast x \<longleftrightarrow>
     IsValid x \<and> \<not> (Is4 x \<and> (x = V4 0 \<or> x = V4 0xFFFFFFFF)) \<and>
     x \<noteq> V6 0 [] \<and> \<not> IsLoopback x \<and> \<not> IsMulticast x \<and> \<not> IsLinkLocalUnicast x"

section \<open>Prefixes\<close>

record pfx =
  pf_ip :: addr
  pf_bitsPlusOne :: nat

definition PrefixFrom :: "addr \<Rightarrow> int \<Rightarrow> pfx" where
  "PrefixFrom x bits =
     \<lparr>pf_ip = withoutZone x,
      pf_bitsPlusOne = (if IsValid x \<and> 0 \<le> bits \<and> bits \<le> int (BitLen x) then nat bits + 1 else 0)\<rparr>"

definition pfx_IsValid :: "pfx \<Rightarrow> bool" where
  "pfx_IsValid p \<longleftrightarrow> 0 < pf_bitsPlusOne p"

definition pfx_Bits :: "pfx \<Rightarrow> int" where
  "pfx_Bits p = int (pf_bitsPlusOne p) - 1"

text \<open>The first \<open>n\<close> bits of two words agree.\<close>

definition same_bits :: "nat \<Rightarrow> 'a::len word \<Rightarrow> 'a word \<Rightarrow> bool" where
  "same_bits n a b \<longleftrightarrow> drop_bit (LENGTH('a) - n) (a XOR b) = 0"

fun agree :: "nat \<Rightarrow> addr \<Rightarrow> addr \<Rightarrow> bool" where
  "agree n (V4 a) (V4 b) \<longleftrightarrow> same_bits n a b"
| "agree n (V6 a y) (V6 b z) \<longleftrightarrow> same_bits n a b"
| "agree n x y \<longleftrightarrow> False"

definition pfx_Contains :: "pfx \<Rightarrow> addr \<Rightarrow> bool" where
  "pfx_Contains p x \<longleftrightarrow> pfx_IsValid p \<and> \<not> hasZone x \<and> agree (pf_bitsPlusOne p - 1) (pf_ip p) x"

definition pfx_Overlaps :: "pfx \<Rightarrow> pfx \<Rightarrow> bool" where
  "pfx_Overlaps p q \<longleftrightarrow>
     pfx_IsValid p \<and> pfx_IsValid q \<and>
     (p = q \<or>
      Is4 (pf_ip p) = Is4 (pf_ip q) \<and>
      (let m = min (pf_bitsPlusOne p - 1) (pf_bitsPlusOne q - 1) in m = 0 \<or> agree m (pf_ip p) (pf_ip q)))"

section \<open>Parsing and printing of addresses\<close>

definition bytes_val :: "nat list \<Rightarrow> nat" where
  "bytes_val bs = foldl (\<lambda>acc b. acc * 256 + b) 0 bs"

text \<open>One decimal field of an IPv4 address: one to three digits, no leading zero, at most 255.\<close>

definition octet :: "gostring \<Rightarrow> nat option" where
  "octet s =
     (if s = [] \<or> (hd s = CHR ''0'' \<and> tl s \<noteq> []) then None
      else case parse_digits 0 s of None \<Rightarrow> None | Some n \<Rightarrow> if n \<le> 255 then Some n else None)"

fun all_some :: "'a option list \<Rightarrow> 'a list option" where
  "all_some [] = Some []"
| "all_some (None # xs) = None"
| "all_some (Some x # xs) = (case all_some xs of None \<Rightarrow> None | Some ys \<Rightarrow> Some (x # ys))"

definition parseIPv4Fields :: "gostring \<Rightarrow> nat list option" where
  "parseIPv4Fields s =
     (let fs = split_char (CHR ''.'') s in if length fs = 4 then all_some (map octet fs) else None)"

definition parseIPv4 :: "gostring \<Rightarrow> addr option" where
  "parseIPv4 s = map_option (\<lambda>bs. V4 (of_nat (bytes_val bs))) (parseIPv4Fields s)"

definition hex_num :: "gostring \<Rightarrow> nat" where
  "hex_num ds = foldl (\<lambda>acc c. acc * 16 + the (hex_val c)) 0 ds"

definition is_hex :: "char \<Rightarrow> bool" where
  "is_hex c \<longleftrightarrow> hex_val c \<noteq> None"

text \<open>
  The loop of \<open>parseIPv6\<close>: \<open>bs\<close> are the bytes read so far, \<open>e\<close> the position of the ellipsis, \<open>s\<close>
  the rest of the text. It ends with what is left of the text, which has to be empty.
\<close>

function v6_loop :: "nat list \<Rightarrow> nat option \<Rightarrow> gostring \<Rightarrow> (nat list \<times> nat option) option" where
  "v6_loop bs e s =
     (if 16 \<le> length bs then (if s = [] then Some (bs, e) else None)
      else let ds = takeWhile is_hex s; r = dropWhile is_hex s in
           if ds = [] \<or> 4 < length ds then None
           else if HasPrefix r ''.'' then
             (if (e = None \<and> length bs \<noteq> 12) \<or> 16 < length bs + 4 then None
              else map_option (\<lambda>q. (bs @ q, e)) (parseIPv4Fields s))
           else let bs' = bs @ [hex_num ds div 256, hex_num ds mod 256] in
                if r = [] then Some (bs', e)
                else if hd r \<noteq> CHR '':'' \<or> tl r = [] then None
                else if hd (tl r) = CHR '':'' then
                  (if e \<noteq> None then None
                   else if tl (tl r) = [] then Some (bs', Some (length bs'))
                   else v6_loop bs' (Some (length bs')) (tl (tl r)))
                else v6_loop bs' e (tl r))"
  by pat_completeness auto
termination
  by (relation "measure (\<lambda>(bs, e, s). 16 - length bs)") auto

declare v6_loop.simps [simp del]

definition v6_expand :: "nat list \<Rightarrow> nat option \<Rightarrow> nat list option" where
  "v6_expand bs e =
     (if length bs < 16 then
        (case e of None \<Rightarrow> None | Some k \<Rightarrow> Some (take k bs @ replicate (16 - length bs) 0 @ drop k bs))
      else if e \<noteq> None then None else Some bs)"

definition parseIPv6 :: "gostring \<Rightarrow> addr option" where
  "parseIPv6 s0 =
     (let (s, z, bad) = (case cut_first (CHR ''%'') s0 of
                           None \<Rightarrow> (s0, [], False) | Some (s, z) \<Rightarrow> (s, z, z = [])) in
      if bad then None
      else if s = ''::'' then Some (V6 0 z)
      else
        (let (e, body) = (if HasPrefix s ''::'' then (Some 0, drop 2 s) else (None, s)) in
         case v6_loop [] e body of
           None \<Rightarrow> None
         | Some (bs, e') \<Rightarrow> map_option (\<lambda>b. V6 (of_nat (bytes_val b)) z) (v6_expand bs e')))"

fun ParseAddr_from :: "gostring \<Rightarrow> gostring \<Rightarrow> addr option" where
  "ParseAddr_from s [] = None"
| "ParseAddr_from s (c # cs) =
     (if c = CHR ''.'' then parseIPv4 s
      else if c = CHR '':'' then parseIPv6 s
      else if c = CHR ''%'' then None
      else ParseAddr_from s cs)"

definition ParseAddr :: "gostring \<Rightarrow> addr option" where
  "ParseAddr s = ParseAddr_from s s"

text \<open>\<open>net.ParseIP\<close>: the same syntax without zones.\<close>

definition net_ParseIP :: "gostring \<Rightarrow> addr option" where
  "net_ParseIP s = (case ParseAddr s of None \<Rightarrow> None | Some x \<Rightarrow> if hasZone x then None else Some x)"

definition ParsePrefix :: "gostring \<Rightarrow> pfx option" where
  "ParsePrefix s =
     (case cut_last (CHR ''/'') s of
        None \<Rightarrow> None
      | Some (a, b) \<Rightarrow>
          (case ParseAddr a of
             None \<Rightarrow> None
           | Some x \<Rightarrow>
               if hasZone x then None
               else if 1 < length b \<and> (hd b = CHR ''0'' \<or> \<not> is_digit (hd b)) then None
               else case Atoi b of
                      None \<Rightarrow> None
                    | Some n \<Rightarrow> if n < 0 \<or> n > int (BitLen x) then None else Some (PrefixFrom x n)))"

definition quad :: "32 word \<Rightarrow> nat list" where
  "quad a = map (\<lambda>i. unat (drop_bit (8 * i) a) mod 256) [3, 2, 1, 0]"

definition string4 :: "32 word \<Rightarrow> gostring" where
  "string4 a = (case map FormatUint (quad a) of
     [p, q, r, s] \<Rightarrow> p @ ''.'' @ q @ ''.'' @ r @ ''.'' @ s | _ \<Rightarrow> [])"

definition groups :: "128 word \<Rightarrow> nat list" where
  "groups a = map (\<lambda>i. unat (drop_bit (16 * i) a) mod 65536) [7, 6, 5, 4, 3, 2, 1, 0]"

fun FormatHex :: "nat \<Rightarrow> gostring" where
  "FormatHex n = (if n < 16 then [hex_digit n] else FormatHex (n div 16) @ [hex_digit (n mod 16)])"

declare FormatHex.simps [simp del]

text \<open>The first longest run of at least two zero groups, as start and length.\<close>

fun zero_run :: "nat \<Rightarrow> nat list \<Rightarrow> nat \<times> nat \<Rightarrow> nat \<times> nat" where
  "zero_run i [] best = best"
| "zero_run i (g # gs) best =
     (let l = length (takeWhile (\<lambda>x. x = 0) (g # gs)) in
      zero_run (i + 1) gs (if 2 \<le> l \<and> snd best < l then (i, l) else best))"

fun join_groups :: "nat list \<Rightarrow> gostring" where
  "join_groups [] = []"
| "join_groups [g] = FormatHex g"
| "join_groups (g # gs) = FormatHex g @ '':'' @ join_groups gs"

definition string6 :: "128 word \<Rightarrow> gostring" where
  "string6 a =
     (let gs = groups a; (i, l) = zero_run 0 gs (0, 0) in
      if l = 0 then join_groups gs else join_groups (take i gs) @ ''::'' @ join_groups (drop (i + l) gs))"

fun addr_String :: "addr \<Rightarrow> gostring" where
  "addr_String InvalidAddr = ''invalid IP''"
| "addr_String (V4 a) = string4 a"
| "addr_String (V6 a z) =
     (if drop_bit 32 a = 0xFFFF then ''::ffff:'' @ string4 (ucast a) else string6 a) @
     (if z = [] then [] else ''%'' @ z)"

definition pfx_String :: "pfx \<Rightarrow> gostring" where
  "pfx_String p = (if pfx_IsValid p then addr_String (pf_ip p) @ ''/'' @ FormatUint (pf_bitsPlusOne p - 1) else ''invalid Prefix'')"

end
