(* ===== verification/NetGuard.thy ===== *)
theory NetGuard
  imports GoNet
begin

text \<open>
  The package \<open>internal/platform/netguard\<close>, which decides whether the platform may talk to an
  address or scan a prefix. Both discovery (\<open>isDangerousIP\<close>, \<open>isDangerousCIDR\<close>) and the outbound HTTP
  client (\<open>safehttp\<close>) rest on it.
\<close>

section \<open>Definitions\<close>

text \<open>\<open>mustPrefix\<close> panics on text that is no prefix; none of the literals below is such a text.\<close>

definition mustPrefix :: "gostring \<Rightarrow> pfx" where
  "mustPrefix v = the (ParsePrefix v)"

definition ReservedV4 :: "pfx list" where
  "ReservedV4 = map mustPrefix
     [''0.0.0.0/8'', ''10.0.0.0/8'', ''100.64.0.0/10'', ''127.0.0.0/8'', ''169.254.0.0/16'', ''172.16.0.0/12'',
      ''192.0.0.0/24'', ''192.168.0.0/16'', ''198.18.0.0/15'', ''192.0.2.0/24'', ''198.51.100.0/24'',
      ''203.0.113.0/24'', ''240.0.0.0/4'', ''255.255.255.255/32'']"

definition ReservedV6 :: "pfx list" where
  "ReservedV6 = map mustPrefix
     [''::/128'', ''::1/128'', ''fc00::/7'', ''fe80::/10'', ''ff00::/8'', ''2001:db8::/32'', ''::/96'',
      ''64:ff9b::/96'', ''64:ff9b:1::/48'', ''2002::/16'', ''2001::/32'', ''100::/64'']"

definition cloudMetadataIPv4 :: addr where
  "cloudMetadataIPv4 = the (ParseAddr ''169.254.169.254'')"

definition IsDangerousAddr :: "addr \<Rightarrow> bool" where
  "IsDangerousAddr x0 =
     (let x = (if Is4In6 x0 then Unmap x0 else x0) in
      \<not> IsValid x \<or>
      IsLoopback x \<or> IsPrivate x \<or> IsLinkLocalUnicast x \<or> IsMulticast x \<or> IsUnspecified x \<or>
      \<not> IsGlobalUnicast x \<or>
      x = cloudMetadataIPv4 \<or>
      list_ex (\<lambda>r. Is4 (pf_ip r) \<and> Is4 x \<and> pfx_Contains r x) ReservedV4 \<or>
      list_ex (\<lambda>r. Is6 (pf_ip r) \<and> Is6 x \<and> pfx_Contains r x) ReservedV6)"

definition IsDangerousPrefix :: "pfx \<Rightarrow> bool" where
  "IsDangerousPrefix p \<longleftrightarrow>
     IsDangerousAddr (pf_ip p) \<or> list_ex (pfx_Overlaps p) ReservedV4 \<or> list_ex (pfx_Overlaps p) ReservedV6"

section \<open>The reserved ranges, computed\<close>

definition ip4 :: "nat \<Rightarrow> nat \<Rightarrow> nat \<Rightarrow> nat \<Rightarrow> nat" where
  "ip4 a b c d = ((a * 256 + b) * 256 + c) * 256 + d"

text \<open>A prefix of the given number of bits.\<close>

abbreviation P4 :: "32 word \<Rightarrow> nat \<Rightarrow> pfx" where "P4 a n \<equiv> \<lparr>pf_ip = V4 a, pf_bitsPlusOne = Suc n\<rparr>"
abbreviation P6 :: "128 word \<Rightarrow> nat \<Rightarrow> pfx" where "P6 a n \<equiv> \<lparr>pf_ip = V6 a [], pf_bitsPlusOne = Suc n\<rparr>"

lemma ReservedV4_eq [code]:
  "ReservedV4 =
     [P4 0 8, P4 0x0A000000 8, P4 0x64400000 10, P4 0x7F000000 8, P4 0xA9FE0000 16, P4 0xAC100000 12,
      P4 0xC0000000 24, P4 0xC0A80000 16, P4 0xC6120000 15, P4 0xC0000200 24, P4 0xC6336400 24,
      P4 0xCB007100 24, P4 0xF0000000 4, P4 0xFFFFFFFF 32]"
  by code_simp

lemma ReservedV6_eq [code]:
  "ReservedV6 =
     [P6 0 128, P6 1 128, P6 0xFC000000000000000000000000000000 7, P6 0xFE800000000000000000000000000000 10,
      P6 0xFF000000000000000000000000000000 8, P6 0x20010DB8000000000000000000000000 32, P6 0 96,
      P6 0x0064FF9B000000000000000000000000 96, P6 0x0064FF9B000100000000000000000000 48,
      P6 0x20020000000000000000000000000000 16, P6 0x20010000000000000000000000000000 32,
      P6 0x01000000000000000000000000000000 64]"
  by code_simp

lemma cloudMetadataIPv4_eq [code]: "cloudMetadataIPv4 = V4 0xA9FEA9FE"
  by code_simp

section \<open>Prefixes as ranges of numbers\<close>

lemma xor_eq_0_word: "a XOR b = 0 \<longleftrightarrow> a = (b :: 'a::len word)"
proof
  assume "a XOR b = 0"
  then have "(a XOR b) XOR b = b" by simp
  then show "a = b" by (simp add: xor.assoc)
qed simp

lemma same_bits_iff: "same_bits n a b \<longleftrightarrow> drop_bit (LENGTH('a) - n) a = drop_bit (LENGTH('a) - n) (b :: 'a::len word)"
  by (simp add: same_bits_def drop_bit_xor xor_eq_0_word)

lemma same_bits_mono: "same_bits n a b \<Longrightarrow> m \<le> n \<Longrightarrow> n \<le> LENGTH('a) \<Longrightarrow> same_bits m a (b :: 'a::len word)"
proof -
  assume s: "same_bits n a b" and l: "m \<le> n" "n \<le> LENGTH('a)"
  have "LENGTH('a) - m = (n - m) + (LENGTH('a) - n)" using l by simp
  then show ?thesis using s by (simp add: same_bits_iff flip: drop_bit_drop_bit)
qed

lemma div_between: "x div 2 ^ k = q \<longleftrightarrow> q * 2 ^ k \<le> x \<and> x < (q + 1) * 2 ^ k" for x q :: nat
proof -
  have "x div 2 ^ k = q \<longleftrightarrow> q \<le> x div 2 ^ k \<and> x div 2 ^ k < q + 1" by linarith
  then show ?thesis by (simp only: less_eq_div_iff_mult_less_eq div_less_iff_less_mult zero_less_power zero_less_numeral)
qed

lemma drop_bit_eq_iff:
  "drop_bit k a = (w :: 'a::len word) \<longleftrightarrow> unat w * 2 ^ k \<le> unat a \<and> unat a < (unat w + 1) * 2 ^ k"
proof -
  have "drop_bit k a = w \<longleftrightarrow> unat a div 2 ^ k = unat w"
    by (simp add: word_eq_iff_unsigned [where 'a = nat] unat_drop_bit_eq drop_bit_eq_div [where 'a = nat])
  also have "\<dots> \<longleftrightarrow> unat w * 2 ^ k \<le> unat a \<and> unat a < (unat w + 1) * 2 ^ k"
    by (rule div_between)
  finally show ?thesis .
qed

text \<open>Two prefixes that share an address overlap.\<close>

lemma agree_mono: "agree n x y \<Longrightarrow> m \<le> n \<Longrightarrow> n \<le> BitLen x \<Longrightarrow> agree m x y"
  by (cases x; cases y) (auto intro: same_bits_mono)

lemma agree_trans: "agree n x a \<Longrightarrow> agree n y a \<Longrightarrow> agree n x y"
  by (cases x; cases y; cases a) (auto simp: same_bits_iff)

lemma agree_family: "agree n x y \<Longrightarrow> Is4 x = Is4 y \<and> BitLen x = BitLen y"
  by (cases x; cases y) auto

text \<open>The prefixes that \<open>ParsePrefix\<close> and \<open>PrefixFrom\<close> produce have no more bits than their address.\<close>

definition pfx_wf :: "pfx \<Rightarrow> bool" where
  "pfx_wf p \<longleftrightarrow> pf_bitsPlusOne p \<le> BitLen (pf_ip p) + 1 \<and> \<not> hasZone (pf_ip p)"

lemma shared_address_overlaps:
  assumes "pfx_wf p" "pfx_wf q" "pfx_Contains p x" "pfx_Contains q x"
  shows "pfx_Overlaps p q"
proof -
  let ?m = "min (pf_bitsPlusOne p - 1) (pf_bitsPlusOne q - 1)"
  have "agree ?m (pf_ip p) x" "agree ?m (pf_ip q) x"
    using assms by (auto simp: pfx_Contains_def pfx_wf_def intro: agree_mono)
  then have "agree ?m (pf_ip p) (pf_ip q)" by (rule agree_trans)
  then show ?thesis
    using assms(3,4) agree_family by (auto simp: pfx_Overlaps_def pfx_Contains_def Let_def)
qed

section \<open>What is dangerous\<close>

lemma list_ex_False [simp]: "\<not> list_ex (\<lambda>_. False) xs"
  by (simp add: list_ex_iff)

lemma contains_P4:
  "pfx_Contains \<lparr>pf_ip = V4 r, pf_bitsPlusOne = n\<rparr> (V4 a) \<longleftrightarrow> 0 < n \<and> drop_bit (32 - (n - 1)) r = drop_bit (32 - (n - 1)) a"
  by (simp add: pfx_Contains_def pfx_IsValid_def same_bits_iff)

lemma contains_P6:
  "pfx_Contains \<lparr>pf_ip = V6 r y, pf_bitsPlusOne = n\<rparr> (V6 a z) \<longleftrightarrow>
     0 < n \<and> z = [] \<and> drop_bit (128 - (n - 1)) r = drop_bit (128 - (n - 1)) a"
  by (auto simp: pfx_Contains_def pfx_IsValid_def same_bits_iff)

lemma reserved_v4_cases:
  "list_ex (\<lambda>r. pfx_Contains r (V4 a)) ReservedV4 \<longleftrightarrow>
     drop_bit 24 a = 0 \<or> drop_bit 24 a = 10 \<or> drop_bit 22 a = 0x191 \<or> drop_bit 24 a = 127 \<or> drop_bit 16 a = 0xA9FE \<or>
     drop_bit 20 a = 0xAC1 \<or> drop_bit 8 a = 0xC00000 \<or> drop_bit 16 a = 0xC0A8 \<or> drop_bit 17 a = 0x6309 \<or>
     drop_bit 8 a = 0xC00002 \<or> drop_bit 8 a = 0xC63364 \<or> drop_bit 8 a = 0xCB0071 \<or> drop_bit 28 a = 15 \<or> a = 0xFFFFFFFF"
  by (auto simp: ReservedV4_eq contains_P4)


text \<open>
  An IPv4 address is dangerous exactly when it lies in a reserved prefix or is a multicast address:
  the other tests of the function add nothing.
\<close>

lemma dangerous_v4:
  "IsDangerousAddr (V4 a) \<longleftrightarrow> list_ex (\<lambda>r. pfx_Contains r (V4 a)) ReservedV4 \<or> drop_bit 28 a = 0xE"
proof -
  have "list_ex (\<lambda>r. Is4 (pf_ip r) \<and> Is4 (V4 a) \<and> pfx_Contains r (V4 a)) ReservedV4 \<longleftrightarrow>
        list_ex (\<lambda>r. pfx_Contains r (V4 a)) ReservedV4"
    by (simp add: ReservedV4_eq)
  moreover have "drop_bit 16 a = 0xA9FE" if "a = 0xA9FEA9FE" using that by simp
  moreover have "drop_bit 24 a = 0" if "a = 0" using that by simp
  ultimately show ?thesis
    by (auto simp: IsDangerousAddr_def IsUnspecified_def IsGlobalUnicast_def cloudMetadataIPv4_eq reserved_v4_cases)
qed

lemma reserved_v6_cases:
  "list_ex (\<lambda>r. pfx_Contains r (V6 a [])) ReservedV6 \<longleftrightarrow>
     a = 0 \<or> a = 1 \<or> drop_bit 121 a = 0x7E \<or> drop_bit 118 a = 0x3FA \<or> drop_bit 120 a = 0xFF \<or>
     drop_bit 96 a = 0x20010DB8 \<or> drop_bit 32 a = 0 \<or> drop_bit 32 a = 0x64FF9B0000000000000000 \<or>
     drop_bit 80 a = 0x64FF9B0001 \<or> drop_bit 112 a = 0x2002 \<or> drop_bit 96 a = 0x20010000 \<or>
     drop_bit 64 a = 0x100000000000000"
  by (auto simp: ReservedV6_eq contains_P6)

lemma dangerous_v6:
  assumes "\<not> Is4In6 (V6 a [])"
  shows "IsDangerousAddr (V6 a []) \<longleftrightarrow> list_ex (\<lambda>r. pfx_Contains r (V6 a [])) ReservedV6"
proof -
  have "list_ex (\<lambda>r. Is6 (pf_ip r) \<and> Is6 (V6 a []) \<and> pfx_Contains r (V6 a [])) ReservedV6 \<longleftrightarrow>
        list_ex (\<lambda>r. pfx_Contains r (V6 a [])) ReservedV6"
    by (simp add: ReservedV6_eq)
  then show ?thesis
    using assms by (auto simp: IsDangerousAddr_def IsUnspecified_def IsGlobalUnicast_def cloudMetadataIPv4_eq reserved_v6_cases)
qed

lemma dangerous_mapped: "drop_bit 32 a = 0xFFFF \<Longrightarrow> IsDangerousAddr (V6 a z) \<longleftrightarrow> IsDangerousAddr (V4 (ucast a))"
  by (simp add: IsDangerousAddr_def)

text \<open>With a zone the reserved ranges do not apply: no prefix contains a zoned address.\<close>

lemma dangerous_zoned:
  assumes "z \<noteq> []" and "\<not> Is4In6 (V6 a z)"
  shows "IsDangerousAddr (V6 a z) \<longleftrightarrow> a = 1 \<or> drop_bit 121 a = 0x7E \<or> drop_bit 118 a = 0x3FA \<or> drop_bit 120 a = 0xFF"
  using assms
  by (auto simp: IsDangerousAddr_def IsUnspecified_def IsGlobalUnicast_def cloudMetadataIPv4_eq ReservedV4_eq ReservedV6_eq contains_P6)

lemma reserved_wf: "\<forall>r \<in> set (ReservedV4 @ ReservedV6). pfx_wf r"
  by (simp add: ReservedV4_eq ReservedV6_eq pfx_wf_def)

text \<open>Prefixes that contain a multicast address start with one or reach into 240.0.0.0/4.\<close>

lemma multicast_prefix:
  assumes "pfx_wf p" "pfx_Contains p (V4 a)" "drop_bit 28 a = 0xE" "pf_ip p = V4 b"
  shows "IsDangerousPrefix p"
proof (cases "5 \<le> pf_bitsPlusOne p")
  case True
  then have "agree 4 (V4 b) (V4 a)"
    using assms by (auto simp: pfx_Contains_def pfx_wf_def intro: same_bits_mono)
  then have "drop_bit 28 b = 0xE" using assms(3) by (simp add: same_bits_iff)
  then show ?thesis using assms(4) by (simp add: IsDangerousPrefix_def dangerous_v4)
next
  case False
  let ?n = "pf_bitsPlusOne p - 1"
  have n: "?n \<le> 3" "pfx_IsValid p" using False assms(2) by (auto simp: pfx_Contains_def)
  have "drop_bit 29 a = drop_bit 1 (drop_bit 28 a)" by (simp add: drop_bit_drop_bit)
  then have "same_bits 3 a 0xF0000000" using assms(3) by (simp add: same_bits_iff)
  then have "same_bits ?n a 0xF0000000" using n by (auto intro: same_bits_mono)
  moreover have "same_bits ?n b a" using assms by (simp add: pfx_Contains_def)
  ultimately have "agree ?n (V4 b) (V4 0xF0000000)" by (simp add: same_bits_iff)
  then have "pfx_Overlaps p (P4 0xF0000000 4)"
    using n assms(4) by (auto simp: pfx_Overlaps_def Let_def min_def pfx_IsValid_def)
  then show ?thesis by (simp add: IsDangerousPrefix_def ReservedV4_eq)
qed

end
