(* ===== verification/GoUrl.thy ===== *)
theory GoUrl
  imports GoNet
begin

text \<open>
  The package \<open>net/url\<close> as far as the program uses it: \<open>url.Parse\<close> with its escapes and its checks
  of the authority, and the accessors \<open>Hostname\<close> and \<open>Port\<close>; \<open>net.JoinHostPort\<close>.
\<close>

record url =
  u_Scheme :: gostring
  u_User :: bool
  u_Host :: gostring
  u_Path :: gostring
  u_RawQuery :: gostring
  u_ForceQuery :: bool
  u_Fragment :: gostring

definition is_alnum :: "char \<Rightarrow> bool" where
  "is_alnum c \<longleftrightarrow> (let n = (of_char c :: nat) in
     (48 \<le> n \<and> n \<le> 57) \<or> (65 \<le> n \<and> n \<le> 90) \<or> (97 \<le> n \<and> n \<le> 122))"

definition is_alpha :: "char \<Rightarrow> bool" where
  "is_alpha c \<longleftrightarrow> is_alnum c \<and> \<not> is_digit c"

section \<open>Escapes\<close>

datatype escape_mode = EncodeHost | EncodeZone | EncodeOther

text \<open>\<open>shouldEscape(c, encodeHost)\<close>, which \<open>encodeZone\<close> shares.\<close>

definition host_byte :: "char \<Rightarrow> bool" where
  "host_byte c \<longleftrightarrow> is_alnum c \<or> c \<in> set ''!$&()*+,;=:[]<>-_.~'' \<or> c = CHR 0x27 \<or> c = CHR 0x22"

definition escape_ok :: "escape_mode \<Rightarrow> char \<Rightarrow> char \<Rightarrow> bool" where
  "escape_ok m h l \<longleftrightarrow>
     (case (hex_val h, hex_val l) of
        (Some x, Some y) \<Rightarrow>
          (case m of
             EncodeHost \<Rightarrow> 8 \<le> x \<or> (h = CHR ''2'' \<and> l = CHR ''5'')
           | EncodeZone \<Rightarrow> (h = CHR ''2'' \<and> l = CHR ''5'') \<or> x * 16 + y = 32 \<or> host_byte (char_of (x * 16 + y))
           | EncodeOther \<Rightarrow> True)
      | _ \<Rightarrow> False)"

definition plain_ok :: "escape_mode \<Rightarrow> char \<Rightarrow> bool" where
  "plain_ok m c \<longleftrightarrow> m = EncodeOther \<or> \<not> is_ascii c \<or> host_byte c"

fun unescape :: "escape_mode \<Rightarrow> gostring \<Rightarrow> gostring option" where
  "unescape m [] = Some []"
| "unescape m (c # cs) =
     (if c = CHR ''%'' then
        (case cs of
           h # l # r \<Rightarrow>
             (if escape_ok m h l
              then map_option (\<lambda>t. char_of (the (hex_val h) * 16 + the (hex_val l)) # t) (unescape m r)
              else None)
         | _ \<Rightarrow> None)
      else if plain_ok m c then map_option (\<lambda>t. c # t) (unescape m cs)
      else None)"

section \<open>Parse\<close>

text \<open>The scheme and the rest; \<open>None\<close> for a missing protocol scheme.\<close>

fun getScheme_from :: "gostring \<Rightarrow> gostring \<Rightarrow> gostring \<Rightarrow> (gostring \<times> gostring) option" where
  "getScheme_from raw done [] = Some ([], raw)"
| "getScheme_from raw done (c # cs) =
     (if is_alpha c then getScheme_from raw (done @ [c]) cs
      else if is_digit c \<or> c \<in> set ''+-.'' then
        (if done = [] then Some ([], raw) else getScheme_from raw (done @ [c]) cs)
      else if c = CHR '':'' then (if done = [] then None else Some (done, cs))
      else Some ([], raw))"

definition getScheme :: "gostring \<Rightarrow> (gostring \<times> gostring) option" where
  "getScheme raw = getScheme_from raw [] raw"

definition validOptionalPort :: "gostring \<Rightarrow> bool" where
  "validOptionalPort s \<longleftrightarrow> s = [] \<or> (hd s = CHR '':'' \<and> list_all is_digit (tl s))"

text \<open>The text before the first occurrence of \<open>p\<close>, and the text from it on.\<close>

fun break_at :: "gostring \<Rightarrow> gostring \<Rightarrow> gostring \<times> gostring" where
  "break_at p [] = ([], [])"
| "break_at p (c # cs) = (if prefix p (c # cs) then ([], c # cs) else case break_at p cs of (a, b) \<Rightarrow> (c # a, b))"

definition parseHost :: "gostring \<Rightarrow> gostring option" where
  "parseHost h =
     (if HasPrefix h ''['' then
        (case cut_last (CHR '']'') h of
           None \<Rightarrow> None
         | Some (inner, port) \<Rightarrow>
             if \<not> validOptionalPort port then None
             else case break_at ''%25'' inner of
                    (a, []) \<Rightarrow> unescape EncodeHost h
                  | (a, z) \<Rightarrow>
                      (case (unescape EncodeHost a, unescape EncodeZone z, unescape EncodeHost ('']'' @ port)) of
                         (Some x, Some y, Some w) \<Rightarrow> Some (x @ y @ w)
                       | _ \<Rightarrow> None))
      else case cut_last (CHR '':'') h of
             Some (_, port) \<Rightarrow> if validOptionalPort ('':'' @ port) then unescape EncodeHost h else None
           | None \<Rightarrow> unescape EncodeHost h)"

definition validUserinfo :: "gostring \<Rightarrow> bool" where
  "validUserinfo s \<longleftrightarrow> list_all (\<lambda>c. is_alnum c \<or> c \<in> set ''-._:~!$&()*+,;=%@'' \<or> c = CHR 0x27) s"

text \<open>The presence of user information and the host.\<close>

definition parseAuthority :: "gostring \<Rightarrow> (bool \<times> gostring) option" where
  "parseAuthority s =
     (case cut_last (CHR ''@'') s of
        None \<Rightarrow> map_option (\<lambda>h. (False, h)) (parseHost s)
      | Some (ui, h) \<Rightarrow>
          (case parseHost h of
             None \<Rightarrow> None
           | Some h' \<Rightarrow> if validUserinfo ui \<and> unescape EncodeOther ui \<noteq> None then Some (True, h') else None))"

definition has_ctl :: "gostring \<Rightarrow> bool" where
  "has_ctl s \<longleftrightarrow> list_ex (\<lambda>c. let n = (of_char c :: nat) in n < 32 \<or> n = 127) s"

definition split_query :: "gostring \<Rightarrow> gostring \<times> gostring \<times> bool" where
  "split_query rest =
     (case cut_first (CHR ''?'') rest of
        None \<Rightarrow> (rest, [], False)
      | Some (a, q) \<Rightarrow> (a, q, q = []))"

definition no_url :: "gostring \<Rightarrow> url" where
  "no_url sch = \<lparr>u_Scheme = sch, u_User = False, u_Host = [], u_Path = [], u_RawQuery = [], u_ForceQuery = False, u_Fragment = []\<rparr>"

text \<open>The part of \<open>parse\<close> after the scheme: query, opaque text, authority and path.\<close>

definition parse_rest :: "gostring \<Rightarrow> gostring \<Rightarrow> url option" where
  "parse_rest sch rest0 =
     (let (rest, q, force) = split_query rest0; u = (no_url sch)\<lparr>u_RawQuery := q, u_ForceQuery := force\<rparr> in
      if \<not> HasPrefix rest ''/'' \<and> sch \<noteq> [] then Some u
      else if \<not> HasPrefix rest ''/'' \<and> CHR '':'' \<in> set (takeWhile (\<lambda>c. c \<noteq> CHR ''/'') rest) then None
      else if (sch \<noteq> [] \<or> \<not> HasPrefix rest ''///'') \<and> HasPrefix rest ''//'' then
        (let authority = takeWhile (\<lambda>c. c \<noteq> CHR ''/'') (drop 2 rest);
             path = dropWhile (\<lambda>c. c \<noteq> CHR ''/'') (drop 2 rest) in
         case (parseAuthority authority, unescape EncodeOther path) of
           (Some (usr, h), Some p) \<Rightarrow> Some (u\<lparr>u_User := usr, u_Host := h, u_Path := p\<rparr>)
         | _ \<Rightarrow> None)
      else map_option (\<lambda>p. u\<lparr>u_Path := p\<rparr>) (unescape EncodeOther rest))"

definition parse_noFragment :: "gostring \<Rightarrow> url option" where
  "parse_noFragment raw =
     (if has_ctl raw then None
      else if raw = ''*'' then Some ((no_url [])\<lparr>u_Path := ''*''\<rparr>)
      else case getScheme raw of
             None \<Rightarrow> None
           | Some (sch, rest) \<Rightarrow> parse_rest (ToLower sch) rest)"

definition url_Parse :: "gostring \<Rightarrow> url option" where
  "url_Parse raw =
     (let (s, frag) = (case cut_first (CHR ''#'') raw of None \<Rightarrow> (raw, []) | Some p \<Rightarrow> p) in
      case parse_noFragment s of
        None \<Rightarrow> None
      | Some u \<Rightarrow> map_option (\<lambda>f. u\<lparr>u_Fragment := f\<rparr>) (unescape EncodeOther frag))"

section \<open>Accessors\<close>

definition splitHostPort :: "gostring \<Rightarrow> gostring \<times> gostring" where
  "splitHostPort hp =
     (let (h, p) = (case cut_last (CHR '':'') hp of
                      Some (h, p) \<Rightarrow> if validOptionalPort ('':'' @ p) then (h, p) else (hp, [])
                    | None \<Rightarrow> (hp, [])) in
      (if HasPrefix h ''['' \<and> HasSuffix h '']'' then take (length h - 2) (tl h) else h, p))"

definition Hostname :: "url \<Rightarrow> gostring" where
  "Hostname u = fst (splitHostPort (u_Host u))"

definition url_Port :: "url \<Rightarrow> gostring" where
  "url_Port u = snd (splitHostPort (u_Host u))"

definition JoinHostPort :: "gostring \<Rightarrow> gostring \<Rightarrow> gostring" where
  "JoinHostPort h p = (if CHR '':'' \<in> set h then ''['' @ h @ '']:'' @ p else h @ '':'' @ p)"

end
