(* ===== verification/SafeHttp.thy ===== *)
theory SafeHttp
  imports NetGuard GoUrl
begin

text \<open>
  The package \<open>internal/platform/safehttp\<close>, through which webhooks are called: the check of the
  address being dialled, the lexical check of a URL before it is stored, the bounded read of a
  response and the defaults of the client. Errors are kept up to \<open>errors.Is\<close>: the text that
  \<open>fmt.Errorf\<close> adds is dropped.

  A reader is the bytes it delivers and whether it fails after them; \<open>io.LimitReader\<close> stops before
  the failure when its limit is reached first. Limits are \<open>int64\<close>, so \<open>limit+1\<close> wraps.
\<close>

datatype safehttp_error = ErrBlockedAddress | ErrBlockedScheme | ErrResponseTooLarge | ErrRead

definition DefaultTimeout :: int where "DefaultTimeout = 10 * second"
definition DefaultDialTimeout :: int where "DefaultDialTimeout = 5 * second"
definition DefaultMaxResponse :: int where "DefaultMaxResponse = 65536"

record http_config =
  hc_Timeout :: int
  hc_DialTimeout :: int
  hc_MaxResponse :: int

definition http_withDefaults :: "http_config \<Rightarrow> http_config" where
  "http_withDefaults c =
     \<lparr>hc_Timeout = (if hc_Timeout c \<le> 0 then DefaultTimeout else hc_Timeout c),
      hc_DialTimeout = (if hc_DialTimeout c \<le> 0 then DefaultDialTimeout else hc_DialTimeout c),
      hc_MaxResponse = (if hc_MaxResponse c \<le> 0 then DefaultMaxResponse else hc_MaxResponse c)\<rparr>"

text \<open>\<open>net.SplitHostPort\<close>.\<close>

definition SplitHostPort :: "gostring \<Rightarrow> (gostring \<times> gostring) option" where
  "SplitHostPort hp =
     (case cut_last (CHR '':'') hp of
        None \<Rightarrow> None
      | Some (h, p) \<Rightarrow>
          if HasPrefix hp ''['' then
            (case cut_first (CHR '']'') hp of
               None \<Rightarrow> None
             | Some (a, b) \<Rightarrow>
                 if h \<noteq> a @ '']'' \<or> CHR ''['' \<in> set (tl hp) \<or> CHR '']'' \<in> set b then None
                 else Some (tl a, p))
          else if CHR '':'' \<in> set h \<or> CHR ''['' \<in> set hp \<or> CHR '']'' \<in> set hp then None
          else Some (h, p))"

definition checkDialAddress :: "gostring \<Rightarrow> safehttp_error + unit" where
  "checkDialAddress address =
     (case SplitHostPort address of
        None \<Rightarrow> Inl ErrBlockedAddress
      | Some (host, _) \<Rightarrow>
          (case ParseAddr host of
             None \<Rightarrow> Inl ErrBlockedAddress
           | Some a \<Rightarrow> if IsDangerousAddr a then Inl ErrBlockedAddress else Inr ()))"

definition localSuffixes :: "gostring list" where
  "localSuffixes = [''.localhost'', ''.local'', ''.localdomain'', ''.internal'', ''.home.arpa'']"

definition isLocalName :: "gostring \<Rightarrow> bool" where
  "isLocalName host =
     (let h = lower_text (TrimSuffix host ''.'') in
      h = ''localhost'' \<or> h = [] \<or> list_ex (HasSuffix h) localSuffixes)"

definition ValidateURL :: "gostring \<Rightarrow> safehttp_error + unit" where
  "ValidateURL raw =
     (case url_Parse (TrimSpace raw) of
        None \<Rightarrow> Inl ErrBlockedScheme
      | Some u \<Rightarrow>
          if u_Scheme u \<noteq> ''http'' \<and> u_Scheme u \<noteq> ''https'' then Inl ErrBlockedScheme
          else if u_Host u = [] then Inl ErrBlockedScheme
          else if u_User u then Inl ErrBlockedScheme
          else (case ParseAddr (Hostname u) of
                  Some a \<Rightarrow> if IsDangerousAddr a then Inl ErrBlockedAddress else Inr ()
                | None \<Rightarrow> if isLocalName (Hostname u) then Inl ErrBlockedAddress else Inr ()))"

record reader =
  rd_data :: gostring
  rd_fails :: bool

text \<open>\<open>io.ReadAll(io.LimitReader(r, n))\<close>: the bytes read, or the failure of the reader.\<close>

definition read_limited :: "reader \<Rightarrow> int \<Rightarrow> safehttp_error + gostring" where
  "read_limited r n =
     (if n \<le> 0 then Inr []
      else if int (length (rd_data r)) < n then (if rd_fails r then Inl ErrRead else Inr (rd_data r))
      else Inr (take (nat n) (rd_data r)))"

text \<open>The bytes returned and the error next to them.\<close>

definition ReadBounded :: "reader \<Rightarrow> int \<Rightarrow> gostring \<times> safehttp_error option" where
  "ReadBounded r limit0 =
     (let limit = (if limit0 \<le> 0 then DefaultMaxResponse else limit0) in
      case read_limited r (int64 (limit + 1)) of
        Inl e \<Rightarrow> ([], Some e)
      | Inr xs \<Rightarrow> if limit < int (length xs) then (take (nat limit) xs, Some ErrResponseTooLarge) else (xs, None))"

section \<open>Facts\<close>

lemma checkDialAddress_ok_iff:
  "checkDialAddress s = Inr () \<longleftrightarrow>
     (\<exists>host port a. SplitHostPort s = Some (host, port) \<and> ParseAddr host = Some a \<and> \<not> IsDangerousAddr a)"
  by (auto simp: checkDialAddress_def split: option.splits if_splits)

lemma ValidateURL_ok_iff:
  "ValidateURL raw = Inr () \<longleftrightarrow>
     (\<exists>u. url_Parse (TrimSpace raw) = Some u \<and> u_Scheme u \<in> {''http'', ''https''} \<and> u_Host u \<noteq> [] \<and> \<not> u_User u \<and>
          (case ParseAddr (Hostname u) of Some a \<Rightarrow> \<not> IsDangerousAddr a | None \<Rightarrow> \<not> isLocalName (Hostname u)))"
  by (auto simp: ValidateURL_def split: option.splits if_splits)

lemma ReadBounded_exact:
  assumes "0 < limit" and "limit < 2 ^ 63 - 1"
  shows "ReadBounded r limit =
    (if int (length (rd_data r)) \<le> limit then (if rd_fails r then ([], Some ErrRead) else (rd_data r, None))
     else (take (nat limit) (rd_data r), Some ErrResponseTooLarge))"
proof -
  have "int64 (limit + 1) = limit + 1" using assms by (intro int64_id) auto
  then show ?thesis using assms by (auto simp: ReadBounded_def read_limited_def Let_def min_def)
qed

end
