(* ===== verification/NetFacts.thy ===== *)
theory NetFacts
  imports NetGuard
begin

text \<open>
  The standard library's text form of addresses: an IPv4 address and an IPv4 prefix are read back
  from what \<open>String\<close> prints. Scope targets are stored as this text and parsed again for every match.
\<close>

section \<open>Splitting\<close>

lemma split_char_nonempty [simp]: "split_char c s \<noteq> []"
  by (induction s) (auto split: list.splits)

lemma split_char_cover: "x \<in> set s \<Longrightarrow> x = c \<or> (\<exists>p \<in> set (split_char c s). x \<in> set p)"
  by (induction s) (auto split: list.splits)

lemma split_char_sep: "split_char c (p @ c # s) = split_char c p @ split_char c s"
  by (induction p) (auto simp: append_eq_Cons_conv Cons_eq_append_conv split: list.splits)

lemma split_char_last: "s \<noteq> [] \<Longrightarrow> last s = c \<Longrightarrow> last (split_char c s) = []"
  by (cases s rule: rev_cases) (auto simp: split_char_sep)

lemma split_char_no_sep: "p \<in> set (split_char c s) \<Longrightarrow> c \<notin> set p"
  by (induction s arbitrary: p) (auto split: list.splits if_splits)

lemma split_char_single: "c \<notin> set s \<Longrightarrow> split_char c s = [s]"
  by (induction s) auto

lemma split_char_append: "c \<notin> set p \<Longrightarrow> split_char c (p @ c # s) = p # split_char c s"
  by (induction p) auto

section \<open>IPv4 addresses\<close>

lemma is_digit_digit: "d < 10 \<Longrightarrow> is_digit (digit d)"
  by (simp add: is_digit_def digit_val_digit)

lemma FormatUint_digits: "list_all is_digit (FormatUint n)"
proof (induction n rule: FormatUint.induct)
  case (1 n)
  then show ?case by (cases "n < 10") (simp_all add: FormatUint.simps [of n] is_digit_digit)
qed

lemma FormatUint_hd: "hd (FormatUint n) = CHR ''0'' \<Longrightarrow> n = 0"
proof (induction n rule: FormatUint.induct)
  case (1 n)
  show ?case
  proof (cases "n < 10")
    case True
    then have "of_char (digit n) = (48::nat)" using 1(2) by (simp add: FormatUint.simps [of n])
    then show ?thesis using True by (simp add: of_char_digit)
  next
    case False
    then have "hd (FormatUint (n div 10)) = CHR ''0''" using 1(2) by (simp add: FormatUint.simps [of n])
    then have "n div 10 = 0" using 1(1) False by blast
    then show ?thesis using False by simp
  qed
qed

lemma not_digit [simp]:
  "\<not> is_digit (CHR ''.'')" "\<not> is_digit (CHR '':'')" "\<not> is_digit (CHR ''%'')" "\<not> is_digit (CHR ''/'')"
  by (simp_all add: is_digit_def digit_val_def)

lemma FormatUint_no: "\<not> is_digit c \<Longrightarrow> c \<notin> set (FormatUint n)"
  using FormatUint_digits [of n] by (auto simp: list_all_iff)

lemma FormatUint_zero_hd: "hd (FormatUint n) = CHR ''0'' \<Longrightarrow> tl (FormatUint n) = []"
  using FormatUint_hd [of n] by (auto simp: FormatUint.simps [of 0])

lemma octet_FormatUint: "n \<le> 255 \<Longrightarrow> octet (FormatUint n) = Some n"
  using FormatUint_zero_hd [of n] by (auto simp: octet_def parse_FormatUint)

definition dotted :: "nat \<Rightarrow> nat \<Rightarrow> nat \<Rightarrow> nat \<Rightarrow> gostring" where
  "dotted p q r s = FormatUint p @ ''.'' @ FormatUint q @ ''.'' @ FormatUint r @ ''.'' @ FormatUint s"

lemma parse_dotted:
  assumes "p \<le> 255" "q \<le> 255" "r \<le> 255" "s \<le> 255"
  shows "parseIPv4Fields (dotted p q r s) = Some [p, q, r, s]"
proof -
  have "split_char (CHR ''.'') (dotted p q r s) = [FormatUint p, FormatUint q, FormatUint r, FormatUint s]"
    by (simp add: dotted_def split_char_append split_char_single FormatUint_no)
  then show ?thesis using assms by (simp add: parseIPv4Fields_def octet_FormatUint)
qed

lemma ParseAddr_from_dot:
  assumes "list_all is_digit xs"
  shows "ParseAddr_from s (xs @ CHR ''.'' # ys) = parseIPv4 s"
  using assms by (induction xs) auto

lemma quad_val: "bytes_val (quad a) = unat a" and quad_bytes: "\<forall>b \<in> set (quad a). b \<le> 255"
proof -
  have lt: "unat a < 2 ^ 32" using unsigned_less [of a, where 'a = nat] by simp
  have "unat (drop_bit k a) = unat a div 2 ^ k" for k
    by (simp add: unat_drop_bit_eq drop_bit_eq_div [where 'a = nat])
  then have q: "quad a = [unat a div 16777216 mod 256, unat a div 65536 mod 256, unat a div 256 mod 256, unat a mod 256]"
    by (simp add: quad_def)
  show "\<forall>b \<in> set (quad a). b \<le> 255" by (auto simp: quad_def)
  have "x div 16777216 mod 256 = x div 16777216" if "x < 2 ^ 32" for x :: nat
    using that by (simp add: less_mult_imp_div_less)
  moreover have "(((x div 16777216) * 256 + x div 65536 mod 256) * 256 + x div 256 mod 256) * 256 + x mod 256 = x" for x :: nat
  proof -
    have "x div 65536 = x div 256 div 256" "x div 16777216 = x div 256 div 256 div 256" by (simp_all add: div_mult2_eq)
    then show ?thesis by (simp only: div_mult_mod_eq)
  qed
  ultimately show "bytes_val (quad a) = unat a" using lt by (simp add: q bytes_val_def)
qed

lemma string4_dotted: "quad a = [p, q, r, s] \<Longrightarrow> string4 a = dotted p q r s"
  by (simp add: string4_def dotted_def)

lemma quad_cases: obtains p q r s where "quad a = [p, q, r, s]"
  by (simp add: quad_def)

theorem ParseAddr_String4: "ParseAddr (addr_String (V4 a)) = Some (V4 a)"
proof -
  obtain p q r s where q: "quad a = [p, q, r, s]" by (rule quad_cases)
  then have le: "p \<le> 255" "q \<le> 255" "r \<le> 255" "s \<le> 255" using quad_bytes [of a] by auto
  have "ParseAddr (dotted p q r s) = parseIPv4 (dotted p q r s)"
    unfolding ParseAddr_def by (subst (2) dotted_def) (simp add: ParseAddr_from_dot FormatUint_digits)
  also have "\<dots> = Some (V4 (of_nat (bytes_val (quad a))))"
    using parse_dotted [OF le] q by (simp add: parseIPv4_def)
  finally show ?thesis using string4_dotted [OF q] by (simp add: quad_val)
qed

section \<open>IPv4 prefixes\<close>

lemma Atoi_FormatUint: "n < 2 ^ 63 \<Longrightarrow> Atoi (FormatUint n) = Some (int n)"
proof -
  assume n: "n < 2 ^ 63"
  have d: "is_digit (hd (FormatUint n))" using FormatUint_digits [of n] by (cases "FormatUint n") auto
  have "\<not> is_digit (CHR ''-'')" "\<not> is_digit (CHR ''+'')" by (simp_all add: is_digit_def digit_val_def)
  then have "\<not> HasPrefix (FormatUint n) ''-''" "\<not> HasPrefix (FormatUint n) ''+''"
    using d by (cases "FormatUint n", auto simp: HasPrefix_def)+
  moreover have "int n < 2 ^ 63" using n by (metis of_nat_less_iff of_nat_numeral of_nat_power)
  moreover obtain x xs where f: "FormatUint n = x # xs" using FormatUint_nonempty [of n] by (cases "FormatUint n") auto
  ultimately show ?thesis
    using parse_FormatUint [of n] by (simp add: Atoi_def Let_def f del: parse_digits.simps)
qed

lemma cut_last_sep: "c \<notin> set b \<Longrightarrow> cut_last c (a @ c # b) = Some (a, b)"
proof -
  assume c: "c \<notin> set b"
  then have "takeWhile (\<lambda>x. x \<noteq> c) (rev b @ c # rev a) = rev b" "dropWhile (\<lambda>x. x \<noteq> c) (rev b @ c # rev a) = c # rev a"
    by (induction b rule: rev_induct) auto
  then show ?thesis by (simp add: cut_last_def cut_first_def)
qed

theorem ParsePrefix_String4:
  assumes "n \<le> 32"
  shows "ParsePrefix (pfx_String (P4 a n)) = Some (P4 a n)"
proof -
  have "cut_last (CHR ''/'') (addr_String (V4 a) @ CHR ''/'' # FormatUint n) = Some (addr_String (V4 a), FormatUint n)"
    by (rule cut_last_sep) (simp add: FormatUint_no)
  moreover have "is_digit (hd (FormatUint n))" using FormatUint_digits [of n] by (cases "FormatUint n") auto
  moreover have "hd (FormatUint n) = CHR ''0'' \<Longrightarrow> length (FormatUint n) = 1"
    using FormatUint_hd [of n] by (auto simp: FormatUint.simps [of 0])
  moreover have "Atoi (FormatUint n) = Some (int n)" using assms by (intro Atoi_FormatUint) simp
  ultimately show ?thesis
    using assms ParseAddr_String4 [of a]
    by (auto simp: ParsePrefix_def pfx_String_def pfx_IsValid_def PrefixFrom_def)
qed

end
