(* ===== verification/DiscoveryModel.thy ===== *)
theory DiscoveryModel
  imports AuditLog NetGuard GoUrl
begin

text \<open>
  The data of \<open>internal/discovery\<close> that the authorisation of scans rests on: the constants, the
  errors and the structs of \<open>model.go\<close>, \<open>validation.go\<close>, \<open>url_authorization.go\<close> and
  \<open>active_policy.go\<close>. A nil pointer is \<open>None\<close>; \<open>uint16\<close> ports are words.
\<close>

section \<open>Constants\<close>

abbreviation StatusActive :: gostring where "StatusActive \<equiv> ''active''"
abbreviation StatusInactive :: gostring where "StatusInactive \<equiv> ''inactive''"

abbreviation TaskTypeDNS :: gostring where "TaskTypeDNS \<equiv> ''dns''"
abbreviation TaskTypeCTLog :: gostring where "TaskTypeCTLog \<equiv> ''ct_log''"
abbreviation TaskTypePortProbe :: gostring where "TaskTypePortProbe \<equiv> ''port_probe''"
abbreviation TaskTypeWebProbe :: gostring where "TaskTypeWebProbe \<equiv> ''web_probe''"
abbreviation TaskTypeFingerprint :: gostring where "TaskTypeFingerprint \<equiv> ''fingerprint''"
abbreviation TaskTypeCloudSync :: gostring where "TaskTypeCloudSync \<equiv> ''cloud_sync''"
abbreviation TaskTypePassiveIntel :: gostring where "TaskTypePassiveIntel \<equiv> ''passive_intel''"
abbreviation TaskTypeImport :: gostring where "TaskTypeImport \<equiv> ''import''"
abbreviation TaskTypeDirScan :: gostring where "TaskTypeDirScan \<equiv> ''dirscan''"
abbreviation TaskTypeOrgIntel :: gostring where "TaskTypeOrgIntel \<equiv> ''org_intel''"

abbreviation RunPending :: gostring where "RunPending \<equiv> ''pending''"
abbreviation RunRunning :: gostring where "RunRunning \<equiv> ''running''"
abbreviation RunSuccess :: gostring where "RunSuccess \<equiv> ''success''"
abbreviation RunPartial :: gostring where "RunPartial \<equiv> ''partial_success''"
abbreviation RunFailed :: gostring where "RunFailed \<equiv> ''failed''"
abbreviation RunCancelled :: gostring where "RunCancelled \<equiv> ''cancelled''"

abbreviation TargetTypeDomain :: gostring where "TargetTypeDomain \<equiv> ''domain''"
abbreviation TargetTypeCompany :: gostring where "TargetTypeCompany \<equiv> ''company''"
abbreviation TargetTypeIP :: gostring where "TargetTypeIP \<equiv> ''ip''"
abbreviation TargetTypeCIDR :: gostring where "TargetTypeCIDR \<equiv> ''cidr''"
abbreviation TargetTypeURL :: gostring where "TargetTypeURL \<equiv> ''url''"

abbreviation MatchModeInclude :: gostring where "MatchModeInclude \<equiv> ''include''"
abbreviation MatchModeExclude :: gostring where "MatchModeExclude \<equiv> ''exclude''"
abbreviation CoverageModeExact :: gostring where "CoverageModeExact \<equiv> ''exact''"
abbreviation CoverageModeSubdomains :: gostring where "CoverageModeSubdomains \<equiv> ''subdomains''"

abbreviation ActionScopeCreate :: gostring where "ActionScopeCreate \<equiv> ''scope.create''"
abbreviation ActionScopeUpdate :: gostring where "ActionScopeUpdate \<equiv> ''scope.update''"
abbreviation ActionScopeDeactivate :: gostring where "ActionScopeDeactivate \<equiv> ''scope.deactivate''"

section \<open>Errors and reasons\<close>

datatype reject_reason =
    ReasonAllowed | ReasonScopeNotFound | ReasonScopeInactive | ReasonNotStarted | ReasonScopeExpired
  | ReasonTargetInvalid | ReasonDangerous | ReasonExcluded | ReasonNoMatch | ReasonSystemError | ReasonURLRestricted

text \<open>
  What the code looks at of an error that an engine adapter returns: its text, whether it wraps
  \<open>ErrEngineJobRejected\<close>, the HTTP status of an \<open>engineStatusError\<close>, and the cause inside a \<open>url.Error\<close>.
\<close>

record engine_error =
  ee_Text :: gostring
  ee_Rejected :: bool
  ee_Status :: "int option"
  ee_Cause :: "gostring option"

datatype discovery_error =
    DErrInvalidProjectID | DErrInvalidName | DErrInvalidActorID | DErrInvalidAuthorizedBy | DErrInvalidStatus
  | DErrScopeWindowTooLong | DErrInvalidTaskType | DErrTaskTypeUnsupported | DErrInvalidTaskStatus | DErrInvalidTemplate
  | DErrInvalidTaskSchedule | DErrInvalidTaskLimits | DErrInvalidTaskConfig | DErrInvalidTemplateID | DErrInvalidTaskRunID
  | DErrTemplateDisabled | DErrTaskRunNotDispatchable | DErrDispatchDenied gostring reject_reason
  | DErrInvalidTargetType | DErrInvalidMatchMode
  | DErrInvalidCoverageMode | DErrInvalidDefaultScope | DErrInvalidScopeID | DErrInvalidTarget | DErrTargetTooLong
  | DErrMetadataTooLong | DErrInvalidTimeRange | DErrDangerousTarget | DErrDuplicateTargets | DErrInvalidHost
  | DErrInvalidURLAuthorization | DErrOwnershipRequired | DErrActiveApprovalRequired | DErrActiveLimitsTooHigh
  | DErrActiveTargetCDNEdge gostring | DErrInheritanceInvalid | DErrInheritanceNotReady | DErrInheritanceImmutable
  | DErrEngineNotConfigured | DErrEngineRouteUnsupported | DErrEngineStatus | DErrEngineResult | DErrEngineResultUnsupported
  | DErrEngineResultIncomplete | DErrActiveEngineProjectMapping | DErrDispatchEnqueue | DErrEngine engine_error
  | DErrInvalidCallbackSignature | DErrInvalidCallbackIdentity | DErrCallbackReplay | DErrInvalidCallbackPayload
  | DErrCallbackSchemaUnsupported | DErrCallbackPayloadConflict | DErrCallbackTooLarge | DErrCallbackRunNotRunning
  | DErrCallbackEnqueue | DErrCallbackIngestBusy | DErrCallbackFinalTransition
  | DErrNotFound | DErrInvalidRunTransition | DErrExternal gostring | DErrSql sql_error

section \<open>Structs\<close>

record url_rule =
  ur_Protocol :: gostring
  ur_IncludeSubdomains :: bool
  ur_IncludeRoot :: bool
  ur_Ports :: "16 word list"

record scope_target =
  st_URLRule :: "url_rule option"
  st_ID :: nat
  st_TenantID :: gostring
  st_OrgID :: gostring
  st_ProjectID :: nat
  st_ScopeID :: nat
  st_TargetType :: gostring
  st_MatchMode :: gostring
  st_CoverageMode :: gostring
  st_Value :: gostring
  st_CreatedAt :: time
  st_UpdatedAt :: time
  st_CreatedBy :: gostring
  st_UpdatedBy :: gostring
  st_DeletedAt :: time

record scope =
  sc_ID :: nat
  sc_TenantID :: gostring
  sc_OrgID :: gostring
  sc_ProjectID :: nat
  sc_Name :: gostring
  sc_Status :: gostring
  sc_AuthorizedBy :: gostring
  sc_ValidFrom :: time
  sc_ValidUntil :: time
  sc_IsDefault :: bool
  sc_CreatedAt :: time
  sc_UpdatedAt :: time
  sc_CreatedBy :: gostring
  sc_UpdatedBy :: gostring
  sc_DeletedAt :: time
  sc_Targets :: "scope_target list"

record scope_target_input =
  sti_URLRule :: "url_rule option"
  sti_TargetType :: gostring
  sti_MatchMode :: gostring
  sti_CoverageMode :: gostring
  sti_Value :: gostring

text \<open>\<open>AuditMeta\<close>: who asked, and from where.\<close>

record discovery_meta =
  dm_Reason :: gostring
  dm_SourceRunID :: nat
  dm_SourceObservationIDs :: "nat list"
  dm_IP :: gostring
  dm_UserAgent :: gostring
  dm_RequestID :: gostring

record create_scope_input =
  csi_TenantID :: gostring
  csi_OrgID :: gostring
  csi_ProjectID :: nat
  csi_Name :: gostring
  csi_AuthorizedBy :: gostring
  csi_ValidFrom :: time
  csi_ValidUntil :: time
  csi_Status :: gostring
  csi_IsDefault :: bool
  csi_ActorID :: gostring
  csi_Meta :: discovery_meta
  csi_Targets :: "scope_target_input list"

record update_scope_input =
  usi_ScopeID :: nat
  usi_TenantID :: gostring
  usi_OrgID :: gostring
  usi_ProjectID :: nat
  usi_Name :: "gostring option"
  usi_AuthorizedBy :: "gostring option"
  usi_ValidFrom :: "time option"
  usi_ValidUntil :: "time option"
  usi_Status :: "gostring option"
  usi_IsDefault :: "bool option"
  usi_ActorID :: gostring
  usi_Meta :: discovery_meta
  usi_Targets :: "scope_target_input list option"

record deactivate_scope_input =
  dsi_ScopeID :: nat
  dsi_ProjectID :: nat
  dsi_ActorID :: gostring
  dsi_Meta :: discovery_meta

record parsed_target =
  pt_port :: int
  pt_kind :: gostring
  pt_value :: gostring
  pt_scheme :: gostring
  pt_domain :: gostring
  pt_company :: gostring
  pt_ip :: addr

text \<open>The zero value \<open>parsedTarget{}\<close>.\<close>

definition no_target :: parsed_target where
  "no_target = \<lparr>pt_port = 0, pt_kind = [], pt_value = [], pt_scheme = [], pt_domain = [], pt_company = [], pt_ip = InvalidAddr\<rparr>"

record active_policy =
  ap_Enabled :: bool
  ap_RequireApproval :: bool
  ap_RequireOwnership :: bool

record active_approval =
  aa_ActorID :: gostring
  aa_ApprovedBy :: gostring

record dispatch_target =
  dt_Type :: gostring
  dt_Value :: gostring

end
