(* ===== verification/DiscoveryValidation.thy ===== *)
theory DiscoveryValidation
  imports DiscoveryModel
begin

text \<open>
  The pure functions of \<open>internal/discovery/validation.go\<close> and \<open>active_policy.go\<close>: validation of a
  scope and of task limits, normalisation of domains, addresses, prefixes, URLs and company names,
  and the parsing of scan targets. Text outside ASCII is taken to be well-formed UTF-8.
\<close>

section \<open>Metadata, windows and limits\<close>

definition maxTenantIDLen :: nat where "maxTenantIDLen = 64"
definition maxOrgIDLen :: nat where "maxOrgIDLen = 64"
definition maxScopeNameLen :: nat where "maxScopeNameLen = 128"
definition maxActorLen :: nat where "maxActorLen = 64"
definition maxTargetValue :: nat where "maxTargetValue = 512"
definition maxAuthorizedLen :: nat where "maxAuthorizedLen = 64"
definition maxDomainLen :: nat where "maxDomainLen = 255"
definition maxTaskScheduleLen :: nat where "maxTaskScheduleLen = 255"
definition maxCompanyNameLen :: nat where "maxCompanyNameLen = 200"

lemmas discovery_limits = maxTenantIDLen_def maxOrgIDLen_def maxScopeNameLen_def maxActorLen_def maxTargetValue_def
  maxAuthorizedLen_def maxDomainLen_def maxTaskScheduleLen_def maxCompanyNameLen_def

definition validStatuses :: "gostring list" where
  "validStatuses = [StatusActive, StatusInactive]"

definition validTaskTypes :: "gostring list" where
  "validTaskTypes = [TaskTypeDNS, TaskTypeCTLog, TaskTypePortProbe, TaskTypeWebProbe, TaskTypeFingerprint,
     TaskTypeCloudSync, TaskTypePassiveIntel, TaskTypeImport, TaskTypeDirScan, TaskTypeOrgIntel]"

definition validTaskStatuses :: "gostring list" where
  "validTaskStatuses = [RunPending, RunRunning, RunSuccess, RunPartial, RunFailed, RunCancelled]"

definition validTargetTypes :: "gostring list" where
  "validTargetTypes = [TargetTypeDomain, TargetTypeIP, TargetTypeCIDR, TargetTypeURL, TargetTypeCompany]"

definition validMatchModes :: "gostring list" where
  "validMatchModes = [MatchModeInclude, MatchModeExclude]"

definition validateScopeMeta ::
  "gostring \<Rightarrow> gostring \<Rightarrow> gostring \<Rightarrow> gostring \<Rightarrow> gostring \<Rightarrow> discovery_error + unit" where
  "validateScopeMeta tenantID orgID name authorizedBy actorID =
     (if length name = 0 \<or> maxScopeNameLen < length name then Inl DErrInvalidName
      else if maxTenantIDLen < length tenantID then Inl DErrMetadataTooLong
      else if maxOrgIDLen < length orgID then Inl DErrMetadataTooLong
      else if length authorizedBy = 0 \<or> maxAuthorizedLen < length authorizedBy then Inl DErrInvalidAuthorizedBy
      else if length actorID = 0 \<or> maxActorLen < length actorID then Inl DErrInvalidActorID
      else Inr ())"

definition validateStatus :: "gostring \<Rightarrow> discovery_error + gostring" where
  "validateStatus raw0 =
     (let raw = (if raw0 = [] then StatusInactive else raw0) in
      if List.member validStatuses raw then Inr raw else Inl DErrInvalidStatus)"

definition dispatchableTaskTypes :: "gostring list" where
  "dispatchableTaskTypes = [TaskTypePassiveIntel, TaskTypeDNS, TaskTypeOrgIntel, TaskTypePortProbe, TaskTypeWebProbe,
     TaskTypeFingerprint]"

definition IsDispatchableTaskType :: "gostring \<Rightarrow> bool" where
  "IsDispatchableTaskType v = List.member dispatchableTaskTypes v"

definition validateTaskType :: "gostring \<Rightarrow> discovery_error + gostring" where
  "validateTaskType raw =
     (let v = TrimSpace raw in
      if \<not> List.member validTaskTypes v then Inl DErrInvalidTaskType
      else if \<not> List.member dispatchableTaskTypes v then Inl DErrTaskTypeUnsupported
      else Inr v)"

definition validateTaskStatus :: "gostring \<Rightarrow> discovery_error + gostring" where
  "validateTaskStatus raw =
     (let v = TrimSpace raw in if List.member validTaskStatuses v then Inr v else Inl DErrInvalidTaskStatus)"

definition validateTemplateMeta ::
  "gostring \<Rightarrow> gostring \<Rightarrow> gostring \<Rightarrow> nat \<Rightarrow> nat \<Rightarrow> gostring \<Rightarrow> gostring \<Rightarrow> discovery_error + unit" where
  "validateTemplateMeta tenantID orgID name scopeID projectID taskType actorID =
     (if length name = 0 \<or> 128 < length name then Inl DErrInvalidName
      else if maxTenantIDLen < length tenantID \<or> maxOrgIDLen < length orgID then Inl DErrMetadataTooLong
      else if scopeID = 0 \<or> projectID = 0 then Inl DErrInvalidProjectID
      else case validateTaskType taskType of
             Inl e \<Rightarrow> Inl e
           | Inr _ \<Rightarrow> if length actorID = 0 \<or> maxActorLen < length actorID then Inl DErrInvalidActorID else Inr ())"

definition validateTargetType :: "gostring \<Rightarrow> discovery_error + gostring" where
  "validateTargetType raw =
     (let v = TrimSpace raw in if List.member validTargetTypes v then Inr v else Inl DErrInvalidTargetType)"

definition validateTemplateSchedule :: "gostring \<Rightarrow> discovery_error + unit" where
  "validateTemplateSchedule raw = (if maxTaskScheduleLen < length (TrimSpace raw) then Inl DErrInvalidTaskSchedule else Inr ())"

definition validateTaskLimits :: "int \<Rightarrow> int \<Rightarrow> int \<Rightarrow> int \<Rightarrow> discovery_error + unit" where
  "validateTaskLimits timeoutSeconds rateLimit concurrency retryLimit =
     (if timeoutSeconds < 1 \<or> timeoutSeconds > 86400 then Inl DErrInvalidTaskLimits
      else if rateLimit < 1 \<or> rateLimit > 10000 then Inl DErrInvalidTaskLimits
      else if concurrency < 1 \<or> concurrency > 500 then Inl DErrInvalidTaskLimits
      else if retryLimit < 0 \<or> retryLimit > 100 then Inl DErrInvalidTaskLimits
      else Inr ())"

definition MaxScopeWindow :: int where "MaxScopeWindow = 365 * 24 * hour"

text \<open>\<open>t.Sub(u)\<close> saturates at the bounds of a \<open>time.Duration\<close>.\<close>

definition time_sub :: "time \<Rightarrow> time \<Rightarrow> int" where
  "time_sub t u = min (2 ^ 63 - 1) (max (- (2 ^ 63)) (t - u))"

definition validateScopeWindow :: "time \<Rightarrow> time \<Rightarrow> discovery_error + unit" where
  "validateScopeWindow validFrom validUntil =
     (if validFrom = zero_time \<or> validUntil = zero_time then Inl DErrInvalidTimeRange
      else if validUntil < validFrom then Inl DErrInvalidTimeRange
      else if time_sub validUntil validFrom > MaxScopeWindow then Inl DErrScopeWindowTooLong
      else Inr ())"

definition isValidMatchMode :: "gostring \<Rightarrow> bool" where
  "isValidMatchMode v = List.member validMatchModes v"

definition isValidTargetType :: "gostring \<Rightarrow> bool" where
  "isValidTargetType v = List.member validTargetTypes v"

section \<open>Domains\<close>

definition specialUseDomainSuffixes :: "gostring list" where
  "specialUseDomainSuffixes = [''.localhost'', ''.local'', ''.localdomain'', ''.internal'', ''.home.arpa'', ''.alt'',
     ''.invalid'', ''.test'', ''.example'']"

definition isDangerousDomain :: "gostring \<Rightarrow> bool" where
  "isDangerousDomain raw =
     (let v = lower_text (TrimSuffix (TrimSpace raw) ''.'') in
      v = ''localhost'' \<or> list_ex (HasSuffix v) specialUseDomainSuffixes)"

definition isAllDigits :: "gostring \<Rightarrow> bool" where
  "isAllDigits label \<longleftrightarrow> label \<noteq> [] \<and> list_all is_digit label"

definition label_char :: "char \<Rightarrow> bool" where
  "label_char c \<longleftrightarrow> (let n = (of_char c :: nat) in (97 \<le> n \<and> n \<le> 122) \<or> (48 \<le> n \<and> n \<le> 57) \<or> c = CHR ''-'')"

definition validateDomainLabel :: "gostring \<Rightarrow> discovery_error + unit" where
  "validateDomainLabel label =
     (if label = [] \<or> 63 < length label then Inl DErrInvalidTarget
      else if HasPrefix label ''-'' \<or> HasSuffix label ''-'' then Inl DErrInvalidTarget
      else if \<not> list_all label_char label then Inl DErrInvalidTarget
      else Inr ())"

text \<open>A loop that returns at the first error.\<close>

fun first_error :: "('x \<Rightarrow> 'e + unit) \<Rightarrow> 'x list \<Rightarrow> 'e + unit" where
  "first_error f [] = Inr ()"
| "first_error f (x # xs) = (case f x of Inl e \<Rightarrow> Inl e | Inr _ \<Rightarrow> first_error f xs)"

definition normalizeDomain :: "gostring \<Rightarrow> discovery_error + gostring" where
  "normalizeDomain raw =
     (let value = TrimSuffix (lower_text (TrimSpace raw)) ''.'' in
      if value = [] \<or> Contains value ''..'' then Inl DErrInvalidTarget
      else if maxDomainLen < length value then Inl DErrInvalidTarget
      else if isDangerousDomain value then Inl DErrDangerousTarget
      else let parts = split_char (CHR ''.'') value in
           case first_error validateDomainLabel parts of
             Inl e \<Rightarrow> Inl e
           | Inr _ \<Rightarrow>
               if length parts < 2 then Inl DErrInvalidTarget
               else if isAllDigits (last parts) then Inl DErrInvalidTarget
               else Inr value)"

section \<open>Company names\<close>

definition control_char :: "char \<Rightarrow> bool" where
  "control_char c \<longleftrightarrow> (let n = (of_char c :: nat) in n < 32 \<or> n = 127)"

text \<open>\<open>strings.ReplaceAll\<close> of the ideographic space U+3000 by a blank.\<close>

fun narrow_space :: "gostring \<Rightarrow> gostring" where
  "narrow_space [] = []"
| "narrow_space (c # cs) =
     (if prefix [CHR 0xE3, CHR 0x80, CHR 0x80] (c # cs) then CHR '' '' # narrow_space (drop 2 cs) else c # narrow_space cs)"

definition normalizeCompanyName :: "gostring \<Rightarrow> discovery_error + gostring" where
  "normalizeCompanyName raw =
     (let cleaned = TrimSpace (narrow_space (filter (\<lambda>c. \<not> control_char c) raw)) in
      if cleaned = [] \<or> maxCompanyNameLen < char_len cleaned then Inl DErrInvalidTarget
      else if HasPrefix cleaned ''-'' then Inl DErrInvalidTarget
      else Inr cleaned)"

section \<open>Addresses, prefixes and URLs\<close>

definition isDangerousIP :: "addr \<Rightarrow> bool" where "isDangerousIP a = IsDangerousAddr a"
definition isDangerousCIDR :: "pfx \<Rightarrow> bool" where "isDangerousCIDR p = IsDangerousPrefix p"

definition parseIP :: "gostring \<Rightarrow> discovery_error + addr" where
  "parseIP raw =
     (case ParseAddr raw of
        Some a \<Rightarrow> Inr (if Is4In6 a then Unmap a else a)
      | None \<Rightarrow> (case net_ParseIP raw of Some v \<Rightarrow> Inr (Unmap v) | None \<Rightarrow> Inl DErrInvalidTarget))"

definition parseCIDR :: "gostring \<Rightarrow> discovery_error + pfx" where
  "parseCIDR raw =
     (case ParsePrefix raw of
        None \<Rightarrow> Inl DErrInvalidTarget
      | Some p0 \<Rightarrow>
          (let p = (if Is4In6 (pf_ip p0) then PrefixFrom (Unmap (pf_ip p0)) (pfx_Bits p0) else p0) in
           if \<not> pfx_IsValid p \<or> pfx_Bits p = 0 then Inl DErrInvalidTarget else Inr p))"

definition bad_port :: "gostring \<Rightarrow> bool" where
  "bad_port port \<longleftrightarrow> (case Atoi port of None \<Rightarrow> True | Some p \<Rightarrow> p \<le> 0 \<or> p > 65535)"

text \<open>The host of a URL: an address, or else a domain name.\<close>

definition url_host :: "gostring \<Rightarrow> discovery_error + addr \<times> gostring" where
  "url_host host =
     (case parseIP host of
        Inr ip \<Rightarrow> Inr (ip, addr_String ip)
      | Inl _ \<Rightarrow> (case normalizeDomain host of Inl e \<Rightarrow> Inl e | Inr d \<Rightarrow> Inr (InvalidAddr, d)))"

definition parseURL :: "gostring \<Rightarrow> discovery_error + parsed_target" where
  "parseURL raw =
     (case url_Parse raw of
        None \<Rightarrow> Inl DErrInvalidTarget
      | Some u \<Rightarrow>
          if u_Scheme u \<noteq> ''http'' \<and> u_Scheme u \<noteq> ''https'' then Inl DErrInvalidTarget
          else
            (let host0 = TrimSpace (lower_text (Hostname u)); host = TrimSuffix host0 ''.''; port = TrimSpace (url_Port u) in
             if host0 = [] then Inl DErrInvalidHost
             else if host = [] then Inl DErrInvalidHost
             else if port \<noteq> [] \<and> bad_port port then Inl DErrInvalidTarget
             else case url_host host of
                    Inl e \<Rightarrow> Inl e
                  | Inr (ip, domain) \<Rightarrow>
                      Inr (no_target\<lparr>pt_kind := TargetTypeURL, pt_scheme := u_Scheme u,
                             pt_port := (if url_Port u \<noteq> [] then (case Atoi (url_Port u) of Some p \<Rightarrow> p | None \<Rightarrow> 0) else 0),
                             pt_ip := ip, pt_domain := domain,
                             pt_value := u_Scheme u @ ''://'' @ domain @ (if port \<noteq> [] then '':'' @ port else [])\<rparr>)))"

definition isDangerousHost :: "parsed_target \<Rightarrow> bool" where
  "isDangerousHost p =
     (if IsValid (pt_ip p) then isDangerousIP (pt_ip p)
      else if pt_domain p = [] then True
      else isDangerousDomain (pt_domain p))"

section \<open>Targets\<close>

definition normalizeTargetValue :: "gostring \<Rightarrow> gostring \<Rightarrow> discovery_error + gostring" where
  "normalizeTargetValue targetType raw0 =
     (let raw = TrimSpace raw0 in
      if raw = [] then Inl DErrInvalidTarget
      else if maxTargetValue < length raw then Inl DErrTargetTooLong
      else if targetType = TargetTypeDomain then normalizeDomain raw
      else if targetType = TargetTypeCompany then normalizeCompanyName raw
      else if targetType = TargetTypeIP then
        (case parseIP raw of
           Inl e \<Rightarrow> Inl e
         | Inr a \<Rightarrow> if isDangerousIP a then Inl DErrDangerousTarget else Inr (addr_String a))
      else if targetType = TargetTypeCIDR then
        (case parseCIDR raw of
           Inl e \<Rightarrow> Inl e
         | Inr p \<Rightarrow> if isDangerousCIDR p then Inl DErrDangerousTarget else Inr (pfx_String p))
      else if targetType = TargetTypeURL then
        (case parseURL raw of
           Inl e \<Rightarrow> Inl e
         | Inr p \<Rightarrow> if isDangerousHost p then Inl DErrDangerousTarget else Inr (pt_value p))
      else Inl DErrInvalidTargetType)"

definition parseTarget :: "gostring \<Rightarrow> discovery_error + parsed_target" where
  "parseTarget raw =
     (let trimmed = TrimSpace raw in
      if trimmed = [] then Inl DErrInvalidTarget
      else if Contains trimmed ''://'' then
        (case parseURL trimmed of
           Inl e \<Rightarrow> Inl e
         | Inr p \<Rightarrow> if isDangerousHost p then Inl DErrDangerousTarget else Inr p)
      else case parseIP trimmed of
             Inr a \<Rightarrow>
               if isDangerousIP a then Inl DErrDangerousTarget
               else Inr (no_target\<lparr>pt_kind := TargetTypeIP, pt_value := addr_String a, pt_ip := a\<rparr>)
           | Inl _ \<Rightarrow>
               (case parseCIDR trimmed of
                  Inr p \<Rightarrow>
                    if isDangerousCIDR p then Inl DErrDangerousTarget
                    else Inr (no_target\<lparr>pt_kind := TargetTypeCIDR, pt_value := pfx_String p, pt_ip := pf_ip p\<rparr>)
                | Inl _ \<Rightarrow>
                    (case normalizeDomain trimmed of
                       Inl e \<Rightarrow> Inl e
                     | Inr d \<Rightarrow> Inr (no_target\<lparr>pt_kind := TargetTypeDomain, pt_value := d, pt_domain := d\<rparr>))))"

definition parseTypedTarget :: "gostring \<Rightarrow> gostring \<Rightarrow> discovery_error + parsed_target" where
  "parseTypedTarget targetType raw =
     (if targetType \<noteq> TargetTypeCompany then parseTarget raw
      else case normalizeCompanyName raw of
             Inl e \<Rightarrow> Inl e
           | Inr c \<Rightarrow> Inr (no_target\<lparr>pt_kind := TargetTypeCompany, pt_value := c, pt_company := c\<rparr>))"

section \<open>Active tasks\<close>

definition activeTaskTypes :: "gostring list" where
  "activeTaskTypes = [TaskTypePortProbe, TaskTypeWebProbe, TaskTypeFingerprint, TaskTypeDirScan]"

definition IsActiveTaskType :: "gostring \<Rightarrow> bool" where
  "IsActiveTaskType v = List.member activeTaskTypes (TrimSpace v)"

definition MaxActiveRateLimit :: int where "MaxActiveRateLimit = 100"
definition MaxActiveConcurrency :: int where "MaxActiveConcurrency = 20"

definition DefaultActiveDispatchPolicy :: active_policy where
  "DefaultActiveDispatchPolicy = \<lparr>ap_Enabled = False, ap_RequireApproval = True, ap_RequireOwnership = True\<rparr>"

definition ValidateActiveTaskLimits :: "gostring \<Rightarrow> int \<Rightarrow> int \<Rightarrow> discovery_error + unit" where
  "ValidateActiveTaskLimits taskType rateLimit concurrency =
     (if \<not> IsActiveTaskType taskType then Inr ()
      else if rateLimit > MaxActiveRateLimit \<or> concurrency > MaxActiveConcurrency then Inl DErrActiveLimitsTooHigh
      else Inr ())"

definition ValidateActiveApproval :: "gostring \<Rightarrow> active_approval \<Rightarrow> discovery_error + unit" where
  "ValidateActiveApproval taskType approval =
     (if \<not> IsActiveTaskType taskType then Inr ()
      else let approver = TrimSpace (aa_ApprovedBy approval) in
           if approver = [] then Inl DErrActiveApprovalRequired
           else if EqualFold approver (TrimSpace (aa_ActorID approval)) then Inl DErrActiveApprovalRequired
           else Inr ())"

definition requireActiveDispatchEnabled :: "active_policy \<Rightarrow> gostring \<Rightarrow> discovery_error + unit" where
  "requireActiveDispatchEnabled policy taskType =
     (if IsActiveTaskType taskType \<and> \<not> ap_Enabled policy then Inl DErrTaskTypeUnsupported else Inr ())"

text \<open>The host whose ownership has to be proven; the empty text when there is none.\<close>

definition ownershipHostFor :: "dispatch_target \<Rightarrow> gostring" where
  "ownershipHostFor t =
     (let value = TrimSpace (dt_Value t) in
      if dt_Type t = TargetTypeDomain then value
      else if dt_Type t = TargetTypeURL then (case url_Parse value of None \<Rightarrow> [] | Some u \<Rightarrow> Hostname u)
      else [])"

text \<open>
  The ownership check of a service without a checker (\<open>None\<close>) or with one, which answers for a
  project and a host or fails.
\<close>

definition requireVerifiedOwnership ::
  "(nat \<Rightarrow> gostring \<Rightarrow> discovery_error + bool) option \<Rightarrow> nat \<Rightarrow> gostring \<Rightarrow> dispatch_target list \<Rightarrow> discovery_error + unit" where
  "requireVerifiedOwnership ownership projectID taskType targets =
     (if \<not> IsActiveTaskType taskType then Inr ()
      else case ownership of
             None \<Rightarrow> Inl DErrOwnershipRequired
           | Some verified \<Rightarrow>
               first_error (\<lambda>t. let host = ownershipHostFor t in
                 if host = [] then Inl DErrOwnershipRequired
                 else case verified projectID host of
                        Inl e \<Rightarrow> Inl e
                      | Inr v \<Rightarrow> if \<not> v then Inl DErrOwnershipRequired else Inr ()) targets)"

end
