(* ===== verification/DiscoveryMatch.thy ===== *)
theory DiscoveryMatch
  imports DiscoveryValidation
begin

text \<open>
  The decision whether a target is covered by the targets of a scope: normalisation of scope targets
  (\<open>validation.go\<close>), site rules (\<open>url_authorization.go\<close>), the match of one target and the decision
  over all of them, in which exclusions win and site rules take precedence over broad grants.
\<close>

section \<open>Site rules\<close>

text \<open>A site rule has to name the protocol and to cover the root or the subdomains.\<close>

definition bad_rule :: "url_rule \<Rightarrow> bool" where
  "bad_rule r \<longleftrightarrow> (ur_Protocol r \<noteq> ''http'' \<and> ur_Protocol r \<noteq> ''https'' \<and> ur_Protocol r \<noteq> ''both'') \<or>
     (\<not> ur_IncludeRoot r \<and> \<not> ur_IncludeSubdomains r)"

definition given_rule :: "url \<Rightarrow> bool \<Rightarrow> url_rule option \<Rightarrow> url_rule" where
  "given_rule u wildcard input =
     (let r = (case input of
                 Some r \<Rightarrow> r
               | None \<Rightarrow> \<lparr>ur_Protocol = u_Scheme u, ur_IncludeSubdomains = wildcard, ur_IncludeRoot = \<not> wildcard, ur_Ports = []\<rparr>) in
      if wildcard then r\<lparr>ur_IncludeSubdomains := True\<rparr> else r)"

text \<open>The normalised host of a rule: an address only for the root, and never a dangerous one.\<close>

definition rule_host :: "url_rule \<Rightarrow> gostring \<Rightarrow> discovery_error + gostring" where
  "rule_host r host =
     (case parseIP host of
        Inr ip \<Rightarrow> if ur_IncludeSubdomains r \<or> isDangerousIP ip then Inl DErrInvalidURLAuthorization else Inr (addr_String ip)
      | Inl _ \<Rightarrow> (case normalizeDomain host of Inl _ \<Rightarrow> Inl DErrInvalidURLAuthorization | Inr d \<Rightarrow> Inr d))"

definition rule_ports :: "url \<Rightarrow> url_rule option \<Rightarrow> url_rule \<Rightarrow> discovery_error + 16 word list" where
  "rule_ports u input r =
     (if input = None \<and> url_Port u \<noteq> [] then
        (case ParseUint 16 (url_Port u) of
           None \<Rightarrow> Inl DErrInvalidURLAuthorization
         | Some p \<Rightarrow> if p = 0 then Inl DErrInvalidURLAuthorization else Inr [of_nat p])
      else Inr (ur_Ports r))"

text \<open>Sorted ports without repetition; a port 0 is refused.\<close>

definition dedupe_ports :: "16 word list \<Rightarrow> discovery_error + 16 word list" where
  "dedupe_ports ps =
     (if 20 < length ps then Inl DErrInvalidURLAuthorization
      else if 0 \<in> set ps then Inl DErrInvalidURLAuthorization
      else Inr (remdups_adj (sort ps)))"

definition bracket_host :: "gostring \<Rightarrow> gostring" where
  "bracket_host h = (if Contains h '':'' then ''['' @ h @ '']'' else h)"

text \<open>\<open>None\<close> in the result is a nil rule: a plain URL target without wildcard.\<close>

definition normalizeURLAuthorization ::
  "gostring \<Rightarrow> url_rule option \<Rightarrow> discovery_error + gostring \<times> url_rule option" where
  "normalizeURLAuthorization raw0 input =
     (let raw1 = TrimSpace raw0 in
      if maxTargetValue < length raw1 then Inl DErrInvalidURLAuthorization
      else
        let raw = (case input of
                     Some r \<Rightarrow> if \<not> Contains raw1 ''://'' then (if ur_Protocol r = ''http'' then ''http'' else ''https'') @ ''://'' @ raw1 else raw1
                   | None \<Rightarrow> raw1) in
        case url_Parse raw of
          None \<Rightarrow> Inl DErrInvalidURLAuthorization
        | Some u \<Rightarrow>
            (let wildcard = HasPrefix (Hostname u) ''*.'' in
             if input = None \<and> \<not> wildcard then
               (case normalizeTargetValue TargetTypeURL raw of Inl e \<Rightarrow> Inl e | Inr v \<Rightarrow> Inr (v, None))
             else if u_User u \<or> (u_Path u \<noteq> [] \<and> u_Path u \<noteq> ''/'') \<or> u_RawQuery u \<noteq> [] \<or> u_ForceQuery u \<or> u_Fragment u \<noteq> [] then
               Inl DErrInvalidURLAuthorization
             else if u_Scheme u \<noteq> ''http'' \<and> u_Scheme u \<noteq> ''https'' then Inl DErrInvalidURLAuthorization
             else if url_Port u \<noteq> [] \<and> bad_port (url_Port u) then Inl DErrInvalidURLAuthorization
             else
               let rule = given_rule u wildcard input; host = TrimPrefix (Hostname u) ''*.'' in
               if bad_rule rule then Inl DErrInvalidURLAuthorization
               else if Contains host ''*'' then Inl DErrInvalidURLAuthorization
               else case rule_host rule host of
                 Inl e \<Rightarrow> Inl e
               | Inr h \<Rightarrow>
                   (case rule_ports u input rule of
                      Inl e \<Rightarrow> Inl e
                    | Inr ps \<Rightarrow>
                        (case dedupe_ports ps of
                           Inl e \<Rightarrow> Inl e
                         | Inr ports \<Rightarrow>
                             Inr ((if ur_Protocol rule = ''http'' then ''http'' else ''https'') @ ''://'' @ bracket_host h,
                                  Some (rule\<lparr>ur_Ports := ports\<rparr>))))))"

definition effective_port :: "parsed_target \<Rightarrow> int" where
  "effective_port c = (if pt_port c = 0 then (if pt_scheme c = ''https'' then 443 else 80) else pt_port c)"

definition anchor_host :: "url \<Rightarrow> gostring" where
  "anchor_host u = lower_text (TrimSuffix (Hostname u) ''.'')"

definition matchURLAuthorization :: "scope_target \<Rightarrow> parsed_target \<Rightarrow> bool" where
  "matchURLAuthorization target c =
     (if pt_kind c \<noteq> TargetTypeURL \<or> st_URLRule target = None then False
      else case normalizeURLAuthorization (st_Value target) (st_URLRule target) of
        Inl _ \<Rightarrow> False
      | Inr (_, rule0) \<Rightarrow>
          (case url_Parse (st_Value target) of
             None \<Rightarrow> False
           | Some anchor \<Rightarrow>
               (let rule = the rule0; host = anchor_host anchor; exact = EqualFold host (pt_domain c); port = effective_port c in
                if exact \<and> \<not> ur_IncludeRoot rule then False
                else if \<not> exact \<and> (\<not> ur_IncludeSubdomains rule \<or> \<not> HasSuffix (lower_text (pt_domain c)) (''.'' @ host)) then False
                else if ur_Protocol rule \<noteq> ''both'' \<and> pt_scheme c \<noteq> ur_Protocol rule then False
                else if ur_Ports rule = [] then (pt_scheme c = ''https'' \<and> port = 443) \<or> (pt_scheme c = ''http'' \<and> port = 80)
                else list_ex (\<lambda>allowed. int (unat allowed) = port) (ur_Ports rule))))"

text \<open>The concrete root URLs of a target, as seeds of a scan.\<close>

definition scopeURLSeeds :: "scope_target \<Rightarrow> gostring list" where
  "scopeURLSeeds target =
     (if st_URLRule target = None then [st_Value target]
      else case normalizeURLAuthorization (st_Value target) (st_URLRule target) of
        Inl _ \<Rightarrow> []
      | Inr (_, rule0) \<Rightarrow>
          (let rule = the rule0 in
           if \<not> ur_IncludeRoot rule then []
           else case url_Parse (st_Value target) of
             None \<Rightarrow> []
           | Some u \<Rightarrow>
               concat (map (\<lambda>protocol.
                   map (\<lambda>port. protocol @ ''://'' @ JoinHostPort (Hostname u) (FormatUint port))
                     (if ur_Ports rule = [] then (if protocol = ''https'' then [443] else [80]) else map unat (ur_Ports rule)))
                 (if ur_Protocol rule = ''both'' then [''http'', ''https''] else [ur_Protocol rule]))))"

section \<open>Scope targets\<close>

definition normalizeScopeTarget :: "scope_target_input \<Rightarrow> gostring \<Rightarrow> discovery_error + scope_target" where
  "normalizeScopeTarget i actorID =
     (if \<not> isValidTargetType (sti_TargetType i) then Inl DErrInvalidTargetType
      else if \<not> isValidMatchMode (sti_MatchMode i) then Inl DErrInvalidMatchMode
      else
        let cm = TrimSpace (sti_CoverageMode i); coverageMode = (if cm = [] then CoverageModeExact else cm) in
        if coverageMode \<noteq> CoverageModeExact \<and>
           (sti_TargetType i \<noteq> TargetTypeDomain \<or> coverageMode \<noteq> CoverageModeSubdomains) then Inl DErrInvalidCoverageMode
        else if sti_URLRule i \<noteq> None \<and> sti_TargetType i \<noteq> TargetTypeURL then Inl DErrInvalidURLAuthorization
        else case (if sti_TargetType i = TargetTypeURL then normalizeURLAuthorization (sti_Value i) (sti_URLRule i)
                   else case normalizeTargetValue (sti_TargetType i) (sti_Value i) of Inl e \<Rightarrow> Inl e | Inr v \<Rightarrow> Inr (v, None)) of
          Inl e \<Rightarrow> Inl e
        | Inr (value, rule) \<Rightarrow>
            Inr \<lparr>st_URLRule = rule, st_ID = 0, st_TenantID = [], st_OrgID = [], st_ProjectID = 0, st_ScopeID = 0,
                 st_TargetType = sti_TargetType i, st_MatchMode = sti_MatchMode i, st_CoverageMode = coverageMode,
                 st_Value = value, st_CreatedAt = zero_time, st_UpdatedAt = zero_time, st_CreatedBy = actorID,
                 st_UpdatedBy = actorID, st_DeletedAt = zero_time\<rparr>)"

definition target_ident :: "scope_target \<Rightarrow> gostring" where
  "target_ident t = st_TargetType t @ ''|'' @ st_MatchMode t @ ''|'' @ st_Value t"

text \<open>The loop over the inputs, with the keys seen so far.\<close>

fun collect_targets :: "gostring \<Rightarrow> gostring list \<Rightarrow> scope_target_input list \<Rightarrow> discovery_error + scope_target list" where
  "collect_targets actorID seen [] = Inr []"
| "collect_targets actorID seen (i # is) =
     (case normalizeScopeTarget i actorID of
        Inl e \<Rightarrow> Inl e
      | Inr t \<Rightarrow>
          if List.member seen (target_ident t) then Inl DErrDuplicateTargets
          else case collect_targets actorID (target_ident t # seen) is of Inl e \<Rightarrow> Inl e | Inr ts \<Rightarrow> Inr (t # ts))"

definition validateScopeTargets :: "scope_target_input list \<Rightarrow> gostring \<Rightarrow> discovery_error + scope_target list" where
  "validateScopeTargets inputs actorID =
     (if inputs = [] then Inr []
      else if length actorID = 0 \<or> maxActorLen < length actorID then Inl DErrInvalidActorID
      else collect_targets actorID [] inputs)"

section \<open>Matching\<close>

definition parseScopeTargetForMatch :: "scope_target \<Rightarrow> discovery_error + parsed_target" where
  "parseScopeTargetForMatch raw =
     (let s = no_target\<lparr>pt_kind := st_TargetType raw, pt_value := st_Value raw\<rparr> in
      if st_TargetType raw = TargetTypeCompany then
        (case normalizeCompanyName (st_Value raw) of Inl e \<Rightarrow> Inl e | Inr c \<Rightarrow> Inr (s\<lparr>pt_company := c\<rparr>))
      else if st_TargetType raw = TargetTypeDomain then
        (case normalizeDomain (st_Value raw) of Inl e \<Rightarrow> Inl e | Inr d \<Rightarrow> Inr (s\<lparr>pt_domain := d\<rparr>))
      else if st_TargetType raw = TargetTypeIP then
        (case parseIP (st_Value raw) of Inl e \<Rightarrow> Inl e | Inr a \<Rightarrow> Inr (s\<lparr>pt_ip := a, pt_domain := addr_String a\<rparr>))
      else if st_TargetType raw = TargetTypeCIDR then
        (case parseCIDR (st_Value raw) of Inl e \<Rightarrow> Inl e | Inr p \<Rightarrow> Inr (s\<lparr>pt_ip := pf_ip p, pt_value := pfx_String p\<rparr>))
      else if st_TargetType raw = TargetTypeURL then parseURL (st_Value raw)
      else Inl DErrInvalidTargetType)"

definition matchTarget :: "scope_target \<Rightarrow> parsed_target \<Rightarrow> bool" where
  "matchTarget target c =
     (if st_TargetType target = TargetTypeURL \<and> st_URLRule target \<noteq> None then matchURLAuthorization target c
      else case parseScopeTargetForMatch target of
        Inl _ \<Rightarrow> False
      | Inr t \<Rightarrow>
          if st_TargetType target = TargetTypeCompany then pt_company c \<noteq> [] \<and> pt_company t = pt_company c
          else if st_TargetType target = TargetTypeDomain then
            (if pt_domain c = [] then False
             else if EqualFold (pt_domain t) (pt_domain c) then True
             else st_CoverageMode target = CoverageModeSubdomains \<and>
                  HasSuffix (lower_text (pt_domain c)) (''.'' @ lower_text (pt_domain t)))
          else if st_TargetType target = TargetTypeIP then IsValid (pt_ip c) \<and> pt_ip t = pt_ip c
          else if st_TargetType target = TargetTypeCIDR then
            (if \<not> IsValid (pt_ip c) then False
             else case parseCIDR (pt_value t) of Inl _ \<Rightarrow> False | Inr p \<Rightarrow> pfx_Contains p (pt_ip c))
          else if st_TargetType target = TargetTypeURL then pt_value c \<noteq> [] \<and> pt_value t = pt_value c
          else False)"

text \<open>A site rule of the host family of a URL candidate.\<close>

definition specializes :: "parsed_target \<Rightarrow> scope_target \<Rightarrow> bool" where
  "specializes c target =
     (if st_MatchMode target \<noteq> MatchModeInclude \<or> st_URLRule target = None \<or> pt_kind c \<noteq> TargetTypeURL then False
      else case url_Parse (st_Value target) of
        None \<Rightarrow> False
      | Some u \<Rightarrow> let host = anchor_host u in
          host \<noteq> [] \<and> (host = pt_domain c \<or> HasSuffix (pt_domain c) (''.'' @ host)))"

text \<open>The first loop: the exclusion that ends it, or whether a site rule was seen.\<close>

fun exclusion_pass :: "parsed_target \<Rightarrow> bool \<Rightarrow> scope_target list \<Rightarrow> bool option" where
  "exclusion_pass c specialized [] = Some specialized"
| "exclusion_pass c specialized (t # ts) =
     (if st_MatchMode t = MatchModeExclude \<and> matchTarget t c then None
      else exclusion_pass c (specialized \<or> specializes c t) ts)"

definition scopeMatchDecision :: "scope_target list \<Rightarrow> parsed_target \<Rightarrow> reject_reason" where
  "scopeMatchDecision targets c =
     (case exclusion_pass c False targets of
        None \<Rightarrow> ReasonExcluded
      | Some specialized \<Rightarrow>
          if list_ex (\<lambda>t. \<not> (st_MatchMode t \<noteq> MatchModeInclude \<or> (specialized \<and> st_TargetType t \<noteq> TargetTypeURL)) \<and> matchTarget t c) targets
          then ReasonAllowed
          else if specialized then ReasonURLRestricted
          else ReasonNoMatch)"

section \<open>The abstract policy\<close>

text \<open>
  What the decision means, without the order of the loops: a target is excluded when some exclude
  entry matches; restricted hosts (those with a site rule) accept only URL entries.
\<close>

definition excluded :: "scope_target list \<Rightarrow> parsed_target \<Rightarrow> bool" where
  "excluded ts c \<longleftrightarrow> (\<exists>t \<in> set ts. st_MatchMode t = MatchModeExclude \<and> matchTarget t c)"

definition restricted :: "scope_target list \<Rightarrow> parsed_target \<Rightarrow> bool" where
  "restricted ts c \<longleftrightarrow> (\<exists>t \<in> set ts. specializes c t)"

definition granted :: "scope_target list \<Rightarrow> parsed_target \<Rightarrow> bool" where
  "granted ts c \<longleftrightarrow> (\<exists>t \<in> set ts. st_MatchMode t = MatchModeInclude \<and>
     (restricted ts c \<longrightarrow> st_TargetType t = TargetTypeURL) \<and> matchTarget t c)"

lemma exclusion_pass_iff:
  "exclusion_pass c b ts = (if excluded ts c then None else Some (b \<or> restricted ts c))"
  by (induction ts arbitrary: b) (auto simp: excluded_def restricted_def)

lemma decision_spec:
  "scopeMatchDecision ts c =
     (if excluded ts c then ReasonExcluded
      else if granted ts c then ReasonAllowed
      else if restricted ts c then ReasonURLRestricted
      else ReasonNoMatch)"
  by (auto simp: scopeMatchDecision_def exclusion_pass_iff granted_def list_ex_iff)

end
