(* ===== verification/DiscoveryStore.thy ===== *)
theory DiscoveryStore
  imports DiscoveryMatch
begin

text \<open>
  The scope half of the repository of \<open>internal/discovery\<close> (\<open>repository.go\<close>) over the tables \<open>scope\<close>
  and \<open>scope_target\<close> (\<open>schema/0007\<close>, \<open>0028\<close>, \<open>0030\<close>, \<open>0032\<close>) with the statements of
  \<open>query/discovery.sql\<close>. A row of \<open>scope\<close> is the struct that \<open>toDomainScope\<close> returns, without targets. A
  target is never removed: \<open>ClearScopeTargets\<close> moves its \<open>deleted_at\<close> away from the sentinel. A site
  rule is stored as JSON and read back as the same rule. A row lock has no effect on calls that run
  one after the other; \<open>LockProjectForScopeDefault\<close> still reports a missing project.
\<close>

record discovery_db =
  dd_projects :: "nat list"
  dd_scopes :: "scope table"
  dd_targets :: "scope_target table"
  dd_audit :: "audit_row table"

type_synonym 'a discovery_op = "(discovery_db, discovery_error, 'a) op"

definition empty_discovery_db :: "nat list \<Rightarrow> discovery_db" where
  "empty_discovery_db ps = \<lparr>dd_projects = ps, dd_scopes = empty_table, dd_targets = empty_table, dd_audit = empty_table\<rparr>"

definition discovery_rollback :: "discovery_db \<Rightarrow> discovery_db \<Rightarrow> discovery_db" where
  "discovery_rollback d0 d1 =
     d1\<lparr>dd_scopes := tbl_rollback (dd_scopes d0) (dd_scopes d1), dd_targets := tbl_rollback (dd_targets d0) (dd_targets d1),
        dd_audit := tbl_rollback (dd_audit d0) (dd_audit d1)\<rparr>"

section \<open>Scopes\<close>

record scope_params =
  scp_ScopeID :: nat
  scp_TenantID :: gostring
  scp_OrgID :: gostring
  scp_ProjectID :: nat
  scp_Name :: gostring
  scp_Status :: gostring
  scp_AuthorizedBy :: gostring
  scp_ValidFrom :: time
  scp_ValidUntil :: time
  scp_IsDefault :: bool
  scp_ActorID :: gostring

definition scope_live :: "scope \<Rightarrow> bool" where "scope_live r \<longleftrightarrow> sc_DeletedAt r = epoch"

definition scope_check :: "env \<Rightarrow> scope \<Rightarrow> sql_error option" where
  "scope_check e r = row_check
     (too_long [(sc_TenantID r, 64), (sc_OrgID r, 64), (sc_Name r, 128), (sc_Status r, 16), (sc_AuthorizedBy r, 64),
        (sc_CreatedBy r, 64), (sc_UpdatedBy r, 64)])
     (sql_in e (sc_Status r) [''active'', ''inactive''] \<and> sc_ValidFrom r \<le> sc_ValidUntil r)"

text \<open>The unique keys \<open>uk_scope_project_name\<close> and \<open>uk_scope_project_default\<close>.\<close>

definition scope_same_key :: "env \<Rightarrow> scope \<Rightarrow> scope \<Rightarrow> bool" where
  "scope_same_key e a b \<longleftrightarrow> sc_ProjectID a = sc_ProjectID b \<and>
     (sql_eq e (sc_Name a) (sc_Name b) \<and> sc_DeletedAt a = sc_DeletedAt b \<or>
      sc_IsDefault a \<and> scope_live a \<and> sc_IsDefault b \<and> scope_live b)"

definition scope_row :: "env \<Rightarrow> scope_params \<Rightarrow> scope" where
  "scope_row e p =
     \<lparr>sc_ID = 0, sc_TenantID = scp_TenantID p, sc_OrgID = scp_OrgID p, sc_ProjectID = scp_ProjectID p, sc_Name = scp_Name p,
      sc_Status = scp_Status p, sc_AuthorizedBy = scp_AuthorizedBy p, sc_ValidFrom = env_col e (scp_ValidFrom p),
      sc_ValidUntil = env_col e (scp_ValidUntil p), sc_IsDefault = scp_IsDefault p, sc_CreatedAt = env_db_now e,
      sc_UpdatedAt = env_db_now e, sc_CreatedBy = scp_ActorID p, sc_UpdatedBy = scp_ActorID p, sc_DeletedAt = epoch, sc_Targets = []\<rparr>"

definition on_scopes :: "(scope table, sql_error, 'a) op \<Rightarrow> 'a discovery_op" where
  "on_scopes m = mapErr DErrSql (zoom dd_scopes (\<lambda>t d. d\<lparr>dd_scopes := t\<rparr>) m)"

definition repo_CreateScope :: "env \<Rightarrow> scope_params \<Rightarrow> nat discovery_op" where
  "repo_CreateScope e p d =
     on_scopes (sql_insert (scope_check e) (scope_same_key e) (\<lambda>r. List.member (dd_projects d) (sc_ProjectID r))
       (\<lambda>n r. r\<lparr>sc_ID := n\<rparr>) (scope_row e p)) d"

definition repo_GetScope :: "nat \<Rightarrow> nat \<Rightarrow> scope discovery_op" where
  "repo_GetScope projectID scopeID =
     asks (\<lambda>d. case sql_one (\<lambda>r. sc_ID r = scopeID \<and> (sc_ProjectID r = projectID \<and> scope_live r)) (dd_scopes d) of
                 None \<Rightarrow> Inl DErrNotFound | Some r \<Rightarrow> Inr r)"

definition repo_ListScopes :: "nat \<Rightarrow> scope list discovery_op" where
  "repo_ListScopes projectID = gets (\<lambda>d. sql_many (\<lambda>r. sc_ProjectID r = projectID \<and> scope_live r) (dd_scopes d))"

definition scope_stamp :: "time \<Rightarrow> scope \<Rightarrow> scope" where "scope_stamp now r = r\<lparr>sc_UpdatedAt := now\<rparr>"

definition scope_written :: "env \<Rightarrow> scope_params \<Rightarrow> scope \<Rightarrow> scope" where
  "scope_written e p r =
     r\<lparr>sc_Name := scp_Name p, sc_Status := scp_Status p, sc_AuthorizedBy := scp_AuthorizedBy p,
       sc_ValidFrom := env_col e (scp_ValidFrom p), sc_ValidUntil := env_col e (scp_ValidUntil p),
       sc_IsDefault := scp_IsDefault p, sc_UpdatedBy := scp_ActorID p\<rparr>"

definition repo_UpdateScope :: "env \<Rightarrow> scope_params \<Rightarrow> nat discovery_op" where
  "repo_UpdateScope e p =
     on_scopes (sql_update_unique (scope_same_key e) (scope_check e)
       (\<lambda>r. sc_ID r = scp_ScopeID p \<and> (sc_ProjectID r = scp_ProjectID p \<and> scope_live r)) (scope_written e p) (scope_stamp (env_db_now e)))"

text \<open>\<open>updated_at\<close> is set by the statement itself.\<close>

definition scope_deactivated :: "env \<Rightarrow> gostring \<Rightarrow> scope \<Rightarrow> scope" where
  "scope_deactivated e actorID r =
     r\<lparr>sc_Status := StatusInactive, sc_IsDefault := False, sc_UpdatedBy := actorID, sc_UpdatedAt := env_col e (env_now e)\<rparr>"

definition repo_DeactivateScope :: "env \<Rightarrow> nat \<Rightarrow> nat \<Rightarrow> gostring \<Rightarrow> nat discovery_op" where
  "repo_DeactivateScope e projectID scopeID actorID =
     on_scopes (sql_update_unique (scope_same_key e) (scope_check e)
       (\<lambda>r. sc_ID r = scopeID \<and> (sc_ProjectID r = projectID \<and> scope_live r)) (scope_deactivated e actorID) id)"

definition repo_LockProjectForScopeDefault :: "nat \<Rightarrow> unit discovery_op" where
  "repo_LockProjectForScopeDefault projectID =
     asks (\<lambda>d. if List.member (dd_projects d) projectID then Inr () else Inl DErrNotFound)"

definition scope_displaced :: "env \<Rightarrow> gostring \<Rightarrow> scope \<Rightarrow> scope" where
  "scope_displaced e actorID r = r\<lparr>sc_IsDefault := False, sc_UpdatedBy := actorID, sc_UpdatedAt := env_col e (env_now e)\<rparr>"

definition repo_ClearDefaultScopes :: "env \<Rightarrow> nat \<Rightarrow> nat \<Rightarrow> gostring \<Rightarrow> nat discovery_op" where
  "repo_ClearDefaultScopes e projectID exceptScopeID actorID =
     on_scopes (sql_update_unique (scope_same_key e) (scope_check e)
       (\<lambda>r. sc_ProjectID r = projectID \<and> sc_ID r \<noteq> exceptScopeID \<and> sc_IsDefault r \<and> scope_live r) (scope_displaced e actorID) id)"

section \<open>Targets\<close>

definition target_live :: "scope_target \<Rightarrow> bool" where "target_live r \<longleftrightarrow> st_DeletedAt r = epoch"

definition scope_target_check :: "env \<Rightarrow> scope_target \<Rightarrow> sql_error option" where
  "scope_target_check e r = row_check
     (too_long [(st_TenantID r, 64), (st_OrgID r, 64), (st_TargetType r, 16), (st_MatchMode r, 16), (st_CoverageMode r, 16),
        (st_Value r, 512), (st_CreatedBy r, 64), (st_UpdatedBy r, 64)])
     (sql_in e (st_TargetType r) [''domain'', ''ip'', ''cidr'', ''url'', ''company''] \<and>
      sql_in e (st_MatchMode r) [''include'', ''exclude''] \<and>
      (sql_eq e (st_CoverageMode r) ''exact'' \<or> sql_eq e (st_TargetType r) ''domain'' \<and> sql_eq e (st_CoverageMode r) ''subdomains'') \<and>
      (st_URLRule r = None \<or> sql_eq e (st_TargetType r) ''url''))"

definition target_same_key :: "env \<Rightarrow> scope_target \<Rightarrow> scope_target \<Rightarrow> bool" where
  "target_same_key e a b \<longleftrightarrow> st_ScopeID a = st_ScopeID b \<and> sql_eq e (st_TargetType a) (st_TargetType b) \<and>
     sql_eq e (st_MatchMode a) (st_MatchMode b) \<and> sql_eq e (st_Value a) (st_Value b) \<and> st_DeletedAt a = st_DeletedAt b"

definition on_targets :: "(scope_target table, sql_error, 'a) op \<Rightarrow> 'a discovery_op" where
  "on_targets m = mapErr DErrSql (zoom dd_targets (\<lambda>t d. d\<lparr>dd_targets := t\<rparr>) m)"

text \<open>The row that \<open>InsertScopeTarget\<close> writes for a normalised target.\<close>

definition target_row :: "env \<Rightarrow> gostring \<Rightarrow> gostring \<Rightarrow> nat \<Rightarrow> nat \<Rightarrow> gostring \<Rightarrow> scope_target \<Rightarrow> scope_target" where
  "target_row e tenantID orgID projectID scopeID actorID t =
     t\<lparr>st_ID := 0, st_TenantID := tenantID, st_OrgID := orgID, st_ProjectID := projectID, st_ScopeID := scopeID,
       st_CreatedAt := env_db_now e, st_UpdatedAt := env_db_now e, st_CreatedBy := actorID, st_UpdatedBy := actorID,
       st_DeletedAt := epoch\<rparr>"

definition repo_InsertScopeTarget ::
  "env \<Rightarrow> gostring \<Rightarrow> gostring \<Rightarrow> nat \<Rightarrow> nat \<Rightarrow> gostring \<Rightarrow> scope_target \<Rightarrow> nat discovery_op" where
  "repo_InsertScopeTarget e tenantID orgID projectID scopeID actorID t d =
     on_targets (sql_insert (scope_target_check e) (target_same_key e)
       (\<lambda>r. list_ex (\<lambda>s. sc_ProjectID s = st_ProjectID r \<and> sc_ID s = st_ScopeID r) (t_rows (dd_scopes d)))
       (\<lambda>n r. r\<lparr>st_ID := n\<rparr>) (target_row e tenantID orgID projectID scopeID actorID t)) d"

definition repo_ListScopeTargets :: "nat \<Rightarrow> nat \<Rightarrow> scope_target list discovery_op" where
  "repo_ListScopeTargets projectID scopeID =
     gets (\<lambda>d. sql_many (\<lambda>r. st_ScopeID r = scopeID \<and> st_ProjectID r = projectID \<and> target_live r) (dd_targets d))"

definition target_cleared :: "env \<Rightarrow> gostring \<Rightarrow> scope_target \<Rightarrow> scope_target" where
  "target_cleared e actorID r = r\<lparr>st_DeletedAt := env_col e (env_now e), st_UpdatedBy := actorID\<rparr>"

definition repo_ClearScopeTargets :: "env \<Rightarrow> nat \<Rightarrow> nat \<Rightarrow> gostring \<Rightarrow> nat discovery_op" where
  "repo_ClearScopeTargets e projectID scopeID actorID =
     on_targets (sql_update_unique (target_same_key e) (scope_target_check e)
       (\<lambda>r. st_ScopeID r = scopeID \<and> st_ProjectID r = projectID \<and> target_live r) (target_cleared e actorID)
       (\<lambda>r. r\<lparr>st_UpdatedAt := env_db_now e\<rparr>))"

end
