(* ===== verification/DiscoveryService.thy ===== *)
theory DiscoveryService
  imports DiscoveryStore
begin

text \<open>
  The scope operations of \<open>discovery.Service\<close> (\<open>internal/discovery/service.go\<close>): creating, patching and
  deactivating a scope, the transfer of the project's default scope, and \<open>IsTypedTargetAllowed\<close>, the
  question every dispatch asks. \<open>ds_db\<close> says whether a \<open>*sql.DB\<close> is set (then writes run in a
  transaction and audit inside it); \<open>ds_sink\<close> whether an audit sink is set, used without a database.
\<close>

record discovery_service =
  ds_env :: env
  ds_db :: bool
  ds_sink :: bool

definition discovery_runInTx :: "discovery_service \<Rightarrow> 'a discovery_op \<Rightarrow> 'a discovery_op" where
  "discovery_runInTx s m = (if ds_db s then inTx discovery_rollback m else m)"

definition audits :: "discovery_service \<Rightarrow> bool" where "audits s \<longleftrightarrow> ds_db s \<or> ds_sink s"

section \<open>Audit\<close>

definition rule_val :: "url_rule \<Rightarrow> goval" where
  "rule_val r = GPtr (GStruct
     [(\<lparr>gf_name = ''Protocol'', gf_tag = Some ''protocol'', gf_exported = True\<rparr>, GStr (ur_Protocol r)),
      (\<lparr>gf_name = ''IncludeSubdomains'', gf_tag = Some ''include_subdomains'', gf_exported = True\<rparr>, GBool (ur_IncludeSubdomains r)),
      (\<lparr>gf_name = ''IncludeRoot'', gf_tag = Some ''include_root'', gf_exported = True\<rparr>, GBool (ur_IncludeRoot r)),
      (\<lparr>gf_name = ''Ports'', gf_tag = Some ''ports'', gf_exported = True\<rparr>, GSlice (map (\<lambda>p. GInt (int (unat p))) (ur_Ports r)))])"

definition target_val :: "scope_target \<Rightarrow> goval" where
  "target_val t = GPtr (GStruct
     [(exported ''URLRule'', case st_URLRule t of None \<Rightarrow> GNil | Some r \<Rightarrow> rule_val r), (exported ''ID'', GInt (int (st_ID t))),
      (exported ''TenantID'', GStr (st_TenantID t)), (exported ''OrgID'', GStr (st_OrgID t)),
      (exported ''ProjectID'', GInt (int (st_ProjectID t))), (exported ''ScopeID'', GInt (int (st_ScopeID t))),
      (exported ''TargetType'', GStr (st_TargetType t)), (exported ''MatchMode'', GStr (st_MatchMode t)),
      (exported ''CoverageMode'', GStr (st_CoverageMode t)), (exported ''Value'', GStr (st_Value t)),
      (exported ''CreatedAt'', time_val (st_CreatedAt t)), (exported ''UpdatedAt'', time_val (st_UpdatedAt t)),
      (exported ''CreatedBy'', GStr (st_CreatedBy t)), (exported ''UpdatedBy'', GStr (st_UpdatedBy t)),
      (exported ''DeletedAt'', time_val (st_DeletedAt t))])"

definition scope_val :: "scope \<Rightarrow> goval" where
  "scope_val c = GPtr (GStruct
     [(exported ''ID'', GInt (int (sc_ID c))), (exported ''TenantID'', GStr (sc_TenantID c)), (exported ''OrgID'', GStr (sc_OrgID c)),
      (exported ''ProjectID'', GInt (int (sc_ProjectID c))), (exported ''Name'', GStr (sc_Name c)),
      (exported ''Status'', GStr (sc_Status c)), (exported ''AuthorizedBy'', GStr (sc_AuthorizedBy c)),
      (exported ''ValidFrom'', time_val (sc_ValidFrom c)), (exported ''ValidUntil'', time_val (sc_ValidUntil c)),
      (exported ''IsDefault'', GBool (sc_IsDefault c)), (exported ''CreatedAt'', time_val (sc_CreatedAt c)),
      (exported ''UpdatedAt'', time_val (sc_UpdatedAt c)), (exported ''CreatedBy'', GStr (sc_CreatedBy c)),
      (exported ''UpdatedBy'', GStr (sc_UpdatedBy c)), (exported ''DeletedAt'', time_val (sc_DeletedAt c)),
      (exported ''Targets'', GSlice (map target_val (sc_Targets c)))])"

definition meta_val :: "discovery_meta \<Rightarrow> goval" where
  "meta_val m = GStruct
     [(exported ''Reason'', GStr (dm_Reason m)), (exported ''SourceRunID'', GInt (int (dm_SourceRunID m))),
      (exported ''SourceObservationIDs'', GSlice (map (\<lambda>n. GInt (int n)) (dm_SourceObservationIDs m))),
      (exported ''IP'', GStr (dm_IP m)), (exported ''UserAgent'', GStr (dm_UserAgent m)), (exported ''RequestID'', GStr (dm_RequestID m))]"

text \<open>The entity an audit row refers to is the first of \<open>before\<close> and \<open>after\<close> that is there.\<close>

definition scope_event :: "gostring \<Rightarrow> scope option \<Rightarrow> scope option \<Rightarrow> gostring \<Rightarrow> discovery_meta \<Rightarrow> event" where
  "scope_event action before after actorID m =
     (let c = (case before of Some b \<Rightarrow> b | None \<Rightarrow> the after) in
      empty_event\<lparr>ev_TenantID := sc_TenantID c, ev_OrgID := sc_OrgID c, ev_ProjectID := sc_ProjectID c, ev_ActorID := actorID,
        ev_ActorType := ''user'', ev_Action := action, ev_ResourceType := ''scope'', ev_ResourceID := FormatUint (sc_ID c),
        ev_Result := ''success'', ev_IP := dm_IP m, ev_UserAgent := dm_UserAgent m, ev_RequestID := dm_RequestID m,
        ev_Before := (case before of None \<Rightarrow> GNil | Some b \<Rightarrow> scope_val b),
        ev_After := (case after of None \<Rightarrow> GNil | Some a \<Rightarrow> scope_val a), ev_Metadata := meta_val m\<rparr>)"

definition recordAuditWithSink ::
  "discovery_service \<Rightarrow> gostring \<Rightarrow> scope option \<Rightarrow> scope option \<Rightarrow> gostring \<Rightarrow> discovery_meta \<Rightarrow> unit discovery_op" where
  "recordAuditWithSink s action before after actorID m =
     (if \<not> audits s then ok ()
      else mapErr DErrSql (zoom dd_audit (\<lambda>t d. d\<lparr>dd_audit := t\<rparr>) (audit_Record (ds_env s) (scope_event action before after actorID m))))"

section \<open>Reading\<close>

definition GetScope :: "nat \<Rightarrow> nat \<Rightarrow> scope discovery_op" where
  "GetScope projectID scopeID =
     bindM (failIf (projectID = 0 \<or> scopeID = 0) DErrInvalidScopeID) (\<lambda>_.
     bindM (repo_GetScope projectID scopeID) (\<lambda>c.
     bindM (repo_ListScopeTargets projectID scopeID) (\<lambda>ts.
     ok (c\<lparr>sc_Targets := ts\<rparr>))))"

definition ListScopes :: "nat \<Rightarrow> scope list discovery_op" where
  "ListScopes projectID =
     bindM (failIf (projectID = 0) DErrInvalidProjectID) (\<lambda>_.
     bindM (repo_ListScopes projectID) (\<lambda>cs.
     forM (\<lambda>c. bindM (repo_ListScopeTargets projectID (sc_ID c)) (\<lambda>ts. ok (c\<lparr>sc_Targets := ts\<rparr>))) cs))"

text \<open>The verdict, its reason and the error next to it.\<close>

definition IsTypedTargetAllowed ::
  "discovery_service \<Rightarrow> nat \<Rightarrow> nat \<Rightarrow> gostring \<Rightarrow> gostring \<Rightarrow> discovery_db \<Rightarrow> bool \<times> reject_reason \<times> discovery_error option" where
  "IsTypedTargetAllowed s projectID scopeID targetType rawTarget d =
     (if projectID = 0 \<or> scopeID = 0 then (False, ReasonScopeNotFound, Some DErrInvalidScopeID)
      else case parseTypedTarget targetType rawTarget of
        Inl e \<Rightarrow> (False, if e = DErrDangerousTarget then ReasonDangerous else ReasonTargetInvalid, Some e)
      | Inr parsed \<Rightarrow>
          (case fst (repo_GetScope projectID scopeID d) of
             Inl e \<Rightarrow> (False, if e = DErrNotFound then ReasonScopeNotFound else ReasonSystemError, Some e)
           | Inr c \<Rightarrow>
               let now = env_now (ds_env s) in
               if sc_Status c \<noteq> StatusActive then (False, ReasonScopeInactive, None)
               else if now < sc_ValidFrom c then (False, ReasonNotStarted, None)
               else if sc_ValidUntil c < now then (False, ReasonScopeExpired, None)
               else (case fst (repo_ListScopeTargets projectID scopeID d) of
                       Inl e \<Rightarrow> (False, ReasonSystemError, Some e)
                     | Inr targets \<Rightarrow>
                         let decision = scopeMatchDecision targets parsed in (decision = ReasonAllowed, decision, None))))"

definition IsTargetAllowed ::
  "discovery_service \<Rightarrow> nat \<Rightarrow> nat \<Rightarrow> gostring \<Rightarrow> discovery_db \<Rightarrow> bool \<times> reject_reason \<times> discovery_error option" where
  "IsTargetAllowed s projectID scopeID rawTarget = IsTypedTargetAllowed s projectID scopeID [] rawTarget"

section \<open>Writing\<close>

definition displaced_scopes :: "discovery_service \<Rightarrow> nat \<Rightarrow> nat \<Rightarrow> scope list discovery_op" where
  "displaced_scopes s projectID exceptScopeID =
     (if \<not> audits s then ok []
      else bindM (repo_ListScopes projectID) (\<lambda>cs.
           forM (\<lambda>c. bindM (repo_ListScopeTargets projectID (sc_ID c)) (\<lambda>ts. ok (c\<lparr>sc_Targets := ts\<rparr>)))
             (filter (\<lambda>c. sc_IsDefault c \<and> sc_ID c \<noteq> exceptScopeID) cs)))"

definition replaceProjectDefault ::
  "discovery_service \<Rightarrow> nat \<Rightarrow> nat \<Rightarrow> gostring \<Rightarrow> discovery_meta \<Rightarrow> unit discovery_op" where
  "replaceProjectDefault s projectID exceptScopeID actorID m =
     bindM (repo_LockProjectForScopeDefault projectID) (\<lambda>_.
     bindM (displaced_scopes s projectID exceptScopeID) (\<lambda>displaced.
     bindM (repo_ClearDefaultScopes (ds_env s) projectID exceptScopeID actorID) (\<lambda>_.
     bindM (forM (\<lambda>before. recordAuditWithSink s ActionScopeUpdate (Some before)
              (Some (before\<lparr>sc_IsDefault := False, sc_UpdatedBy := actorID, sc_UpdatedAt := env_now (ds_env s)\<rparr>)) actorID m) displaced) (\<lambda>_.
     ok ()))))"

definition insert_targets ::
  "discovery_service \<Rightarrow> gostring \<Rightarrow> gostring \<Rightarrow> nat \<Rightarrow> nat \<Rightarrow> gostring \<Rightarrow> scope_target list \<Rightarrow> unit discovery_op" where
  "insert_targets s tenantID orgID projectID scopeID actorID ts =
     bindM (forM (repo_InsertScopeTarget (ds_env s) tenantID orgID projectID scopeID actorID) ts) (\<lambda>_. ok ())"

definition create_scope_params :: "create_scope_input \<Rightarrow> gostring \<Rightarrow> scope_params" where
  "create_scope_params i status =
     \<lparr>scp_ScopeID = 0, scp_TenantID = csi_TenantID i, scp_OrgID = csi_OrgID i, scp_ProjectID = csi_ProjectID i, scp_Name = csi_Name i,
      scp_Status = status, scp_AuthorizedBy = csi_AuthorizedBy i, scp_ValidFrom = csi_ValidFrom i, scp_ValidUntil = csi_ValidUntil i,
      scp_IsDefault = csi_IsDefault i, scp_ActorID = csi_ActorID i\<rparr>"

definition create_scope_body ::
  "discovery_service \<Rightarrow> create_scope_input \<Rightarrow> gostring \<Rightarrow> scope_target list \<Rightarrow> nat discovery_op" where
  "create_scope_body s i status targets =
     bindM (if csi_IsDefault i then replaceProjectDefault s (csi_ProjectID i) 0 (csi_ActorID i) (csi_Meta i) else ok ()) (\<lambda>_.
     bindM (repo_CreateScope (ds_env s) (create_scope_params i status)) (\<lambda>scopeID.
     bindM (insert_targets s (csi_TenantID i) (csi_OrgID i) (csi_ProjectID i) scopeID (csi_ActorID i) targets) (\<lambda>_.
     bindM (repo_GetScope (csi_ProjectID i) scopeID) (\<lambda>c.
     bindM (recordAuditWithSink s ActionScopeCreate (Some c) None (csi_ActorID i) (csi_Meta i)) (\<lambda>_.
     ok scopeID)))))"

definition CreateScope :: "discovery_service \<Rightarrow> create_scope_input \<Rightarrow> scope discovery_op" where
  "CreateScope s i =
     bindM (failIf (csi_ProjectID i = 0) DErrInvalidProjectID) (\<lambda>_.
     bindM (liftM (validateStatus (csi_Status i))) (\<lambda>status.
     bindM (liftM (validateScopeMeta (csi_TenantID i) (csi_OrgID i) (csi_Name i) (csi_AuthorizedBy i) (csi_ActorID i))) (\<lambda>_.
     bindM (liftM (validateScopeWindow (csi_ValidFrom i) (csi_ValidUntil i))) (\<lambda>_.
     bindM (liftM (validateScopeTargets (csi_Targets i) (csi_ActorID i))) (\<lambda>targets.
     bindM (failIf (csi_IsDefault i \<and> status \<noteq> StatusActive) DErrInvalidDefaultScope) (\<lambda>_.
     bindM (discovery_runInTx s (create_scope_body s i status targets)) (\<lambda>scopeID.
     GetScope (csi_ProjectID i) scopeID)))))))"

text \<open>The patched fields, or the error of the first one that is refused.\<close>

definition patched_text :: "gostring option \<Rightarrow> nat \<Rightarrow> discovery_error \<Rightarrow> gostring \<Rightarrow> discovery_error + gostring" where
  "patched_text v bound e old =
     (case v of
        None \<Rightarrow> Inr old
      | Some x \<Rightarrow> let t = TrimSpace x in if length t = 0 \<or> bound < length t then Inl e else Inr t)"

definition patched_status :: "gostring option \<Rightarrow> gostring \<Rightarrow> discovery_error + gostring" where
  "patched_status v old = (case v of None \<Rightarrow> Inr old | Some x \<Rightarrow> validateStatus (TrimSpace x))"

definition patched_default :: "gostring \<Rightarrow> bool option \<Rightarrow> bool \<Rightarrow> discovery_error + bool" where
  "patched_default status v old =
     (let isDefault = (case v of None \<Rightarrow> old | Some b \<Rightarrow> b) in
      if status \<noteq> StatusActive then (if v = Some True then Inl DErrInvalidDefaultScope else Inr False)
      else Inr isDefault)"

definition update_scope_body :: "discovery_service \<Rightarrow> update_scope_input \<Rightarrow> unit discovery_op" where
  "update_scope_body s i =
     bindM (repo_LockProjectForScopeDefault (usi_ProjectID i)) (\<lambda>_.
     bindM (repo_GetScope (usi_ProjectID i) (usi_ScopeID i)) (\<lambda>before.
     bindM (liftM (patched_text (usi_Name i) maxScopeNameLen DErrInvalidName (sc_Name before))) (\<lambda>name.
     bindM (liftM (patched_text (usi_AuthorizedBy i) maxAuthorizedLen DErrInvalidAuthorizedBy (sc_AuthorizedBy before))) (\<lambda>authorizedBy.
     bindM (liftM (patched_status (usi_Status i) (sc_Status before))) (\<lambda>status.
     bindM (liftM (patched_default status (usi_IsDefault i) (sc_IsDefault before))) (\<lambda>isDefault.
     let validFrom = (case usi_ValidFrom i of None \<Rightarrow> sc_ValidFrom before | Some t \<Rightarrow> t);
         validUntil = (case usi_ValidUntil i of None \<Rightarrow> sc_ValidUntil before | Some t \<Rightarrow> t) in
     bindM (liftM (validateScopeWindow validFrom validUntil)) (\<lambda>_.
     bindM (liftM (validateScopeMeta (usi_TenantID i) (usi_OrgID i) name authorizedBy (usi_ActorID i))) (\<lambda>_.
     bindM (case usi_Targets i of
              None \<Rightarrow> ok []
            | Some inputs \<Rightarrow>
                bindM (liftM (validateScopeTargets inputs (usi_ActorID i))) (\<lambda>ts.
                bindM (repo_ClearScopeTargets (ds_env s) (usi_ProjectID i) (usi_ScopeID i) (usi_ActorID i)) (\<lambda>_. ok ts))) (\<lambda>targets.
     bindM (if isDefault then replaceProjectDefault s (usi_ProjectID i) (usi_ScopeID i) (usi_ActorID i) (usi_Meta i) else ok ()) (\<lambda>_.
     bindM (repo_UpdateScope (ds_env s)
              \<lparr>scp_ScopeID = usi_ScopeID i, scp_TenantID = usi_TenantID i, scp_OrgID = usi_OrgID i, scp_ProjectID = usi_ProjectID i,
               scp_Name = name, scp_Status = status, scp_AuthorizedBy = authorizedBy, scp_ValidFrom = validFrom,
               scp_ValidUntil = validUntil, scp_IsDefault = isDefault, scp_ActorID = usi_ActorID i\<rparr>) (\<lambda>_.
     bindM (insert_targets s (usi_TenantID i) (usi_OrgID i) (usi_ProjectID i) (usi_ScopeID i) (usi_ActorID i) targets) (\<lambda>_.
     bindM (repo_GetScope (usi_ProjectID i) (usi_ScopeID i)) (\<lambda>after.
     recordAuditWithSink s ActionScopeUpdate (Some before) (Some after) (usi_ActorID i) (usi_Meta i))))))))))))))"

definition UpdateScope :: "discovery_service \<Rightarrow> update_scope_input \<Rightarrow> scope discovery_op" where
  "UpdateScope s i =
     bindM (failIf (usi_ProjectID i = 0 \<or> usi_ScopeID i = 0) DErrInvalidScopeID) (\<lambda>_.
     bindM (discovery_runInTx s (update_scope_body s i)) (\<lambda>_.
     GetScope (usi_ProjectID i) (usi_ScopeID i)))"

definition DeactivateScope :: "discovery_service \<Rightarrow> deactivate_scope_input \<Rightarrow> unit discovery_op" where
  "DeactivateScope s i =
     bindM (failIf (dsi_ProjectID i = 0 \<or> dsi_ScopeID i = 0) DErrInvalidScopeID) (\<lambda>_.
     discovery_runInTx s (
       bindM (repo_LockProjectForScopeDefault (dsi_ProjectID i)) (\<lambda>_.
       bindM (repo_GetScope (dsi_ProjectID i) (dsi_ScopeID i)) (\<lambda>before.
       bindM (repo_DeactivateScope (ds_env s) (dsi_ProjectID i) (dsi_ScopeID i) (dsi_ActorID i)) (\<lambda>_.
       bindM (repo_GetScope (dsi_ProjectID i) (dsi_ScopeID i)) (\<lambda>after.
       recordAuditWithSink s ActionScopeDeactivate (Some before) (Some after) (dsi_ActorID i) (dsi_Meta i)))))))"

end
