(* ===== verification/DiscoveryFacts.thy ===== *)
theory DiscoveryFacts
  imports DiscoveryService NetFacts
begin

text \<open>
  Facts about the normalisation and the matching of scan targets: what a normalised domain looks
  like and that it is a fixed point, that no parsed target is dangerous, and what a domain or a
  site-rule entry matches.
\<close>

section \<open>Text\<close>

lemma first_error_Inr: "first_error f xs = Inr () \<longleftrightarrow> (\<forall>x \<in> set xs. f x = Inr ())"
  by (induction xs) (auto split: sum.splits)

lemma first_error_unit: "first_error f xs = Inr u \<longleftrightarrow> (\<forall>x \<in> set xs. f x = Inr ())"
  by (cases u) (simp add: first_error_Inr)

lemma HasSuffix_snoc: "HasSuffix s [c] \<longleftrightarrow> s \<noteq> [] \<and> last s = c"
  by (cases s rule: rev_cases) (auto simp: HasSuffix_def)

lemma TrimSuffix_none: "\<not> HasSuffix s p \<Longrightarrow> TrimSuffix s p = s"
  by (simp add: TrimSuffix_def)

section \<open>Domains\<close>

definition domain_char :: "char \<Rightarrow> bool" where
  "domain_char c \<longleftrightarrow> label_char c \<or> c = CHR ''.''"

lemma domain_char_plain: "domain_char c \<Longrightarrow> plain c"
proof -
  assume d: "domain_char c"
  have n: "(45::nat) \<le> of_char c \<and> of_char c \<le> (122::nat)"
    using d by (auto simp: domain_char_def label_char_def Let_def)
  then have "c \<noteq> x" if "(of_char x :: nat) < 45" for x using that by auto
  then show ?thesis using n by (auto simp: plain_def is_ascii_def ascii_space_def)
qed

lemma domain_char_lower: "domain_char c \<Longrightarrow> lower_char c = c"
  by (auto simp: domain_char_def label_char_def lower_char_def Let_def)

lemma domain_char_ascii: "domain_char c \<Longrightarrow> c \<noteq> CHR 0xE2 \<and> c \<noteq> CHR 0xC4"
  by (auto simp: domain_char_def label_char_def Let_def)

lemma lower_text_domain: "list_all domain_char s \<Longrightarrow> lower_text s = s"
  by (induction s) (auto simp: domain_char_lower dest: domain_char_ascii)

text \<open>The labels and the whole of an accepted domain name.\<close>

definition label_ok :: "gostring \<Rightarrow> bool" where
  "label_ok l \<longleftrightarrow> l \<noteq> [] \<and> length l \<le> 63 \<and> hd l \<noteq> CHR ''-'' \<and> last l \<noteq> CHR ''-'' \<and> list_all label_char l"

definition domain_ok :: "gostring \<Rightarrow> bool" where
  "domain_ok d \<longleftrightarrow> length d \<le> 255 \<and> 2 \<le> length (split_char (CHR ''.'') d) \<and>
     list_all label_ok (split_char (CHR ''.'') d) \<and> \<not> isAllDigits (last (split_char (CHR ''.'') d)) \<and>
     d \<noteq> ''localhost'' \<and> \<not> list_ex (HasSuffix d) specialUseDomainSuffixes"

lemma validateDomainLabel_iff: "validateDomainLabel l = Inr () \<longleftrightarrow> label_ok l"
  by (cases l) (auto simp: validateDomainLabel_def label_ok_def HasPrefix_def HasSuffix_snoc)

lemma labels_domain_char:
  assumes "list_all label_ok (split_char (CHR ''.'') d)"
  shows "list_all domain_char d"
  using assms split_char_cover [of _ d "CHR ''.''"] by (fastforce simp: list_all_iff label_ok_def domain_char_def)

lemma no_final_dot:
  assumes "list_all label_ok (split_char (CHR ''.'') d)"
  shows "\<not> HasSuffix d ''.''"
proof
  assume "HasSuffix d ''.''"
  then have "last (split_char (CHR ''.'') d) = []" by (auto simp: HasSuffix_snoc intro: split_char_last)
  moreover have "label_ok (last (split_char (CHR ''.'') d))"
    using assms by (simp add: list_all_iff)
  ultimately show False by (simp add: label_ok_def)
qed

lemma domain_text_fixed:
  assumes "list_all label_ok (split_char (CHR ''.'') d)"
  shows "TrimSuffix (lower_text (TrimSpace d)) ''.'' = d" and "lower_text (TrimSuffix (TrimSpace d) ''.'') = d"
  using labels_domain_char [OF assms] no_final_dot [OF assms]
  by (auto simp: TrimSuffix_none lower_text_domain TrimSpace_plain list_all_iff domain_char_plain)

lemma no_double_dot:
  assumes "list_all label_ok (split_char (CHR ''.'') d)"
  shows "\<not> Contains d ''..''"
proof
  assume "Contains d ''..''"
  then obtain p q where d: "d = p @ CHR ''.'' # CHR ''.'' # q" by (auto simp: Contains_iff_sublist sublist_def)
  then have "[] \<in> set (split_char (CHR ''.'') d)" by (simp add: split_char_sep)
  then show False using assms by (auto simp: list_all_iff label_ok_def)
qed

lemma normalizeDomain_ok: "normalizeDomain raw = Inr d \<Longrightarrow> domain_ok d \<and> d = TrimSuffix (lower_text (TrimSpace raw)) ''.''"
  unfolding normalizeDomain_def Let_def
  by (auto simp: domain_ok_def first_error_unit validateDomainLabel_iff isDangerousDomain_def Let_def domain_text_fixed
      maxDomainLen_def list_all_iff split: if_split_asm sum.split_asm)

lemma domain_ok_accepted:
  assumes "domain_ok d" and "d = TrimSuffix (lower_text (TrimSpace raw)) ''.''"
  shows "normalizeDomain raw = Inr d"
proof -
  have l: "list_all label_ok (split_char (CHR ''.'') d)" using assms by (simp add: domain_ok_def)
  have "d \<noteq> []" using assms by (auto simp: domain_ok_def)
  moreover have "first_error validateDomainLabel (split_char (CHR ''.'') d) = Inr ()"
    using l by (simp add: first_error_Inr validateDomainLabel_iff list_all_iff)
  ultimately show ?thesis
    using assms(1) no_double_dot [OF l] domain_text_fixed [OF l]
    by (simp add: normalizeDomain_def Let_def isDangerousDomain_def domain_ok_def maxDomainLen_def flip: assms(2))
qed

lemma domain_ok_normal: "domain_ok d \<Longrightarrow> normalizeDomain d = Inr d"
  by (rule domain_ok_accepted) (simp_all add: domain_text_fixed domain_ok_def)

lemma normalizeDomain_idem: "normalizeDomain raw = Inr d \<Longrightarrow> normalizeDomain d = Inr d"
  by (simp add: normalizeDomain_ok domain_ok_normal)

section \<open>Parsed targets\<close>

text \<open>A target that may be scanned: its address is public, or its name is a public domain.\<close>

definition safe_target :: "parsed_target \<Rightarrow> bool" where
  "safe_target p \<longleftrightarrow>
     (if IsValid (pt_ip p) then \<not> IsDangerousAddr (pt_ip p)
      else if pt_kind p = TargetTypeCompany then pt_company p \<noteq> [] \<and> pt_domain p = []
      else domain_ok (pt_domain p))"

lemma IsDangerousAddr_invalid [simp]: "IsDangerousAddr InvalidAddr"
  by (simp add: IsDangerousAddr_def)

lemma not_dangerous_valid: "\<not> IsDangerousAddr a \<Longrightarrow> IsValid a"
  by (cases a) auto

lemma prefix_base_safe: "\<not> IsDangerousPrefix p \<Longrightarrow> \<not> IsDangerousAddr (pf_ip p)"
  by (simp add: IsDangerousPrefix_def)

lemma parseIP_valid: "parseIP s = Inr a \<Longrightarrow> IsValid a"
proof -
  have "IsValid x" if "ParseAddr_from t r = Some x" for t r x
    using that by (induction r) (auto simp: parseIPv4_def parseIPv6_def Let_def split: if_split_asm option.split_asm prod.split_asm)
  moreover have "IsValid (Unmap x)" if "IsValid x" for x using that by (cases x) auto
  moreover assume "parseIP s = Inr a"
  ultimately show ?thesis
    by (auto simp: parseIP_def net_ParseIP_def ParseAddr_def split: option.split_asm if_split_asm)
qed

lemma url_host_ok: "url_host h = Inr (ip, d) \<Longrightarrow> IsValid ip \<or> domain_ok d"
  by (auto simp: url_host_def dest: normalizeDomain_ok parseIP_valid split: sum.split_asm)

lemma parseURL_parts:
  "parseURL raw = Inr p \<Longrightarrow> pt_kind p = TargetTypeURL \<and> (\<exists>h. url_host h = Inr (pt_ip p, pt_domain p))"
  unfolding parseURL_def Let_def
  by (simp add: no_target_def split: option.split_asm if_split_asm sum.split_asm prod.split_asm) auto

lemma parseURL_safe: "parseURL raw = Inr p \<Longrightarrow> \<not> isDangerousHost p \<Longrightarrow> safe_target p"
  by (drule parseURL_parts) (auto simp: safe_target_def isDangerousHost_def isDangerousIP_def dest: url_host_ok)

lemma safe_ip: "\<not> IsDangerousAddr (pt_ip p) \<Longrightarrow> safe_target p"
  by (simp add: safe_target_def not_dangerous_valid)

lemma safe_domain: "domain_ok (pt_domain p) \<Longrightarrow> pt_ip p = InvalidAddr \<Longrightarrow> pt_kind p \<noteq> TargetTypeCompany \<Longrightarrow> safe_target p"
  by (simp add: safe_target_def)

lemma parseTarget_safe: "parseTarget raw = Inr p \<Longrightarrow> safe_target p"
  unfolding parseTarget_def Let_def
  by (auto simp: no_target_def isDangerousIP_def isDangerousCIDR_def safe_ip safe_domain prefix_base_safe dest: normalizeDomain_ok
      intro: parseURL_safe split: if_split_asm sum.split_asm)

lemma parseTypedTarget_safe: "parseTypedTarget ty raw = Inr p \<Longrightarrow> safe_target p"
proof (cases "ty = TargetTypeCompany")
  case True
  moreover assume "parseTypedTarget ty raw = Inr p"
  ultimately show ?thesis
    by (auto simp: parseTypedTarget_def safe_target_def no_target_def normalizeCompanyName_def Let_def split: if_split_asm)
qed (simp add: parseTypedTarget_def parseTarget_safe)

section \<open>What an entry matches\<close>

lemma ToLower_domain: "list_all domain_char s \<Longrightarrow> ToLower s = s"
  by (induction s) (auto simp: ToLower_def domain_char_lower)

lemma domain_ok_chars: "domain_ok d \<Longrightarrow> list_all domain_char d"
  by (simp add: domain_ok_def labels_domain_char)

lemma domain_entry_iff:
  assumes "st_TargetType t = TargetTypeDomain" and "domain_ok (st_Value t)" and "domain_ok (pt_domain c)"
  shows "matchTarget t c \<longleftrightarrow> pt_domain c = st_Value t \<or>
    (st_CoverageMode t = CoverageModeSubdomains \<and> (\<exists>sub. pt_domain c = sub @ ''.'' @ st_Value t))"
proof -
  have low: "ToLower (st_Value t) = st_Value t" "ToLower (pt_domain c) = pt_domain c"
    "lower_text (st_Value t) = st_Value t" "lower_text (pt_domain c) = pt_domain c"
    using assms(2,3) by (simp_all add: ToLower_domain lower_text_domain domain_ok_chars)
  have "pt_domain c \<noteq> []" using assms(3) by (auto simp: domain_ok_def)
  then show ?thesis
    using assms(1,2) low
    by (auto simp: matchTarget_def parseScopeTargetForMatch_def Let_def domain_ok_normal EqualFold_def
        HasSuffix_iff_suffix suffix_def)
qed

text \<open>A URL that a site rule accepts has the rule's host, protocol and port.\<close>

definition rule_covers :: "url_rule \<Rightarrow> gostring \<Rightarrow> parsed_target \<Rightarrow> bool" where
  "rule_covers r host c \<longleftrightarrow>
     (if EqualFold host (pt_domain c) then ur_IncludeRoot r
      else ur_IncludeSubdomains r \<and> (\<exists>sub. lower_text (pt_domain c) = sub @ ''.'' @ host)) \<and>
     (ur_Protocol r = ''both'' \<or> pt_scheme c = ur_Protocol r) \<and>
     (if ur_Ports r = [] then (pt_scheme c = ''https'' \<and> effective_port c = 443) \<or> (pt_scheme c = ''http'' \<and> effective_port c = 80)
      else \<exists>p \<in> set (ur_Ports r). int (unat p) = effective_port c)"

lemma site_rule_iff:
  assumes "st_TargetType t = TargetTypeURL" and "st_URLRule t = Some r0"
    and "normalizeURLAuthorization (st_Value t) (Some r0) = Inr (v, Some r)" and "url_Parse (st_Value t) = Some u"
  shows "matchTarget t c \<longleftrightarrow> pt_kind c = TargetTypeURL \<and> rule_covers r (anchor_host u) c"
  using assms
  by (auto simp: matchTarget_def matchURLAuthorization_def rule_covers_def Let_def list_ex_iff HasSuffix_iff_suffix suffix_def)

text \<open>What normalisation leaves of a rule: one to twenty distinct non-zero ports in order, or none.\<close>

lemma sorted_remdups_adj_strict: "sorted xs \<Longrightarrow> sorted_wrt (<) (remdups_adj xs)" for xs :: "'a::linorder list"
  by (induction xs rule: remdups_adj.induct) (auto simp: less_le)

lemma dedupe_ports_ok:
  "dedupe_ports ps = Inr qs \<Longrightarrow> sorted_wrt (<) qs \<and> 0 \<notin> set qs \<and> length qs \<le> 20 \<and> set qs = set ps"
  by (auto simp: dedupe_ports_def sorted_remdups_adj_strict remdups_adj_length intro: order_trans [OF remdups_adj_length] split: if_split_asm)

end
