(* ===== verification/NetProperties.thy ===== *)
theory NetProperties
  imports SafeHttp NetFacts DiscoveryFacts
begin

text \<open>
  Properties of the address filter and of its two clients: exactly which IPv4 addresses are refused,
  that an accepted prefix holds no refused address, what the dialler lets through, and the addresses
  that escape the filter (zones, and IPv6 prefixes around the mapped IPv4 range).
\<close>

section \<open>Which addresses are refused\<close>

text \<open>The refused IPv4 addresses as ranges, first and last address, in dotted form.\<close>

definition blocked_ranges :: "(nat \<times> nat) list" where
  "blocked_ranges =
     [(ip4 0 0 0 0, ip4 0 255 255 255), (ip4 10 0 0 0, ip4 10 255 255 255), (ip4 100 64 0 0, ip4 100 127 255 255),
      (ip4 127 0 0 0, ip4 127 255 255 255), (ip4 169 254 0 0, ip4 169 254 255 255), (ip4 172 16 0 0, ip4 172 31 255 255),
      (ip4 192 0 0 0, ip4 192 0 0 255), (ip4 192 0 2 0, ip4 192 0 2 255), (ip4 192 168 0 0, ip4 192 168 255 255),
      (ip4 198 18 0 0, ip4 198 19 255 255), (ip4 198 51 100 0, ip4 198 51 100 255), (ip4 203 0 113 0, ip4 203 0 113 255),
      (ip4 224 0 0 0, ip4 255 255 255 255)]"

definition between :: "nat \<Rightarrow> nat \<Rightarrow> nat \<Rightarrow> bool" where
  "between lo hi n \<longleftrightarrow> lo \<le> n \<and> n \<le> hi"

lemma drop_bit_between:
  "drop_bit k a = (w :: 'a::len word) \<longleftrightarrow> between (unat w * 2 ^ k) ((unat w + 1) * 2 ^ k - 1) (unat a)"
proof -
  have "0 < (unat w + 1) * 2 ^ k" by simp
  then have "unat a < (unat w + 1) * 2 ^ k \<longleftrightarrow> unat a \<le> (unat w + 1) * 2 ^ k - 1" by linarith
  then show ?thesis by (simp only: drop_bit_eq_iff between_def)
qed

lemma multicast_and_reserved:
  "drop_bit 28 a = 0xE \<or> drop_bit 28 a = 15 \<or> a = 0xFFFFFFFF \<longleftrightarrow> between 3758096384 4294967295 (unat a)" for a :: "32 word"
proof -
  have top: "unat a \<le> 4294967295" using unsigned_less [of a, where 'a = nat] by simp
  have "a = 0xFFFFFFFF \<Longrightarrow> drop_bit 28 a = 15" by simp
  then show ?thesis using top by (auto simp: drop_bit_between between_def)
qed

lemma dangerous_v4_ranges:
  "IsDangerousAddr (V4 a) \<longleftrightarrow> (\<exists>(lo, hi) \<in> set blocked_ranges. lo \<le> unat a \<and> unat a \<le> hi)"
proof -
  have "drop_bit 28 a = 0xE \<or> drop_bit 28 a = 15 \<or> a = 0xFFFFFFFF \<longleftrightarrow> between (ip4 224 0 0 0) (ip4 255 255 255 255) (unat a)"
    using multicast_and_reserved [of a] by (simp add: ip4_def)
  then have "IsDangerousAddr (V4 a) \<longleftrightarrow> list_ex (\<lambda>(lo, hi). between lo hi (unat a)) blocked_ranges"
    unfolding dangerous_v4 reserved_v4_cases blocked_ranges_def by (simp add: drop_bit_between ip4_def) blast
  then show ?thesis by (simp add: list_ex_iff between_def)
qed

text \<open>C23: \<open>IsDangerousAddr\<close> refuses an IPv4 address exactly when it lies in one of the thirteen ranges: this network, private,
  shared, loopback, link-local, the special-purpose and documentation blocks, benchmarking, multicast and reserved.\<close>

theorem dangerous_ipv4_exact:
  "IsDangerousAddr (V4 a) \<longleftrightarrow> (\<exists>(lo, hi) \<in> set blocked_ranges. lo \<le> unat a \<and> unat a \<le> hi)"
  by (rule dangerous_v4_ranges)

lemma reserved_v4_overlap:
  assumes "pfx_wf p" "pfx_Contains p x" "r \<in> set ReservedV4 \<union> set ReservedV6" "pfx_Contains r x"
  shows "IsDangerousPrefix p"
proof -
  have "pfx_wf r" using reserved_wf assms(3) by auto
  then have "pfx_Overlaps p r" using shared_address_overlaps assms by blast
  then show ?thesis using assms(3) by (auto simp: IsDangerousPrefix_def list_ex_iff)
qed

text \<open>C11: a prefix that \<open>IsDangerousPrefix\<close> accepts contains no address that \<open>IsDangerousAddr\<close> refuses, IPv4-mapped IPv6
  addresses apart: authorising a network never authorises a reserved address inside it.\<close>

theorem accepted_prefix_is_safe:
  assumes "pfx_wf p" and "\<not> IsDangerousPrefix p" and "pfx_Contains p x" and "\<not> Is4In6 x"
  shows "\<not> IsDangerousAddr x"
proof
  assume danger: "IsDangerousAddr x"
  have no_reserved: "\<not> pfx_Contains r x" if "r \<in> set ReservedV4 \<union> set ReservedV6" for r
    using reserved_v4_overlap [OF assms(1,3) that] assms(2) by blast
  show False
  proof (cases x)
    case InvalidAddr
    then show False using assms(3) by (cases "pf_ip p") (auto simp: pfx_Contains_def)
  next
    case (V4 a)
    then have "drop_bit 28 a = 0xE" using danger no_reserved by (auto simp: dangerous_v4 list_ex_iff)
    moreover obtain b where "pf_ip p = V4 b" using assms(3) V4 by (cases "pf_ip p") (auto simp: pfx_Contains_def)
    ultimately show False using multicast_prefix [OF assms(1)] assms(2,3) V4 by blast
  next
    case (V6 a z)
    then have "z = []" using assms(3) by (auto simp: pfx_Contains_def)
    then show False using danger dangerous_v6 assms(4) V6 no_reserved by (auto simp: list_ex_iff)
  qed
qed

theorem accepted_prefix_is_safe_witness:
  "\<not> IsDangerousPrefix (P4 0x08080800 24) \<and> pfx_Contains (P4 0x08080800 24) (V4 0x08080808) \<and> \<not> IsDangerousAddr (V4 0x08080808)"
proof -
  have "\<not> IsDangerousPrefix (P4 0x08080800 24)" "pfx_Contains (P4 0x08080800 24) (V4 0x08080808)" by code_simp+
  moreover have "pfx_wf (P4 0x08080800 24)" by (simp add: pfx_wf_def)
  ultimately show ?thesis using accepted_prefix_is_safe [of "P4 0x08080800 24" "V4 0x08080808"] by simp
qed

section \<open>The outbound client\<close>



text \<open>\<open>ReadBounded\<close> returns the whole body when it fits the limit, and otherwise exactly the first \<open>limit\<close> bytes with
  \<open>ErrResponseTooLarge\<close>; it never returns more than the limit.\<close>

theorem read_is_bounded:
  assumes "0 < limit" and "limit < 2 ^ 63 - 1"
  shows "ReadBounded r limit =
    (if int (length (rd_data r)) \<le> limit then (if rd_fails r then ([], Some ErrRead) else (rd_data r, None))
     else (take (nat limit) (rd_data r), Some ErrResponseTooLarge)) \<and> int (length (fst (ReadBounded r limit))) \<le> limit"
  using ReadBounded_exact [OF assms] assms(1) by auto

theorem read_is_bounded_witness:
  "ReadBounded \<lparr>rd_data = ''abcdef'', rd_fails = False\<rparr> 4 = (''abcd'', Some ErrResponseTooLarge)"
  using read_is_bounded [of 4 "\<lparr>rd_data = ''abcdef'', rd_fails = False\<rparr>"] by simp

section \<open>Addresses that escape\<close>

lemma literal_split:
  "SplitHostPort ''[64:ff9b::7f00:1]:80'' = Some (''64:ff9b::7f00:1'', ''80'')"
  "SplitHostPort ''[64:ff9b::7f00:1%x]:80'' = Some (''64:ff9b::7f00:1%x'', ''80'')"
  by code_simp+

lemma literal_parsed:
  "ParseAddr ''64:ff9b::7f00:1'' = Some (V6 0x0064FF9B00000000000000007F000001 [])"
  "ParseAddr ''64:ff9b::7f00:1%x'' = Some (V6 0x0064FF9B00000000000000007F000001 ''x'')"
  "ParseAddr ''::'' = Some (V6 0 [])" "ParseAddr ''::%x'' = Some (V6 0 ''x'')"
  by code_simp+

lemma url_parsed:
  "map_option (\<lambda>u. (u_Scheme u, u_Host u, u_User u, Hostname u)) (url_Parse (TrimSpace ''http://[::]/'')) =
     Some (''http'', ''[::]'', False, ''::'')"
  "map_option (\<lambda>u. (u_Scheme u, u_Host u, u_User u, Hostname u)) (url_Parse (TrimSpace ''http://[::%25x]/'')) =
     Some (''http'', ''[::%x]'', False, ''::%x'')"
  by code_simp+

lemma zoned_samples:
  "IsDangerousAddr (V6 0x0064FF9B00000000000000007F000001 [])" "\<not> IsDangerousAddr (V6 0x0064FF9B00000000000000007F000001 ''x'')"
  "IsDangerousAddr (V6 0 [])" "\<not> IsDangerousAddr (V6 0 ''x'')"
  by (simp_all add: dangerous_v6 reserved_v6_cases dangerous_zoned)

lemma ValidateURL_literal:
  assumes "map_option (\<lambda>u. (u_Scheme u, u_Host u, u_User u, Hostname u)) (url_Parse (TrimSpace raw)) = Some (''http'', h, False, n)"
    and "h \<noteq> []" and "ParseAddr n = Some a"
  shows "ValidateURL raw = (if IsDangerousAddr a then Inl ErrBlockedAddress else Inr ())"
  using assms by (auto simp: ValidateURL_def)

lemma target_zoned: "normalizeTargetValue TargetTypeIP ''::%x'' = Inr ''::%x''"
proof -
  have "TrimSpace ''::%x'' = ''::%x''" "addr_String (V6 0 ''x'') = ''::%x''" by code_simp+
  then show ?thesis
    by (simp add: normalizeTargetValue_def parseIP_def literal_parsed isDangerousIP_def zoned_samples maxTargetValue_def del: addr_String.simps)
qed

text \<open>C39: an address with a zone is tested only for loopback, unique-local, link-local and multicast: the unspecified
  address, the NAT64, 6to4 and Teredo ranges that the list was extended for are let through once a zone is added, by the
  dialler, by the webhook check and by the scan target check.\<close>

theorem zoned_address_escapes:
  "(z \<noteq> [] \<and> \<not> Is4In6 (V6 a z) \<longrightarrow>
      (IsDangerousAddr (V6 a z) \<longleftrightarrow> a = 1 \<or> drop_bit 121 a = 0x7E \<or> drop_bit 118 a = 0x3FA \<or> drop_bit 120 a = 0xFF)) \<and>
   checkDialAddress ''[64:ff9b::7f00:1]:80'' = Inl ErrBlockedAddress \<and> checkDialAddress ''[64:ff9b::7f00:1%x]:80'' = Inr () \<and>
   ValidateURL ''http://[::]/'' = Inl ErrBlockedAddress \<and> ValidateURL ''http://[::%25x]/'' = Inr () \<and>
   normalizeTargetValue TargetTypeIP ''::%x'' = Inr ''::%x''"
proof (intro conjI target_zoned)
  show "z \<noteq> [] \<and> \<not> Is4In6 (V6 a z) \<longrightarrow>
      (IsDangerousAddr (V6 a z) \<longleftrightarrow> a = 1 \<or> drop_bit 121 a = 0x7E \<or> drop_bit 118 a = 0x3FA \<or> drop_bit 120 a = 0xFF)"
    using dangerous_zoned by blast
qed (simp_all add: checkDialAddress_def literal_split literal_parsed zoned_samples ValidateURL_literal [OF url_parsed(1)]
    ValidateURL_literal [OF url_parsed(2)])

theorem zoned_address_escapes_witness:
  "\<not> IsDangerousAddr (V6 0x0064FF9B00000000000000007F000001 ''x'') \<and> IsDangerousAddr (V6 0x0064FF9B00000000000000007F000001 [])"
proof -
  have "\<not> Is4In6 (V6 0x0064FF9B00000000000000007F000001 ''x'')" by simp
  then have "\<not> IsDangerousAddr (V6 0x0064FF9B00000000000000007F000001 ''x'')"
    using zoned_address_escapes [of "''x''" "0x0064FF9B00000000000000007F000001"] by simp
  then show ?thesis using zoned_samples by simp
qed

lemma wide_prefix_parsed: "ParsePrefix ''::fffe:0:0/95'' = Some \<lparr>pf_ip = V6 0xFFFE00000000 [], pf_bitsPlusOne = 96\<rparr>" by code_simp
lemma wide_prefix_printed: "pfx_String \<lparr>pf_ip = V6 0xFFFE00000000 [], pf_bitsPlusOne = 96\<rparr> = ''::fffe:0:0/95''" by code_simp

lemma wide_prefix_accepted: "\<not> IsDangerousPrefix \<lparr>pf_ip = V6 0xFFFE00000000 [], pf_bitsPlusOne = 96\<rparr>"
proof -
  have "\<not> IsDangerousAddr (V6 0xFFFE00000000 [])" by (simp add: dangerous_v6 reserved_v6_cases)
  then show ?thesis
    by (simp add: IsDangerousPrefix_def ReservedV4_eq ReservedV6_eq pfx_Overlaps_def pfx_IsValid_def same_bits_iff)
qed

lemma target_mapped: "normalizeTargetValue TargetTypeCIDR ''::fffe:0:0/95'' = Inr ''::fffe:0:0/95''"
proof -
  have "TrimSpace ''::fffe:0:0/95'' = ''::fffe:0:0/95''" by code_simp
  then show ?thesis
    by (simp add: normalizeTargetValue_def parseCIDR_def wide_prefix_parsed wide_prefix_printed wide_prefix_accepted
        isDangerousCIDR_def pfx_IsValid_def pfx_Bits_def maxTargetValue_def)
qed

text \<open>The scan target check accepts the IPv6 prefix \<open>::fffe:0:0/95\<close>, which contains the IPv4-mapped loopback address.\<close>

theorem mapped_prefix_escapes:
  "normalizeTargetValue TargetTypeCIDR ''::fffe:0:0/95'' = Inr ''::fffe:0:0/95'' \<and>
   (\<exists>p x. ParsePrefix ''::fffe:0:0/95'' = Some p \<and> ParseAddr ''::ffff:127.0.0.1'' = Some x \<and> pfx_Contains p x \<and> IsDangerousAddr x)"
proof -
  have "ParseAddr ''::ffff:127.0.0.1'' = Some (V6 0xFFFF7F000001 [])" by code_simp
  moreover have "pfx_Contains \<lparr>pf_ip = V6 0xFFFE00000000 [], pf_bitsPlusOne = 96\<rparr> (V6 0xFFFF7F000001 [])" by (simp add: contains_P6)
  moreover have "IsDangerousAddr (V6 0xFFFF7F000001 [])" by (simp add: IsDangerousAddr_def)
  ultimately show ?thesis using target_mapped wide_prefix_parsed by blast
qed

text \<open>the names that the webhook check treats as local are not those that discovery refuses, as its comment says: the
  reserved suffixes \<open>.alt\<close>, \<open>.invalid\<close>, \<open>.test\<close> and \<open>.example\<close> pass.\<close>

theorem local_names_differ:
  "list_all (\<lambda>h. isDangerousDomain h \<and> \<not> isLocalName h) [''a.alt'', ''a.invalid'', ''a.test'', ''a.example''] \<and>
   list_all (\<lambda>s. List.member specialUseDomainSuffixes s) localSuffixes"
  by code_simp

section \<open>Stored addresses\<close>



end
