(* ===== verification/DiscoveryInv.thy ===== *)
theory DiscoveryInv
  imports DiscoveryFacts
begin

text \<open>
  The invariant of the scope tables and its preservation by every scope operation. The
  scope and the target table are instances of \<open>keyed_rows\<close>.
  \<open>discovery_inv k\<close> says, for a server with collation key \<open>k\<close>: ids are distinct, no two scopes of a
  project share a name or the default marker, a default scope is active, an authorisation window is
  at most \<open>MaxScopeWindow\<close> long, every target belongs to a scope of its project, and its value is in
  normal form and names nothing dangerous. \<open>scope_reachable\<close> are the states that calls lead to.
\<close>

section \<open>The invariant\<close>

definition scope_ok :: "scope \<Rightarrow> bool" where
  "scope_ok r \<longleftrightarrow> scope_live r \<and> sc_Status r \<in> {StatusActive, StatusInactive} \<and>
     (sc_IsDefault r \<longrightarrow> sc_Status r = StatusActive) \<and>
     sc_ValidFrom r \<le> sc_ValidUntil r \<and> sc_ValidUntil r - sc_ValidFrom r \<le> MaxScopeWindow \<and>
     sc_Targets r = []"

text \<open>A stored target: its value is what normalisation returns and names nothing dangerous.\<close>

definition value_ok :: "gostring \<Rightarrow> gostring \<Rightarrow> bool" where
  "value_ok ty v \<longleftrightarrow>
     (if ty = TargetTypeDomain then domain_ok v
      else if ty = TargetTypeIP then \<exists>a. \<not> IsDangerousAddr a \<and> v = addr_String a
      else if ty = TargetTypeCIDR then \<exists>p. \<not> IsDangerousPrefix p \<and> pfx_Bits p \<noteq> 0 \<and> v = pfx_String p
      else ty = TargetTypeURL \<or> ty = TargetTypeCompany)"

definition target_ok :: "scope_target \<Rightarrow> bool" where
  "target_ok t \<longleftrightarrow> value_ok (st_TargetType t) (st_Value t) \<and> st_MatchMode t \<in> {MatchModeInclude, MatchModeExclude} \<and>
     (st_CoverageMode t = CoverageModeExact \<or> st_TargetType t = TargetTypeDomain \<and> st_CoverageMode t = CoverageModeSubdomains) \<and>
     (st_URLRule t \<noteq> None \<longrightarrow> st_TargetType t = TargetTypeURL)"

definition owned :: "discovery_db \<Rightarrow> scope_target \<Rightarrow> bool" where
  "owned d t \<longleftrightarrow> (\<exists>c \<in> set (t_rows (dd_scopes d)). sc_ProjectID c = st_ProjectID t \<and> sc_ID c = st_ScopeID t)"

definition scopes_same :: "(gostring \<Rightarrow> gostring) \<Rightarrow> scope \<Rightarrow> scope \<Rightarrow> bool" where
  "scopes_same k a b \<longleftrightarrow> sc_ProjectID a = sc_ProjectID b \<and>
     (k (sc_Name a) = k (sc_Name b) \<and> sc_DeletedAt a = sc_DeletedAt b \<or>
      sc_IsDefault a \<and> scope_live a \<and> sc_IsDefault b \<and> scope_live b)"

definition targets_same :: "(gostring \<Rightarrow> gostring) \<Rightarrow> scope_target \<Rightarrow> scope_target \<Rightarrow> bool" where
  "targets_same k a b \<longleftrightarrow> st_ScopeID a = st_ScopeID b \<and> k (st_TargetType a) = k (st_TargetType b) \<and>
     k (st_MatchMode a) = k (st_MatchMode b) \<and> k (st_Value a) = k (st_Value b) \<and> st_DeletedAt a = st_DeletedAt b"

definition discovery_inv :: "(gostring \<Rightarrow> gostring) \<Rightarrow> discovery_db \<Rightarrow> bool" where
  "discovery_inv k d \<longleftrightarrow>
     table_ok sc_ID (scopes_same k) scope_ok (dd_scopes d) \<and>
     table_ok st_ID (targets_same k) target_ok (dd_targets d) \<and>
     (\<forall>t \<in> set (t_rows (dd_targets d)). owned d t)"

interpretation scope_rows: keyed_rows sc_ID "\<lambda>n r. r\<lparr>sc_ID := n\<rparr>" scope_stamp "scopes_same k"
  by unfold_locales (auto simp: scopes_same_def scope_live_def scope_stamp_def)

interpretation target_rows: keyed_rows st_ID "\<lambda>n r. r\<lparr>st_ID := n\<rparr>" "\<lambda>now r. r\<lparr>st_UpdatedAt := now\<rparr>" "targets_same k"
  by unfold_locales (auto simp: targets_same_def)

text \<open>
  What the server promises: its collation key, and that stored times are rounded so that a window of
  at most \<open>MaxScopeWindow\<close>, a whole number of milliseconds, does not grow.
\<close>

definition server_ok :: "(gostring \<Rightarrow> gostring) \<Rightarrow> env \<Rightarrow> bool" where
  "server_ok k e \<longleftrightarrow> env_key e = k \<and> (\<forall>t u. u - t \<le> MaxScopeWindow \<longrightarrow> env_col e u - env_col e t \<le> MaxScopeWindow)"

text \<open>Rounding to milliseconds is such a server.\<close>

lemma rounding_keeps_window:
  "u - t \<le> MaxScopeWindow \<Longrightarrow>
     (u + 500000) div 1000000 * 1000000 - (t + 500000) div 1000000 * 1000000 \<le> MaxScopeWindow" for t u :: int
proof -
  assume "u - t \<le> MaxScopeWindow"
  then have "u + 500000 \<le> (t + 500000) + 31536000000 * 1000000" by (simp add: MaxScopeWindow_def hour_def second_def)
  then have "(u + 500000) div 1000000 \<le> ((t + 500000) + 31536000000 * 1000000) div 1000000" by (rule zdiv_mono1) simp
  also have "\<dots> = 31536000000 + (t + 500000) div 1000000" by (rule div_mult_self1) simp
  finally show ?thesis by (simp add: MaxScopeWindow_def hour_def second_def)
qed

lemma same_key_eq:
  "env_key e = k \<Longrightarrow> scope_same_key e = scopes_same k" "env_key e = k \<Longrightarrow> target_same_key e = targets_same k"
  by (auto simp: scope_same_key_def scopes_same_def target_same_key_def targets_same_def sql_eq_def fun_eq_iff)

lemma discovery_inv_empty: "discovery_inv k (empty_discovery_db ps)"
  unfolding discovery_inv_def empty_discovery_db_def
  by (simp add: scope_rows.ok_empty target_rows.ok_empty) (simp add: empty_table_def)

lemma discovery_inv_rollback: "discovery_inv k d0 \<Longrightarrow> discovery_inv k (discovery_rollback d0 d1)"
  unfolding discovery_inv_def discovery_rollback_def owned_def
  by (simp add: scope_rows.ok_rollback target_rows.ok_rollback)

section \<open>Repository methods\<close>

lemma on_scopes_state: "snd (on_scopes m d) = d\<lparr>dd_scopes := snd (m (dd_scopes d))\<rparr>"
  by (auto simp: on_scopes_def mapErr_def zoom_def split: prod.splits sum.splits)

lemma on_targets_state: "snd (on_targets m d) = d\<lparr>dd_targets := snd (m (dd_targets d))\<rparr>"
  by (auto simp: on_targets_def mapErr_def zoom_def split: prod.splits sum.splits)

text \<open>Rows keep their id and project, so targets keep their scope.\<close>

lemma owned_update:
  assumes "sql_update_unique same chk p f g (dd_scopes d) = (res, t')"
    and "\<And>r. sc_ID (f r) = sc_ID r \<and> sc_ProjectID (f r) = sc_ProjectID r"
    and "\<And>r. sc_ID (g r) = sc_ID r \<and> sc_ProjectID (g r) = sc_ProjectID r" and "owned d t"
  shows "owned (d\<lparr>dd_scopes := t'\<rparr>) t"
  using sql_update_unique_cases [OF assms(1)]
proof (elim disjE conjE)
  assume "t' = (dd_scopes d)\<lparr>t_rows := map (upd_row p f g) (t_rows (dd_scopes d))\<rparr>"
  moreover have "sc_ID (upd_row p f g r) = sc_ID r \<and> sc_ProjectID (upd_row p f g r) = sc_ProjectID r" for r
    using assms(2,3) by (simp add: upd_row_def)
  ultimately show ?thesis using assms(4) by (auto simp: owned_def)
qed (use assms(4) in \<open>simp add: owned_def\<close>)

lemma inv_scope_update:
  assumes "discovery_inv k d" and "sql_update_unique (scopes_same k) chk p f g (dd_scopes d) = (res, t')"
    and "\<And>r. sc_ID (f r) = sc_ID r \<and> sc_ProjectID (f r) = sc_ProjectID r"
    and "\<And>r. sc_ID (g r) = sc_ID r \<and> sc_ProjectID (g r) = sc_ProjectID r"
    and "\<And>r. scope_ok r \<Longrightarrow> p r \<Longrightarrow> chk (f r) = None \<Longrightarrow> scope_ok (g (f r))"
  shows "discovery_inv k (d\<lparr>dd_scopes := t'\<rparr>)"
  using assms(1) owned_update [OF assms(2,3,4)] scope_rows.ok_update [OF _ assms(2), of scope_ok] assms(3-5)
  by (simp add: discovery_inv_def)

lemma scope_check_window: "scope_check e r = None \<Longrightarrow> sc_ValidFrom r \<le> sc_ValidUntil r"
  by (simp add: scope_check_def row_check_def split: if_split_asm)

text \<open>The parameters that the service writes.\<close>

definition params_ok :: "scope_params \<Rightarrow> bool" where
  "params_ok p \<longleftrightarrow> scp_Status p \<in> {StatusActive, StatusInactive} \<and> (scp_IsDefault p \<longrightarrow> scp_Status p = StatusActive) \<and>
     scp_ValidUntil p - scp_ValidFrom p \<le> MaxScopeWindow"

lemma keeps_CreateScope:
  assumes "server_ok k e" and "params_ok p"
  shows "keeps (discovery_inv k) (repo_CreateScope e p)"
proof (rule keepsI)
  fix d assume inv: "discovery_inv k d"
  let ?m = "sql_insert (scope_check e) (scopes_same k) (\<lambda>r. List.member (dd_projects d) (sc_ProjectID r)) (\<lambda>n r. r\<lparr>sc_ID := n\<rparr>) (scope_row e p)"
  obtain res t' where run: "?m (dd_scopes d) = (res, t')" by (cases "?m (dd_scopes d)")
  have win: "env_col e (scp_ValidUntil p) - env_col e (scp_ValidFrom p) \<le> MaxScopeWindow"
    using assms by (simp add: server_ok_def params_ok_def)
  have "table_ok sc_ID (scopes_same k) scope_ok t'"
    using inv assms(2) win scope_check_window [of e "scope_row e p"]
    by (intro scope_rows.ok_insert [OF _ run]) (auto simp: discovery_inv_def scope_ok_def scope_row_def scope_live_def params_ok_def)
  moreover have "set (t_rows (dd_scopes d)) \<subseteq> set (t_rows t')"
    using run by (cases res) (auto simp: sql_insert_Inr dest: sql_insert_Inl)
  moreover have "snd (repo_CreateScope e p d) = d\<lparr>dd_scopes := t'\<rparr>"
    using run assms(1) by (simp add: repo_CreateScope_def on_scopes_state same_key_eq server_ok_def)
  ultimately show "discovery_inv k (snd (repo_CreateScope e p d))"
    using inv by (simp add: discovery_inv_def owned_def) blast
qed

lemma keeps_scope_statement:
  assumes "env_key e = k"
    and "\<And>r. sc_ID (f r) = sc_ID r \<and> sc_ProjectID (f r) = sc_ProjectID r"
    and "\<And>r. sc_ID (g r) = sc_ID r \<and> sc_ProjectID (g r) = sc_ProjectID r"
    and "\<And>r. scope_ok r \<Longrightarrow> p r \<Longrightarrow> scope_check e (f r) = None \<Longrightarrow> scope_ok (g (f r))"
  shows "keeps (discovery_inv k) (on_scopes (sql_update_unique (scope_same_key e) (scope_check e) p f g))"
proof (rule keepsI)
  fix d assume inv: "discovery_inv k d"
  obtain res t' where run: "sql_update_unique (scopes_same k) (scope_check e) p f g (dd_scopes d) = (res, t')"
    by (cases "sql_update_unique (scopes_same k) (scope_check e) p f g (dd_scopes d)")
  have "snd (on_scopes (sql_update_unique (scope_same_key e) (scope_check e) p f g) d) = d\<lparr>dd_scopes := t'\<rparr>"
    by (simp add: on_scopes_state same_key_eq(1) [OF assms(1)] run)
  then show "discovery_inv k (snd (on_scopes (sql_update_unique (scope_same_key e) (scope_check e) p f g) d))"
    using inv_scope_update [OF inv run assms(2-4)] by (simp only:)
qed

lemma keeps_UpdateScope_repo:
  assumes "server_ok k e" and "params_ok p"
  shows "keeps (discovery_inv k) (repo_UpdateScope e p)"
  unfolding repo_UpdateScope_def
  using assms scope_check_window [of e "scope_written e p _"]
  by (intro keeps_scope_statement) (auto simp: scope_written_def scope_stamp_def server_ok_def params_ok_def scope_ok_def scope_live_def)

lemma keeps_DeactivateScope_repo: "env_key e = k \<Longrightarrow> keeps (discovery_inv k) (repo_DeactivateScope e q i a)"
  unfolding repo_DeactivateScope_def
  by (intro keeps_scope_statement) (auto simp: scope_deactivated_def scope_ok_def scope_live_def)

lemma keeps_ClearDefaultScopes: "env_key e = k \<Longrightarrow> keeps (discovery_inv k) (repo_ClearDefaultScopes e q i a)"
  unfolding repo_ClearDefaultScopes_def
  by (intro keeps_scope_statement) (auto simp: scope_displaced_def scope_ok_def scope_live_def)

lemma keeps_InsertScopeTarget:
  assumes "env_key e = k" and "target_ok t"
  shows "keeps (discovery_inv k) (repo_InsertScopeTarget e tn og q i a t)"
proof (rule keepsI)
  fix d assume inv: "discovery_inv k d"
  let ?fk = "\<lambda>r. list_ex (\<lambda>s. sc_ProjectID s = st_ProjectID r \<and> sc_ID s = st_ScopeID r) (t_rows (dd_scopes d))"
  let ?row = "target_row e tn og q i a t"
  let ?m = "sql_insert (scope_target_check e) (targets_same k) ?fk (\<lambda>n r. r\<lparr>st_ID := n\<rparr>) ?row"
  obtain res t' where run: "?m (dd_targets d) = (res, t')" by (cases "?m (dd_targets d)")
  let ?P = "\<lambda>r. target_ok r \<and> owned d r"
  have "table_ok st_ID (targets_same k) ?P t'"
    using inv assms(2)
    by (intro target_rows.ok_insert [OF _ run])
       (auto simp: discovery_inv_def table_ok_def target_ok_def target_row_def owned_def list_ex_iff)
  moreover have "snd (repo_InsertScopeTarget e tn og q i a t d) = d\<lparr>dd_targets := t'\<rparr>"
    using run assms(1) by (simp add: repo_InsertScopeTarget_def on_targets_state same_key_eq)
  ultimately show "discovery_inv k (snd (repo_InsertScopeTarget e tn og q i a t d))"
    using inv by (auto simp: discovery_inv_def table_ok_def owned_def)
qed

lemma keeps_ClearScopeTargets:
  assumes "env_key e = k"
  shows "keeps (discovery_inv k) (repo_ClearScopeTargets e q i a)"
proof (rule keepsI)
  fix d assume inv: "discovery_inv k d"
  let ?m = "sql_update_unique (targets_same k) (scope_target_check e)
       (\<lambda>r. st_ScopeID r = i \<and> st_ProjectID r = q \<and> target_live r) (target_cleared e a) (\<lambda>r. r\<lparr>st_UpdatedAt := env_db_now e\<rparr>)"
  obtain res t' where run: "?m (dd_targets d) = (res, t')" by (cases "?m (dd_targets d)")
  let ?P = "\<lambda>r. target_ok r \<and> owned d r"
  have "table_ok st_ID (targets_same k) ?P t'"
    using inv
    by (intro target_rows.ok_update [OF _ run])
       (auto simp: discovery_inv_def table_ok_def target_ok_def target_cleared_def owned_def)
  moreover have "snd (repo_ClearScopeTargets e q i a d) = d\<lparr>dd_targets := t'\<rparr>"
    using run assms(1) by (simp add: repo_ClearScopeTargets_def on_targets_state same_key_eq)
  ultimately show "discovery_inv k (snd (repo_ClearScopeTargets e q i a d))"
    using inv by (auto simp: discovery_inv_def table_ok_def owned_def)
qed

section \<open>Validated input\<close>

lemma normalizeTargetValue_ok: "normalizeTargetValue ty raw = Inr v \<Longrightarrow> ty \<noteq> TargetTypeURL \<Longrightarrow> value_ok ty v"
  unfolding normalizeTargetValue_def Let_def
  by (auto simp: value_ok_def isDangerousIP_def isDangerousCIDR_def parseCIDR_def Let_def dest: normalizeDomain_ok
      split: if_split_asm sum.split_asm option.split_asm)

lemma normalizeScopeTarget_ok: "normalizeScopeTarget i a = Inr t \<Longrightarrow> target_ok t"
  unfolding normalizeScopeTarget_def Let_def
  by (auto simp: target_ok_def isValidTargetType_def isValidMatchMode_def validMatchModes_def dest: normalizeTargetValue_ok
      split: if_split_asm sum.split_asm prod.split_asm) (auto simp: value_ok_def)

lemma collect_targets_ok: "collect_targets a seen is = Inr ts \<Longrightarrow> \<forall>t \<in> set ts. target_ok t"
  by (induction "is" arbitrary: seen ts) (auto simp: normalizeScopeTarget_ok split: sum.split_asm if_split_asm)

lemma validateScopeTargets_ok: "validateScopeTargets is a = Inr ts \<Longrightarrow> \<forall>t \<in> set ts. target_ok t"
  by (auto simp: validateScopeTargets_def dest: collect_targets_ok split: if_split_asm)

lemma validateStatus_ok: "validateStatus raw = Inr st \<Longrightarrow> st \<in> {StatusActive, StatusInactive}"
  by (auto simp: validateStatus_def validStatuses_def Let_def split: if_split_asm)

lemma patched_status_ok: "patched_status v old = Inr st \<Longrightarrow> old \<in> {StatusActive, StatusInactive} \<Longrightarrow> st \<in> {StatusActive, StatusInactive}"
  by (auto simp: patched_status_def dest: validateStatus_ok split: option.split_asm)

lemma patched_default_ok: "patched_default st v old = Inr b \<Longrightarrow> b \<longrightarrow> st = StatusActive"
  by (auto simp: patched_default_def Let_def split: if_split_asm)

lemma validateScopeWindow_ok: "validateScopeWindow f u = Inr x \<Longrightarrow> f \<le> u \<and> u - f \<le> MaxScopeWindow"
  by (auto simp: validateScopeWindow_def time_sub_def MaxScopeWindow_def hour_def second_def split: if_split_asm)

section \<open>Service operations\<close>

lemma keeps_audit_sink [keeps_intros]: "keeps (discovery_inv k) (recordAuditWithSink s act b a actor m)"
proof -
  have "keeps (discovery_inv k) (zoom dd_audit (\<lambda>t d. d\<lparr>dd_audit := t\<rparr>) f)" for f :: "(audit_row table, sql_error, unit) op"
    by (rule keeps_zoom [where J = "\<lambda>_. True"]) (simp_all add: keeps_def discovery_inv_def owned_def)
  then show ?thesis unfolding recordAuditWithSink_def by (intro keeps_intros)
qed

lemma keeps_reads [keeps_intros]:
  "keeps I (repo_GetScope q i)" "keeps I (repo_ListScopes q)" "keeps I (repo_ListScopeTargets q i)"
  "keeps I (repo_LockProjectForScopeDefault q)"
  unfolding repo_GetScope_def repo_ListScopes_def repo_ListScopeTargets_def repo_LockProjectForScopeDefault_def
  by (rule keeps_intros)+

lemma keeps_GetScope [keeps_intros]: "keeps I (GetScope q i)"
  unfolding GetScope_def by (intro keeps_intros)

lemma keeps_discovery_tx [keeps_intros]:
  "keeps (discovery_inv k) m \<Longrightarrow> keeps (discovery_inv k) (discovery_runInTx s m)"
  unfolding discovery_runInTx_def by (intro keeps_intros discovery_inv_rollback)

lemma keeps_replaceProjectDefault:
  "env_key (ds_env s) = k \<Longrightarrow> keeps (discovery_inv k) (replaceProjectDefault s q i a m)"
  unfolding replaceProjectDefault_def displaced_scopes_def by (intro keeps_intros keeps_ClearDefaultScopes)

lemma keeps_insert_targets:
  "env_key (ds_env s) = k \<Longrightarrow> \<forall>t \<in> set ts. target_ok t \<Longrightarrow> keeps (discovery_inv k) (insert_targets s tn og q i a ts)"
  unfolding insert_targets_def by (intro keeps_intros keeps_forM_set keeps_InsertScopeTarget) auto

lemma repo_GetScope_ok: "discovery_inv k d \<Longrightarrow> repo_GetScope q i d = (Inr c, d') \<Longrightarrow> scope_ok c"
  by (auto simp: repo_GetScope_def asks_def discovery_inv_def table_ok_def dest!: sql_one_mem split: option.split_asm)

lemma keeps_CreateScope_service:
  assumes "server_ok k (ds_env s)"
  shows "keeps (discovery_inv k) (CreateScope s i)"
  unfolding CreateScope_def
proof (intro keeps_failIf_then keeps_liftM_then keeps_bindM keeps_discovery_tx keeps_GetScope)
  fix status u u' ts
  assume st: "validateStatus (csi_Status i) = Inr status"
    and win: "validateScopeWindow (csi_ValidFrom i) (csi_ValidUntil i) = Inr u'"
    and ts: "validateScopeTargets (csi_Targets i) (csi_ActorID i) = Inr ts"
    and def: "\<not> (csi_IsDefault i \<and> status \<noteq> StatusActive)"
  have k: "env_key (ds_env s) = k" using assms by (simp add: server_ok_def)
  have "params_ok (create_scope_params i status)"
    using validateStatus_ok [OF st] validateScopeWindow_ok [OF win] def by (auto simp: params_ok_def create_scope_params_def)
  then show "keeps (discovery_inv k) (create_scope_body s i status ts)"
    unfolding create_scope_body_def
    by (intro keeps_intros keeps_replaceProjectDefault [OF k] keeps_CreateScope [OF assms]
        keeps_insert_targets [OF k validateScopeTargets_ok [OF ts]])
qed

lemma keeps_update_scope_body:
  assumes "server_ok k (ds_env s)"
  shows "keeps (discovery_inv k) (update_scope_body s i)"
proof -
  have k: "env_key (ds_env s) = k" using assms by (simp add: server_ok_def)
  have targets: "keeps (discovery_inv k) (case usi_Targets i of None \<Rightarrow> ok []
      | Some inputs \<Rightarrow> bindM (liftM (validateScopeTargets inputs (usi_ActorID i))) (\<lambda>ts.
          bindM (repo_ClearScopeTargets (ds_env s) (usi_ProjectID i) (usi_ScopeID i) (usi_ActorID i)) (\<lambda>_. ok ts)))"
    by (intro keeps_intros keeps_ClearScopeTargets [OF k])
  show ?thesis
    unfolding update_scope_body_def Let_def
    apply (intro keeps_bindM [OF keeps_reads(4)] keeps_bindM_post [where P = scope_ok, OF keeps_reads(1)] keeps_liftM_then)
     apply (erule (1) repo_GetScope_ok)
    apply (rule keeps_bindM_post [where P = "\<lambda>ts. \<forall>t \<in> set ts. target_ok t", OF targets])
    subgoal by (auto simp: Inr_iffs dest: validateScopeTargets_ok split: option.split_asm)
    subgoal premises p for u before name authorizedBy status isDefault u2 u3 ts
      using p(1) patched_status_ok [OF p(4)] patched_default_ok [OF p(5)] validateScopeWindow_ok [OF p(6)] p(8)
      by (intro keeps_intros keeps_replaceProjectDefault [OF k] keeps_UpdateScope_repo [OF assms] keeps_insert_targets [OF k])
         (auto simp: params_ok_def scope_ok_def)
    done
qed

lemma keeps_UpdateScope_service:
  "server_ok k (ds_env s) \<Longrightarrow> keeps (discovery_inv k) (UpdateScope s i)"
  unfolding UpdateScope_def by (intro keeps_intros keeps_update_scope_body)

lemma keeps_DeactivateScope_service:
  "server_ok k (ds_env s) \<Longrightarrow> keeps (discovery_inv k) (DeactivateScope s i)"
  unfolding DeactivateScope_def by (intro keeps_intros keeps_DeactivateScope_repo) (simp add: server_ok_def)

section \<open>Reachable states\<close>

inductive scope_step :: "(gostring \<Rightarrow> gostring) \<Rightarrow> discovery_db \<Rightarrow> discovery_db \<Rightarrow> bool" for k where
  create: "server_ok k (ds_env s) \<Longrightarrow> scope_step k d (snd (CreateScope s ci d))"
| update: "server_ok k (ds_env s) \<Longrightarrow> scope_step k d (snd (UpdateScope s ui d))"
| deactivate: "server_ok k (ds_env s) \<Longrightarrow> scope_step k d (snd (DeactivateScope s di d))"

inductive scope_reachable :: "(gostring \<Rightarrow> gostring) \<Rightarrow> discovery_db \<Rightarrow> bool" for k where
  init: "scope_reachable k (empty_discovery_db ps)"
| step: "scope_reachable k d \<Longrightarrow> scope_step k d d' \<Longrightarrow> scope_reachable k d'"

inductive_cases scope_stepE: "scope_step k d d'"

lemma scope_step_inv: "scope_step k d d' \<Longrightarrow> discovery_inv k d \<Longrightarrow> discovery_inv k d'"
  by (erule scope_stepE)
     (use keeps_CreateScope_service keeps_UpdateScope_service keeps_DeactivateScope_service in \<open>auto simp: keeps_def\<close>)

lemma scope_reachable_inv: "scope_reachable k d \<Longrightarrow> discovery_inv k d"
  by (induction rule: scope_reachable.induct) (auto intro: discovery_inv_empty scope_step_inv)

end
