(* ===== verification/DiscoveryProperties.thy ===== *)
theory DiscoveryProperties
  imports DiscoveryInv StatusMachine
begin

text \<open>
  The properties of scan authorisation: what an allowed target is, the policy that the match loops
  implement, the normal form of domains, the integrity of the scope tables, what deactivation does,
  and where the decision or its audit trail differs from the intent.
\<close>

section \<open>A run\<close>

definition demo_meta :: discovery_meta where
  "demo_meta = \<lparr>dm_Reason = [], dm_SourceRunID = 0, dm_SourceObservationIDs = [], dm_IP = [], dm_UserAgent = [], dm_RequestID = []\<rparr>"

definition demo_service :: "time \<Rightarrow> discovery_service" where
  "demo_service now = \<lparr>ds_env = ascii_env now, ds_db = True, ds_sink = False\<rparr>"

definition demo_entry :: "gostring \<Rightarrow> gostring \<Rightarrow> gostring \<Rightarrow> gostring \<Rightarrow> scope_target_input" where
  "demo_entry ty mode cov v = \<lparr>sti_URLRule = None, sti_TargetType = ty, sti_MatchMode = mode, sti_CoverageMode = cov, sti_Value = v\<rparr>"

definition demo_scope :: create_scope_input where
  "demo_scope = \<lparr>csi_TenantID = [], csi_OrgID = [], csi_ProjectID = 1, csi_Name = ''edge'', csi_AuthorizedBy = ''ciso'',
     csi_ValidFrom = 10, csi_ValidUntil = 90, csi_Status = StatusActive, csi_IsDefault = True, csi_ActorID = ''alice'',
     csi_Meta = demo_meta,
     csi_Targets = [demo_entry TargetTypeDomain MatchModeInclude CoverageModeSubdomains ''Example.com.'',
                    demo_entry TargetTypeDomain MatchModeExclude [] ''vpn.example.com'',
                    demo_entry TargetTypeIP MatchModeInclude [] ''8.8.8.8'']\<rparr>"

definition demo_scopes :: discovery_db where
  "demo_scopes = snd (CreateScope (demo_service 5) demo_scope (empty_discovery_db [1]))"

lemma demo_server: "server_ok ascii_key (ds_env (demo_service now))"
  by (simp add: server_ok_def demo_service_def ascii_env_def)


section \<open>What is allowed\<close>

definition live_targets :: "discovery_db \<Rightarrow> nat \<Rightarrow> nat \<Rightarrow> scope_target list" where
  "live_targets d projectID scopeID =
     filter (\<lambda>t. st_ScopeID t = scopeID \<and> st_ProjectID t = projectID \<and> target_live t) (t_rows (dd_targets d))"

lemma allowed_iff:
  "fst (IsTypedTargetAllowed s q i ty raw d) \<longleftrightarrow>
     q \<noteq> 0 \<and> i \<noteq> 0 \<and> (\<exists>p c. parseTypedTarget ty raw = Inr p \<and> safe_target p \<and> repo_GetScope q i d = (Inr c, d) \<and>
       sc_Status c = StatusActive \<and> sc_ValidFrom c \<le> env_now (ds_env s) \<and> env_now (ds_env s) \<le> sc_ValidUntil c \<and>
       \<not> excluded (live_targets d q i) p \<and> granted (live_targets d q i) p)"
proof -
  have ts: "repo_ListScopeTargets q i d = (Inr (live_targets d q i), d)"
    by (simp add: repo_ListScopeTargets_def gets_def sql_many_def live_targets_def)
  have st: "\<exists>r. repo_GetScope q i d = (r, d)" by (simp add: repo_GetScope_def asks_def)
  show ?thesis
    using st parseTypedTarget_safe [of ty raw]
    by (auto simp: IsTypedTargetAllowed_def Let_def ts decision_spec split: sum.splits)
qed

text \<open>C5: \<open>IsTypedTargetAllowed\<close> allows a target exactly when it parses, the scope of that project is live and active, the
  clock is inside its authorisation window, no exclude entry of the scope matches and an include entry grants it. An
  allowed target is never a dangerous address and never a reserved name.\<close>

theorem allowed_target_is_authorised:
  "fst (IsTypedTargetAllowed s q i ty raw d) \<longleftrightarrow>
     q \<noteq> 0 \<and> i \<noteq> 0 \<and> (\<exists>p c. parseTypedTarget ty raw = Inr p \<and> safe_target p \<and> repo_GetScope q i d = (Inr c, d) \<and>
       sc_Status c = StatusActive \<and> sc_ValidFrom c \<le> env_now (ds_env s) \<and> env_now (ds_env s) \<le> sc_ValidUntil c \<and>
       \<not> excluded (live_targets d q i) p \<and> granted (live_targets d q i) p)"
  by (rule allowed_iff)

text \<open>C24: the two loops of \<open>scopeMatchDecision\<close>, with their early returns, decide by the policy: a matching exclude entry
  always wins; otherwise a matching include entry grants, where a host with a site rule is granted by URL entries only.\<close>

theorem scope_decision_exact:
  "scopeMatchDecision ts c =
     (if excluded ts c then ReasonExcluded
      else if granted ts c then ReasonAllowed
      else if restricted ts c then ReasonURLRestricted
      else ReasonNoMatch)"
  by (rule decision_spec)

text \<open>C27: \<open>normalizeDomain\<close> accepts exactly the texts whose lower-case form without surrounding space and final dot is a
  public domain name (two or more labels of at most 63 letters, digits and inner hyphens, at most 255 bytes, no numeric
  top level, no reserved suffix), and returns that form.\<close>

theorem normalized_domain_exact:
  "normalizeDomain raw = Inr d \<longleftrightarrow> domain_ok d \<and> d = TrimSuffix (lower_text (TrimSpace raw)) ''.''"
  using normalizeDomain_ok domain_ok_accepted by blast

text \<open>C34: a domain entry matches a domain or the host of a URL exactly when it is the same name or, for the coverage mode
  \<open>subdomains\<close>, when it ends in a dot and the entry's name: never because of a shared fragment of a label.\<close>

theorem domain_entry_exact:
  assumes "st_TargetType t = TargetTypeDomain" and "domain_ok (st_Value t)" and "domain_ok (pt_domain c)"
  shows "matchTarget t c \<longleftrightarrow> pt_domain c = st_Value t \<or>
    (st_CoverageMode t = CoverageModeSubdomains \<and> (\<exists>sub. pt_domain c = sub @ ''.'' @ st_Value t))"
  using domain_entry_iff [OF assms] .

definition demo_row :: "gostring \<Rightarrow> scope_target" where
  "demo_row v = \<lparr>st_URLRule = None, st_ID = 1, st_TenantID = [], st_OrgID = [], st_ProjectID = 1, st_ScopeID = 1,
     st_TargetType = TargetTypeDomain, st_MatchMode = MatchModeInclude, st_CoverageMode = CoverageModeSubdomains, st_Value = v,
     st_CreatedAt = 0, st_UpdatedAt = 0, st_CreatedBy = [], st_UpdatedBy = [], st_DeletedAt = epoch\<rparr>"

theorem domain_entry_exact_witness:
  "matchTarget (demo_row ''example.com'') (no_target\<lparr>pt_kind := TargetTypeDomain, pt_domain := ''a.example.com''\<rparr>) \<and>
   \<not> matchTarget (demo_row ''example.com'') (no_target\<lparr>pt_kind := TargetTypeDomain, pt_domain := ''notexample.com''\<rparr>)"
proof -
  have ok: "domain_ok ''example.com''" "domain_ok ''a.example.com''" "domain_ok ''notexample.com''" by code_simp+
  have no: "\<not> suffix ''.example.com'' ''notexample.com''" by code_simp
  have "\<not> matchTarget (demo_row ''example.com'') (no_target\<lparr>pt_kind := TargetTypeDomain, pt_domain := ''notexample.com''\<rparr>)"
    using domain_entry_exact [of "demo_row ''example.com''" "no_target\<lparr>pt_kind := TargetTypeDomain, pt_domain := ''notexample.com''\<rparr>"] ok no
    by (auto simp: demo_row_def no_target_def suffix_def)
  moreover have "matchTarget (demo_row ''example.com'') (no_target\<lparr>pt_kind := TargetTypeDomain, pt_domain := ''a.example.com''\<rparr>)"
    using domain_entry_exact [of "demo_row ''example.com''" "no_target\<lparr>pt_kind := TargetTypeDomain, pt_domain := ''a.example.com''\<rparr>"] ok
    by (auto simp: demo_row_def no_target_def intro: exI [of _ "''a''"])
  ultimately show ?thesis by blast
qed

section \<open>The scope tables\<close>



lemma on_scopes_Inr: "on_scopes m d = (Inr x, d') \<Longrightarrow> \<exists>t'. m (dd_scopes d) = (Inr x, t') \<and> d' = d\<lparr>dd_scopes := t'\<rparr>"
  by (auto simp: on_scopes_def mapErr_Inr_iff zoom_iff)

lemma recordAudit_scopes: "recordAuditWithSink s act b a actor m d = (r, d') \<Longrightarrow> dd_scopes d' = dd_scopes d"
  by (auto simp: recordAuditWithSink_def mapErr_def zoom_def ok_def split: if_split_asm prod.split_asm sum.split_asm)

lemma sql_update_unique_Inr:
  "sql_update_unique same chk p f g t = (Inr n, t') \<Longrightarrow> t_rows t' = map (upd_row p f g) (t_rows t)"
  by (auto simp: sql_update_unique_def sql_update_Inr split: prod.split_asm sum.split_asm if_split_asm)

lemma deactivated_rows:
  assumes "repo_DeactivateScope e q i a d = (Inr n, d')" and "c \<in> set (t_rows (dd_scopes d'))"
    and "sc_ID c = i" "sc_ProjectID c = q" "scope_live c"
  shows "sc_Status c = StatusInactive"
proof -
  let ?p = "\<lambda>r. sc_ID r = i \<and> (sc_ProjectID r = q \<and> scope_live r)"
  obtain r where r: "c = upd_row ?p (scope_deactivated e a) id r"
    using assms(1,2) by (auto simp: repo_DeactivateScope_def dest!: on_scopes_Inr sql_update_unique_Inr)
  have "sc_Status (scope_deactivated e a r) = StatusInactive" by (simp add: scope_deactivated_def)
  then show ?thesis using r assms(3-5) by (auto simp: upd_row_def split: if_split_asm)
qed

text \<open>C35: once \<open>DeactivateScope\<close> has succeeded, no target of any kind is allowed in that scope, at any time.\<close>

theorem deactivated_scope_denies_all:
  assumes "DeactivateScope s i d = (Inr (), d')"
  shows "\<not> fst (IsTypedTargetAllowed s2 (dsi_ProjectID i) (dsi_ScopeID i) ty raw d')"
proof
  let ?q = "dsi_ProjectID i" and ?i = "dsi_ScopeID i"
  assume "fst (IsTypedTargetAllowed s2 ?q ?i ty raw d')"
  then obtain c where c: "repo_GetScope ?q ?i d' = (Inr c, d')" "sc_Status c = StatusActive"
    unfolding allowed_iff by blast
  then have m: "c \<in> set (t_rows (dd_scopes d'))" "sc_ID c = ?i" "sc_ProjectID c = ?q" "scope_live c"
    by (auto simp: repo_GetScope_def asks_def dest!: sql_one_mem split: option.split_asm)
  obtain n d1 where "repo_DeactivateScope (ds_env s) ?q ?i (dsi_ActorID i) d = (Inr n, d1)" "dd_scopes d' = dd_scopes d1"
    using assms
    by (auto simp: DeactivateScope_def discovery_runInTx_def Inr_iffs repo_LockProjectForScopeDefault_def repo_GetScope_def
        dest: recordAudit_scopes split: if_split_asm)
  then show False using deactivated_rows [of "ds_env s" ?q ?i "dsi_ActorID i" d n d1 c] m c(2) by simp
qed

definition demo_stop :: deactivate_scope_input where
  "demo_stop = \<lparr>dsi_ScopeID = 1, dsi_ProjectID = 1, dsi_ActorID = ''bob'', dsi_Meta = demo_meta\<rparr>"

theorem deactivated_scope_denies_all_witness:
  "\<exists>d'. DeactivateScope (demo_service 20) demo_stop demo_scopes = (Inr (), d') \<and>
     \<not> fst (IsTypedTargetAllowed (demo_service 30) 1 1 [] ''a.example.com'' d')"
proof -
  have "fst (DeactivateScope (demo_service 20) demo_stop demo_scopes) = Inr ()" by code_simp
  then obtain d' where run: "DeactivateScope (demo_service 20) demo_stop demo_scopes = (Inr (), d')"
    by (cases "DeactivateScope (demo_service 20) demo_stop demo_scopes") auto
  show ?thesis using deactivated_scope_denies_all [OF run] run by (auto simp: demo_stop_def)
qed

section \<open>Where the code differs from its intent\<close>

lemma demo_wide_allowed:
  "IsTypedTargetAllowed (demo_service 50) 1 1 [] ''8.8.8.8/8'' demo_scopes = (True, ReasonAllowed, None)" by code_simp

lemma demo_other_denied:
  "IsTypedTargetAllowed (demo_service 50) 1 1 [] ''8.0.0.1'' demo_scopes = (False, ReasonNoMatch, None)" by code_simp

text \<open>C38: a network as scan target is judged by its base address alone: whatever its length, it matches an entry that is
  no URL exactly when the base address does. With 8.8.8.8 the only address of the scope, the scan of 8.8.8.8/8 is
  allowed, though a single other address of that network is not.\<close>

theorem network_judged_by_base_address:
  "(st_TargetType t = TargetTypeURL \<or>
     matchTarget t (no_target\<lparr>pt_kind := TargetTypeCIDR, pt_value := v, pt_ip := a\<rparr>) =
     matchTarget t (no_target\<lparr>pt_kind := TargetTypeIP, pt_value := w, pt_ip := a\<rparr>)) \<and>
   IsTypedTargetAllowed (demo_service 50) 1 1 [] ''8.8.8.8/8'' demo_scopes = (True, ReasonAllowed, None) \<and>
   IsTypedTargetAllowed (demo_service 50) 1 1 [] ''8.0.0.1'' demo_scopes = (False, ReasonNoMatch, None)"
proof (intro conjI demo_wide_allowed demo_other_denied)
  show "st_TargetType t = TargetTypeURL \<or>
     matchTarget t (no_target\<lparr>pt_kind := TargetTypeCIDR, pt_value := v, pt_ip := a\<rparr>) =
     matchTarget t (no_target\<lparr>pt_kind := TargetTypeIP, pt_value := w, pt_ip := a\<rparr>)"
    by (cases "st_TargetType t = TargetTypeURL") (auto simp: matchTarget_def no_target_def split: sum.split)
qed

text \<open>The audit row of a created scope holds the new scope as the state before the change and nothing as the state
  after it, and no target of the scope is in it.\<close>

theorem creation_audited_backwards:
  assumes "scope_reachable k d" and "server_ok k (ds_env s)" and "audits s" and "CreateScope s i d = (Inr c, d')"
  shows "\<exists>rows row c0. t_rows (dd_audit d') = rows @ [row] \<and> al_Action row = ActionScopeCreate \<and>
    al_Before row = toNullJSON (scope_val c0) \<and> sc_Targets c0 = [] \<and> al_After row = toNullJSON GNil"
proof -
  obtain st ts d1 d2 d3 n c0 where
    body: "validateStatus (csi_Status i) = Inr st" "validateScopeWindow (csi_ValidFrom i) (csi_ValidUntil i) = Inr ()"
      "validateScopeTargets (csi_Targets i) (csi_ActorID i) = Inr ts" "csi_IsDefault i \<longrightarrow> st = StatusActive"
      "(if csi_IsDefault i then replaceProjectDefault s (csi_ProjectID i) 0 (csi_ActorID i) (csi_Meta i) else ok ()) d = (Inr (), d1)"
      "repo_CreateScope (ds_env s) (create_scope_params i st) d1 = (Inr n, d2)"
      "insert_targets s (csi_TenantID i) (csi_OrgID i) (csi_ProjectID i) n (csi_ActorID i) ts d2 = (Inr (), d3)"
      "repo_GetScope (csi_ProjectID i) n d3 = (Inr c0, d3)"
      "recordAuditWithSink s ActionScopeCreate (Some c0) None (csi_ActorID i) (csi_Meta i) d3 = (Inr (), d')"
    using assms(4) unfolding CreateScope_def create_scope_body_def discovery_runInTx_def
    by (auto simp: Inr_iffs GetScope_def repo_GetScope_def repo_ListScopeTargets_def split: if_split_asm)
  have k: "env_key (ds_env s) = k" using assms(2) by (simp add: server_ok_def)
  have "keeps (discovery_inv k) (if csi_IsDefault i then replaceProjectDefault s (csi_ProjectID i) 0 (csi_ActorID i) (csi_Meta i) else ok ())"
    by (intro keeps_intros keeps_replaceProjectDefault [OF k])
  then have "discovery_inv k d1" by (rule keepsD) (rule scope_reachable_inv [OF assms(1)], rule body(5))
  moreover have "params_ok (create_scope_params i st)"
    using validateStatus_ok [OF body(1)] validateScopeWindow_ok [OF body(2)] body(4) by (auto simp: params_ok_def create_scope_params_def)
  ultimately have "discovery_inv k d2" using keepsD [OF keeps_CreateScope [OF assms(2)] _ body(6)] by blast
  then have "discovery_inv k d3" using keepsD [OF keeps_insert_targets [OF k validateScopeTargets_ok [OF body(3)]] _ body(7)] by blast
  then have "sc_Targets c0 = []" using repo_GetScope_ok [OF _ body(8)] by (simp add: scope_ok_def)
  then show ?thesis
    using body(9) assms(3)
    by (auto simp: recordAuditWithSink_def mapErr_Inr_iff zoom_iff audit_Record_Inr audit_written_def audit_entry_def scope_event_def)
qed

theorem creation_audited_backwards_witness:
  "\<exists>row. t_rows (dd_audit demo_scopes) = [row] \<and> al_Action row = ActionScopeCreate \<and> al_After row = toNullJSON GNil"
proof -
  have "is_ok (fst (CreateScope (demo_service 5) demo_scope (empty_discovery_db [1]))) \<and> length (t_rows (dd_audit demo_scopes)) = 1"
    by code_simp
  then obtain c where run: "CreateScope (demo_service 5) demo_scope (empty_discovery_db [1]) = (Inr c, demo_scopes)"
    and one: "length (t_rows (dd_audit demo_scopes)) = 1"
    by (cases "CreateScope (demo_service 5) demo_scope (empty_discovery_db [1])") (auto simp: is_ok_iff demo_scopes_def)
  have "audits (demo_service 5)" by (simp add: audits_def demo_service_def)
  from creation_audited_backwards [OF scope_reachable.init demo_server this run] one show ?thesis by auto
qed

end
