(* ===== verification/GoJson.thy ===== *)
theory GoJson
  imports GoUrl
begin

text \<open>
  The package \<open>encoding/json\<close> as far as the program uses it: the scanner (\<open>json.Valid\<close>), the decoding of
  text into values, the rules by which a struct field takes its value from an object, and what
  \<open>json.Marshal\<close> writes of the strings of a value.

  A text is cut into tokens, and a stack of open arrays and objects consumes them one by one, as
  Go's scanner does; the depth of the stack is bounded by \<open>maxNestingDepth\<close>. An object keeps all its
  members in order. Text outside ASCII is taken to be well-formed UTF-8; a lone surrogate escape
  becomes U+FFFD. A number is kept as its literal, and decoding it into a \<open>float64\<close> fails when it is
  too large.
\<close>

datatype jval = VNull | VBool bool | VNum gostring | VStr gostring | VArr "jval list" | VObj "(gostring \<times> jval) list"

datatype jtoken = TScalar jval | TOpenArr | TCloseArr | TOpenObj | TCloseObj | TColon | TComma

section \<open>Strings\<close>

definition utf8 :: "nat \<Rightarrow> gostring" where
  "utf8 r =
     (if r < 128 then [char_of r]
      else if r < 2048 then [char_of (192 + r div 64), char_of (128 + r mod 64)]
      else if r < 65536 then [char_of (224 + r div 4096), char_of (128 + r div 64 mod 64), char_of (128 + r mod 64)]
      else [char_of (240 + r div 262144), char_of (128 + r div 4096 mod 64), char_of (128 + r div 64 mod 64), char_of (128 + r mod 64)])"

definition replacement_rune :: nat where "replacement_rune = 65533"

text \<open>The four hexadecimal digits of \<open>\u\<close>, and the text behind them.\<close>

definition getu4 :: "gostring \<Rightarrow> (nat \<times> gostring) option" where
  "getu4 s = (let h = take 4 s in if length h = 4 \<and> list_all is_hex h then Some (hex_num h, drop 4 s) else None)"

text \<open>The rune of an escape \<open>\u\<close>, with the second half of a surrogate pair when there is one.\<close>

definition escaped_rune :: "nat \<Rightarrow> gostring \<Rightarrow> nat \<times> gostring" where
  "escaped_rune r rest =
     (if r < 55296 \<or> 57343 < r then (r, rest)
      else case (if HasPrefix rest [CHR 0x5C, CHR ''u''] then getu4 (drop 2 rest) else None) of
             Some (r2, rest2) \<Rightarrow>
               if r < 56320 \<and> 56320 \<le> r2 \<and> r2 \<le> 57343 then (65536 + (r - 55296) * 1024 + (r2 - 56320), rest2)
               else (replacement_rune, rest)
           | None \<Rightarrow> (replacement_rune, rest))"

definition simple_escape :: "char \<Rightarrow> char option" where
  "simple_escape c =
     (if c = CHR 0x22 \<or> c = CHR 0x5C \<or> c = CHR ''/'' then Some c
      else if c = CHR ''b'' then Some (CHR 0x08) else if c = CHR ''f'' then Some (CHR 0x0C)
      else if c = CHR ''n'' then Some (CHR 0x0A) else if c = CHR ''r'' then Some (CHR 0x0D)
      else if c = CHR ''t'' then Some (CHR 0x09) else None)"

lemma getu4_shorter: "getu4 s = Some (r, t) \<Longrightarrow> length t < length s"
  by (cases s) (auto simp: getu4_def Let_def split: if_splits)

lemma escaped_rune_shorter: "escaped_rune r s = (x, t) \<Longrightarrow> length t \<le> length s"
  using getu4_shorter [of "drop 2 s"]
  by (auto simp: escaped_rune_def split: if_split_asm option.split_asm dest!: less_imp_le intro: le_trans)

text \<open>The value of the text between the quotes.\<close>

function unquote :: "gostring \<Rightarrow> gostring option" where
  "unquote s =
     (case s of
        [] \<Rightarrow> Some []
      | c # cs \<Rightarrow>
          if (of_char c :: nat) < 32 then None
          else if c \<noteq> CHR 0x5C then map_option (Cons c) (unquote cs)
          else (case cs of
                  [] \<Rightarrow> None
                | d # ds \<Rightarrow>
                    if d = CHR ''u'' then
                      (case getu4 ds of
                         None \<Rightarrow> None
                       | Some (r, rest) \<Rightarrow> map_option (append (utf8 (fst (escaped_rune r rest)))) (unquote (snd (escaped_rune r rest))))
                    else case simple_escape d of
                           None \<Rightarrow> None
                         | Some e \<Rightarrow> map_option (Cons e) (unquote ds)))"
  by pat_completeness auto
termination
proof (relation "measure length", goal_cases)
  case (3 s c cs d ds x r rest)
  then have "length rest < length ds" using getu4_shorter by blast
  then show ?case using 3 escaped_rune_shorter [of r rest "fst (escaped_rune r rest)" "snd (escaped_rune r rest)"] by simp
qed auto

declare unquote.simps [simp del]

text \<open>The text up to the closing quote, and the text behind it.\<close>

fun string_body :: "gostring \<Rightarrow> (gostring \<times> gostring) option" where
  "string_body [] = None"
| "string_body (c # cs) =
     (if c = CHR 0x22 then Some ([], cs)
      else if c = CHR 0x5C then
        (case cs of [] \<Rightarrow> None | d # ds \<Rightarrow> map_option (\<lambda>(b, r). (c # d # b, r)) (string_body ds))
      else map_option (\<lambda>(b, r). (c # b, r)) (string_body cs))"

lemma string_body_shorter: "string_body s = Some (b, r) \<Longrightarrow> length r < length s"
proof (induction s arbitrary: b r rule: string_body.induct)
  case (2 c cs)
  show ?case
  proof (cases "c = CHR 0x5C")
    case True
    then obtain d ds b' where "cs = d # ds" "string_body ds = Some (b', r)"
      using "2.prems" by (auto split: list.split_asm)
    then show ?thesis using "2.IH"(1) [of d ds b' r] True by simp
  next
    case False
    then show ?thesis
      using "2.prems" "2.IH"(2) by (cases "c = CHR 0x22") (auto intro: less_SucI)
  qed
qed simp

section \<open>Numbers\<close>

definition drop_digits :: "gostring \<Rightarrow> gostring" where "drop_digits s = dropWhile is_digit s"

text \<open>The parts of a literal: sign, integer digits, fraction digits and exponent.\<close>

definition valid_number :: "gostring \<Rightarrow> bool" where
  "valid_number s \<longleftrightarrow>
     (let s1 = TrimPrefix s ''-''; s2 = drop_digits s1; i = takeWhile is_digit s1;
          f = (if HasPrefix s2 ''.'' then takeWhile is_digit (tl s2) else []);
          s3 = (if HasPrefix s2 ''.'' then drop_digits (tl s2) else s2);
          e = (if s3 \<noteq> [] \<and> hd s3 \<in> {CHR ''e'', CHR ''E''} then tl s3 else []);
          ed = (if e \<noteq> [] \<and> hd e \<in> {CHR ''+'', CHR ''-''} then tl e else e) in
      i \<noteq> [] \<and> (hd i = CHR ''0'' \<longrightarrow> length i = 1) \<and> (HasPrefix s2 ''.'' \<longrightarrow> f \<noteq> []) \<and>
      (if s3 = [] then True else hd s3 \<in> {CHR ''e'', CHR ''E''} \<and> ed \<noteq> [] \<and> list_all is_digit ed))"

text \<open>The exponent as \<open>strconv.ParseFloat\<close> reads it: further digits are ignored once it has reached 10000.\<close>

fun read_exponent :: "nat \<Rightarrow> gostring \<Rightarrow> nat" where
  "read_exponent n [] = n"
| "read_exponent n (c # cs) = read_exponent (if n < 10000 then 10 * n + the (digit_val c) else n) cs"

text \<open>The literal is at least the bound above which rounding to a \<open>float64\<close> gives an infinity.\<close>

definition float_overflow :: "gostring \<Rightarrow> bool" where
  "float_overflow s \<longleftrightarrow>
     (let s1 = TrimPrefix s ''-''; i = takeWhile is_digit s1; s2 = drop_digits s1;
          f = (if HasPrefix s2 ''.'' then takeWhile is_digit (tl s2) else []);
          s3 = (if HasPrefix s2 ''.'' then drop_digits (tl s2) else s2);
          e = tl s3; neg = HasPrefix e ''-'';
          x = int (read_exponent 0 (if neg \<or> HasPrefix e ''+'' then tl e else e));
          m = the (parse_digits 0 (i @ f)); p = (if neg then - x else x) - int (length f);
          bound = 2 ^ 1024 - 2 ^ 970 in
      if 0 \<le> p then bound \<le> m * 10 ^ nat p else bound * 10 ^ nat (- p) \<le> m)"

section \<open>Text to values\<close>

definition json_space :: "char \<Rightarrow> bool" where
  "json_space c \<longleftrightarrow> c = CHR '' '' \<or> c = CHR 0x09 \<or> c = CHR 0x0A \<or> c = CHR 0x0D"

definition number_char :: "char \<Rightarrow> bool" where
  "number_char c \<longleftrightarrow> is_digit c \<or> c \<in> set ''+-.eE''"

definition punctuation :: "char \<Rightarrow> jtoken option" where
  "punctuation c =
     (if c = CHR ''['' then Some TOpenArr else if c = CHR '']'' then Some TCloseArr
      else if c = CHR ''{'' then Some TOpenObj else if c = CHR ''}'' then Some TCloseObj
      else if c = CHR '':'' then Some TColon else if c = CHR '','' then Some TComma else None)"

text \<open>One token and the text behind it; the text does not start with white space.\<close>

definition one_token :: "char \<Rightarrow> gostring \<Rightarrow> (jtoken \<times> gostring) option" where
  "one_token c cs =
     (case punctuation c of
        Some t \<Rightarrow> Some (t, cs)
      | None \<Rightarrow>
          if c = CHR 0x22 then
            (case string_body cs of
               None \<Rightarrow> None
             | Some (b, r) \<Rightarrow> map_option (\<lambda>v. (TScalar (VStr v), r)) (unquote b))
          else if c = CHR ''-'' \<or> is_digit c then
            (let n = takeWhile number_char (c # cs) in
             if valid_number n then Some (TScalar (VNum n), dropWhile number_char cs) else None)
          else if HasPrefix (c # cs) ''true'' then Some (TScalar (VBool True), drop 3 cs)
          else if HasPrefix (c # cs) ''false'' then Some (TScalar (VBool False), drop 4 cs)
          else if HasPrefix (c # cs) ''null'' then Some (TScalar VNull, drop 3 cs)
          else None)"

lemma one_token_shorter: "one_token c cs = Some (t, r) \<Longrightarrow> length r \<le> length cs"
  by (auto simp: one_token_def Let_def length_dropWhile_le dest!: string_body_shorter
      split: option.split_asm if_split_asm)

function tokens :: "gostring \<Rightarrow> jtoken list option" where
  "tokens s =
     (case s of
        [] \<Rightarrow> Some []
      | c # cs \<Rightarrow>
          if json_space c then tokens cs
          else case one_token c cs of
                 None \<Rightarrow> None
               | Some (t, r) \<Rightarrow> map_option (Cons t) (tokens r))"
  by pat_completeness auto
termination
  by (relation "measure length") (auto dest: one_token_shorter simp: le_imp_less_Suc)

declare tokens.simps [simp del]

text \<open>What the scanner waits for, and the arrays, objects and members that are open.\<close>

datatype jwant = WValue | WValueOrEnd | WKey | WKeyOrEnd | WColon | WNext

datatype jframe = InArr "jval list" | InObj "(gostring \<times> jval) list" | InMember gostring "(gostring \<times> jval) list"

definition maxNestingDepth :: nat where "maxNestingDepth = 10000"

fun put_value :: "jval \<Rightarrow> jframe list \<Rightarrow> jframe list" where
  "put_value v (InArr xs # st) = InArr (xs @ [v]) # st"
| "put_value v (InMember k es # st) = InObj (es @ [(k, v)]) # st"
| "put_value v st = st"

text \<open>The value and the rest of the stack when a bracket closes the innermost frame.\<close>

fun close_frame :: "jtoken \<Rightarrow> jframe list \<Rightarrow> (jval \<times> jframe list) option" where
  "close_frame TCloseArr (InArr xs # st) = Some (VArr xs, st)"
| "close_frame TCloseObj (InObj es # st) = Some (VObj es, st)"
| "close_frame t st = None"

text \<open>The reaction to one token: a value with the frames around it, or new frames to read on with.\<close>

datatype jstep = Ready jval "jframe list" | ReadOn jwant "jframe list" | Refuse

definition open_frame :: "jwant \<Rightarrow> jframe \<Rightarrow> jframe list \<Rightarrow> jstep" where
  "open_frame w f st = (if length st < maxNestingDepth then ReadOn w (f # st) else Refuse)"

definition on_close :: "jtoken \<Rightarrow> jframe list \<Rightarrow> jstep" where
  "on_close t st = (case close_frame t st of Some (v, st') \<Rightarrow> Ready v st' | None \<Rightarrow> Refuse)"

definition read_value :: "jtoken \<Rightarrow> jframe list \<Rightarrow> jstep" where
  "read_value t st =
     (case t of
        TScalar v \<Rightarrow> Ready v st
      | TOpenArr \<Rightarrow> open_frame WValueOrEnd (InArr []) st
      | TOpenObj \<Rightarrow> open_frame WKeyOrEnd (InObj []) st
      | _ \<Rightarrow> Refuse)"

definition read_key :: "jtoken \<Rightarrow> jframe list \<Rightarrow> jstep" where
  "read_key t st =
     (case (t, st) of
        (TScalar (VStr k), InObj es # st') \<Rightarrow> ReadOn WColon (InMember k es # st')
      | _ \<Rightarrow> Refuse)"

definition on_token :: "jwant \<Rightarrow> jtoken \<Rightarrow> jframe list \<Rightarrow> jstep" where
  "on_token w t st =
     (case w of
        WValue \<Rightarrow> read_value t st
      | WValueOrEnd \<Rightarrow> if t = TCloseArr then on_close t st else read_value t st
      | WKey \<Rightarrow> read_key t st
      | WKeyOrEnd \<Rightarrow> if t = TCloseObj then on_close t st else read_key t st
      | WColon \<Rightarrow> if t = TColon then ReadOn WValue st else Refuse
      | WNext \<Rightarrow>
          if t = TComma then (case st of InArr _ # _ \<Rightarrow> ReadOn WValue st | InObj _ # _ \<Rightarrow> ReadOn WKey st | _ \<Rightarrow> Refuse)
          else on_close t st)"

fun parse_tokens :: "jwant \<Rightarrow> jframe list \<Rightarrow> jtoken list \<Rightarrow> jval option" where
  "parse_tokens w st [] = None"
| "parse_tokens w st (t # ts) =
     (case on_token w t st of
        Ready v [] \<Rightarrow> if ts = [] then Some v else None
      | Ready v st' \<Rightarrow> parse_tokens WNext (put_value v st') ts
      | ReadOn w' st' \<Rightarrow> parse_tokens w' st' ts
      | Refuse \<Rightarrow> None)"

definition json_Decode :: "gostring \<Rightarrow> jval option" where
  "json_Decode s = (case tokens s of None \<Rightarrow> None | Some ts \<Rightarrow> parse_tokens WValue [] ts)"

definition json_Valid :: "gostring \<Rightarrow> bool" where
  "json_Valid s \<longleftrightarrow> json_Decode s \<noteq> None"

text \<open>\<open>json.Compact\<close>: white space outside of strings is dropped.\<close>

fun compact_from :: "bool \<Rightarrow> gostring \<Rightarrow> gostring" where
  "compact_from q [] = []"
| "compact_from q (c # cs) =
     (if q then
        (if c = CHR 0x5C then (case cs of [] \<Rightarrow> [c] | d # ds \<Rightarrow> c # d # compact_from True ds)
         else c # compact_from (c \<noteq> CHR 0x22) cs)
      else if json_space c then compact_from False cs
      else c # compact_from (c = CHR 0x22) cs)"

definition json_Compact :: "gostring \<Rightarrow> gostring option" where
  "json_Compact s = (if json_Valid s then Some (compact_from False s) else None)"

section \<open>Values into Go\<close>

text \<open>Decoding into \<open>any\<close>: of several members with one name the last stays; a number must fit a \<open>float64\<close>.\<close>

fun last_members :: "(gostring \<times> jval) list \<Rightarrow> (gostring \<times> jval) list" where
  "last_members [] = []"
| "last_members ((k, v) # es) = (if k \<in> fst ` set es then last_members es else (k, v) # last_members es)"

lemma last_members_subset: "set (last_members es) \<subseteq> set es"
  by (induction es rule: last_members.induct) auto

fun numbers_fit :: "jval \<Rightarrow> bool" where
  "numbers_fit (VNum n) \<longleftrightarrow> \<not> float_overflow n"
| "numbers_fit (VArr xs) \<longleftrightarrow> list_all numbers_fit xs"
| "numbers_fit (VObj es) \<longleftrightarrow> list_all (\<lambda>(k, v). numbers_fit v) es"
| "numbers_fit v \<longleftrightarrow> True"

fun as_any :: "jval \<Rightarrow> jval" where
  "as_any (VArr xs) = VArr (map as_any xs)"
| "as_any (VObj es) = VObj (last_members (map (\<lambda>(k, v). (k, as_any v)) es))"
| "as_any v = v"

text \<open>\<open>json.Unmarshal\<close> into a \<open>map[string]any\<close>; the document \<open>null\<close> leaves the map nil.\<close>

definition unmarshal_map :: "gostring \<Rightarrow> (gostring \<times> jval) list option" where
  "unmarshal_map s =
     (case json_Decode s of
        Some (VObj es) \<Rightarrow> if numbers_fit (VObj es) then Some (last_members (map (\<lambda>(k, v). (k, as_any v)) es)) else None
      | Some VNull \<Rightarrow> Some []
      | _ \<Rightarrow> None)"

text \<open>The name of a member under the folding by which a struct field is looked up: ASCII letters, U+017F and U+212A.\<close>

fun fold_name :: "gostring \<Rightarrow> gostring" where
  "fold_name [] = []"
| "fold_name (c # cs) =
     (if prefix [CHR 0xE2, CHR 0x84, CHR 0xAA] (c # cs) then CHR ''k'' # fold_name (drop 2 cs)
      else if prefix [CHR 0xC5, CHR 0xBF] (c # cs) then CHR ''s'' # fold_name (drop 1 cs)
      else lower_char c # fold_name cs)"

definition members :: "gostring \<Rightarrow> (gostring \<times> jval) list \<Rightarrow> jval list" where
  "members name es = map snd (filter (\<lambda>(k, v). fold_name k = fold_name name) es)"

text \<open>Successive members of one field: each is decoded into what the earlier ones left.\<close>

fun decode_all :: "('a \<Rightarrow> jval \<Rightarrow> 'a option) \<Rightarrow> 'a \<Rightarrow> jval list \<Rightarrow> 'a option" where
  "decode_all f x [] = Some x"
| "decode_all f x (v # vs) = (case f x v of None \<Rightarrow> None | Some y \<Rightarrow> decode_all f y vs)"

definition into_string :: "gostring \<Rightarrow> jval \<Rightarrow> gostring option" where
  "into_string old v = (case v of VStr s \<Rightarrow> Some s | VNull \<Rightarrow> Some old | _ \<Rightarrow> None)"

definition into_uint :: "nat \<Rightarrow> nat \<Rightarrow> jval \<Rightarrow> nat option" where
  "into_uint bits old v = (case v of VNum n \<Rightarrow> ParseUint bits n | VNull \<Rightarrow> Some old | _ \<Rightarrow> None)"

text \<open>
  A slice is its elements together with what lies behind them in its array: an element is decoded
  into what was there before, and a shorter document leaves old elements behind the end.
\<close>

fun into_elements :: "('a \<Rightarrow> jval \<Rightarrow> 'a option) \<Rightarrow> 'a \<Rightarrow> 'a list \<Rightarrow> jval list \<Rightarrow> ('a list \<times> 'a list) option" where
  "into_elements f z old [] = Some ([], old)"
| "into_elements f z old (v # vs) =
     (case f (case old of [] \<Rightarrow> z | x # _ \<Rightarrow> x) v of
        None \<Rightarrow> None
      | Some y \<Rightarrow> map_option (\<lambda>(ys, r). (y # ys, r)) (into_elements f z (drop 1 old) vs))"

definition into_slice :: "('a \<Rightarrow> jval \<Rightarrow> 'a option) \<Rightarrow> 'a \<Rightarrow> ('a list \<times> 'a list) \<Rightarrow> jval \<Rightarrow> ('a list \<times> 'a list) option" where
  "into_slice f z old v =
     (case v of
        VArr [] \<Rightarrow> Some ([], [])
      | VArr xs \<Rightarrow> into_elements f z (fst old @ snd old) xs
      | VNull \<Rightarrow> Some ([], [])
      | _ \<Rightarrow> None)"

text \<open>A \<open>map[string]any\<close>: members are added to the map.\<close>

definition into_map :: "(gostring \<times> jval) list \<Rightarrow> jval \<Rightarrow> (gostring \<times> jval) list option" where
  "into_map old v =
     (case v of
        VObj es \<Rightarrow> if numbers_fit v then Some (last_members (old @ map (\<lambda>(k, x). (k, as_any x)) es)) else None
      | VNull \<Rightarrow> Some []
      | _ \<Rightarrow> None)"

section \<open>Values to text\<close>

text \<open>A string as \<open>json.Marshal\<close> writes it between quotes, with \<open>EscapeHTML\<close>.\<close>

definition hex_escape :: "nat \<Rightarrow> gostring" where
  "hex_escape n = [CHR 0x5C] @ ''u00'' @ [hex_digit (n div 16), hex_digit (n mod 16)]"

definition marshal_char :: "char \<Rightarrow> gostring" where
  "marshal_char c =
     (let n = (of_char c :: nat) in
      if c = CHR 0x22 \<or> c = CHR 0x5C then [CHR 0x5C, c]
      else if n = 8 then [CHR 0x5C, CHR ''b''] else if n = 12 then [CHR 0x5C, CHR ''f'']
      else if n = 10 then [CHR 0x5C, CHR ''n''] else if n = 13 then [CHR 0x5C, CHR ''r'']
      else if n = 9 then [CHR 0x5C, CHR ''t'']
      else if n < 32 \<or> c \<in> set ''<>&'' then hex_escape n
      else [c])"

fun marshal_string :: "gostring \<Rightarrow> gostring" where
  "marshal_string [] = []"
| "marshal_string (c # cs) =
     (if prefix [CHR 0xE2, CHR 0x80, CHR 0xA8] (c # cs) then [CHR 0x5C] @ ''u2028'' @ marshal_string (drop 2 cs)
      else if prefix [CHR 0xE2, CHR 0x80, CHR 0xA9] (c # cs) then [CHR 0x5C] @ ''u2029'' @ marshal_string (drop 2 cs)
      else marshal_char c @ marshal_string cs)"

text \<open>The strings in the text of a value, keys included; between them are numbers, literals and punctuation.\<close>

fun marshal_strings :: "jval \<Rightarrow> gostring list" where
  "marshal_strings (VStr s) = [marshal_string s]"
| "marshal_strings (VArr xs) = concat (map marshal_strings xs)"
| "marshal_strings (VObj es) = concat (map (\<lambda>(k, v). marshal_string k # marshal_strings v) es)"
| "marshal_strings v = []"

end
