(* ===== verification/TaskConfig.thy ===== *)
theory TaskConfig
  imports DiscoveryMatch GoJson
begin

text \<open>
  The JSON configuration of a task template (\<open>validation.go\<close>, \<open>active_policy.go\<close> and the option checks of
  \<open>active_engine_http.go\<close>): its normalisation, the search for credentials in it, its targets and
  options, and what an active task accepts. The configuration is the text that was sent; every
  function decodes it again, as the code does.
\<close>

section \<open>URLs as text\<close>

text \<open>The path and the fragment as they were written, and their escaped form in \<open>URL.String\<close>.\<close>

definition raw_path :: "gostring \<Rightarrow> gostring" where
  "raw_path raw =
     (let s = (case cut_first (CHR ''#'') raw of None \<Rightarrow> raw | Some (a, _) \<Rightarrow> a);
          rest = (case getScheme s of None \<Rightarrow> [] | Some (_, r) \<Rightarrow> fst (split_query r)) in
      dropWhile (\<lambda>c. c \<noteq> CHR ''/'') (drop 2 rest))"

definition raw_fragment :: "gostring \<Rightarrow> gostring" where
  "raw_fragment raw = (case cut_first (CHR ''#'') raw of None \<Rightarrow> [] | Some (_, f) \<Rightarrow> f)"

definition path_byte :: "char \<Rightarrow> bool" where
  "path_byte c \<longleftrightarrow> is_alnum c \<or> c \<in> set ''-_.~$&+,/:;=@''"

definition fragment_byte :: "char \<Rightarrow> bool" where
  "fragment_byte c \<longleftrightarrow> path_byte c \<or> c \<in> set ''?!()*''"

definition upper_hex :: "nat \<Rightarrow> char" where
  "upper_hex d = char_of (if d < 10 then 48 + d else 55 + d)"

definition url_escape :: "(char \<Rightarrow> bool) \<Rightarrow> gostring \<Rightarrow> gostring" where
  "url_escape plain_byte s =
     concat (map (\<lambda>c. if plain_byte c then [c]
                     else let n = (of_char c :: nat) in [CHR ''%'', upper_hex (n div 16), upper_hex (n mod 16)]) s)"

definition validEncoded :: "(char \<Rightarrow> bool) \<Rightarrow> gostring \<Rightarrow> bool" where
  "validEncoded plain_byte s \<longleftrightarrow>
     list_all (\<lambda>c. plain_byte c \<or> c \<in> set ''!$&()*+,;=:@[]%'' \<or> c = CHR 0x27) s"

definition escaped_form :: "(char \<Rightarrow> bool) \<Rightarrow> gostring \<Rightarrow> gostring \<Rightarrow> gostring" where
  "escaped_form plain_byte raw value = (if validEncoded plain_byte raw then raw else url_escape plain_byte value)"

text \<open>\<open>URL.String\<close> of an \<open>http\<close> or \<open>https\<close> URL without user information, with its host replaced.\<close>

definition url_with_host :: "gostring \<Rightarrow> gostring \<Rightarrow> url \<Rightarrow> gostring" where
  "url_with_host host raw u =
     u_Scheme u @ ''://'' @ host @ escaped_form path_byte (raw_path raw) (u_Path u) @
     (if u_ForceQuery u \<or> u_RawQuery u \<noteq> [] then ''?'' @ u_RawQuery u else []) @
     (if u_Fragment u = [] then [] else ''#'' @ escaped_form fragment_byte (raw_fragment raw) (u_Fragment u))"

text \<open>\<open>url.ParseRequestURI\<close>: no fragment, and a text without a scheme has to be a path.\<close>

definition url_ParseRequestURI :: "gostring \<Rightarrow> url option" where
  "url_ParseRequestURI raw =
     (if raw = [] \<or> has_ctl raw then None
      else if raw = ''*'' then Some ((no_url [])\<lparr>u_Path := ''*''\<rparr>)
      else case getScheme raw of
             None \<Rightarrow> None
           | Some (sch, rest) \<Rightarrow>
               if sch \<noteq> [] then parse_rest (ToLower sch) rest
               else (let (p, q, force) = split_query rest in
                     if \<not> HasPrefix p ''/'' then None
                     else map_option (\<lambda>path. (no_url [])\<lparr>u_RawQuery := q, u_ForceQuery := force, u_Path := path\<rparr>)
                            (unescape EncodeOther p)))"

section \<open>Normalisation\<close>

definition maxTemplateName :: nat where "maxTemplateName = 128"
definition maxTemplateConfigLen :: nat where "maxTemplateConfigLen = 65536"

definition lookup :: "gostring \<Rightarrow> (gostring \<times> jval) list \<Rightarrow> jval option" where
  "lookup k es = map_of es k"

definition text_of :: "jval option \<Rightarrow> gostring option" where
  "text_of v = (case v of Some (VStr s) \<Rightarrow> Some s | _ \<Rightarrow> None)"

definition set_member :: "gostring \<Rightarrow> jval \<Rightarrow> (gostring \<times> jval) list \<Rightarrow> (gostring \<times> jval) list" where
  "set_member k v es = map (\<lambda>(k', x). if k' = k then (k', v) else (k', x)) es"

text \<open>The entry of \<open>targets\<close> with the host of a valid target taken out.\<close>

definition mask_target :: "jval \<Rightarrow> jval" where
  "mask_target entry =
     (case entry of
        VObj es \<Rightarrow>
          (let kind = (case text_of (lookup ''type'' es) of None \<Rightarrow> [] | Some s \<Rightarrow> s) in
           case text_of (lookup ''value'' es) of
             None \<Rightarrow> entry
           | Some value \<Rightarrow>
               (case normalizeTargetValue kind value of
                  Inl _ \<Rightarrow> entry
                | Inr _ \<Rightarrow>
                    if List.member [TargetTypeDomain, TargetTypeIP, TargetTypeCIDR] kind
                    then VObj (set_member ''value'' (VStr ''validated-target'') es)
                    else if kind = TargetTypeURL then
                      (case url_Parse value of
                         None \<Rightarrow> entry
                       | Some u \<Rightarrow>
                           if u_User u then entry
                           else VObj (set_member ''value'' (VStr (url_with_host ''validated-host'' value u)) es))
                    else entry))
      | _ \<Rightarrow> entry)"

definition mask_targets :: "(gostring \<times> jval) list \<Rightarrow> (gostring \<times> jval) list" where
  "mask_targets document =
     (case lookup ''targets'' document of
        Some (VArr entries) \<Rightarrow> set_member ''targets'' (VArr (map mask_target entries)) document
      | _ \<Rightarrow> document)"

definition sensitive_words :: "gostring list" where
  "sensitive_words = [''password'', ''token'', ''secret'', ''authorization'', ''cookie'']"

text \<open>
  The words are looked for in the lower-cased text of the marshalled document. They consist of
  letters that only strings of the document have next to each other, so each string is searched.
\<close>

definition has_sensitive_word :: "gostring \<Rightarrow> bool" where
  "has_sensitive_word s \<longleftrightarrow> list_ex (Contains (lower_text s)) sensitive_words"

definition validateSensitiveConfig :: "gostring \<Rightarrow> discovery_error + unit" where
  "validateSensitiveConfig raw =
     (case unmarshal_map raw of
        None \<Rightarrow> Inl DErrInvalidTaskConfig
      | Some document \<Rightarrow>
          if list_ex has_sensitive_word (marshal_strings (VObj (mask_targets document)))
          then Inl DErrInvalidTaskConfig else Inr ())"

definition normalizeTemplateConfig :: "gostring \<Rightarrow> discovery_error + gostring" where
  "normalizeTemplateConfig raw =
     (let config = TrimSpace raw in
      if config = [] then Inr ''{}''
      else if maxTemplateConfigLen < length config then Inl DErrInvalidTaskConfig
      else if \<not> json_Valid config then Inl DErrInvalidTaskConfig
      else case validateSensitiveConfig config of Inl e \<Rightarrow> Inl e | Inr _ \<Rightarrow> Inr config)"

definition validateTemplateConfig :: "gostring \<Rightarrow> discovery_error + unit" where
  "validateTemplateConfig raw = (case normalizeTemplateConfig raw of Inl e \<Rightarrow> Inl e | Inr _ \<Rightarrow> Inr ())"

section \<open>Targets and options\<close>

record dispatch_config =
  dc_Targets :: "dispatch_target list"
  dc_Options :: "(gostring \<times> jval) list"

text \<open>The structs of \<open>rawDispatchConfig\<close>.\<close>

definition into_raw_target :: "dispatch_target \<Rightarrow> jval \<Rightarrow> dispatch_target option" where
  "into_raw_target old v =
     (case v of
        VObj es \<Rightarrow>
          (case (decode_all into_string (dt_Type old) (members ''type'' es), decode_all into_string (dt_Value old) (members ''value'' es)) of
             (Some ty, Some value) \<Rightarrow> Some \<lparr>dt_Type = ty, dt_Value = value\<rparr>
           | _ \<Rightarrow> None)
      | VNull \<Rightarrow> Some old
      | _ \<Rightarrow> None)"

definition no_raw_target :: dispatch_target where "no_raw_target = \<lparr>dt_Type = [], dt_Value = []\<rparr>"

definition unmarshal_raw_config :: "gostring \<Rightarrow> (dispatch_target list \<times> (gostring \<times> jval) list) option" where
  "unmarshal_raw_config config =
     (case json_Decode config of
        Some (VObj es) \<Rightarrow>
          (case (decode_all (into_slice into_raw_target no_raw_target) ([], []) (members ''targets'' es),
                 decode_all into_map [] (members ''options'' es)) of
             (Some (targets, _), Some options) \<Rightarrow> Some (targets, options)
           | _ \<Rightarrow> None)
      | Some VNull \<Rightarrow> Some ([], [])
      | _ \<Rightarrow> None)"

fun normalize_targets :: "dispatch_target list \<Rightarrow> discovery_error + dispatch_target list" where
  "normalize_targets [] = Inr []"
| "normalize_targets (t # ts) =
     (case validateTargetType (dt_Type t) of
        Inl e \<Rightarrow> Inl e
      | Inr ty \<Rightarrow>
          (case normalizeTargetValue ty (dt_Value t) of
             Inl e \<Rightarrow> Inl e
           | Inr value \<Rightarrow>
               (case normalize_targets ts of Inl e \<Rightarrow> Inl e | Inr out \<Rightarrow> Inr (\<lparr>dt_Type = ty, dt_Value = value\<rparr> # out))))"

definition parseDispatchConfig :: "gostring \<Rightarrow> discovery_error + dispatch_config" where
  "parseDispatchConfig raw =
     (case normalizeTemplateConfig raw of
        Inl e \<Rightarrow> Inl e
      | Inr config \<Rightarrow>
          (case unmarshal_raw_config config of
             None \<Rightarrow> Inl DErrInvalidTaskConfig
           | Some (targets, options) \<Rightarrow>
               if targets = [] then Inl DErrInvalidTaskConfig
               else case normalize_targets targets of
                      Inl e \<Rightarrow> Inl e
                    | Inr out \<Rightarrow> Inr \<lparr>dc_Targets = out, dc_Options = options\<rparr>))"

definition hasInheritance :: "gostring \<Rightarrow> bool" where
  "hasInheritance raw =
     (case json_Decode raw of
        Some (VObj es) \<Rightarrow> (case map_of (rev es) ''inheritance'' of None \<Rightarrow> False | Some v \<Rightarrow> v \<noteq> VNull)
      | _ \<Rightarrow> False)"

section \<open>Active tasks\<close>

definition activeAPIMaxNodeIDLen :: nat where "activeAPIMaxNodeIDLen = 128"
definition activeAPIMaxExpandedPorts :: int where "activeAPIMaxExpandedPorts = 1000"

definition validActiveAPIIdentifier :: "gostring \<Rightarrow> nat \<Rightarrow> bool" where
  "validActiveAPIIdentifier value maxLen \<longleftrightarrow>
     value \<noteq> [] \<and> length value \<le> maxLen \<and> list_all (\<lambda>c. is_alnum c \<or> c \<in> set ''-_.:'') value"

text \<open>\<open>None\<close> for an option that is no string.\<close>

definition activeAPIStringOption :: "(gostring \<times> jval) list \<Rightarrow> gostring \<Rightarrow> gostring option" where
  "activeAPIStringOption options key =
     (case lookup key options of
        None \<Rightarrow> Some []
      | Some (VStr s) \<Rightarrow> Some (TrimSpace s)
      | Some _ \<Rightarrow> None)"

definition validActiveAPINodeID :: "gostring \<Rightarrow> bool" where
  "validActiveAPINodeID nodeID \<longleftrightarrow> nodeID = [] \<or> validActiveAPIIdentifier nodeID activeAPIMaxNodeIDLen"

fun activeAPIPortTargets_from :: "gostring list \<Rightarrow> dispatch_target list \<Rightarrow> gostring list option" where
  "activeAPIPortTargets_from seen [] = Some []"
| "activeAPIPortTargets_from seen (t # ts) =
     (let value = TrimSpace (dt_Value t) in
      if dt_Type t \<noteq> TargetTypeIP \<or> net_ParseIP value = None then None
      else if List.member seen value then None
      else map_option (Cons value) (activeAPIPortTargets_from (value # seen) ts))"

definition activeAPIPortTargets :: "dispatch_target list \<Rightarrow> gostring list option" where
  "activeAPIPortTargets ts = activeAPIPortTargets_from [] ts"

definition web_target_ok :: "gostring \<Rightarrow> bool" where
  "web_target_ok value =
     (case url_ParseRequestURI value of
        None \<Rightarrow> False
      | Some u \<Rightarrow> (u_Scheme u = ''http'' \<or> u_Scheme u = ''https'') \<and> u_Host u \<noteq> [] \<and> \<not> u_User u \<and> u_Fragment u = [])"

fun activeAPIWebTargets_from :: "gostring list \<Rightarrow> dispatch_target list \<Rightarrow> gostring list option" where
  "activeAPIWebTargets_from seen [] = Some []"
| "activeAPIWebTargets_from seen (t # ts) =
     (let value = TrimSpace (dt_Value t) in
      if dt_Type t \<noteq> TargetTypeURL \<or> maxTargetValue < length value then None
      else if \<not> web_target_ok value then None
      else if List.member seen value then None
      else map_option (Cons value) (activeAPIWebTargets_from (value # seen) ts))"

definition activeAPIWebTargets :: "dispatch_target list \<Rightarrow> gostring list option" where
  "activeAPIWebTargets ts = activeAPIWebTargets_from [] ts"

definition activeAPIASCIIDigits :: "gostring \<Rightarrow> bool" where
  "activeAPIASCIIDigits v \<longleftrightarrow> v \<noteq> [] \<and> list_all is_digit v"

text \<open>The ports of one item of the list, a port or a range; \<open>None\<close> when it is malformed.\<close>

definition port_item :: "gostring \<Rightarrow> (int \<times> int) option" where
  "port_item item =
     (let bounds = split_char (CHR ''-'') item in
      if item = [] \<or> item \<noteq> TrimSpace item \<or> 2 < length bounds then None
      else if \<not> activeAPIASCIIDigits (bounds ! 0) then None
      else case Atoi (bounds ! 0) of
             None \<Rightarrow> None
           | Some start \<Rightarrow>
               if start < 1 \<or> start > 65535 then None
               else if length bounds \<noteq> 2 then Some (start, start)
               else if \<not> activeAPIASCIIDigits (bounds ! 1) then None
               else (case Atoi (bounds ! 1) of
                       None \<Rightarrow> None
                     | Some end \<Rightarrow> if end < start \<or> end > 65535 then None else Some (start, end)))"

fun count_ports :: "int \<Rightarrow> gostring list \<Rightarrow> int option" where
  "count_ports n [] = Some n"
| "count_ports n (item # items) =
     (case port_item item of
        None \<Rightarrow> None
      | Some (start, end) \<Rightarrow>
          (let n' = n + (end - start + 1) in
           if n' > activeAPIMaxExpandedPorts then None else count_ports n' items))"

definition validActiveAPIPorts :: "gostring \<Rightarrow> bool" where
  "validActiveAPIPorts raw =
     (if raw = [] \<or> raw = ''all'' then False
      else case count_ports 0 (split_char (CHR '','') raw) of None \<Rightarrow> False | Some n \<Rightarrow> n > 0)"

definition validateActiveDispatchConfig :: "gostring \<Rightarrow> gostring \<Rightarrow> discovery_error + unit" where
  "validateActiveDispatchConfig taskType raw =
     (if \<not> IsActiveTaskType taskType then Inr ()
      else case parseDispatchConfig raw of
        Inl e \<Rightarrow> Inl e
      | Inr config \<Rightarrow>
          (case activeAPIStringOption (dc_Options config) ''node_id'' of
             None \<Rightarrow> Inl DErrInvalidTaskConfig
           | Some nodeID \<Rightarrow>
               if \<not> validActiveAPINodeID nodeID then Inl DErrInvalidTaskConfig
               else if taskType = TaskTypePortProbe then
                 (case activeAPIStringOption (dc_Options config) ''ports'' of
                    None \<Rightarrow> Inl DErrInvalidTaskConfig
                  | Some ports \<Rightarrow>
                      if \<not> validActiveAPIPorts ports then Inl DErrInvalidTaskConfig
                      else if activeAPIPortTargets (dc_Targets config) = None then Inl DErrInvalidTaskConfig
                      else Inr ())
               else if taskType = TaskTypeWebProbe \<or> taskType = TaskTypeFingerprint then
                 (if activeAPIWebTargets (dc_Targets config) = None then Inl DErrInvalidTaskConfig else Inr ())
               else Inl DErrTaskTypeUnsupported))"

end
