(* ===== verification/TaskModel.thy ===== *)
theory TaskModel
  imports TaskConfig DiscoveryService
begin

text \<open>
  Task templates, task runs, engines and the callback inbox: the structs of \<open>model.go\<close> and \<open>engine.go\<close>, and
  the tables (\<open>schema/0008\<close>, \<open>0009\<close>, \<open>0024\<close>, \<open>0027\<close>, \<open>0029\<close>, \<open>0031\<close>).

  An engine is remote: what it answers is a parameter, a function of all calls that were made to
  engines so far, so that its answers may depend on its history. The calls themselves are part of
  the state, \<open>tb_traffic\<close>: a rollback does not take them back.
\<close>

abbreviation ActionTemplateCreate :: gostring where "ActionTemplateCreate \<equiv> ''discovery.template.create''"
abbreviation ActionTemplateUpdate :: gostring where "ActionTemplateUpdate \<equiv> ''discovery.template.update''"
abbreviation ActionTemplateDelete :: gostring where "ActionTemplateDelete \<equiv> ''discovery.template.delete''"
abbreviation ActionTemplateEnable :: gostring where "ActionTemplateEnable \<equiv> ''discovery.template.enable''"
abbreviation ActionRunCreate :: gostring where "ActionRunCreate \<equiv> ''discovery.run.create''"
abbreviation ActionRunStatusChange :: gostring where "ActionRunStatusChange \<equiv> ''discovery.run.status_change''"
abbreviation ActionRunCancel :: gostring where "ActionRunCancel \<equiv> ''discovery.run.cancel''"

abbreviation PhaseStarted :: gostring where "PhaseStarted \<equiv> ''started''"
abbreviation PhaseProgress :: gostring where "PhaseProgress \<equiv> ''progress''"
abbreviation PhaseCompleted :: gostring where "PhaseCompleted \<equiv> ''completed''"
abbreviation PhaseFailed :: gostring where "PhaseFailed \<equiv> ''failed''"

abbreviation IngestPending :: gostring where "IngestPending \<equiv> ''pending''"
abbreviation IngestProcessing :: gostring where "IngestProcessing \<equiv> ''processing''"
abbreviation IngestProcessed :: gostring where "IngestProcessed \<equiv> ''processed''"
abbreviation IngestFailed :: gostring where "IngestFailed \<equiv> ''failed''"

section \<open>Structs\<close>

record task_template =
  tp_ID :: nat
  tp_TenantID :: gostring
  tp_OrgID :: gostring
  tp_ProjectID :: nat
  tp_ScopeID :: nat
  tp_Name :: gostring
  tp_TaskType :: gostring
  tp_Config :: gostring
  tp_Schedule :: gostring
  tp_Enabled :: bool
  tp_TimeoutSeconds :: int
  tp_RateLimit :: int
  tp_Concurrency :: int
  tp_RetryLimit :: int
  tp_CreatedAt :: time
  tp_UpdatedAt :: time
  tp_CreatedBy :: gostring
  tp_UpdatedBy :: gostring
  tp_DeletedAt :: time

record task_run =
  rn_ID :: nat
  rn_TenantID :: gostring
  rn_OrgID :: gostring
  rn_ProjectID :: nat
  rn_TemplateID :: nat
  rn_ScopeID :: nat
  rn_TaskType :: gostring
  rn_Status :: gostring
  rn_Progress :: int
  rn_TimeoutSeconds :: int
  rn_RateLimit :: int
  rn_Concurrency :: int
  rn_RetryLimit :: int
  rn_Attempt :: int
  rn_EngineJobID :: gostring
  rn_DispatchedAt :: time
  rn_LastCallbackAt :: time
  rn_ResultCount :: nat
  rn_CallbackSecretRef :: gostring
  rn_ApprovedBy :: gostring
  rn_ApprovalReason :: gostring
  rn_StartedAt :: time
  rn_FinishedAt :: time
  rn_ErrorSummary :: gostring
  rn_CreatedBy :: gostring
  rn_UpdatedBy :: gostring
  rn_DeletedAt :: time

record discovery_callback =
  cb_ID :: nat
  cb_TenantID :: gostring
  cb_OrgID :: gostring
  cb_ProjectID :: nat
  cb_RunID :: nat
  cb_Seq :: nat
  cb_SchemaVersion :: gostring
  cb_Phase :: gostring
  cb_Status :: gostring
  cb_ObservedAt :: time
  cb_PayloadHash :: gostring
  cb_Payload :: gostring
  cb_PayloadSize :: nat
  cb_ResultCount :: nat
  cb_ErrorSummary :: gostring
  cb_ReceivedAt :: time
  cb_EnqueuedAt :: time
  cb_IngestStatus :: gostring
  cb_IngestAttempt :: nat
  cb_IngestError :: gostring
  cb_ProcessedAt :: time
  cb_UpdatedAt :: time
  cb_DeletedAt :: time

record dispatch_plan =
  pl_RunID :: nat
  pl_TemplateID :: nat
  pl_ProjectID :: nat
  pl_ScopeID :: nat
  pl_TaskType :: gostring
  pl_Targets :: "dispatch_target list"
  pl_RateLimit :: int
  pl_Concurrency :: int
  pl_TimeoutSeconds :: int
  pl_RetryLimit :: int
  pl_Options :: "(gostring \<times> jval) list"

text \<open>\<open>Target\<close> has the fields of \<open>DispatchTarget\<close>.\<close>

record scan_job =
  sj_RunID :: nat
  sj_ProjectID :: nat
  sj_ScopeID :: nat
  sj_JobType :: gostring
  sj_Targets :: "dispatch_target list"
  sj_RateLimit :: int
  sj_Concurrency :: int
  sj_Timeout :: int
  sj_CallbackURL :: gostring
  sj_Options :: "(gostring \<times> jval) list"

record engine_job_status =
  es_Status :: gostring
  es_Progress :: int
  es_ResultCount :: nat
  es_ErrorSummary :: gostring

record pull_summary =
  ps_FactCount :: nat
  ps_TargetCount :: int
  ps_TotalTargets :: int
  ps_FinishedTargets :: int

section \<open>Callback payloads\<close>

text \<open>The structs of \<open>callback.go\<close> with the fields that the receiver looks at; a nil slice or pointer is \<open>None\<close>.\<close>

record fact_meta =
  fm_ClientRef :: gostring
  fm_NaturalKey :: gostring
  fm_Source :: gostring
  fm_Provider :: gostring
  fm_ObservedAt :: time
  fm_Confidence :: "8 word option"
  fm_ActiveProbe :: "bool option"
  fm_EvidenceHash :: gostring
  fm_EvidenceRef :: gostring

record fact_reference =
  fr_ClientRef :: gostring
  fr_NaturalKey :: gostring

record asset_fact =
  af_Meta :: fact_meta
  af_AssetType :: gostring
  af_Value :: gostring
  af_DisplayName :: gostring
  af_Attributes :: "(gostring \<times> gostring) list"

record relation_fact =
  rf_Meta :: fact_meta
  rf_RelationType :: gostring
  rf_From :: fact_reference
  rf_To :: fact_reference

record exposure_fact =
  ef_Meta :: fact_meta
  ef_Parent :: fact_reference
  ef_ExposureType :: gostring
  ef_Name :: gostring
  ef_Value :: gostring
  ef_Protocol :: gostring
  ef_Port :: "32 word"
  ef_Service :: gostring
  ef_Version :: gostring
  ef_URL :: gostring
  ef_Fingerprint :: gostring

text \<open>The sign and the bound of \<open>equity_ratio\<close> are all that is read of it.\<close>

record organization_fact =
  og_Meta :: fact_meta
  og_Name :: gostring
  og_SubjectType :: gostring
  og_RegistrationCode :: gostring
  og_Parent :: fact_reference
  og_EquityRatioOk :: bool

record filing_fact =
  fi_Meta :: fact_meta
  fi_Organization :: fact_reference
  fi_FilingNo :: gostring
  fi_FilingType :: gostring
  fi_WebsiteName :: gostring
  fi_Domains :: "gostring list"

record provider_error =
  pe_Provider :: gostring
  pe_Code :: gostring
  pe_Message :: gostring
  pe_Retryable :: "bool option"

record stage_progress =
  sg_Stage :: gostring
  sg_Provider :: gostring
  sg_Target :: gostring
  sg_Status :: gostring
  sg_Discovered :: int
  sg_Completed :: int
  sg_Total :: int
  sg_Failed :: int
  sg_NoRecords :: int
  sg_Message :: gostring

record callback_payload =
  cp_StageProgress :: "stage_progress option"
  cp_SchemaVersion :: gostring
  cp_RunID :: nat
  cp_Seq :: nat
  cp_Phase :: gostring
  cp_Status :: gostring
  cp_ResultCount :: nat
  cp_ObservedAt :: time
  cp_Assets :: "asset_fact list option"
  cp_Relations :: "relation_fact list option"
  cp_Exposures :: "exposure_fact list option"
  cp_Organizations :: "organization_fact list"
  cp_Filings :: "filing_fact list"
  cp_ProviderErrors :: "provider_error list option"
  cp_ErrorSummary :: gostring

section \<open>Inputs\<close>

record create_template_input =
  cti_TenantID :: gostring
  cti_OrgID :: gostring
  cti_ProjectID :: nat
  cti_ScopeID :: nat
  cti_Name :: gostring
  cti_TaskType :: gostring
  cti_Config :: gostring
  cti_Schedule :: gostring
  cti_Enabled :: bool
  cti_TimeoutSeconds :: int
  cti_RateLimit :: int
  cti_Concurrency :: int
  cti_RetryLimit :: int
  cti_ActorID :: gostring
  cti_Meta :: discovery_meta

record update_template_input =
  uti_TemplateID :: nat
  uti_TenantID :: gostring
  uti_OrgID :: gostring
  uti_ProjectID :: nat
  uti_Name :: "gostring option"
  uti_TaskType :: "gostring option"
  uti_Config :: "gostring option"
  uti_Schedule :: "gostring option"
  uti_TimeoutSeconds :: "int option"
  uti_RateLimit :: "int option"
  uti_Concurrency :: "int option"
  uti_RetryLimit :: "int option"
  uti_ActorID :: gostring
  uti_Meta :: discovery_meta

record enable_template_input =
  eti_TemplateID :: nat
  eti_ProjectID :: nat
  eti_Enabled :: bool
  eti_ActorID :: gostring
  eti_Meta :: discovery_meta

record delete_template_input =
  dti_TemplateID :: nat
  dti_ProjectID :: nat
  dti_ActorID :: gostring
  dti_Meta :: discovery_meta

record create_run_input =
  cri_TemplateID :: nat
  cri_ProjectID :: nat
  cri_ActorID :: gostring
  cri_ApprovedBy :: gostring
  cri_ApprovalReason :: gostring
  cri_Meta :: discovery_meta

record update_run_input =
  uri_RunID :: nat
  uri_ProjectID :: nat
  uri_ErrorSummary :: gostring
  uri_ResultCount :: nat
  uri_ActorID :: gostring
  uri_Meta :: discovery_meta

record dispatch_input =
  dpi_ProjectID :: nat
  dpi_RunID :: nat
  dpi_ActorID :: gostring
  dpi_CallbackURL :: gostring
  dpi_Meta :: discovery_meta

record callback_input =
  hci_ProjectID :: nat
  hci_RunID :: nat
  hci_Seq :: nat
  hci_SecretRef :: gostring
  hci_Timestamp :: gostring
  hci_Signature :: gostring
  hci_RawBody :: gostring
  hci_Secret :: gostring

record reconcile_input =
  rci_ProjectID :: nat
  rci_RunID :: nat
  rci_ActorID :: gostring
  rci_Meta :: discovery_meta

record reconcile_all_input =
  rai_Limit :: int
  rai_ActorID :: gostring
  rai_Meta :: discovery_meta

record reconcile_result =
  rcr_Checked :: int
  rcr_Updated :: int
  rcr_Cancelled :: int
  rcr_FailedRunIDs :: "nat list"
  rcr_Errors :: "discovery_error list"

section \<open>State\<close>

datatype engine_call = CallDispatch scan_job | CallCancel gostring | CallStatus gostring | CallResults nat

text \<open>What \<open>ListIPNetworkAttribution\<close> returns for an IP asset; the assets belong to another component.\<close>

record ip_network =
  ipn_ProjectID :: nat
  ipn_Value :: gostring
  ipn_Role :: gostring
  ipn_Provider :: gostring
  ipn_ResolvedBy :: int

record task_db =
  tb_scopes :: discovery_db
  tb_templates :: "task_template table"
  tb_runs :: "task_run table"
  tb_callbacks :: "discovery_callback table"
  tb_versions :: "nat list"
  tb_bindings :: "(nat \<times> nat \<times> nat) list"
  tb_network :: "ip_network list"
  tb_traffic :: "engine_call list"
  tb_queue :: "(nat \<times> nat \<times> gostring) list"

type_synonym 'a task_op = "(task_db, discovery_error, 'a) op"

definition empty_task_db :: "nat list \<Rightarrow> nat list \<Rightarrow> ip_network list \<Rightarrow> task_db" where
  "empty_task_db projects versions network =
     \<lparr>tb_scopes = empty_discovery_db projects, tb_templates = empty_table, tb_runs = empty_table, tb_callbacks = empty_table,
      tb_versions = versions, tb_bindings = [], tb_network = network, tb_traffic = [], tb_queue = []\<rparr>"

text \<open>A rollback restores the tables; calls to engines and queued jobs stay.\<close>

definition task_rollback :: "task_db \<Rightarrow> task_db \<Rightarrow> task_db" where
  "task_rollback d0 d1 =
     d1\<lparr>tb_scopes := discovery_rollback (tb_scopes d0) (tb_scopes d1), tb_templates := tbl_rollback (tb_templates d0) (tb_templates d1),
        tb_runs := tbl_rollback (tb_runs d0) (tb_runs d1), tb_callbacks := tbl_rollback (tb_callbacks d0) (tb_callbacks d1),
        tb_bindings := tb_bindings d0\<rparr>"

definition on_scope_db :: "'a discovery_op \<Rightarrow> 'a task_op" where
  "on_scope_db m = zoom tb_scopes (\<lambda>t d. d\<lparr>tb_scopes := t\<rparr>) m"

definition on_templates :: "(task_template table, sql_error, 'a) op \<Rightarrow> 'a task_op" where
  "on_templates m = mapErr DErrSql (zoom tb_templates (\<lambda>t d. d\<lparr>tb_templates := t\<rparr>) m)"

definition on_runs :: "(task_run table, sql_error, 'a) op \<Rightarrow> 'a task_op" where
  "on_runs m = mapErr DErrSql (zoom tb_runs (\<lambda>t d. d\<lparr>tb_runs := t\<rparr>) m)"

definition on_callbacks :: "(discovery_callback table, sql_error, 'a) op \<Rightarrow> 'a task_op" where
  "on_callbacks m = mapErr DErrSql (zoom tb_callbacks (\<lambda>t d. d\<lparr>tb_callbacks := t\<rparr>) m)"

end
