(* ===== verification/TaskStore.thy ===== *)
theory TaskStore
  imports TaskModel
begin

text \<open>
  The template and run half of the repository of \<open>internal/discovery\<close> (\<open>repository.go\<close>) with the
  statements of \<open>query/discovery.sql\<close>. The configuration of a template is a \<open>JSON\<close> column: what the
  server returns for it is \<open>env_json\<close>, and \<open>toDomainTaskTemplate\<close> compacts it. A time of a run that is
  not set is the sentinel in the table and the zero time in the struct.
\<close>

section \<open>Templates\<close>

definition int32Bounded :: "int \<Rightarrow> int" where
  "int32Bounded v = (if v > 2147483647 \<or> v < - 2147483648 then 0 else v)"

definition template_live :: "task_template \<Rightarrow> bool" where "template_live r \<longleftrightarrow> tp_DeletedAt r = epoch"

definition template_check :: "env \<Rightarrow> task_template \<Rightarrow> sql_error option" where
  "template_check e r = row_check
     (too_long [(tp_TenantID r, 64), (tp_OrgID r, 64), (tp_Name r, 128), (tp_TaskType r, 32), (tp_Schedule r, 255),
        (tp_CreatedBy r, 64), (tp_UpdatedBy r, 64)])
     (sql_in e (tp_TaskType r) validTaskTypes \<and> 1 \<le> tp_TimeoutSeconds r \<and> tp_TimeoutSeconds r \<le> 86400 \<and>
      1 \<le> tp_RateLimit r \<and> tp_RateLimit r \<le> 10000 \<and> 1 \<le> tp_Concurrency r \<and> tp_Concurrency r \<le> 500 \<and>
      0 \<le> tp_RetryLimit r \<and> tp_RetryLimit r \<le> 100)"

definition template_same_key :: "env \<Rightarrow> task_template \<Rightarrow> task_template \<Rightarrow> bool" where
  "template_same_key e a b \<longleftrightarrow>
     tp_ProjectID a = tp_ProjectID b \<and> sql_eq e (tp_Name a) (tp_Name b) \<and> tp_DeletedAt a = tp_DeletedAt b"

text \<open>The row of a template, \<open>None\<close> when the server refuses the document.\<close>

definition template_row :: "env \<Rightarrow> create_template_input \<Rightarrow> task_template option" where
  "template_row e i =
     map_option (\<lambda>config.
       \<lparr>tp_ID = 0, tp_TenantID = cti_TenantID i, tp_OrgID = cti_OrgID i, tp_ProjectID = cti_ProjectID i, tp_ScopeID = cti_ScopeID i,
        tp_Name = cti_Name i, tp_TaskType = cti_TaskType i, tp_Config = config, tp_Schedule = cti_Schedule i, tp_Enabled = cti_Enabled i,
        tp_TimeoutSeconds = int32Bounded (cti_TimeoutSeconds i), tp_RateLimit = int32Bounded (cti_RateLimit i),
        tp_Concurrency = int32Bounded (cti_Concurrency i), tp_RetryLimit = int32Bounded (cti_RetryLimit i),
        tp_CreatedAt = env_db_now e, tp_UpdatedAt = env_db_now e, tp_CreatedBy = cti_ActorID i, tp_UpdatedBy = cti_ActorID i,
        tp_DeletedAt = epoch\<rparr>) (env_json e (cti_Config i))"

definition repo_CreateTaskTemplate :: "env \<Rightarrow> create_template_input \<Rightarrow> nat task_op" where
  "repo_CreateTaskTemplate e i d =
     (case template_row e i of
        None \<Rightarrow> (Inl (DErrSql SqlCheck), d)
      | Some row \<Rightarrow>
          on_templates (sql_insert (template_check e) (template_same_key e)
            (\<lambda>r. list_ex (\<lambda>s. sc_ProjectID s = tp_ProjectID r \<and> sc_ID s = tp_ScopeID r) (t_rows (dd_scopes (tb_scopes d))))
            (\<lambda>n r. r\<lparr>tp_ID := n\<rparr>) row) d)"

definition toDomainTaskTemplate :: "task_template \<Rightarrow> task_template" where
  "toDomainTaskTemplate row =
     row\<lparr>tp_Config := (case json_Compact (tp_Config row) of None \<Rightarrow> tp_Config row | Some c \<Rightarrow> c)\<rparr>"

definition repo_GetTaskTemplate :: "nat \<Rightarrow> nat \<Rightarrow> task_template task_op" where
  "repo_GetTaskTemplate projectID templateID =
     asks (\<lambda>d. case sql_one (\<lambda>r. tp_ID r = templateID \<and> (tp_ProjectID r = projectID \<and> template_live r)) (tb_templates d) of
                 None \<Rightarrow> Inl DErrNotFound | Some r \<Rightarrow> Inr (toDomainTaskTemplate r))"

definition repo_ListTaskTemplates :: "nat \<Rightarrow> task_template list task_op" where
  "repo_ListTaskTemplates projectID =
     gets (\<lambda>d. map toDomainTaskTemplate (sql_many (\<lambda>r. tp_ProjectID r = projectID \<and> template_live r) (tb_templates d)))"

record template_params =
  tpp_Name :: gostring
  tpp_TaskType :: gostring
  tpp_Config :: gostring
  tpp_Schedule :: gostring
  tpp_TimeoutSeconds :: int
  tpp_RateLimit :: int
  tpp_Concurrency :: int
  tpp_RetryLimit :: int
  tpp_ActorID :: gostring

definition template_stamp :: "time \<Rightarrow> task_template \<Rightarrow> task_template" where
  "template_stamp now r = r\<lparr>tp_UpdatedAt := now\<rparr>"

definition template_written :: "template_params \<Rightarrow> gostring \<Rightarrow> task_template \<Rightarrow> task_template" where
  "template_written p config r =
     r\<lparr>tp_Name := tpp_Name p, tp_TaskType := tpp_TaskType p, tp_Config := config, tp_Schedule := tpp_Schedule p,
       tp_TimeoutSeconds := int32Bounded (tpp_TimeoutSeconds p), tp_RateLimit := int32Bounded (tpp_RateLimit p),
       tp_Concurrency := int32Bounded (tpp_Concurrency p), tp_RetryLimit := int32Bounded (tpp_RetryLimit p),
       tp_UpdatedBy := tpp_ActorID p\<rparr>"

definition update_template :: "env \<Rightarrow> nat \<Rightarrow> nat \<Rightarrow> (task_template \<Rightarrow> task_template) \<Rightarrow> nat task_op" where
  "update_template e projectID templateID f =
     on_templates (sql_update_unique (template_same_key e) (template_check e)
       (\<lambda>r. tp_ID r = templateID \<and> (tp_ProjectID r = projectID \<and> template_live r)) f (template_stamp (env_db_now e)))"

definition repo_UpdateTaskTemplate :: "env \<Rightarrow> nat \<Rightarrow> nat \<Rightarrow> template_params \<Rightarrow> nat task_op" where
  "repo_UpdateTaskTemplate e projectID templateID p =
     (case env_json e (tpp_Config p) of
        None \<Rightarrow> fail (DErrSql SqlCheck)
      | Some config \<Rightarrow> update_template e projectID templateID (template_written p config))"

definition repo_SetTaskTemplateEnabled :: "env \<Rightarrow> nat \<Rightarrow> nat \<Rightarrow> bool \<Rightarrow> gostring \<Rightarrow> nat task_op" where
  "repo_SetTaskTemplateEnabled e projectID templateID enabled actorID =
     update_template e projectID templateID (\<lambda>r. r\<lparr>tp_Enabled := enabled, tp_UpdatedBy := actorID\<rparr>)"

definition repo_DeleteTaskTemplate :: "env \<Rightarrow> nat \<Rightarrow> nat \<Rightarrow> gostring \<Rightarrow> nat task_op" where
  "repo_DeleteTaskTemplate e projectID templateID actorID =
     update_template e projectID templateID (\<lambda>r. r\<lparr>tp_DeletedAt := env_col e (env_now e), tp_UpdatedBy := actorID\<rparr>)"

section \<open>Runs\<close>

definition run_live :: "task_run \<Rightarrow> bool" where "run_live r \<longleftrightarrow> rn_DeletedAt r = epoch"

text \<open>\<open>taskRunTimeForDatabase\<close> and \<open>taskRunTimeFromDatabase\<close> around a stored time.\<close>

definition taskRunTimeForDatabase :: "time \<Rightarrow> time" where
  "taskRunTimeForDatabase v = (if v = zero_time then epoch else v)"

definition taskRunTimeFromDatabase :: "time \<Rightarrow> time" where
  "taskRunTimeFromDatabase v = (if v = epoch then zero_time else v)"

definition run_time :: "env \<Rightarrow> time \<Rightarrow> time" where
  "run_time e t = taskRunTimeFromDatabase (env_col e t)"

definition run_columns :: "task_run \<Rightarrow> (gostring \<times> nat) list" where
  "run_columns r =
     [(rn_TenantID r, 64), (rn_OrgID r, 64), (rn_TaskType r, 32), (rn_Status r, 16), (rn_EngineJobID r, 255),
      (rn_CallbackSecretRef r, 255), (rn_ErrorSummary r, 1024), (rn_CreatedBy r, 64), (rn_UpdatedBy r, 64),
      (rn_ApprovedBy r, 64), (rn_ApprovalReason r, 512)]"

definition run_check :: "env \<Rightarrow> task_run \<Rightarrow> sql_error option" where
  "run_check e r = row_check (too_long (run_columns r))
     (sql_in e (rn_Status r) validTaskStatuses \<and> 0 \<le> rn_Progress r \<and> rn_Progress r \<le> 100 \<and> 0 \<le> rn_Attempt r \<and>
      1 \<le> rn_TimeoutSeconds r \<and> rn_TimeoutSeconds r \<le> 86400 \<and> 1 \<le> rn_RateLimit r \<and> rn_RateLimit r \<le> 10000 \<and>
      1 \<le> rn_Concurrency r \<and> rn_Concurrency r \<le> 500 \<and> 0 \<le> rn_RetryLimit r \<and> rn_RetryLimit r \<le> 100)"

record run_params =
  rp_TenantID :: gostring
  rp_OrgID :: gostring
  rp_ProjectID :: nat
  rp_TemplateID :: nat
  rp_ScopeID :: nat
  rp_TaskType :: gostring
  rp_TimeoutSeconds :: int
  rp_RateLimit :: int
  rp_Concurrency :: int
  rp_RetryLimit :: int
  rp_CallbackSecretRef :: gostring
  rp_ApprovedBy :: gostring
  rp_ApprovalReason :: gostring
  rp_ActorID :: gostring
  rp_EngineConfigVersion :: nat

definition run_row :: "run_params \<Rightarrow> task_run" where
  "run_row p =
     \<lparr>rn_ID = 0, rn_TenantID = rp_TenantID p, rn_OrgID = rp_OrgID p, rn_ProjectID = rp_ProjectID p, rn_TemplateID = rp_TemplateID p,
      rn_ScopeID = rp_ScopeID p, rn_TaskType = rp_TaskType p, rn_Status = RunPending, rn_Progress = 0,
      rn_TimeoutSeconds = int32Bounded (rp_TimeoutSeconds p), rn_RateLimit = int32Bounded (rp_RateLimit p),
      rn_Concurrency = int32Bounded (rp_Concurrency p), rn_RetryLimit = int32Bounded (rp_RetryLimit p), rn_Attempt = 0,
      rn_EngineJobID = [], rn_DispatchedAt = zero_time, rn_LastCallbackAt = zero_time, rn_ResultCount = 0,
      rn_CallbackSecretRef = rp_CallbackSecretRef p, rn_ApprovedBy = rp_ApprovedBy p, rn_ApprovalReason = rp_ApprovalReason p,
      rn_StartedAt = zero_time, rn_FinishedAt = zero_time, rn_ErrorSummary = [], rn_CreatedBy = rp_ActorID p,
      rn_UpdatedBy = rp_ActorID p, rn_DeletedAt = epoch\<rparr>"

text \<open>The foreign keys of \<open>task_run\<close>: its template and its scope, in its project.\<close>

definition run_fk :: "task_db \<Rightarrow> task_run \<Rightarrow> bool" where
  "run_fk d r \<longleftrightarrow>
     list_ex (\<lambda>t. tp_ProjectID t = rn_ProjectID r \<and> tp_ID t = rn_TemplateID r) (t_rows (tb_templates d)) \<and>
     list_ex (\<lambda>s. sc_ProjectID s = rn_ProjectID r \<and> sc_ID s = rn_ScopeID r) (t_rows (dd_scopes (tb_scopes d)))"

text \<open>\<open>BindEngineRunSettings\<close>: one version per run, which has to exist.\<close>

definition repo_BindEngineRunSettings :: "nat \<Rightarrow> nat \<Rightarrow> nat \<Rightarrow> unit task_op" where
  "repo_BindEngineRunSettings projectID runID version d =
     (if list_ex (\<lambda>(p, r, _). p = projectID \<and> r = runID) (tb_bindings d) then (Inl (DErrSql SqlDuplicate), d)
      else if \<not> List.member (tb_versions d) version then (Inl (DErrSql SqlForeignKey), d)
      else (Inr (), d\<lparr>tb_bindings := tb_bindings d @ [(projectID, runID, version)]\<rparr>))"

definition repo_CreateTaskRun :: "env \<Rightarrow> run_params \<Rightarrow> nat task_op" where
  "repo_CreateTaskRun e p =
     bindM (\<lambda>d. on_runs (sql_insert (run_check e) (\<lambda>_ _. False) (run_fk d) (\<lambda>n r. r\<lparr>rn_ID := n\<rparr>) (run_row p)) d) (\<lambda>id.
     bindM (if rp_EngineConfigVersion p > 0 then repo_BindEngineRunSettings (rp_ProjectID p) id (rp_EngineConfigVersion p) else ok ()) (\<lambda>_.
     ok id))"

definition repo_GetTaskRun :: "nat \<Rightarrow> nat \<Rightarrow> task_run task_op" where
  "repo_GetTaskRun projectID runID =
     asks (\<lambda>d. case sql_one (\<lambda>r. rn_ID r = runID \<and> (rn_ProjectID r = projectID \<and> run_live r)) (tb_runs d) of
                 None \<Rightarrow> Inl DErrNotFound | Some r \<Rightarrow> Inr r)"

text \<open>The lock has no effect on calls that run one after the other.\<close>

definition repo_GetTaskRunForUpdate :: "nat \<Rightarrow> nat \<Rightarrow> task_run task_op" where
  "repo_GetTaskRunForUpdate = repo_GetTaskRun"

definition MaxTaskRunWindow :: nat where "MaxTaskRunWindow = 500"

definition repo_ListTaskRuns :: "nat \<Rightarrow> task_run list task_op" where
  "repo_ListTaskRuns projectID =
     gets (\<lambda>d. take MaxTaskRunWindow (rev (sql_many (\<lambda>r. rn_ProjectID r = projectID \<and> run_live r) (tb_runs d))))"

definition reconcilable :: "env \<Rightarrow> task_run \<Rightarrow> bool" where
  "reconcilable e r \<longleftrightarrow> sql_eq e (rn_Status r) RunRunning \<and> \<not> sql_eq e (rn_EngineJobID r) [] \<and>
     rn_DispatchedAt r \<noteq> zero_time \<and> run_live r"

definition repo_ListRunningRunsForReconcile :: "env \<Rightarrow> int \<Rightarrow> task_run list task_op" where
  "repo_ListRunningRunsForReconcile e limit0 =
     (let limit = (if limit0 \<le> 0 then 100 else limit0) in
      gets (\<lambda>d. take (nat limit) (sort_key rn_DispatchedAt (sql_many (reconcilable e) (tb_runs d)))))"

definition markRunUpdateResultError :: "nat task_op \<Rightarrow> unit task_op" where
  "markRunUpdateResultError m = bindM m (\<lambda>n. failIf (n = 0) DErrInvalidRunTransition)"

text \<open>The conditional updates of a run: they take effect on a live run that still has the status that was read.\<close>

definition mark_run :: "env \<Rightarrow> nat \<Rightarrow> nat \<Rightarrow> gostring \<Rightarrow> (task_run \<Rightarrow> task_run) \<Rightarrow> unit task_op" where
  "mark_run e projectID runID fromStatus f =
     markRunUpdateResultError (on_runs (sql_update (run_check e)
       (\<lambda>r. rn_ID r = runID \<and> (rn_ProjectID r = projectID \<and> sql_eq e (rn_Status r) fromStatus \<and> run_live r)) f id))"

definition repo_MarkRunRunning :: "env \<Rightarrow> nat \<Rightarrow> nat \<Rightarrow> gostring \<Rightarrow> gostring \<Rightarrow> time \<Rightarrow> unit task_op" where
  "repo_MarkRunRunning e projectID runID actorID fromStatus startedAt =
     mark_run e projectID runID fromStatus
       (\<lambda>r. r\<lparr>rn_Status := RunRunning, rn_Progress := 0, rn_StartedAt := run_time e startedAt, rn_UpdatedBy := actorID\<rparr>)"

definition repo_MarkRunDispatched :: "env \<Rightarrow> nat \<Rightarrow> nat \<Rightarrow> gostring \<Rightarrow> gostring \<Rightarrow> gostring \<Rightarrow> time \<Rightarrow> unit task_op" where
  "repo_MarkRunDispatched e projectID runID actorID fromStatus engineJobID now =
     mark_run e projectID runID fromStatus
       (\<lambda>r. r\<lparr>rn_Status := RunRunning, rn_Progress := 0, rn_EngineJobID := engineJobID, rn_DispatchedAt := run_time e now,
              rn_StartedAt := run_time e now, rn_UpdatedBy := actorID\<rparr>)"

definition repo_MarkRunDispatchFailed :: "env \<Rightarrow> nat \<Rightarrow> nat \<Rightarrow> gostring \<Rightarrow> gostring \<Rightarrow> gostring \<Rightarrow> time \<Rightarrow> unit task_op" where
  "repo_MarkRunDispatchFailed e projectID runID actorID fromStatus errorSummary now =
     mark_run e projectID runID fromStatus
       (\<lambda>r. r\<lparr>rn_Status := RunFailed, rn_Progress := 0, rn_ErrorSummary := errorSummary, rn_FinishedAt := run_time e now,
              rn_UpdatedBy := actorID\<rparr>)"

definition run_closed :: "env \<Rightarrow> gostring \<Rightarrow> int \<Rightarrow> nat \<Rightarrow> gostring \<Rightarrow> time \<Rightarrow> gostring \<Rightarrow> task_run \<Rightarrow> task_run" where
  "run_closed e status progress resultCount errorSummary now actorID r =
     r\<lparr>rn_Status := status, rn_Progress := progress, rn_ResultCount := resultCount, rn_ErrorSummary := errorSummary,
       rn_FinishedAt := run_time e now, rn_UpdatedBy := actorID\<rparr>"

definition repo_MarkRunSucceeded :: "env \<Rightarrow> nat \<Rightarrow> nat \<Rightarrow> gostring \<Rightarrow> gostring \<Rightarrow> nat \<Rightarrow> time \<Rightarrow> unit task_op" where
  "repo_MarkRunSucceeded e projectID runID actorID fromStatus resultCount now =
     mark_run e projectID runID fromStatus (run_closed e RunSuccess 100 resultCount [] now actorID)"

definition repo_MarkRunPartialSuccess ::
  "env \<Rightarrow> nat \<Rightarrow> nat \<Rightarrow> gostring \<Rightarrow> gostring \<Rightarrow> gostring \<Rightarrow> nat \<Rightarrow> time \<Rightarrow> unit task_op" where
  "repo_MarkRunPartialSuccess e projectID runID actorID fromStatus errorSummary resultCount now =
     mark_run e projectID runID fromStatus (run_closed e RunPartial 100 resultCount errorSummary now actorID)"

definition repo_MarkRunFailed ::
  "env \<Rightarrow> nat \<Rightarrow> nat \<Rightarrow> gostring \<Rightarrow> gostring \<Rightarrow> gostring \<Rightarrow> nat \<Rightarrow> time \<Rightarrow> unit task_op" where
  "repo_MarkRunFailed e projectID runID actorID fromStatus errorSummary resultCount now =
     mark_run e projectID runID fromStatus (run_closed e RunFailed 0 resultCount errorSummary now actorID)"

definition repo_MarkRunCancelled :: "env \<Rightarrow> nat \<Rightarrow> nat \<Rightarrow> gostring \<Rightarrow> gostring \<Rightarrow> gostring \<Rightarrow> time \<Rightarrow> unit task_op" where
  "repo_MarkRunCancelled e projectID runID actorID fromStatus errorSummary now =
     mark_run e projectID runID fromStatus
       (\<lambda>r. r\<lparr>rn_Status := RunCancelled, rn_Progress := 0, rn_ErrorSummary := errorSummary, rn_FinishedAt := run_time e now,
              rn_UpdatedBy := actorID\<rparr>)"

text \<open>The statement reports no number of rows; the time it sets is not part of the struct.\<close>

definition repo_IncrementRunAttempt :: "env \<Rightarrow> nat \<Rightarrow> nat \<Rightarrow> gostring \<Rightarrow> nat task_op" where
  "repo_IncrementRunAttempt e projectID runID actorID =
     on_runs (sql_update (run_check e) (\<lambda>r. rn_ID r = runID \<and> (rn_ProjectID r = projectID \<and> run_live r))
       (\<lambda>r. r\<lparr>rn_Attempt := rn_Attempt r + 1, rn_UpdatedBy := actorID\<rparr>) id)"

definition repo_MarkRunCallbackReceived :: "env \<Rightarrow> nat \<Rightarrow> nat \<Rightarrow> gostring \<Rightarrow> nat \<Rightarrow> time \<Rightarrow> unit task_op" where
  "repo_MarkRunCallbackReceived e projectID runID actorID resultCount now =
     mark_run e projectID runID RunRunning
       (\<lambda>r. r\<lparr>rn_LastCallbackAt := run_time e now, rn_ResultCount := rn_ResultCount r + resultCount, rn_UpdatedBy := actorID\<rparr>)"

section \<open>The inbox\<close>

definition callback_live :: "discovery_callback \<Rightarrow> bool" where "callback_live c \<longleftrightarrow> cb_DeletedAt c = epoch"

definition callback_check :: "env \<Rightarrow> discovery_callback \<Rightarrow> sql_error option" where
  "callback_check e c = row_check
     (too_long [(cb_TenantID c, 64), (cb_OrgID c, 64), (cb_SchemaVersion c, 16), (cb_Phase c, 32), (cb_Status c, 32),
        (cb_PayloadHash c, 64), (cb_ErrorSummary c, 1024), (cb_IngestStatus c, 16), (cb_IngestError c, 1024)])
     (sql_in e (cb_Phase c) [''started'', ''progress'', ''completed'', ''failed'', []] \<and>
      sql_in e (cb_Status c) [''running'', ''success'', ''partial_success'', ''failed'', ''cancelled'', []] \<and>
      cb_PayloadSize c \<le> 4194304 \<and>
      sql_in e (cb_IngestStatus c) [''pending'', ''processing'', ''processed'', ''failed''])"

definition callback_same_key :: "discovery_callback \<Rightarrow> discovery_callback \<Rightarrow> bool" where
  "callback_same_key a b \<longleftrightarrow> cb_ProjectID a = cb_ProjectID b \<and> cb_RunID a = cb_RunID b \<and> cb_Seq a = cb_Seq b \<and>
     cb_DeletedAt a = cb_DeletedAt b"

text \<open>
  \<open>INSERT IGNORE\<close> turns every constraint of the row into a warning: a duplicate and a missing run
  insert nothing. The values that reach it fit their columns (\<open>validateCallbackPayload\<close> bounds them), so
  the adjustments that \<open>IGNORE\<close> makes to others are not represented.
\<close>

definition repo_InsertDiscoveryCallback :: "env \<Rightarrow> discovery_callback \<Rightarrow> bool task_op" where
  "repo_InsertDiscoveryCallback e c d =
     (case on_callbacks (sql_insert (callback_check e) callback_same_key
              (\<lambda>c. list_ex (\<lambda>r. rn_ProjectID r = cb_ProjectID c \<and> rn_ID r = cb_RunID c) (t_rows (tb_runs d)))
              (\<lambda>n c. c\<lparr>cb_ID := n\<rparr>) c) d of
        (Inr _, d') \<Rightarrow> (Inr True, d')
      | (Inl _, d') \<Rightarrow> (Inr False, d'))"

definition cb_at :: "nat \<Rightarrow> nat \<Rightarrow> nat \<Rightarrow> discovery_callback \<Rightarrow> bool" where
  "cb_at projectID runID seq c \<longleftrightarrow> cb_ProjectID c = projectID \<and> cb_RunID c = runID \<and> cb_Seq c = seq \<and> callback_live c"

definition repo_GetDiscoveryCallback :: "nat \<Rightarrow> nat \<Rightarrow> nat \<Rightarrow> discovery_callback task_op" where
  "repo_GetDiscoveryCallback projectID runID seq =
     asks (\<lambda>d. case sql_one (cb_at projectID runID seq) (tb_callbacks d) of None \<Rightarrow> Inl DErrNotFound | Some c \<Rightarrow> Inr c)"

definition stale :: "env \<Rightarrow> discovery_callback \<Rightarrow> bool" where
  "stale e c \<longleftrightarrow> cb_UpdatedAt c < env_db_now e - 300 * second"

definition ingest_attempt_cap :: nat where "ingest_attempt_cap = 10"

definition recoverable :: "env \<Rightarrow> discovery_callback \<Rightarrow> bool" where
  "recoverable e c \<longleftrightarrow>
     (sql_eq e (cb_IngestStatus c) IngestPending \<or>
      sql_eq e (cb_IngestStatus c) IngestFailed \<and> cb_IngestAttempt c < ingest_attempt_cap \<or>
      sql_eq e (cb_IngestStatus c) IngestProcessing \<and> cb_IngestAttempt c < ingest_attempt_cap \<and> stale e c) \<and> callback_live c"

definition repo_ListPendingDiscoveryCallbackRefs :: "env \<Rightarrow> int \<Rightarrow> (nat \<times> nat \<times> nat) list task_op" where
  "repo_ListPendingDiscoveryCallbackRefs e limit =
     gets (\<lambda>d. map (\<lambda>c. (cb_ProjectID c, cb_RunID c, cb_Seq c))
       (take (nat limit) (sort_key cb_ReceivedAt (sql_many (recoverable e) (tb_callbacks d)))))"

definition update_callback ::
  "env \<Rightarrow> (discovery_callback \<Rightarrow> bool) \<Rightarrow> (discovery_callback \<Rightarrow> discovery_callback) \<Rightarrow> nat task_op" where
  "update_callback e p f =
     on_callbacks (sql_update (callback_check e) p f (\<lambda>c. c\<lparr>cb_UpdatedAt := env_db_now e\<rparr>))"

definition repo_MarkDiscoveryCallbackEnqueued :: "env \<Rightarrow> nat \<Rightarrow> nat \<Rightarrow> nat \<Rightarrow> time \<Rightarrow> nat task_op" where
  "repo_MarkDiscoveryCallbackEnqueued e projectID runID seq enqueuedAt =
     update_callback e (cb_at projectID runID seq) (\<lambda>c. c\<lparr>cb_EnqueuedAt := env_col e enqueuedAt\<rparr>)"

definition claimable :: "env \<Rightarrow> discovery_callback \<Rightarrow> bool" where
  "claimable e c \<longleftrightarrow>
     (sql_in e (cb_IngestStatus c) [IngestPending, IngestFailed] \<or> sql_eq e (cb_IngestStatus c) IngestProcessing \<and> stale e c) \<and>
     cb_IngestAttempt c < ingest_attempt_cap"

text \<open>The methods that report whether a row was changed (\<open>rowsAffected\<close>).\<close>

definition repo_MarkDiscoveryCallbackProcessing :: "env \<Rightarrow> nat \<Rightarrow> nat \<Rightarrow> nat \<Rightarrow> bool task_op" where
  "repo_MarkDiscoveryCallbackProcessing e projectID runID seq =
     bindM (update_callback e (\<lambda>c. cb_at projectID runID seq c \<and> claimable e c)
       (\<lambda>c. c\<lparr>cb_IngestStatus := IngestProcessing, cb_IngestAttempt := cb_IngestAttempt c + 1, cb_IngestError := []\<rparr>)) (\<lambda>n.
     ok (n > 0))"

definition repo_MarkDiscoveryCallbackProcessed :: "env \<Rightarrow> nat \<Rightarrow> nat \<Rightarrow> nat \<Rightarrow> time \<Rightarrow> bool task_op" where
  "repo_MarkDiscoveryCallbackProcessed e projectID runID seq processedAt =
     bindM (update_callback e (\<lambda>c. cb_at projectID runID seq c \<and> sql_eq e (cb_IngestStatus c) IngestProcessing)
       (\<lambda>c. c\<lparr>cb_IngestStatus := IngestProcessed, cb_IngestError := [], cb_ProcessedAt := env_col e processedAt\<rparr>)) (\<lambda>n.
     ok (n > 0))"

definition repo_MarkDiscoveryCallbackFailed :: "env \<Rightarrow> nat \<Rightarrow> nat \<Rightarrow> nat \<Rightarrow> gostring \<Rightarrow> nat task_op" where
  "repo_MarkDiscoveryCallbackFailed e projectID runID seq summary =
     update_callback e (\<lambda>c. cb_at projectID runID seq c \<and> sql_eq e (cb_IngestStatus c) IngestProcessing)
       (\<lambda>c. c\<lparr>cb_IngestStatus := IngestFailed, cb_IngestError := summary\<rparr>)"

definition repo_ReleaseStaleDiscoveryCallbackIngest :: "env \<Rightarrow> nat task_op" where
  "repo_ReleaseStaleDiscoveryCallbackIngest e =
     update_callback e
       (\<lambda>c. sql_eq e (cb_IngestStatus c) IngestProcessing \<and> cb_IngestAttempt c < ingest_attempt_cap \<and> stale e c \<and> callback_live c)
       (\<lambda>c. c\<lparr>cb_IngestStatus := IngestPending\<rparr>)"

definition repo_ListDiscoveryCallbacksForRunForUpdate :: "nat \<Rightarrow> nat \<Rightarrow> discovery_callback list task_op" where
  "repo_ListDiscoveryCallbacksForRunForUpdate projectID runID =
     gets (\<lambda>d. sort_key cb_Seq (sql_many (\<lambda>c. cb_ProjectID c = projectID \<and> cb_RunID c = runID \<and> callback_live c) (tb_callbacks d)))"

section \<open>Network attribution\<close>

definition repo_ListIPNetworkAttribution :: "nat \<Rightarrow> gostring list \<Rightarrow> (gostring \<Rightarrow> gostring \<Rightarrow> bool) \<Rightarrow> ip_network list task_op" where
  "repo_ListIPNetworkAttribution projectID values same =
     gets (\<lambda>d. if values = [] then [] else
       filter (\<lambda>n. ipn_ProjectID n = projectID \<and> list_ex (same (ipn_Value n)) values) (tb_network d))"

end
