(* ===== verification/TaskService.thy ===== *)
theory TaskService
  imports TaskStore
begin

text \<open>
  The template and run operations of \<open>discovery.Service\<close> (\<open>internal/discovery/service.go\<close>): templates, runs
  and their status machine, the dispatch plan and the dispatch to an engine, cancellation and
  reconciliation.

  \<open>task_service\<close> is the service a call works with, after \<open>withLatestSettings\<close> or \<open>withRunSettings\<close> has put the
  policy, the router and the version of the engine settings into it. Parameters of the record are
  the parts of the system the service calls: the engines, the ownership checker, the queue, the
  check of inherited targets (\<open>inheritance.go\<close>), and the observations and assets that reconciliation
  updates (\<open>pullActiveRunResults\<close>, \<open>ApplyDiscoveryObservationLifecycle\<close>), which are other tables; for callbacks
  the queue of the ingest worker, HMAC-SHA256 and SHA-256, and the decoding of a body into the
  structs of \<open>callback.go\<close>, with unknown fields refused or ignored, and the texts of errors. A service
  whose settings are stored has a router. Contexts are never cancelled, so a wait before a retry
  always ends.
\<close>

section \<open>The service\<close>

record engine =
  en_projects :: "(nat \<Rightarrow> int) option"
  en_resolver :: bool
  en_Dispatch :: "engine_call list \<Rightarrow> scan_job \<Rightarrow> engine_error + gostring"
  en_Cancel :: "engine_call list \<Rightarrow> gostring \<Rightarrow> engine_error + unit"
  en_Status :: "engine_call list \<Rightarrow> gostring \<Rightarrow> engine_error + engine_job_status"
  en_Results :: "engine_call list \<Rightarrow> task_run \<Rightarrow> discovery_error + pull_summary"

record engine_router =
  er_passive :: "engine option"
  er_active :: "engine option"

record task_service =
  tv_base :: discovery_service
  tv_policy :: active_policy
  tv_version :: nat
  tv_router :: "engine_router option"
  tv_engine :: "engine option"
  tv_ownership :: "(nat \<Rightarrow> gostring \<Rightarrow> discovery_error + bool) option"
  tv_secretRef :: gostring
  tv_enqueue :: "(nat \<times> nat \<times> gostring \<Rightarrow> discovery_error option) option"
  tv_inherited :: "nat \<Rightarrow> nat \<Rightarrow> gostring \<Rightarrow> gostring \<Rightarrow> task_db \<Rightarrow> discovery_error + unit"
  tv_lifecycle :: "nat \<Rightarrow> nat \<Rightarrow> gostring \<Rightarrow> bool \<Rightarrow> task_db \<Rightarrow> discovery_error + unit"
  tv_callbackEnqueue :: "(nat \<times> nat \<times> nat \<Rightarrow> discovery_error option) option"
  tv_hmac :: "gostring \<Rightarrow> gostring \<Rightarrow> gostring"
  tv_sha256 :: "gostring \<Rightarrow> gostring"
  tv_decode :: "bool \<Rightarrow> gostring \<Rightarrow> callback_payload option"
  tv_errorText :: "discovery_error \<Rightarrow> gostring"

abbreviation tv_env :: "task_service \<Rightarrow> env" where "tv_env s \<equiv> ds_env (tv_base s)"
abbreviation tv_now :: "task_service \<Rightarrow> time" where "tv_now s \<equiv> env_now (tv_env s)"

definition task_runInTx :: "task_service \<Rightarrow> 'a task_op \<Rightarrow> 'a task_op" where
  "task_runInTx s m = (if ds_db (tv_base s) then inTx task_rollback m else m)"

definition hasEngineRouting :: "task_service \<Rightarrow> bool" where
  "hasEngineRouting s \<longleftrightarrow> tv_router s \<noteq> None \<or> tv_engine s \<noteq> None"

datatype engine_route = RoutePassive | RouteActive

definition EngineRouteForTaskType :: "gostring \<Rightarrow> discovery_error + engine_route" where
  "EngineRouteForTaskType taskType =
     (let v = TrimSpace taskType in
      if List.member [TaskTypePassiveIntel, TaskTypeDNS, TaskTypeOrgIntel] v then Inr RoutePassive
      else if List.member [TaskTypePortProbe, TaskTypeWebProbe, TaskTypeFingerprint] v then Inr RouteActive
      else Inl DErrEngineRouteUnsupported)"

definition EngineForTaskType :: "engine_router \<Rightarrow> gostring \<Rightarrow> discovery_error + engine" where
  "EngineForTaskType r taskType =
     (case EngineRouteForTaskType taskType of
        Inl e \<Rightarrow> Inl e
      | Inr route \<Rightarrow>
          (case (case route of RoutePassive \<Rightarrow> er_passive r | RouteActive \<Rightarrow> er_active r) of
             None \<Rightarrow> Inl DErrEngineNotConfigured
           | Some adapter \<Rightarrow> Inr adapter))"

definition withProjectResolver :: "task_service \<Rightarrow> engine \<Rightarrow> engine" where
  "withProjectResolver s en =
     (if en_projects en \<noteq> None \<and> ds_db (tv_base s) \<and> \<not> en_resolver en then en\<lparr>en_resolver := True\<rparr> else en)"

definition engineForTaskType :: "task_service \<Rightarrow> gostring \<Rightarrow> discovery_error + engine" where
  "engineForTaskType s taskType =
     (case tv_router s of
        Some r \<Rightarrow> (case EngineForTaskType r taskType of Inl e \<Rightarrow> Inl e | Inr en \<Rightarrow> Inr (withProjectResolver s en))
      | None \<Rightarrow> (case tv_engine s of Some en \<Rightarrow> Inr (withProjectResolver s en) | None \<Rightarrow> Inl DErrEngineNotConfigured))"

definition validateEngineProject :: "task_service \<Rightarrow> nat \<Rightarrow> gostring \<Rightarrow> discovery_error + unit" where
  "validateEngineProject s projectID taskType =
     (case engineForTaskType s taskType of
        Inl e \<Rightarrow> Inl e
      | Inr en \<Rightarrow>
          (case en_projects en of
             None \<Rightarrow> Inr ()
           | Some ids \<Rightarrow> if ids projectID \<le> 0 \<and> \<not> en_resolver en then Inl DErrActiveEngineProjectMapping else Inr ()))"

definition validateInheritedSnapshot :: "task_service \<Rightarrow> nat \<Rightarrow> nat \<Rightarrow> gostring \<Rightarrow> gostring \<Rightarrow> unit task_op" where
  "validateInheritedSnapshot s projectID scopeID taskType raw =
     (if \<not> hasInheritance raw then ok () else asks (tv_inherited s projectID scopeID taskType raw))"

section \<open>Audit\<close>

definition template_val :: "task_template \<Rightarrow> goval" where
  "template_val t = GPtr (GStruct
     [(exported ''ID'', GInt (int (tp_ID t))), (exported ''TenantID'', GStr (tp_TenantID t)), (exported ''OrgID'', GStr (tp_OrgID t)),
      (exported ''ProjectID'', GInt (int (tp_ProjectID t))), (exported ''ScopeID'', GInt (int (tp_ScopeID t))),
      (exported ''Name'', GStr (tp_Name t)), (exported ''TaskType'', GStr (tp_TaskType t)), (exported ''Config'', GStr (tp_Config t)),
      (exported ''Schedule'', GStr (tp_Schedule t)), (exported ''Enabled'', GBool (tp_Enabled t)),
      (exported ''TimeoutSeconds'', GInt (tp_TimeoutSeconds t)), (exported ''RateLimit'', GInt (tp_RateLimit t)),
      (exported ''Concurrency'', GInt (tp_Concurrency t)), (exported ''RetryLimit'', GInt (tp_RetryLimit t)),
      (exported ''CreatedAt'', time_val (tp_CreatedAt t)), (exported ''UpdatedAt'', time_val (tp_UpdatedAt t)),
      (exported ''CreatedBy'', GStr (tp_CreatedBy t)), (exported ''UpdatedBy'', GStr (tp_UpdatedBy t)),
      (exported ''DeletedAt'', time_val (tp_DeletedAt t)), (exported ''Targets'', GSlice [])])"

definition run_val :: "task_run \<Rightarrow> goval" where
  "run_val r = GPtr (GStruct
     [(exported ''ID'', GInt (int (rn_ID r))), (exported ''TenantID'', GStr (rn_TenantID r)), (exported ''OrgID'', GStr (rn_OrgID r)),
      (exported ''ProjectID'', GInt (int (rn_ProjectID r))), (exported ''TemplateID'', GInt (int (rn_TemplateID r))),
      (exported ''ScopeID'', GInt (int (rn_ScopeID r))), (exported ''TaskType'', GStr (rn_TaskType r)),
      (exported ''Status'', GStr (rn_Status r)), (exported ''Progress'', GInt (rn_Progress r)),
      (exported ''TimeoutSeconds'', GInt (rn_TimeoutSeconds r)), (exported ''RateLimit'', GInt (rn_RateLimit r)),
      (exported ''Concurrency'', GInt (rn_Concurrency r)), (exported ''RetryLimit'', GInt (rn_RetryLimit r)),
      (exported ''Attempt'', GInt (rn_Attempt r)), (exported ''EngineJobID'', GStr (rn_EngineJobID r)),
      (exported ''DispatchedAt'', time_val (rn_DispatchedAt r)), (exported ''LastCallbackAt'', time_val (rn_LastCallbackAt r)),
      (exported ''ResultCount'', GInt (int (rn_ResultCount r))), (exported ''CallbackSecretRef'', GStr (rn_CallbackSecretRef r)),
      (exported ''ApprovedBy'', GStr (rn_ApprovedBy r)), (exported ''ApprovalReason'', GStr (rn_ApprovalReason r)),
      (exported ''StartedAt'', time_val (rn_StartedAt r)), (exported ''FinishedAt'', time_val (rn_FinishedAt r)),
      (exported ''ErrorSummary'', GStr (rn_ErrorSummary r)), (exported ''CreatedBy'', GStr (rn_CreatedBy r)),
      (exported ''UpdatedBy'', GStr (rn_UpdatedBy r)), (exported ''DeletedAt'', time_val (rn_DeletedAt r))])"

datatype audit_entity = ETemplate task_template | ERun task_run

definition entity_val :: "audit_entity option \<Rightarrow> goval" where
  "entity_val x = (case x of None \<Rightarrow> GNil | Some (ETemplate t) \<Rightarrow> template_val t | Some (ERun r) \<Rightarrow> run_val r)"

text \<open>Tenant, organisation, project, id and resource type of an entity.\<close>

fun extractAuditEntity :: "audit_entity \<Rightarrow> gostring \<times> gostring \<times> nat \<times> nat \<times> gostring" where
  "extractAuditEntity (ETemplate t) = (tp_TenantID t, tp_OrgID t, tp_ProjectID t, tp_ID t, ''task_template'')"
| "extractAuditEntity (ERun r) = (rn_TenantID r, rn_OrgID r, rn_ProjectID r, rn_ID r, ''task_run'')"

definition task_event ::
  "gostring \<Rightarrow> audit_entity option \<Rightarrow> audit_entity option \<Rightarrow> gostring \<Rightarrow> discovery_meta \<Rightarrow> event" where
  "task_event action before after actorID m =
     (case extractAuditEntity (case before of Some b \<Rightarrow> b | None \<Rightarrow> the after) of
        (tenant, org, project, n, kind) \<Rightarrow>
          empty_event\<lparr>ev_TenantID := tenant, ev_OrgID := org, ev_ProjectID := project, ev_ActorID := actorID,
            ev_ActorType := ''user'', ev_Action := action, ev_ResourceType := kind, ev_ResourceID := FormatUint n,
            ev_Result := ''success'', ev_IP := dm_IP m, ev_UserAgent := dm_UserAgent m, ev_RequestID := dm_RequestID m,
            ev_Before := entity_val before, ev_After := entity_val after, ev_Metadata := meta_val m\<rparr>)"

definition on_audit :: "(audit_row table, sql_error, 'a) op \<Rightarrow> 'a task_op" where
  "on_audit m = on_scope_db (mapErr DErrSql (zoom dd_audit (\<lambda>t d. d\<lparr>dd_audit := t\<rparr>) m))"

definition recordTaskAudit ::
  "task_service \<Rightarrow> gostring \<Rightarrow> audit_entity option \<Rightarrow> audit_entity option \<Rightarrow> gostring \<Rightarrow> discovery_meta \<Rightarrow> unit task_op" where
  "recordTaskAudit s action before after actorID m =
     (if \<not> audits (tv_base s) then ok () else on_audit (audit_Record (tv_env s) (task_event action before after actorID m)))"

section \<open>Templates\<close>

definition prepareTaskTemplateInput :: "task_service \<Rightarrow> create_template_input \<Rightarrow> create_template_input task_op" where
  "prepareTaskTemplateInput s i =
     bindM (liftM (validateTemplateMeta (cti_TenantID i) (cti_OrgID i) (cti_Name i) (cti_ScopeID i) (cti_ProjectID i) (cti_TaskType i) (cti_ActorID i))) (\<lambda>_.
     bindM (liftM (requireActiveDispatchEnabled (tv_policy s) (cti_TaskType i))) (\<lambda>_.
     bindM (liftM (validateTemplateSchedule (cti_Schedule i))) (\<lambda>_.
     bindM (liftM (normalizeTemplateConfig (cti_Config i))) (\<lambda>config.
     bindM (liftM (validateActiveDispatchConfig (cti_TaskType i) config)) (\<lambda>_.
     bindM (liftM (validateTaskLimits (cti_TimeoutSeconds i) (cti_RateLimit i) (cti_Concurrency i) (cti_RetryLimit i))) (\<lambda>_.
     bindM (liftM (ValidateActiveTaskLimits (cti_TaskType i) (cti_RateLimit i) (cti_Concurrency i))) (\<lambda>_.
     ok (i\<lparr>cti_Config := config\<rparr>))))))))"

definition create_template_body :: "task_service \<Rightarrow> create_template_input \<Rightarrow> task_template task_op" where
  "create_template_body s i =
     bindM (on_scope_db (repo_GetScope (cti_ProjectID i) (cti_ScopeID i))) (\<lambda>_.
     bindM (validateInheritedSnapshot s (cti_ProjectID i) (cti_ScopeID i) (cti_TaskType i) (cti_Config i)) (\<lambda>_.
     bindM (repo_CreateTaskTemplate (tv_env s) i) (\<lambda>id.
     bindM (repo_GetTaskTemplate (cti_ProjectID i) id) (\<lambda>t.
     bindM (recordTaskAudit s ActionTemplateCreate None (Some (ETemplate t)) (cti_ActorID i) (cti_Meta i)) (\<lambda>_.
     ok t)))))"

definition CreateTaskTemplate :: "task_service \<Rightarrow> create_template_input \<Rightarrow> task_template task_op" where
  "CreateTaskTemplate s i =
     bindM (prepareTaskTemplateInput s i) (\<lambda>i'. task_runInTx s (create_template_body s i'))"

definition patched :: "'a option \<Rightarrow> 'a \<Rightarrow> 'a" where
  "patched v old = (case v of None \<Rightarrow> old | Some x \<Rightarrow> x)"

definition patched_type :: "gostring option \<Rightarrow> gostring \<Rightarrow> discovery_error + gostring" where
  "patched_type v old = (case v of None \<Rightarrow> Inr old | Some t \<Rightarrow> validateTaskType t)"

definition patched_config :: "gostring option \<Rightarrow> gostring \<Rightarrow> discovery_error + gostring" where
  "patched_config v old = (case v of None \<Rightarrow> Inr old | Some c \<Rightarrow> normalizeTemplateConfig c)"

definition patched_schedule :: "gostring option \<Rightarrow> gostring \<Rightarrow> discovery_error + gostring" where
  "patched_schedule v old =
     (case v of None \<Rightarrow> Inr old | Some c \<Rightarrow> (case validateTemplateSchedule c of Inl e \<Rightarrow> Inl e | Inr _ \<Rightarrow> Inr c))"

definition inheritance_touched :: "task_template \<Rightarrow> update_template_input \<Rightarrow> bool" where
  "inheritance_touched before i \<longleftrightarrow>
     (hasInheritance (tp_Config before) \<and> (uti_Config i \<noteq> None \<or> uti_TaskType i \<noteq> None)) \<or>
     (case uti_Config i of None \<Rightarrow> False | Some c \<Rightarrow> hasInheritance c)"

definition update_template_body :: "task_service \<Rightarrow> update_template_input \<Rightarrow> task_template task_op" where
  "update_template_body s i =
     bindM (repo_GetTaskTemplate (uti_ProjectID i) (uti_TemplateID i)) (\<lambda>before.
     bindM (failIf (inheritance_touched before i) DErrInheritanceImmutable) (\<lambda>_.
     bindM (liftM (patched_text (uti_Name i) maxTemplateName DErrInvalidName (tp_Name before))) (\<lambda>name.
     bindM (liftM (patched_type (uti_TaskType i) (tp_TaskType before))) (\<lambda>taskType.
     bindM (liftM (requireActiveDispatchEnabled (tv_policy s) taskType)) (\<lambda>_.
     bindM (liftM (patched_config (uti_Config i) (tp_Config before))) (\<lambda>config.
     bindM (liftM (validateActiveDispatchConfig taskType config)) (\<lambda>_.
     bindM (liftM (patched_schedule (uti_Schedule i) (tp_Schedule before))) (\<lambda>schedule.
     let timeoutSeconds = patched (uti_TimeoutSeconds i) (tp_TimeoutSeconds before);
         rateLimit = patched (uti_RateLimit i) (tp_RateLimit before);
         concurrency = patched (uti_Concurrency i) (tp_Concurrency before);
         retryLimit = patched (uti_RetryLimit i) (tp_RetryLimit before) in
     bindM (liftM (validateTaskLimits timeoutSeconds rateLimit concurrency retryLimit)) (\<lambda>_.
     bindM (liftM (ValidateActiveTaskLimits taskType rateLimit concurrency)) (\<lambda>_.
     bindM (repo_UpdateTaskTemplate (tv_env s) (uti_ProjectID i) (uti_TemplateID i)
              \<lparr>tpp_Name = name, tpp_TaskType = taskType, tpp_Config = config, tpp_Schedule = schedule,
               tpp_TimeoutSeconds = timeoutSeconds, tpp_RateLimit = rateLimit, tpp_Concurrency = concurrency,
               tpp_RetryLimit = retryLimit, tpp_ActorID = uti_ActorID i\<rparr>) (\<lambda>_.
     bindM (repo_GetTaskTemplate (uti_ProjectID i) (uti_TemplateID i)) (\<lambda>after.
     bindM (recordTaskAudit s ActionTemplateUpdate (Some (ETemplate before)) (Some (ETemplate after)) (uti_ActorID i) (uti_Meta i)) (\<lambda>_.
     ok after)))))))))))))"

definition bad_task_actor :: "gostring \<Rightarrow> bool" where
  "bad_task_actor actorID \<longleftrightarrow> actorID = [] \<or> maxActorLen < length actorID"

definition UpdateTaskTemplate :: "task_service \<Rightarrow> update_template_input \<Rightarrow> task_template task_op" where
  "UpdateTaskTemplate s i =
     bindM (failIf (uti_ProjectID i = 0 \<or> uti_TemplateID i = 0) DErrInvalidTemplateID) (\<lambda>_.
     bindM (failIf (bad_task_actor (uti_ActorID i)) DErrInvalidActorID) (\<lambda>_.
     task_runInTx s (update_template_body s i)))"

definition template_usable :: "task_service \<Rightarrow> task_template \<Rightarrow> unit task_op" where
  "template_usable s t =
     bindM (liftM (validateTaskType (tp_TaskType t))) (\<lambda>_.
     bindM (liftM (requireActiveDispatchEnabled (tv_policy s) (tp_TaskType t))) (\<lambda>_.
     bindM (liftM (ValidateActiveTaskLimits (tp_TaskType t) (tp_RateLimit t) (tp_Concurrency t))) (\<lambda>_.
     liftM (validateActiveDispatchConfig (tp_TaskType t) (tp_Config t)))))"

definition SetTaskTemplateEnabled :: "task_service \<Rightarrow> enable_template_input \<Rightarrow> task_template task_op" where
  "SetTaskTemplateEnabled s i =
     bindM (failIf (eti_ProjectID i = 0 \<or> eti_TemplateID i = 0) DErrInvalidTemplateID) (\<lambda>_.
     bindM (failIf (bad_task_actor (eti_ActorID i)) DErrInvalidActorID) (\<lambda>_.
     task_runInTx s (
       bindM (repo_GetTaskTemplate (eti_ProjectID i) (eti_TemplateID i)) (\<lambda>before.
       bindM (if eti_Enabled i then template_usable s before else ok ()) (\<lambda>_.
       bindM (repo_SetTaskTemplateEnabled (tv_env s) (eti_ProjectID i) (eti_TemplateID i) (eti_Enabled i) (eti_ActorID i)) (\<lambda>_.
       bindM (repo_GetTaskTemplate (eti_ProjectID i) (eti_TemplateID i)) (\<lambda>after.
       bindM (recordTaskAudit s ActionTemplateEnable (Some (ETemplate before)) (Some (ETemplate after)) (eti_ActorID i) (eti_Meta i)) (\<lambda>_.
       ok after))))))))"

definition DeleteTaskTemplate :: "task_service \<Rightarrow> delete_template_input \<Rightarrow> unit task_op" where
  "DeleteTaskTemplate s i =
     bindM (failIf (dti_ProjectID i = 0 \<or> dti_TemplateID i = 0) DErrInvalidTemplateID) (\<lambda>_.
     bindM (failIf (bad_task_actor (dti_ActorID i)) DErrInvalidActorID) (\<lambda>_.
     task_runInTx s (
       bindM (repo_GetTaskTemplate (dti_ProjectID i) (dti_TemplateID i)) (\<lambda>before.
       bindM (repo_DeleteTaskTemplate (tv_env s) (dti_ProjectID i) (dti_TemplateID i) (dti_ActorID i)) (\<lambda>_.
       recordTaskAudit s ActionTemplateDelete (Some (ETemplate before)) None (dti_ActorID i) (dti_Meta i))))))"

definition GetTaskTemplate :: "nat \<Rightarrow> nat \<Rightarrow> task_template task_op" where
  "GetTaskTemplate projectID templateID =
     bindM (failIf (projectID = 0 \<or> templateID = 0) DErrInvalidTemplateID) (\<lambda>_. repo_GetTaskTemplate projectID templateID)"

definition ListTaskTemplates :: "nat \<Rightarrow> task_template list task_op" where
  "ListTaskTemplates projectID =
     bindM (failIf (projectID = 0) DErrInvalidProjectID) (\<lambda>_. repo_ListTaskTemplates projectID)"

section \<open>Runs\<close>

definition identity_char :: "char \<Rightarrow> bool" where "identity_char c \<longleftrightarrow> c \<in> set ''._-:''"

definition validCallbackIdentity :: "gostring \<Rightarrow> bool" where
  "validCallbackIdentity raw \<longleftrightarrow>
     (let value = TrimSpace raw in
      value \<noteq> [] \<and> length value \<le> 64 \<and> is_alnum (hd value) \<and> list_all (\<lambda>c. is_alnum c \<or> identity_char c) (tl value))"

definition approved :: "task_service \<Rightarrow> create_run_input \<Rightarrow> gostring \<Rightarrow> discovery_error + unit" where
  "approved s i taskType =
     (if ap_RequireApproval (tv_policy s)
      then ValidateActiveApproval taskType \<lparr>aa_ActorID = cri_ActorID i, aa_ApprovedBy = cri_ApprovedBy i\<rparr> else Inr ())"

definition new_run_params :: "task_service \<Rightarrow> create_run_input \<Rightarrow> task_template \<Rightarrow> run_params" where
  "new_run_params s i t =
     \<lparr>rp_TenantID = tp_TenantID t, rp_OrgID = tp_OrgID t, rp_ProjectID = cri_ProjectID i, rp_TemplateID = cri_TemplateID i,
      rp_ScopeID = tp_ScopeID t, rp_TaskType = tp_TaskType t, rp_TimeoutSeconds = tp_TimeoutSeconds t, rp_RateLimit = tp_RateLimit t,
      rp_Concurrency = tp_Concurrency t, rp_RetryLimit = tp_RetryLimit t, rp_CallbackSecretRef = tv_secretRef s,
      rp_ApprovedBy = TrimSpace (cri_ApprovedBy i), rp_ApprovalReason = TrimSpace (cri_ApprovalReason i),
      rp_ActorID = cri_ActorID i, rp_EngineConfigVersion = tv_version s\<rparr>"

definition create_run_body :: "task_service \<Rightarrow> create_run_input \<Rightarrow> task_run task_op" where
  "create_run_body s i =
     bindM (repo_GetTaskTemplate (cri_ProjectID i) (cri_TemplateID i)) (\<lambda>t.
     bindM (validateInheritedSnapshot s (cri_ProjectID i) (tp_ScopeID t) (tp_TaskType t) (tp_Config t)) (\<lambda>_.
     bindM (failIf (\<not> tp_Enabled t) DErrTemplateDisabled) (\<lambda>_.
     bindM (liftM (validateTaskType (tp_TaskType t))) (\<lambda>_.
     bindM (liftM (requireActiveDispatchEnabled (tv_policy s) (tp_TaskType t))) (\<lambda>_.
     bindM (if hasEngineRouting s then liftM (validateEngineProject s (cri_ProjectID i) (tp_TaskType t)) else ok ()) (\<lambda>_.
     bindM (liftM (ValidateActiveTaskLimits (tp_TaskType t) (tp_RateLimit t) (tp_Concurrency t))) (\<lambda>_.
     bindM (liftM (validateActiveDispatchConfig (tp_TaskType t) (tp_Config t))) (\<lambda>_.
     bindM (liftM (approved s i (tp_TaskType t))) (\<lambda>_.
     bindM (repo_CreateTaskRun (tv_env s) (new_run_params s i t)) (\<lambda>id.
     bindM (repo_GetTaskRun (cri_ProjectID i) id) (\<lambda>run.
     bindM (recordTaskAudit s ActionRunCreate None (Some (ERun run)) (cri_ActorID i) (cri_Meta i)) (\<lambda>_.
     ok run))))))))))))"

definition CreateTaskRun :: "task_service \<Rightarrow> create_run_input \<Rightarrow> task_run task_op" where
  "CreateTaskRun s i =
     bindM (failIf (cri_ProjectID i = 0 \<or> cri_TemplateID i = 0) DErrInvalidTemplateID) (\<lambda>_.
     bindM (failIf (bad_task_actor (cri_ActorID i)) DErrInvalidActorID) (\<lambda>_.
     bindM (failIf (tv_secretRef s \<noteq> [] \<and> \<not> validCallbackIdentity (tv_secretRef s)) DErrInvalidCallbackIdentity) (\<lambda>_.
     task_runInTx s (create_run_body s i))))"

definition GetTaskRun :: "nat \<Rightarrow> nat \<Rightarrow> task_run task_op" where
  "GetTaskRun projectID runID =
     bindM (failIf (projectID = 0 \<or> runID = 0) DErrInvalidTaskRunID) (\<lambda>_. repo_GetTaskRun projectID runID)"

definition ListTaskRuns :: "nat \<Rightarrow> task_run list task_op" where
  "ListTaskRuns projectID =
     bindM (failIf (projectID = 0) DErrInvalidProjectID) (\<lambda>_. repo_ListTaskRuns projectID)"

section \<open>The status machine of a run\<close>

definition isTaskRunTransitionAllowed :: "gostring \<Rightarrow> gostring \<Rightarrow> bool" where
  "isTaskRunTransitionAllowed from to \<longleftrightarrow>
     (from = RunPending \<and> List.member [RunRunning, RunCancelled] to) \<or>
     (from = RunRunning \<and> List.member [RunSuccess, RunPartial, RunFailed, RunCancelled] to)"

definition changeTaskRunStatusWith :: "env \<Rightarrow> task_run \<Rightarrow> update_run_input \<Rightarrow> gostring \<Rightarrow> time \<Rightarrow> unit task_op" where
  "changeTaskRunStatusWith e before i targetStatus now =
     bindM (failIf (\<not> isTaskRunTransitionAllowed (rn_Status before) targetStatus) DErrInvalidRunTransition) (\<lambda>_.
     (if targetStatus = RunRunning then repo_MarkRunRunning e (uri_ProjectID i) (uri_RunID i) (uri_ActorID i) (rn_Status before) now
      else if targetStatus = RunSuccess then
        repo_MarkRunSucceeded e (uri_ProjectID i) (uri_RunID i) (uri_ActorID i) (rn_Status before) (uri_ResultCount i) now
      else if targetStatus = RunPartial then
        repo_MarkRunPartialSuccess e (uri_ProjectID i) (uri_RunID i) (uri_ActorID i) (rn_Status before) (uri_ErrorSummary i) (uri_ResultCount i) now
      else if targetStatus = RunFailed then
        repo_MarkRunFailed e (uri_ProjectID i) (uri_RunID i) (uri_ActorID i) (rn_Status before) (uri_ErrorSummary i) (uri_ResultCount i) now
      else if targetStatus = RunCancelled then
        repo_MarkRunCancelled e (uri_ProjectID i) (uri_RunID i) (uri_ActorID i) (rn_Status before) (uri_ErrorSummary i) now
      else fail DErrInvalidRunTransition))"

definition changeTaskRunStatus :: "task_service \<Rightarrow> update_run_input \<Rightarrow> gostring \<Rightarrow> gostring \<Rightarrow> unit task_op" where
  "changeTaskRunStatus s i action targetStatus =
     bindM (failIf (uri_ProjectID i = 0 \<or> uri_RunID i = 0) DErrInvalidTaskRunID) (\<lambda>_.
     bindM (liftM (validateTaskStatus targetStatus)) (\<lambda>_.
     bindM (failIf (bad_task_actor (uri_ActorID i)) DErrInvalidActorID) (\<lambda>_.
     task_runInTx s (
       bindM (repo_GetTaskRun (uri_ProjectID i) (uri_RunID i)) (\<lambda>before.
       bindM (changeTaskRunStatusWith (tv_env s) before i targetStatus (tv_now s)) (\<lambda>_.
       bindM (repo_GetTaskRun (uri_ProjectID i) (uri_RunID i)) (\<lambda>after.
       recordTaskAudit s (if action = [] then ActionRunStatusChange else action) (Some (ERun before)) (Some (ERun after))
         (uri_ActorID i) (uri_Meta i))))))))"

definition MarkTaskRunRunning :: "task_service \<Rightarrow> update_run_input \<Rightarrow> unit task_op" where
  "MarkTaskRunRunning s i = changeTaskRunStatus s i ActionRunStatusChange RunRunning"

definition MarkTaskRunSucceeded :: "task_service \<Rightarrow> update_run_input \<Rightarrow> unit task_op" where
  "MarkTaskRunSucceeded s i = changeTaskRunStatus s i ActionRunStatusChange RunSuccess"

definition MarkTaskRunPartialSuccess :: "task_service \<Rightarrow> update_run_input \<Rightarrow> unit task_op" where
  "MarkTaskRunPartialSuccess s i = changeTaskRunStatus s i ActionRunStatusChange RunPartial"

definition MarkTaskRunFailed :: "task_service \<Rightarrow> update_run_input \<Rightarrow> unit task_op" where
  "MarkTaskRunFailed s i = changeTaskRunStatus s i ActionRunStatusChange RunFailed"

definition MarkTaskRunCancelled :: "task_service \<Rightarrow> update_run_input \<Rightarrow> unit task_op" where
  "MarkTaskRunCancelled s i = changeTaskRunStatus s i ActionRunCancel RunCancelled"

definition IncrementTaskRunAttempt :: "task_service \<Rightarrow> nat \<Rightarrow> nat \<Rightarrow> gostring \<Rightarrow> unit task_op" where
  "IncrementTaskRunAttempt s projectID runID actorID =
     bindM (failIf (projectID = 0 \<or> runID = 0) DErrInvalidTaskRunID) (\<lambda>_.
     bindM (failIf (bad_task_actor actorID) DErrInvalidActorID) (\<lambda>_.
     task_runInTx s (
       bindM (repo_GetTaskRun projectID runID) (\<lambda>_.
       bindM (repo_IncrementRunAttempt (tv_env s) projectID runID actorID) (\<lambda>_.
       ok ())))))"

text \<open>The run, and the errors joined into the one returned next to it.\<close>

definition enqueue_run :: "task_service \<Rightarrow> nat \<times> nat \<times> gostring \<Rightarrow> discovery_error option task_op" where
  "enqueue_run s p d =
     (case tv_enqueue s of
        None \<Rightarrow> (Inr (Some DErrDispatchEnqueue), d)
      | Some q \<Rightarrow> (case q p of Some e \<Rightarrow> (Inr (Some e), d) | None \<Rightarrow> (Inr None, d\<lparr>tb_queue := tb_queue d @ [p]\<rparr>)))"

definition CreateAndEnqueueTaskRun :: "task_service \<Rightarrow> create_run_input \<Rightarrow> (task_run \<times> discovery_error list) task_op" where
  "CreateAndEnqueueTaskRun s i =
     bindM (CreateTaskRun s i) (\<lambda>run.
     bindM (enqueue_run s (rn_ProjectID run, rn_ID run, cri_ActorID i)) (\<lambda>err.
     case err of
       None \<Rightarrow> ok (run, [])
     | Some e \<Rightarrow>
         bindM (tryM (MarkTaskRunCancelled s
                  \<lparr>uri_RunID = rn_ID run, uri_ProjectID = rn_ProjectID run, uri_ErrorSummary = ''dispatch queue unavailable'',
                   uri_ResultCount = 0, uri_ActorID = cri_ActorID i, uri_Meta = cri_Meta i\<rparr>)) (\<lambda>cancelled.
         bindM (tryM (GetTaskRun (rn_ProjectID run) (rn_ID run))) (\<lambda>updated.
         ok (case updated of Inr r \<Rightarrow> r | Inl _ \<Rightarrow> run,
             [DErrDispatchEnqueue, e] @ (case cancelled of Inl c \<Rightarrow> [c] | Inr _ \<Rightarrow> []) @
             (case updated of Inl g \<Rightarrow> [g] | Inr _ \<Rightarrow> []))))))"

section \<open>The dispatch plan\<close>

text \<open>The last row of a value counts; an address without a row has no role.\<close>

definition ip_role :: "ip_network list \<Rightarrow> gostring \<Rightarrow> gostring" where
  "ip_role rows v = (case List.find (\<lambda>n. ipn_Value n = v) (rev rows) of None \<Rightarrow> [] | Some n \<Rightarrow> ipn_Role n)"

definition refuseCDNEdgeTargets :: "task_service \<Rightarrow> nat \<Rightarrow> gostring \<Rightarrow> dispatch_target list \<Rightarrow> unit task_op" where
  "refuseCDNEdgeTargets s projectID taskType targets =
     (if \<not> IsActiveTaskType taskType then ok ()
      else let values = map (\<lambda>t. TrimSpace (dt_Value t)) (filter (\<lambda>t. dt_Type t = TargetTypeIP) targets) in
           bindM (repo_ListIPNetworkAttribution projectID values (sql_eq (tv_env s))) (\<lambda>rows.
           liftM (first_error (\<lambda>v. if ip_role rows v = ''cdn_edge'' then Inl (DErrActiveTargetCDNEdge v) else Inr ()) values)))"

definition authorise_target :: "task_service \<Rightarrow> nat \<Rightarrow> nat \<Rightarrow> dispatch_target \<Rightarrow> unit task_op" where
  "authorise_target s projectID scopeID t =
     asks (\<lambda>d. case IsTypedTargetAllowed (tv_base s) projectID scopeID (dt_Type t) (dt_Value t) (tb_scopes d) of
       (allowed, reason, err) \<Rightarrow>
         (case err of
            Some e \<Rightarrow> if reason = ReasonSystemError then Inl e else if \<not> allowed then Inl (DErrDispatchDenied (dt_Value t) reason) else Inl e
          | None \<Rightarrow> if \<not> allowed then Inl (DErrDispatchDenied (dt_Value t) reason) else Inr ()))"

definition run_matches_template :: "task_run \<Rightarrow> task_template \<Rightarrow> bool" where
  "run_matches_template r t \<longleftrightarrow> tp_ProjectID t = rn_ProjectID r \<and> tp_ID t = rn_TemplateID r \<and> tp_ScopeID t = rn_ScopeID r \<and>
     tp_TaskType t = rn_TaskType r"

definition plan_of :: "task_run \<Rightarrow> dispatch_config \<Rightarrow> dispatch_plan" where
  "plan_of r c =
     \<lparr>pl_RunID = rn_ID r, pl_TemplateID = rn_TemplateID r, pl_ProjectID = rn_ProjectID r, pl_ScopeID = rn_ScopeID r,
      pl_TaskType = rn_TaskType r, pl_Targets = dc_Targets c, pl_RateLimit = rn_RateLimit r, pl_Concurrency = rn_Concurrency r,
      pl_TimeoutSeconds = rn_TimeoutSeconds r, pl_RetryLimit = rn_RetryLimit r, pl_Options = dc_Options c\<rparr>"

definition BuildDispatchPlan :: "task_service \<Rightarrow> nat \<Rightarrow> nat \<Rightarrow> gostring \<Rightarrow> dispatch_plan task_op" where
  "BuildDispatchPlan s projectID runID actorID =
     bindM (failIf (projectID = 0 \<or> runID = 0) DErrInvalidTaskRunID) (\<lambda>_.
     bindM (failIf (bad_task_actor actorID) DErrInvalidActorID) (\<lambda>_.
     bindM (repo_GetTaskRun projectID runID) (\<lambda>run.
     bindM (failIf (rn_Status run \<noteq> RunPending) DErrTaskRunNotDispatchable) (\<lambda>_.
     bindM (repo_GetTaskTemplate projectID (rn_TemplateID run)) (\<lambda>t.
     bindM (failIf (\<not> run_matches_template run t) DErrInvalidTemplate) (\<lambda>_.
     bindM (failIf (\<not> tp_Enabled t) DErrTemplateDisabled) (\<lambda>_.
     bindM (liftM (validateTaskType (rn_TaskType run))) (\<lambda>_.
     bindM (liftM (requireActiveDispatchEnabled (tv_policy s) (rn_TaskType run))) (\<lambda>_.
     bindM (liftM (ValidateActiveTaskLimits (rn_TaskType run) (rn_RateLimit run) (rn_Concurrency run))) (\<lambda>_.
     bindM (liftM (validateActiveDispatchConfig (rn_TaskType run) (tp_Config t))) (\<lambda>_.
     bindM (validateInheritedSnapshot s projectID (rn_ScopeID run) (rn_TaskType run) (tp_Config t)) (\<lambda>_.
     bindM (liftM (parseDispatchConfig (tp_Config t))) (\<lambda>config.
     bindM (forM (authorise_target s projectID (rn_ScopeID run)) (dc_Targets config)) (\<lambda>_.
     bindM (if ap_RequireOwnership (tv_policy s)
            then liftM (requireVerifiedOwnership (tv_ownership s) projectID (rn_TaskType run) (dc_Targets config)) else ok ()) (\<lambda>_.
     bindM (refuseCDNEdgeTargets s projectID (rn_TaskType run) (dc_Targets config)) (\<lambda>_.
     ok (plan_of run config)))))))))))))))))"

section \<open>Dispatch\<close>

text \<open>Calls to an engine; each is recorded.\<close>

definition call_engine :: "engine_call \<Rightarrow> (engine_call list \<Rightarrow> 'a) \<Rightarrow> 'a task_op" where
  "call_engine c answer d = (Inr (answer (tb_traffic d)), d\<lparr>tb_traffic := tb_traffic d @ [c]\<rparr>)"

definition engine_Dispatch :: "engine \<Rightarrow> scan_job \<Rightarrow> (engine_error + gostring) task_op" where
  "engine_Dispatch en job = call_engine (CallDispatch job) (\<lambda>h. en_Dispatch en h job)"

definition engine_Cancel :: "engine \<Rightarrow> gostring \<Rightarrow> (engine_error + unit) task_op" where
  "engine_Cancel en jobID = call_engine (CallCancel jobID) (\<lambda>h. en_Cancel en h jobID)"

definition engine_Status :: "engine \<Rightarrow> gostring \<Rightarrow> (engine_error + engine_job_status) task_op" where
  "engine_Status en jobID = call_engine (CallStatus jobID) (\<lambda>h. en_Status en h jobID)"

definition engine_Results :: "engine \<Rightarrow> task_run \<Rightarrow> (discovery_error + pull_summary) task_op" where
  "engine_Results en run = call_engine (CallResults (rn_ID run)) (\<lambda>h. en_Results en h run)"

text \<open>The texts of errors are valid UTF-8, so a rune is a byte with the continuation bytes after it.\<close>

fun take_runes :: "nat \<Rightarrow> gostring \<Rightarrow> gostring" where
  "take_runes n [] = []"
| "take_runes n (c # cs) =
     (if continuation c then c # take_runes n cs
      else if n = 0 then [] else c # take_runes (n - 1) cs)"

definition maxErrorSummaryLen :: nat where "maxErrorSummaryLen = 1024"

definition truncateErrorSummary :: "gostring \<Rightarrow> gostring" where
  "truncateErrorSummary summary =
     (if char_len summary \<le> maxErrorSummaryLen then summary else take_runes maxErrorSummaryLen summary)"

definition sanitizeEngineErrorSummary :: "engine_error option \<Rightarrow> gostring \<Rightarrow> gostring" where
  "sanitizeEngineErrorSummary err fallback =
     (case err of
        None \<Rightarrow> fallback
      | Some e \<Rightarrow>
          (case ee_Cause e of
             Some c \<Rightarrow> truncateErrorSummary (''engine dispatch failed: '' @ c)
           | None \<Rightarrow> truncateErrorSummary (ee_Text e)))"

definition permanent_status :: "int \<Rightarrow> bool" where
  "permanent_status n = (if n = 408 \<or> n = 425 \<or> n = 429 then False else 400 \<le> n \<and> n < 500)"

definition dispatchErrorIsPermanent :: "engine_error \<Rightarrow> bool" where
  "dispatchErrorIsPermanent e =
     (if ee_Rejected e then True else case ee_Status e of Some n \<Rightarrow> permanent_status n | None \<Rightarrow> False)"

definition scanJobFromDispatchPlan :: "dispatch_plan \<Rightarrow> gostring \<Rightarrow> scan_job" where
  "scanJobFromDispatchPlan p callbackURL =
     \<lparr>sj_RunID = pl_RunID p, sj_ProjectID = pl_ProjectID p, sj_ScopeID = pl_ScopeID p, sj_JobType = pl_TaskType p,
      sj_Targets = pl_Targets p, sj_RateLimit = pl_RateLimit p, sj_Concurrency = pl_Concurrency p,
      sj_Timeout = int64 (pl_TimeoutSeconds p * second), sj_CallbackURL = callbackURL, sj_Options = pl_Options p\<rparr>"

definition recordRunDispatched :: "task_service \<Rightarrow> dispatch_input \<Rightarrow> gostring \<Rightarrow> task_run task_op" where
  "recordRunDispatched s i engineJobID =
     task_runInTx s (
       bindM (repo_GetTaskRun (dpi_ProjectID i) (dpi_RunID i)) (\<lambda>before.
       if rn_Status before = RunRunning \<and> rn_EngineJobID before = engineJobID then ok before
       else
         bindM (failIf (rn_Status before \<noteq> RunPending) DErrInvalidRunTransition) (\<lambda>_.
         bindM (repo_MarkRunDispatched (tv_env s) (dpi_ProjectID i) (dpi_RunID i) (dpi_ActorID i) (rn_Status before) engineJobID (tv_now s)) (\<lambda>_.
         bindM (repo_GetTaskRun (dpi_ProjectID i) (dpi_RunID i)) (\<lambda>after.
         bindM (recordTaskAudit s ActionRunStatusChange (Some (ERun before)) (Some (ERun after)) (dpi_ActorID i) (dpi_Meta i)) (\<lambda>_.
         ok after))))))"

definition recordRunDispatchFailed :: "task_service \<Rightarrow> dispatch_input \<Rightarrow> gostring \<Rightarrow> task_run task_op" where
  "recordRunDispatchFailed s i summary =
     task_runInTx s (
       bindM (repo_GetTaskRun (dpi_ProjectID i) (dpi_RunID i)) (\<lambda>before.
       bindM (failIf (rn_Status before \<noteq> RunPending) DErrInvalidRunTransition) (\<lambda>_.
       bindM (repo_MarkRunDispatchFailed (tv_env s) (dpi_ProjectID i) (dpi_RunID i) (dpi_ActorID i) (rn_Status before) summary (tv_now s)) (\<lambda>_.
       bindM (repo_GetTaskRun (dpi_ProjectID i) (dpi_RunID i)) (\<lambda>after.
       bindM (recordTaskAudit s ActionRunStatusChange (Some (ERun before)) (Some (ERun after)) (dpi_ActorID i) (dpi_Meta i)) (\<lambda>_.
       ok after))))))"

text \<open>After an accepted job: the run is recorded as running, or the job is cancelled at the engine.\<close>

definition settle_dispatch :: "task_service \<Rightarrow> engine \<Rightarrow> dispatch_input \<Rightarrow> gostring \<Rightarrow> task_run task_op" where
  "settle_dispatch s en i engineJobID =
     bindM (tryM (recordRunDispatched s i engineJobID)) (\<lambda>res.
     case res of
       Inr run \<Rightarrow> ok run
     | Inl recordErr \<Rightarrow>
         bindM (tryM (repo_GetTaskRun (dpi_ProjectID i) (dpi_RunID i))) (\<lambda>current.
         case current of
           Inr run \<Rightarrow>
             if rn_Status run = RunRunning \<and> rn_EngineJobID run = engineJobID then ok run
             else bindM (engine_Cancel en engineJobID) (\<lambda>_. fail recordErr)
         | Inl _ \<Rightarrow> bindM (engine_Cancel en engineJobID) (\<lambda>_. fail recordErr)))"

text \<open>The attempts: the run of an accepted job, or the last error of the engine.\<close>

fun dispatch_attempts ::
  "task_service \<Rightarrow> engine \<Rightarrow> scan_job \<Rightarrow> dispatch_input \<Rightarrow> nat \<Rightarrow> engine_error option \<Rightarrow> (engine_error option + task_run) task_op" where
  "dispatch_attempts s en job i 0 lastErr = ok (Inl lastErr)"
| "dispatch_attempts s en job i (Suc n) lastErr =
     bindM (repo_IncrementRunAttempt (tv_env s) (dpi_ProjectID i) (dpi_RunID i) (dpi_ActorID i)) (\<lambda>_.
     bindM (engine_Dispatch en job) (\<lambda>res.
     case res of
       Inr engineJobID \<Rightarrow> bindM (settle_dispatch s en i engineJobID) (\<lambda>run. ok (Inr run))
     | Inl err \<Rightarrow>
         if dispatchErrorIsPermanent err then ok (Inl (Some err))
         else dispatch_attempts s en job i n (Some err)))"

text \<open>The run, and the engine's error next to it when the run was recorded as failed.\<close>

definition DispatchTaskRun :: "task_service \<Rightarrow> dispatch_input \<Rightarrow> (task_run \<times> engine_error option) task_op" where
  "DispatchTaskRun s i =
     bindM (failIf (\<not> hasEngineRouting s) DErrEngineNotConfigured) (\<lambda>_.
     bindM (repo_GetTaskRun (dpi_ProjectID i) (dpi_RunID i)) (\<lambda>existing.
     if rn_Status existing = RunRunning \<and> TrimSpace (rn_EngineJobID existing) \<noteq> [] then ok (existing, None)
     else
       bindM (failIf (rn_Status existing \<noteq> RunPending) DErrTaskRunNotDispatchable) (\<lambda>_.
       bindM (BuildDispatchPlan s (dpi_ProjectID i) (dpi_RunID i) (dpi_ActorID i)) (\<lambda>plan.
       bindM (failIf (\<not> IsDispatchableTaskType (pl_TaskType plan)) DErrTaskTypeUnsupported) (\<lambda>_.
       bindM (liftM (requireActiveDispatchEnabled (tv_policy s) (pl_TaskType plan))) (\<lambda>_.
       bindM (liftM (engineForTaskType s (pl_TaskType plan))) (\<lambda>en.
       bindM (dispatch_attempts s en (scanJobFromDispatchPlan plan (dpi_CallbackURL i)) i (nat (pl_RetryLimit plan + 1)) None) (\<lambda>res.
       case res of
         Inr run \<Rightarrow> ok (run, None)
       | Inl lastErr \<Rightarrow>
           bindM (recordRunDispatchFailed s i (sanitizeEngineErrorSummary lastErr ''engine dispatch failed'')) (\<lambda>run.
           ok (run, lastErr))))))))))"

definition CancelDispatchedTaskRun :: "task_service \<Rightarrow> update_run_input \<Rightarrow> unit task_op" where
  "CancelDispatchedTaskRun s i =
     bindM (failIf (uri_ProjectID i = 0 \<or> uri_RunID i = 0) DErrInvalidTaskRunID) (\<lambda>_.
     bindM (failIf (bad_task_actor (uri_ActorID i)) DErrInvalidActorID) (\<lambda>_.
     bindM (repo_GetTaskRun (uri_ProjectID i) (uri_RunID i)) (\<lambda>run.
     if rn_Status run = RunCancelled then ok ()
     else if rn_Status run = RunPending then MarkTaskRunCancelled s i
     else if rn_Status run = RunRunning then
       bindM (failIf (TrimSpace (rn_EngineJobID run) = []) DErrInvalidRunTransition) (\<lambda>_.
       bindM (liftM (engineForTaskType s (rn_TaskType run))) (\<lambda>en.
       bindM (engine_Cancel en (rn_EngineJobID run)) (\<lambda>res.
       case res of Inl e \<Rightarrow> fail (DErrEngine e) | Inr _ \<Rightarrow> MarkTaskRunCancelled s i)))
     else fail DErrInvalidRunTransition)))"

end
