(* ===== verification/CallbackInbox.thy ===== *)
theory CallbackInbox
  imports TaskService
begin

text \<open>
  The callback inbox (\<open>callback.go\<close>, \<open>callback_ingest.go\<close>, the worker in \<open>worker.go\<close>): an engine reports
  results in numbered batches. A batch is authenticated, validated and stored once; workers claim,
  ingest and complete it; when every batch up to the final one is processed the run is closed.
\<close>

section \<open>Validation of a payload\<close>

definition hex_decode :: "gostring \<Rightarrow> gostring option" where
  "hex_decode s =
     (if odd (length s) \<or> \<not> list_all is_hex s then None
      else Some (map (\<lambda>k. char_of (the (hex_val (s ! (2 * k))) * 16 + the (hex_val (s ! (2 * k + 1))))) [0 ..< length s div 2]))"

definition validEvidenceHash :: "gostring \<Rightarrow> bool" where
  "validEvidenceHash value \<longleftrightarrow>
     (case hex_decode value of None \<Rightarrow> False | Some b \<Rightarrow> length b = 32 \<and> value = ToLower value)"

definition validCallbackMeta :: "fact_meta \<Rightarrow> bool" where
  "validCallbackMeta m =
     (if (TrimSpace (fm_ClientRef m) = [] \<and> TrimSpace (fm_NaturalKey m) = []) \<or> 128 < length (fm_ClientRef m) \<or>
         512 < length (fm_NaturalKey m) \<or> TrimSpace (fm_Source m) = [] \<or> 64 < length (fm_Source m) \<or>
         TrimSpace (fm_Provider m) = [] \<or> 64 < length (fm_Provider m) \<or> fm_ObservedAt m = zero_time \<or>
         (case fm_Confidence m of None \<Rightarrow> True | Some c \<Rightarrow> 100 < unat c) \<or>
         (case fm_ActiveProbe m of None \<Rightarrow> True | Some b \<Rightarrow> b) \<or> 512 < length (fm_EvidenceRef m)
      then False else validEvidenceHash (fm_EvidenceHash m))"

definition validFactReference :: "fact_reference \<Rightarrow> bool" where
  "validFactReference r \<longleftrightarrow>
     (TrimSpace (fr_ClientRef r) \<noteq> [] \<or> TrimSpace (fr_NaturalKey r) \<noteq> []) \<and>
     length (fr_ClientRef r) \<le> 128 \<and> length (fr_NaturalKey r) \<le> 512"

definition validAssetType :: "gostring \<Rightarrow> bool" where
  "validAssetType v = List.member [''domain'', ''subdomain'', ''ip'', ''web'', ''certificate''] v"

definition validRelationType :: "gostring \<Rightarrow> bool" where
  "validRelationType v = List.member [''contains'', ''resolves_to'', ''cname_to'', ''presents_certificate''] v"

definition validExposureType :: "gostring \<Rightarrow> bool" where
  "validExposureType v = List.member [''port'', ''service'', ''web'', ''certificate''] v"

definition is_upper :: "char \<Rightarrow> bool" where
  "is_upper c \<longleftrightarrow> (let n = (of_char c :: nat) in 65 \<le> n \<and> n \<le> 90)"

definition validProviderErrorCode :: "gostring \<Rightarrow> bool" where
  "validProviderErrorCode v \<longleftrightarrow>
     v \<noteq> [] \<and> length v \<le> 64 \<and> is_upper (hd v) \<and> list_all (\<lambda>c. is_upper c \<or> is_digit c \<or> c = CHR ''_'') (tl v)"

definition validSubjectTypes :: "gostring list" where
  "validSubjectTypes = [''company'', ''government'', ''institution'', ''individual'', ''other'']"

definition bad_organization :: "organization_fact \<Rightarrow> bool" where
  "bad_organization g \<longleftrightarrow>
     \<not> validCallbackMeta (og_Meta g) \<or> TrimSpace (og_Name g) = [] \<or> 255 < length (og_Name g) \<or>
     \<not> List.member validSubjectTypes (og_SubjectType g) \<or> 64 < length (og_RegistrationCode g) \<or> \<not> og_EquityRatioOk g \<or>
     512 < length (fr_ClientRef (og_Parent g)) \<or> 512 < length (fr_NaturalKey (og_Parent g))"

definition bad_filing :: "filing_fact \<Rightarrow> bool" where
  "bad_filing f \<longleftrightarrow>
     \<not> validCallbackMeta (fi_Meta f) \<or> TrimSpace (fi_FilingNo f) = [] \<or> 128 < length (fi_FilingNo f) \<or>
     (fi_FilingType f \<noteq> ''filing'' \<and> fi_FilingType f \<noteq> ''license'') \<or> 255 < length (fi_WebsiteName f) \<or>
     50 < length (fi_Domains f) \<or> 512 < length (fr_ClientRef (fi_Organization f)) \<or>
     512 < length (fr_NaturalKey (fi_Organization f)) \<or>
     list_ex (\<lambda>d. TrimSpace d = [] \<or> 2048 < length d) (fi_Domains f)"

definition validateCallbackOrgFacts :: "callback_payload \<Rightarrow> bool" where
  "validateCallbackOrgFacts p \<longleftrightarrow> \<not> list_ex bad_organization (cp_Organizations p) \<and> \<not> list_ex bad_filing (cp_Filings p)"

definition bad_asset :: "asset_fact \<Rightarrow> bool" where
  "bad_asset a \<longleftrightarrow>
     \<not> validCallbackMeta (af_Meta a) \<or> \<not> validAssetType (af_AssetType a) \<or> TrimSpace (af_Value a) = [] \<or>
     2048 < length (af_Value a) \<or> 255 < length (af_DisplayName a) \<or> 32 < length (af_Attributes a) \<or>
     list_ex (\<lambda>(k, v). k = [] \<or> 64 < length k \<or> 1024 < length v) (af_Attributes a)"

definition bad_relation :: "relation_fact \<Rightarrow> bool" where
  "bad_relation r \<longleftrightarrow>
     \<not> validCallbackMeta (rf_Meta r) \<or> \<not> validFactReference (rf_From r) \<or> \<not> validFactReference (rf_To r) \<or>
     \<not> validRelationType (rf_RelationType r)"

definition bad_exposure :: "exposure_fact \<Rightarrow> bool" where
  "bad_exposure x \<longleftrightarrow>
     \<not> validCallbackMeta (ef_Meta x) \<or> \<not> validFactReference (ef_Parent x) \<or> \<not> validExposureType (ef_ExposureType x) \<or>
     TrimSpace (ef_Value x) = [] \<or> 4096 < length (ef_Value x) \<or> 255 < length (ef_Name x) \<or> 16 < length (ef_Protocol x) \<or>
     65535 < unat (ef_Port x) \<or> 128 < length (ef_Service x) \<or> 128 < length (ef_Version x) \<or> 2048 < length (ef_URL x) \<or>
     512 < length (ef_Fingerprint x)"

definition bad_provider_error :: "provider_error \<Rightarrow> bool" where
  "bad_provider_error p \<longleftrightarrow>
     TrimSpace (pe_Provider p) = [] \<or> 64 < length (pe_Provider p) \<or> \<not> validProviderErrorCode (pe_Code p) \<or>
     512 < length (pe_Message p) \<or> pe_Retryable p = None"

definition validStageProgress :: "stage_progress \<Rightarrow> bool" where
  "validStageProgress p =
     (if sg_Stage p \<noteq> ''collect'' \<and> sg_Stage p \<noteq> ''dns'' then False
      else if sg_Provider p = [] \<or> 64 < length (sg_Provider p) \<or> 253 < length (sg_Target p) \<or> 512 < length (sg_Message p) then False
      else if \<not> List.member [''queued'', ''running'', ''success'', ''partial'', ''failed'', ''skipped''] (sg_Status p) then False
      else if list_ex (\<lambda>n. n < 0 \<or> n > 1000000) [sg_Discovered p, sg_Completed p, sg_Total p, sg_Failed p, sg_NoRecords p] then False
      else sg_Completed p \<le> sg_Total p)"

text \<open>The statuses a phase may report.\<close>

definition phase_status_ok :: "gostring \<Rightarrow> gostring \<Rightarrow> bool" where
  "phase_status_ok phase status =
     (if phase = PhaseStarted \<or> phase = PhaseProgress then status = RunRunning
      else if phase = PhaseCompleted then List.member [RunSuccess, RunPartial, RunCancelled] status
      else if phase = PhaseFailed then status = RunFailed
      else False)"

definition some_list :: "'a list option \<Rightarrow> 'a list" where
  "some_list x = (case x of None \<Rightarrow> [] | Some xs \<Rightarrow> xs)"

definition fact_count :: "callback_payload \<Rightarrow> nat" where
  "fact_count p = length (some_list (cp_Assets p)) + length (some_list (cp_Relations p)) + length (some_list (cp_Exposures p)) +
     length (cp_Organizations p) + length (cp_Filings p)"

definition validateCallbackPayload :: "callback_payload \<Rightarrow> bool" where
  "validateCallbackPayload p \<longleftrightarrow>
     (case cp_StageProgress p of None \<Rightarrow> True | Some g \<Rightarrow> validStageProgress g) \<and>
     cp_RunID p \<noteq> 0 \<and> cp_Seq p \<noteq> 0 \<and> cp_ObservedAt p \<noteq> zero_time \<and> length (cp_ErrorSummary p) \<le> 1024 \<and>
     cp_Assets p \<noteq> None \<and> cp_Relations p \<noteq> None \<and> cp_Exposures p \<noteq> None \<and> cp_ProviderErrors p \<noteq> None \<and>
     phase_status_ok (cp_Phase p) (cp_Status p) \<and>
     length (some_list (cp_Assets p)) \<le> 1000 \<and> length (some_list (cp_Relations p)) \<le> 1000 \<and>
     length (some_list (cp_Exposures p)) \<le> 1000 \<and> length (some_list (cp_ProviderErrors p)) \<le> 100 \<and>
     length (cp_Organizations p) \<le> 500 \<and> length (cp_Filings p) \<le> 500 \<and> validateCallbackOrgFacts p \<and>
     fact_count p \<le> 2000 \<and> cp_ResultCount p = fact_count p \<and>
     \<not> list_ex bad_asset (some_list (cp_Assets p)) \<and> \<not> list_ex bad_relation (some_list (cp_Relations p)) \<and>
     \<not> list_ex bad_exposure (some_list (cp_Exposures p)) \<and> \<not> list_ex bad_provider_error (some_list (cp_ProviderErrors p))"

definition callback_required_fields :: "gostring list" where
  "callback_required_fields =
     [''schema_version'', ''run_id'', ''seq'', ''phase'', ''status'', ''result_count'', ''observed_at'',
      ''assets'', ''relations'', ''exposures'', ''provider_errors'', ''error_summary'']"

definition hasCallbackRequiredFields :: "(gostring \<times> jval) list \<Rightarrow> bool" where
  "hasCallbackRequiredFields es \<longleftrightarrow> list_all (\<lambda>k. map_of es k \<noteq> None) callback_required_fields"

text \<open>The body has to be one JSON object, so nothing follows the value that the decoder reads.\<close>

definition parseCallbackPayload :: "task_service \<Rightarrow> gostring \<Rightarrow> discovery_error + callback_payload" where
  "parseCallbackPayload s raw =
     (case json_Decode raw of
        Some (VObj es) \<Rightarrow>
          if \<not> hasCallbackRequiredFields es then Inl DErrInvalidCallbackPayload
          else (case tv_decode s True raw of
                  None \<Rightarrow> Inl DErrInvalidCallbackPayload
                | Some p \<Rightarrow>
                    if cp_SchemaVersion p \<noteq> ''1.0'' then Inl DErrCallbackSchemaUnsupported
                    else if \<not> validateCallbackPayload p then Inl DErrInvalidCallbackPayload
                    else Inr p)
      | _ \<Rightarrow> Inl DErrInvalidCallbackPayload)"

section \<open>Receipt\<close>

definition callbackMaxSkew :: int where "callbackMaxSkew = 300 * second"
definition callbackMaxBodyBytes :: nat where "callbackMaxBodyBytes = 4194304"
definition callbackMaxSeq :: nat where "callbackMaxSeq = 10000"

definition verifyCallbackSignature :: "task_service \<Rightarrow> gostring \<Rightarrow> gostring \<Rightarrow> gostring \<Rightarrow> gostring \<Rightarrow> time \<Rightarrow> discovery_error + unit" where
  "verifyCallbackSignature s secret timestamp signature rawBody now =
     (if TrimSpace secret = [] \<or> TrimSpace timestamp = [] \<or> TrimSpace signature = [] then Inl DErrInvalidCallbackSignature
      else case Atoi (TrimSpace timestamp) of
             None \<Rightarrow> Inl DErrInvalidCallbackSignature
           | Some sec \<Rightarrow>
               let ts = epoch + sec * second in
               if time_sub now ts > callbackMaxSkew \<or> time_sub ts now > callbackMaxSkew then Inl DErrCallbackReplay
               else if hex_decode (TrimPrefix (TrimSpace signature) ''sha256='') = Some (tv_hmac s secret (timestamp @ rawBody))
               then Inr () else Inl DErrInvalidCallbackSignature)"

definition hex_encode :: "gostring \<Rightarrow> gostring" where
  "hex_encode s = concat (map (\<lambda>c. let n = (of_char c :: nat) in [hex_digit (n div 16), hex_digit (n mod 16)]) s)"

definition callbackPayloadHash :: "task_service \<Rightarrow> gostring \<Rightarrow> gostring" where
  "callbackPayloadHash s raw = hex_encode (tv_sha256 s raw)"

definition callbackAuditErrorCode :: "discovery_error \<Rightarrow> gostring" where
  "callbackAuditErrorCode e =
     (if e = DErrInvalidCallbackSignature then ''INVALID_CALLBACK_SIGNATURE''
      else if e = DErrCallbackReplay then ''CALLBACK_REPLAY''
      else if e = DErrCallbackTooLarge then ''CALLBACK_TOO_LARGE''
      else if e = DErrCallbackSchemaUnsupported then ''CALLBACK_SCHEMA_UNSUPPORTED''
      else if e = DErrCallbackPayloadConflict then ''CALLBACK_PAYLOAD_CONFLICT''
      else if e = DErrInvalidCallbackPayload then ''INVALID_CALLBACK_PAYLOAD''
      else if e = DErrCallbackRunNotRunning then ''CALLBACK_RUN_NOT_RUNNING''
      else if e = DErrNotFound then ''DISCOVERY_RUN_NOT_FOUND''
      else ''DISCOVERY_CALLBACK_REJECTED'')"

text \<open>
  A rejected callback is audited outside of any transaction, when an audit sink is set; the reason is
  returned whether or not the audit row could be written.
\<close>

definition reject_event :: "task_service \<Rightarrow> callback_input \<Rightarrow> discovery_error \<Rightarrow> (gostring \<times> goval) list \<Rightarrow> event" where
  "reject_event s i reason extra =
     empty_event\<lparr>ev_ProjectID := hci_ProjectID i, ev_ActorID := ''discovery-engine'', ev_ActorType := ''service'',
       ev_Action := ''discovery.callback.reject'', ev_ResourceType := ''discovery_callback'',
       ev_ResourceID := FormatUint (hci_RunID i) @ '':'' @ FormatUint (hci_Seq i), ev_Result := ''failure'',
       ev_Metadata := GMap ([(''run_id'', GInt (int (hci_RunID i))), (''seq'', GInt (int (hci_Seq i))),
         (''reason'', GStr (tv_errorText s reason))] @ extra),
       ev_ErrorCode := callbackAuditErrorCode reason, ev_ErrorMessage := tv_errorText s reason\<rparr>"

definition recordCallbackReject :: "task_service \<Rightarrow> callback_input \<Rightarrow> discovery_error \<Rightarrow> (gostring \<times> goval) list \<Rightarrow> 'a task_op" where
  "recordCallbackReject s i reason extra =
     bindM (if ds_sink (tv_base s) then tryM (on_audit (audit_Record (tv_env s) (reject_event s i reason extra)) :: unit task_op)
            else ok (Inr ())) (\<lambda>_. fail reason)"

definition rejecting :: "task_service \<Rightarrow> callback_input \<Rightarrow> (discovery_error + 'a) \<Rightarrow> 'a task_op" where
  "rejecting s i r = (case r of Inl e \<Rightarrow> recordCallbackReject s i e [] | Inr x \<Rightarrow> ok x)"

definition enqueueStoredCallback :: "task_service \<Rightarrow> nat \<times> nat \<times> nat \<Rightarrow> unit task_op" where
  "enqueueStoredCallback s ref =
     (case tv_callbackEnqueue s of
        None \<Rightarrow> fail DErrCallbackEnqueue
      | Some q \<Rightarrow>
          (case q ref of
             Some _ \<Rightarrow> fail DErrCallbackEnqueue
           | None \<Rightarrow>
               (case ref of (projectID, runID, seq) \<Rightarrow>
                  bindM (mapErr (\<lambda>_. DErrCallbackEnqueue)
                           (repo_MarkDiscoveryCallbackEnqueued (tv_env s) projectID runID seq (tv_now s))) (\<lambda>_. ok ()))))"

definition callback_candidate :: "task_service \<Rightarrow> callback_input \<Rightarrow> callback_payload \<Rightarrow> task_run \<Rightarrow> discovery_callback" where
  "callback_candidate s i p run =
     \<lparr>cb_ID = 0, cb_TenantID = rn_TenantID run, cb_OrgID = rn_OrgID run, cb_ProjectID = hci_ProjectID i, cb_RunID = hci_RunID i,
      cb_Seq = hci_Seq i, cb_SchemaVersion = cp_SchemaVersion p, cb_Phase = cp_Phase p, cb_Status = cp_Status p,
      cb_ObservedAt = env_col (tv_env s) (cp_ObservedAt p), cb_PayloadHash = callbackPayloadHash s (hci_RawBody i),
      cb_Payload = (case env_json (tv_env s) (hci_RawBody i) of None \<Rightarrow> hci_RawBody i | Some t \<Rightarrow> t),
      cb_PayloadSize = length (hci_RawBody i), cb_ResultCount = cp_ResultCount p, cb_ErrorSummary = TrimSpace (cp_ErrorSummary p),
      cb_ReceivedAt = env_col (tv_env s) (tv_now s), cb_EnqueuedAt = epoch, cb_IngestStatus = IngestPending, cb_IngestAttempt = 0,
      cb_IngestError = [], cb_ProcessedAt = epoch, cb_UpdatedAt = env_db_now (tv_env s), cb_DeletedAt = epoch\<rparr>"

text \<open>A batch that is already stored: a conflict when the body differs, else a duplicate.\<close>

definition known_callback :: "gostring \<Rightarrow> discovery_callback \<Rightarrow> (bool \<times> discovery_callback) task_op" where
  "known_callback hash existing =
     (if cb_PayloadHash existing \<noteq> hash then fail DErrCallbackPayloadConflict else ok (True, existing))"

text \<open>A new batch: stored once, even when another delivery was faster.\<close>

definition store_new :: "task_service \<Rightarrow> callback_input \<Rightarrow> callback_payload \<Rightarrow> task_run \<Rightarrow> (bool \<times> discovery_callback) task_op" where
  "store_new s i p run =
     bindM (failIf (rn_Status run \<noteq> RunRunning) DErrCallbackRunNotRunning) (\<lambda>_.
     bindM (repo_InsertDiscoveryCallback (tv_env s) (callback_candidate s i p run)) (\<lambda>inserted.
     if \<not> inserted then
       bindM (repo_GetDiscoveryCallback (hci_ProjectID i) (hci_RunID i) (hci_Seq i)) (known_callback (callbackPayloadHash s (hci_RawBody i)))
     else
       bindM (repo_MarkRunCallbackReceived (tv_env s) (hci_ProjectID i) (hci_RunID i) ''engine'' 0 (tv_now s)) (\<lambda>_.
       ok (False, callback_candidate s i p run))))"

definition receive_body :: "task_service \<Rightarrow> callback_input \<Rightarrow> callback_payload \<Rightarrow> (bool \<times> discovery_callback) task_op" where
  "receive_body s i p =
     bindM (repo_GetTaskRunForUpdate (hci_ProjectID i) (hci_RunID i)) (\<lambda>run.
     bindM (failIf (rn_CallbackSecretRef run \<noteq> [] \<and> rn_CallbackSecretRef run \<noteq> TrimSpace (hci_SecretRef i)) DErrInvalidCallbackSignature) (\<lambda>_.
     bindM (tryM (repo_GetDiscoveryCallback (hci_ProjectID i) (hci_RunID i) (hci_Seq i))) (\<lambda>got.
     case got of
       Inr existing \<Rightarrow> known_callback (callbackPayloadHash s (hci_RawBody i)) existing
     | Inl e \<Rightarrow> bindM (failIf (e \<noteq> DErrNotFound) e) (\<lambda>_. store_new s i p run))))"

definition HandleCallback :: "task_service \<Rightarrow> callback_input \<Rightarrow> bool task_op" where
  "HandleCallback s i =
     (if hci_ProjectID i = 0 \<or> hci_RunID i = 0 \<or> hci_Seq i = 0 \<or> callbackMaxSeq < hci_Seq i \<or> hci_RawBody i = []
      then recordCallbackReject s i DErrInvalidCallbackPayload []
      else if callbackMaxBodyBytes < length (hci_RawBody i) then recordCallbackReject s i DErrCallbackTooLarge []
      else
        bindM (rejecting s i (verifyCallbackSignature s (hci_Secret i) (hci_Timestamp i) (hci_Signature i) (hci_RawBody i) (tv_now s))) (\<lambda>_.
        bindM (rejecting s i (parseCallbackPayload s (hci_RawBody i))) (\<lambda>p.
        if cp_RunID p \<noteq> hci_RunID i \<or> cp_Seq p \<noteq> hci_Seq i
        then recordCallbackReject s i DErrInvalidCallbackPayload
               [(''payload_run_id'', GInt (int (cp_RunID p))), (''payload_seq'', GInt (int (cp_Seq p)))]
        else
          bindM (tryM (task_runInTx s (receive_body s i p))) (\<lambda>res.
          bindM (rejecting s i res) (\<lambda>(duplicate, stored).
          bindM (if cb_IngestStatus stored = IngestPending
                 then enqueueStoredCallback s (cb_ProjectID stored, cb_RunID stored, cb_Seq stored) else ok ()) (\<lambda>_.
          ok duplicate))))))"

text \<open>The number of callbacks put back into the queue, and the errors of the others.\<close>

fun recover_refs :: "task_service \<Rightarrow> (nat \<times> nat \<times> nat) list \<Rightarrow> (nat \<times> discovery_error list) task_op" where
  "recover_refs s [] = ok (0, [])"
| "recover_refs s (ref # refs) =
     bindM (tryM (enqueueStoredCallback s ref)) (\<lambda>res.
     bindM (recover_refs s refs) (\<lambda>(n, errs).
     ok (case res of Inl e \<Rightarrow> (n, e # errs) | Inr _ \<Rightarrow> (Suc n, errs))))"

definition RecoverPendingCallbacks :: "task_service \<Rightarrow> int \<Rightarrow> (nat \<times> discovery_error list) task_op" where
  "RecoverPendingCallbacks s limit0 =
     (if tv_callbackEnqueue s = None then fail DErrCallbackEnqueue
      else let limit = (if limit0 \<le> 0 \<or> limit0 > 1000 then 100 else limit0) in
           bindM (repo_ReleaseStaleDiscoveryCallbackIngest (tv_env s)) (\<lambda>_.
           bindM (repo_ListPendingDiscoveryCallbackRefs (tv_env s) limit) (recover_refs s)))"

section \<open>Ingest\<close>

definition isFinalCallbackPhase :: "gostring \<Rightarrow> bool" where
  "isFinalCallbackPhase phase \<longleftrightarrow> phase = PhaseCompleted \<or> phase = PhaseFailed"

text \<open>The lowest-numbered final callback; of equal numbers the first.\<close>

fun final_marker :: "discovery_callback option \<Rightarrow> discovery_callback list \<Rightarrow> discovery_callback option" where
  "final_marker best [] = best"
| "final_marker best (c # cs) =
     final_marker (if isFinalCallbackPhase (cb_Phase c) \<and> (case best of None \<Rightarrow> True | Some b \<Rightarrow> cb_Seq c < cb_Seq b)
                   then Some c else best) cs"

definition join_text :: "gostring \<Rightarrow> gostring list \<Rightarrow> gostring" where
  "join_text sep parts = (case parts of [] \<Rightarrow> [] | p # ps \<Rightarrow> p @ concat (map (append sep) ps))"

definition final_summary :: "task_service \<Rightarrow> discovery_callback \<Rightarrow> gostring" where
  "final_summary s final =
     (let summary = TrimSpace (cb_ErrorSummary final) in
      if summary \<noteq> [] then summary
      else case tv_decode s False (cb_Payload final) of
             None \<Rightarrow> []
           | Some p \<Rightarrow> take 1000 (join_text ''; '' (map (\<lambda>e. pe_Provider e @ '': '' @ pe_Code e) (some_list (cp_ProviderErrors p)))))"

definition final_status :: "discovery_callback \<Rightarrow> gostring option" where
  "final_status c =
     (if cb_Phase c = PhaseCompleted \<and> List.member [RunSuccess, RunPartial, RunCancelled] (cb_Status c) then Some (cb_Status c)
      else if cb_Phase c = PhaseFailed \<and> cb_Status c = RunFailed then Some RunFailed
      else None)"

text \<open>\<open>None\<close> while the run has to stay open, else its final status and summary.\<close>

definition callbackFinalState ::
  "task_service \<Rightarrow> discovery_callback list \<Rightarrow> discovery_error + (gostring \<times> gostring) option" where
  "callbackFinalState s callbacks =
     (case final_marker None callbacks of
        None \<Rightarrow> Inr None
      | Some final \<Rightarrow>
          (let relevant = filter (\<lambda>c. cb_Seq c \<le> cb_Seq final) callbacks in
           if list_ex (\<lambda>c. cb_IngestStatus c \<noteq> IngestProcessed) relevant then Inr None
           else if list_ex (\<lambda>want. \<not> List.member (map cb_Seq relevant) want) [1 ..< Suc (cb_Seq final)] then Inr None
           else case final_status final of
                  None \<Rightarrow> Inl DErrCallbackFinalTransition
                | Some status \<Rightarrow> Inr (Some (status, final_summary s final))))"

definition capabilityForTaskType :: "gostring \<Rightarrow> gostring" where
  "capabilityForTaskType taskType =
     (if taskType = TaskTypeDNS then ''dns_enrich''
      else if taskType = TaskTypePassiveIntel then ''subdomain_passive''
      else if taskType = TaskTypeOrgIntel then ''org_intel''
      else lower_text (TrimSpace taskType))"

definition no_discovery_meta :: discovery_meta where
  "no_discovery_meta = \<lparr>dm_Reason = [], dm_SourceRunID = 0, dm_SourceObservationIDs = [], dm_IP = [], dm_UserAgent = [], dm_RequestID = []\<rparr>"

definition ClaimDiscoveryCallbackIngest :: "task_service \<Rightarrow> nat \<Rightarrow> nat \<Rightarrow> nat \<Rightarrow> bool task_op" where
  "ClaimDiscoveryCallbackIngest s projectID runID seq = repo_MarkDiscoveryCallbackProcessing (tv_env s) projectID runID seq"

definition FailDiscoveryCallbackIngest :: "task_service \<Rightarrow> nat \<Rightarrow> nat \<Rightarrow> nat \<Rightarrow> unit task_op" where
  "FailDiscoveryCallbackIngest s projectID runID seq =
     bindM (repo_MarkDiscoveryCallbackFailed (tv_env s) projectID runID seq ''callback ingest failed'') (\<lambda>_. ok ())"

record complete_result =
  cr_Processed :: bool
  cr_Finalized :: bool
  cr_RunAlreadyClosed :: bool

definition lifecycle_due :: "gostring \<Rightarrow> bool" where
  "lifecycle_due status \<longleftrightarrow> status = RunSuccess \<or> status = RunPartial"

definition apply_lifecycle :: "task_service \<Rightarrow> nat \<Rightarrow> nat \<Rightarrow> gostring \<Rightarrow> gostring \<Rightarrow> unit task_op" where
  "apply_lifecycle s projectID runID taskType status =
     (if lifecycle_due status then asks (tv_lifecycle s projectID runID (capabilityForTaskType taskType) (status = RunSuccess)) else ok ())"

text \<open>The end of the transaction, once the callbacks declare the run complete.\<close>

definition finalize_run :: "task_service \<Rightarrow> nat \<Rightarrow> nat \<Rightarrow> gostring \<Rightarrow> gostring \<Rightarrow> complete_result task_op" where
  "finalize_run s projectID runID status summary =
     bindM (repo_GetTaskRun projectID runID) (\<lambda>before.
     if rn_Status before \<noteq> RunRunning
     then ok \<lparr>cr_Processed = True, cr_Finalized = False, cr_RunAlreadyClosed = (rn_Status before \<noteq> status)\<rparr>
     else
       bindM (apply_lifecycle s projectID runID (rn_TaskType before) status) (\<lambda>_.
       bindM (changeTaskRunStatusWith (tv_env s) before
                \<lparr>uri_RunID = runID, uri_ProjectID = projectID, uri_ErrorSummary = summary, uri_ResultCount = rn_ResultCount before,
                 uri_ActorID = ''engine'', uri_Meta = no_discovery_meta\<rparr> status (tv_now s)) (\<lambda>_.
       bindM (repo_GetTaskRun projectID runID) (\<lambda>after.
       bindM (recordTaskAudit s ActionRunStatusChange (Some (ERun before)) (Some (ERun after)) ''engine'' no_discovery_meta) (\<lambda>_.
       ok \<lparr>cr_Processed = True, cr_Finalized = True, cr_RunAlreadyClosed = False\<rparr>)))))"

text \<open>The batch becomes processed; an open run counts its results.\<close>

definition mark_processed :: "task_service \<Rightarrow> nat \<Rightarrow> nat \<Rightarrow> nat \<Rightarrow> discovery_callback \<Rightarrow> unit task_op" where
  "mark_processed s projectID runID seq current =
     bindM (repo_MarkDiscoveryCallbackProcessed (tv_env s) projectID runID seq (tv_now s)) (\<lambda>processed.
     bindM (failIf (\<not> processed) DErrCallbackIngestBusy) (\<lambda>_.
     bindM (repo_GetTaskRun projectID runID) (\<lambda>runBefore.
     if rn_Status runBefore = RunRunning
     then repo_MarkRunCallbackReceived (tv_env s) projectID runID ''engine'' (cb_ResultCount current) (tv_now s) else ok ())))"

definition close_if_ready :: "task_service \<Rightarrow> nat \<Rightarrow> nat \<Rightarrow> complete_result task_op" where
  "close_if_ready s projectID runID =
     bindM (repo_ListDiscoveryCallbacksForRunForUpdate projectID runID) (\<lambda>callbacks.
     bindM (liftM (callbackFinalState s callbacks)) (\<lambda>final.
     case final of
       None \<Rightarrow> ok \<lparr>cr_Processed = True, cr_Finalized = False, cr_RunAlreadyClosed = False\<rparr>
     | Some (status, summary) \<Rightarrow> finalize_run s projectID runID status summary))"

definition complete_body :: "task_service \<Rightarrow> nat \<Rightarrow> nat \<Rightarrow> nat \<Rightarrow> complete_result task_op" where
  "complete_body s projectID runID seq =
     bindM (repo_GetTaskRunForUpdate projectID runID) (\<lambda>_.
     bindM (repo_GetDiscoveryCallback projectID runID seq) (\<lambda>current.
     if cb_IngestStatus current = IngestProcessed
     then ok \<lparr>cr_Processed = False, cr_Finalized = False, cr_RunAlreadyClosed = False\<rparr>
     else
       bindM (failIf (cb_IngestStatus current \<noteq> IngestProcessing) DErrCallbackIngestBusy) (\<lambda>_.
       bindM (mark_processed s projectID runID seq current) (\<lambda>_.
       close_if_ready s projectID runID))))"

definition CompleteDiscoveryCallbackIngest :: "task_service \<Rightarrow> nat \<Rightarrow> nat \<Rightarrow> nat \<Rightarrow> complete_result task_op" where
  "CompleteDiscoveryCallbackIngest s projectID runID seq = task_runInTx s (complete_body s projectID runID seq)"

text \<open>
  The worker: \<open>facts\<close> is the ingest of the facts of a batch into assets and exposures, which are other
  tables; its error marks the batch as failed.
\<close>

definition ingest_Handle ::
  "task_service \<Rightarrow> (discovery_callback \<Rightarrow> discovery_error option) \<Rightarrow> nat \<times> nat \<times> nat \<Rightarrow> unit task_op" where
  "ingest_Handle s facts ref =
     (case ref of (projectID, runID, seq) \<Rightarrow>
       bindM (failIf (projectID = 0 \<or> runID = 0 \<or> seq = 0) DErrInvalidCallbackPayload) (\<lambda>_.
       bindM (repo_GetDiscoveryCallback projectID runID seq) (\<lambda>stored.
       if cb_IngestStatus stored = IngestProcessed then ok ()
       else
         bindM (ClaimDiscoveryCallbackIngest s projectID runID seq) (\<lambda>claimed.
         if \<not> claimed then
           bindM (tryM (repo_GetDiscoveryCallback projectID runID seq)) (\<lambda>latest.
           (case latest of
              Inr c \<Rightarrow> if cb_IngestStatus c = IngestProcessed then ok () else fail DErrCallbackIngestBusy
            | Inl _ \<Rightarrow> fail DErrCallbackIngestBusy))
         else
           (case facts stored of
              Some e \<Rightarrow> bindM (tryM (FailDiscoveryCallbackIngest s projectID runID seq)) (\<lambda>_. fail e)
            | None \<Rightarrow> bindM (CompleteDiscoveryCallbackIngest s projectID runID seq) (\<lambda>_. ok ()))))))"

end
