(* ===== verification/TaskReconcile.thy ===== *)
theory TaskReconcile
  imports CallbackInbox
begin

text \<open>
  Reconciliation of running runs with their engines (\<open>ReconcileTaskRun\<close>, \<open>ReconcileRunningRuns\<close> and
  \<open>ReconcileTimedOutRuns\<close> of \<open>service.go\<close>): the engine is asked for the state of the job, results of active
  jobs are pulled, and a run whose job has ended, or whose deadline has passed, is closed.
\<close>

abbreviation EngineJobStatusRunning :: gostring where "EngineJobStatusRunning \<equiv> ''running''"
abbreviation EngineJobStatusSuccess :: gostring where "EngineJobStatusSuccess \<equiv> ''success''"
abbreviation EngineJobStatusPartialSuccess :: gostring where "EngineJobStatusPartialSuccess \<equiv> ''partial_success''"
abbreviation EngineJobStatusFailed :: gostring where "EngineJobStatusFailed \<equiv> ''failed''"
abbreviation EngineJobStatusCancelled :: gostring where "EngineJobStatusCancelled \<equiv> ''cancelled''"

section \<open>Closing a run\<close>

definition closing_input :: "nat \<Rightarrow> nat \<Rightarrow> gostring \<Rightarrow> nat \<Rightarrow> gostring \<Rightarrow> discovery_meta \<Rightarrow> update_run_input" where
  "closing_input projectID runID actorID resultCount summary m =
     \<lparr>uri_RunID = runID, uri_ProjectID = projectID, uri_ErrorSummary = summary, uri_ResultCount = resultCount,
      uri_ActorID = actorID, uri_Meta = m\<rparr>"

definition record_status_body ::
  "task_service \<Rightarrow> update_run_input \<Rightarrow> gostring \<Rightarrow> bool \<Rightarrow> task_run task_op" where
  "record_status_body s i status applyLifecycle =
     bindM (repo_GetTaskRun (uri_ProjectID i) (uri_RunID i)) (\<lambda>before.
     if rn_Status before = status then ok before
     else
       bindM (if applyLifecycle then apply_lifecycle s (uri_ProjectID i) (uri_RunID i) (rn_TaskType before) status else ok ()) (\<lambda>_.
       bindM (changeTaskRunStatusWith (tv_env s) before i status (tv_now s)) (\<lambda>_.
       bindM (repo_GetTaskRun (uri_ProjectID i) (uri_RunID i)) (\<lambda>after.
       bindM (recordTaskAudit s ActionRunStatusChange (Some (ERun before)) (Some (ERun after)) (uri_ActorID i) (uri_Meta i)) (\<lambda>_.
       ok after)))))"

definition recordRunStatusWithLifecycle ::
  "task_service \<Rightarrow> nat \<Rightarrow> nat \<Rightarrow> gostring \<Rightarrow> gostring \<Rightarrow> nat \<Rightarrow> gostring \<Rightarrow> discovery_meta \<Rightarrow> bool \<Rightarrow> task_run task_op" where
  "recordRunStatusWithLifecycle s projectID runID actorID status resultCount summary m applyLifecycle =
     task_runInTx s (record_status_body s (closing_input projectID runID actorID resultCount (truncateErrorSummary summary) m)
       status applyLifecycle)"

definition recordRunStatus ::
  "task_service \<Rightarrow> nat \<Rightarrow> nat \<Rightarrow> gostring \<Rightarrow> gostring \<Rightarrow> nat \<Rightarrow> gostring \<Rightarrow> discovery_meta \<Rightarrow> task_run task_op" where
  "recordRunStatus s projectID runID actorID status resultCount summary m =
     recordRunStatusWithLifecycle s projectID runID actorID status resultCount summary m False"

section \<open>One run\<close>

definition runTimedOut :: "task_run \<Rightarrow> time \<Rightarrow> bool" where
  "runTimedOut run now =
     (if rn_TimeoutSeconds run \<le> 0 \<or> rn_DispatchedAt run = zero_time then False
      else rn_DispatchedAt run + int64 (rn_TimeoutSeconds run * second) \<le> now)"

text \<open>Whether acknowledged batches of a passive run are still being ingested.\<close>

definition ingest_open :: "task_service \<Rightarrow> task_run \<Rightarrow> gostring \<Rightarrow> bool task_op" where
  "ingest_open s run status =
     (if \<not> IsActiveTaskType (rn_TaskType run) \<and> (status = EngineJobStatusSuccess \<or> status = EngineJobStatusPartialSuccess)
      then bindM (repo_ListDiscoveryCallbacksForRunForUpdate (rn_ProjectID run) (rn_ID run)) (\<lambda>callbacks.
           if callbacks = [] then ok False
           else bindM (liftM (callbackFinalState s callbacks)) (\<lambda>final. ok (final = None)))
      else ok False)"

text \<open>The number of results, and whether the lifecycle of the observations is due.\<close>

definition collect_results :: "task_service \<Rightarrow> engine \<Rightarrow> task_run \<Rightarrow> engine_job_status \<Rightarrow> (nat \<times> bool) task_op" where
  "collect_results s en run st =
     (if IsActiveTaskType (rn_TaskType run) \<and> es_Status st \<noteq> EngineJobStatusRunning
      then bindM (engine_Results en run) (\<lambda>res.
           case res of
             Inl e \<Rightarrow> fail e
           | Inr pulled \<Rightarrow>
               bindM (failIf (es_Status st = EngineJobStatusSuccess \<and>
                        (ps_FinishedTargets pulled \<noteq> ps_TotalTargets pulled \<or> ps_TargetCount pulled \<noteq> ps_TotalTargets pulled))
                        DErrEngineResultIncomplete) (\<lambda>_.
               ok (ps_FactCount pulled, es_Status st = EngineJobStatusSuccess \<or> es_Status st = EngineJobStatusPartialSuccess)))
      else ok (es_ResultCount st, False))"

definition time_out_run :: "task_service \<Rightarrow> engine \<Rightarrow> task_run \<Rightarrow> gostring \<Rightarrow> discovery_meta \<Rightarrow> task_run task_op" where
  "time_out_run s en run actorID m =
     bindM (engine_Cancel en (rn_EngineJobID run)) (\<lambda>res.
     recordRunStatus s (rn_ProjectID run) (rn_ID run) actorID RunFailed (rn_ResultCount run)
       (case res of Inr _ \<Rightarrow> ''task run timed out'' | Inl _ \<Rightarrow> ''task run timed out; engine cancellation failed'') m)"

definition close_by_status ::
  "task_service \<Rightarrow> engine \<Rightarrow> task_run \<Rightarrow> gostring \<Rightarrow> discovery_meta \<Rightarrow> bool \<Rightarrow> engine_job_status \<Rightarrow> nat \<Rightarrow> bool \<Rightarrow> task_run task_op" where
  "close_by_status s en run actorID m timeoutMode st resultCount lifecycle =
     (let status = es_Status st; summary = es_ErrorSummary st; p = rn_ProjectID run; n = rn_ID run in
      if status = EngineJobStatusSuccess then recordRunStatusWithLifecycle s p n actorID RunSuccess resultCount summary m lifecycle
      else if status = EngineJobStatusPartialSuccess then recordRunStatusWithLifecycle s p n actorID RunPartial resultCount summary m lifecycle
      else if status = EngineJobStatusFailed then recordRunStatus s p n actorID RunFailed resultCount summary m
      else if status = EngineJobStatusCancelled then recordRunStatus s p n actorID RunCancelled resultCount summary m
      else if status = EngineJobStatusRunning then (if timeoutMode then time_out_run s en run actorID m else ok run)
      else fail DErrEngineStatus)"

definition reconcileRun :: "task_service \<Rightarrow> task_run \<Rightarrow> gostring \<Rightarrow> discovery_meta \<Rightarrow> bool \<Rightarrow> task_run task_op" where
  "reconcileRun s run actorID m timeoutMode =
     bindM (failIf (rn_Status run \<noteq> RunRunning \<or> TrimSpace (rn_EngineJobID run) = []) DErrInvalidRunTransition) (\<lambda>_.
     bindM (liftM (engineForTaskType s (rn_TaskType run))) (\<lambda>en.
     bindM (engine_Status en (rn_EngineJobID run)) (\<lambda>answer.
     case answer of
       Inl e \<Rightarrow> fail (DErrEngine e)
     | Inr st \<Rightarrow>
         bindM (ingest_open s run (es_Status st)) (\<lambda>unfinished.
         if unfinished then
           (if timeoutMode
            then recordRunStatus s (rn_ProjectID run) (rn_ID run) actorID RunFailed (rn_ResultCount run)
                   ''engine completed but result ingestion did not finish before timeout'' m
            else ok run)
         else
           bindM (collect_results s en run st) (\<lambda>(resultCount, lifecycle).
           close_by_status s en run actorID m timeoutMode st resultCount lifecycle)))))"

section \<open>All runs\<close>

text \<open>
  \<open>scoped\<close> is \<open>withRunSettings\<close>: the service with the engine settings that a run is bound to, by project
  and run. The result counts what was done; the errors are joined into the error that is returned
  next to it.
\<close>

type_synonym scoping = "nat \<Rightarrow> nat \<Rightarrow> discovery_error + task_service"

definition reconcile_scoped :: "scoping \<Rightarrow> task_run \<Rightarrow> gostring \<Rightarrow> discovery_meta \<Rightarrow> bool \<Rightarrow> task_run task_op" where
  "reconcile_scoped scoped run actorID m timeoutMode =
     bindM (liftM (scoped (rn_ProjectID run) (rn_ID run))) (\<lambda>s. reconcileRun s run actorID m timeoutMode)"

definition ReconcileTaskRun :: "task_service \<Rightarrow> scoping \<Rightarrow> reconcile_input \<Rightarrow> task_run task_op" where
  "ReconcileTaskRun s scoped i =
     bindM (failIf (\<not> hasEngineRouting s) DErrEngineNotConfigured) (\<lambda>_.
     bindM (failIf (rci_ProjectID i = 0 \<or> rci_RunID i = 0) DErrInvalidTaskRunID) (\<lambda>_.
     bindM (failIf (bad_task_actor (rci_ActorID i)) DErrInvalidActorID) (\<lambda>_.
     bindM (repo_GetTaskRun (rci_ProjectID i) (rci_RunID i)) (\<lambda>run.
     reconcile_scoped scoped run (rci_ActorID i) (rci_Meta i) False))))"

definition empty_reconcile :: reconcile_result where
  "empty_reconcile = \<lparr>rcr_Checked = 0, rcr_Updated = 0, rcr_Cancelled = 0, rcr_FailedRunIDs = [], rcr_Errors = []\<rparr>"

definition tally_run :: "task_run \<Rightarrow> bool \<Rightarrow> discovery_error + task_run \<Rightarrow> reconcile_result \<Rightarrow> reconcile_result" where
  "tally_run run timeoutMode outcome acc =
     (let r = acc\<lparr>rcr_Checked := rcr_Checked acc + 1\<rparr> in
      case outcome of
        Inl e \<Rightarrow> r\<lparr>rcr_FailedRunIDs := rcr_FailedRunIDs r @ [rn_ID run], rcr_Errors := rcr_Errors r @ [e]\<rparr>
      | Inr after \<Rightarrow>
          if rn_Status after \<noteq> RunRunning then
            (let r' = r\<lparr>rcr_Updated := rcr_Updated r + 1\<rparr> in
             if timeoutMode \<and> rn_Status after = RunFailed \<and> Contains (rn_ErrorSummary after) ''timed out''
             then r'\<lparr>rcr_Cancelled := rcr_Cancelled r' + 1\<rparr> else r')
          else r)"

fun reconcile_runs ::
  "scoping \<Rightarrow> gostring \<Rightarrow> discovery_meta \<Rightarrow> time \<Rightarrow> task_run list \<Rightarrow> reconcile_result \<Rightarrow> reconcile_result task_op" where
  "reconcile_runs scoped actorID m now [] acc = ok acc"
| "reconcile_runs scoped actorID m now (run # runs) acc =
     bindM (tryM (reconcile_scoped scoped run actorID m (runTimedOut run now))) (\<lambda>outcome.
     reconcile_runs scoped actorID m now runs (tally_run run (runTimedOut run now) outcome acc))"

definition reconcile_ready :: "task_service \<Rightarrow> gostring \<Rightarrow> int \<Rightarrow> task_run list task_op" where
  "reconcile_ready s actorID limit =
     bindM (failIf (\<not> hasEngineRouting s) DErrEngineNotConfigured) (\<lambda>_.
     bindM (failIf (bad_task_actor actorID) DErrInvalidActorID) (\<lambda>_.
     repo_ListRunningRunsForReconcile (tv_env s) (if limit \<le> 0 then 100 else limit)))"

definition ReconcileRunningRuns :: "task_service \<Rightarrow> scoping \<Rightarrow> reconcile_all_input \<Rightarrow> reconcile_result task_op" where
  "ReconcileRunningRuns s scoped i =
     bindM (reconcile_ready s (rai_ActorID i) (rai_Limit i)) (\<lambda>runs.
     reconcile_runs scoped (rai_ActorID i) (rai_Meta i) (tv_now s) runs empty_reconcile)"

text \<open>Runs that are not due are skipped, so that the loop is the one above on the runs that are.\<close>

definition ReconcileTimedOutRuns :: "task_service \<Rightarrow> scoping \<Rightarrow> reconcile_all_input \<Rightarrow> reconcile_result task_op" where
  "ReconcileTimedOutRuns s scoped i =
     bindM (reconcile_ready s (rai_ActorID i) (rai_Limit i)) (\<lambda>runs.
     reconcile_runs scoped (rai_ActorID i) (rai_Meta i) (tv_now s) (filter (\<lambda>r. runTimedOut r (tv_now s)) runs) empty_reconcile)"

end
