(* ===== verification/TaskInv.thy ===== *)
theory TaskInv
  imports TaskReconcile DiscoveryInv
begin

text \<open>
  The invariant of the task tables, and how runs and callbacks evolve. \<open>task_inv k\<close> says, for a server
  with collation key \<open>k\<close>: ids are distinct, limits and statuses are in range, runs belong to a template
  and callbacks to a run of their project, a batch is stored once, and the result count of an open
  run is the sum over its processed batches. \<open>task_after d0 d\<close>: in \<open>d\<close> every run and every batch of \<open>d0\<close>
  is still there, its identity and limits are unchanged, its status moved along the diagram, a
  closed run kept its outcome and a processed batch stayed processed. Every repository method keeps
  both, under what its callers check first.
\<close>

section \<open>Operations that start from more than the invariant\<close>

named_theorems pure_intros "operations that do not change the state"

definition pure :: "('s, 'e, 'a) op \<Rightarrow> bool" where
  "pure m \<longleftrightarrow> (\<forall>s. snd (m s) = s)"

lemma pure_basic [pure_intros]:
  "pure (ok x)" "pure (fail e)" "pure (liftM r)" "pure (gets f)" "pure (asks g)" "pure (failIf b e)"
  by (simp_all add: pure_def ok_def fail_def liftM_def gets_def asks_def failIf_def)

lemma pure_state: "pure m \<Longrightarrow> m s = (r, s') \<Longrightarrow> s' = s"
  by (metis pure_def snd_conv)

lemma pureI: "(\<And>s r s'. m s = (r, s') \<Longrightarrow> s' = s) \<Longrightarrow> pure m"
  by (metis pure_def prod.collapse)

lemma pure_bindM [pure_intros]: "pure m \<Longrightarrow> (\<And>x. pure (f x)) \<Longrightarrow> pure (bindM m f)"
  by (rule pureI) (auto simp: bindM_def dest: pure_state split: prod.split_asm sum.split_asm)

lemma pure_tryM [pure_intros]: "pure m \<Longrightarrow> pure (tryM m)"
  by (rule pureI) (auto simp: tryM_def dest: pure_state split: prod.split_asm)

lemma pure_forM [pure_intros]: "(\<And>x. pure (f x)) \<Longrightarrow> pure (forM f xs)"
  by (induction xs) (auto intro!: pure_intros)

lemma pure_if [pure_intros]: "pure m \<Longrightarrow> pure n \<Longrightarrow> pure (if b then m else n)"
  by simp

lemma pure_cases [pure_intros]:
  "pure a \<Longrightarrow> (\<And>x. pure (g x)) \<Longrightarrow> pure (case r of None \<Rightarrow> a | Some x \<Rightarrow> g x)"
  "(\<And>e. pure (h e)) \<Longrightarrow> (\<And>x. pure (g x)) \<Longrightarrow> pure (case q of Inl e \<Rightarrow> h e | Inr x \<Rightarrow> g x)"
  by (cases r; simp) (cases q; simp)

lemma keeps_pure: "pure m \<Longrightarrow> keeps I m"
  by (simp add: pure_def keeps_def)

text \<open>\<open>moves P I m\<close>: from a state with \<open>P\<close>, whatever the outcome, \<open>m\<close> leads to a state with \<open>I\<close>.\<close>

definition moves :: "('s \<Rightarrow> bool) \<Rightarrow> ('s \<Rightarrow> bool) \<Rightarrow> ('s, 'e, 'a) op \<Rightarrow> bool" where
  "moves P I m \<longleftrightarrow> (\<forall>s. P s \<longrightarrow> I (snd (m s)))"

lemma movesI: "(\<And>s. P s \<Longrightarrow> I (snd (m s))) \<Longrightarrow> moves P I m"
  by (simp add: moves_def)

lemma moves_keeps: "keeps I m \<Longrightarrow> (\<And>s. P s \<Longrightarrow> I s) \<Longrightarrow> moves P I m"
  by (simp add: moves_def keeps_def)

lemma moves_act: "moves P I m \<Longrightarrow> (\<And>x. keeps I (f x)) \<Longrightarrow> moves P I (bindM m f)"
  by (fastforce simp: moves_def keeps_def bindM_def split: prod.splits sum.splits)

lemma moves_pure:
  assumes "pure m" and "\<And>s. P s \<Longrightarrow> I s" and "\<And>x. moves P I (f x)"
  shows "moves P I (bindM m f)"
proof (rule movesI)
  fix s assume "P s"
  obtain r s' where m: "m s = (r, s')" by (cases "m s")
  then have "s' = s" using assms(1) by (metis pure_def snd_conv)
  with m \<open>P s\<close> assms(2,3) show "I (snd (bindM m f s))" by (cases r) (auto simp: bindM_def moves_def)
qed

lemma moves_failIf:
  "(\<And>s. P s \<Longrightarrow> I s) \<Longrightarrow> (\<not> b \<Longrightarrow> moves P I (f ())) \<Longrightarrow> moves P I (bindM (failIf b e) f)"
  by (cases b) (auto simp: moves_def bindM_def failIf_def ok_def fail_def)

lemma moves_if: "(b \<Longrightarrow> moves P I m) \<Longrightarrow> (\<not> b \<Longrightarrow> moves P I n) \<Longrightarrow> moves P I (if b then m else n)"
  by simp

text \<open>A transaction whose body is right when it succeeds; \<open>J\<close> is what a failed one still keeps.\<close>

lemma keeps_inTx_body:
  assumes "\<And>s x s'. I s \<Longrightarrow> m s = (Inr x, s') \<Longrightarrow> I s'" and "keeps J m"
    and "\<And>s. I s \<Longrightarrow> J s" and "\<And>s s'. I s \<Longrightarrow> J s' \<Longrightarrow> I (rb s s')"
  shows "keeps I (inTx rb m)"
proof (rule keepsI)
  fix s assume "I s"
  obtain r s' where m: "m s = (r, s')" by (cases "m s")
  have "J s'" using keepsD [OF assms(2) assms(3) [OF \<open>I s\<close>] m] .
  with m \<open>I s\<close> assms(1,4) show "I (snd (inTx rb m s))" by (cases r) (auto simp: inTx_def)
qed

section \<open>The invariant\<close>

definition templates_same :: "(gostring \<Rightarrow> gostring) \<Rightarrow> task_template \<Rightarrow> task_template \<Rightarrow> bool" where
  "templates_same k a b \<longleftrightarrow> tp_ProjectID a = tp_ProjectID b \<and> k (tp_Name a) = k (tp_Name b) \<and> tp_DeletedAt a = tp_DeletedAt b"

interpretation template_rows: keyed_rows tp_ID "\<lambda>n r. r\<lparr>tp_ID := n\<rparr>" template_stamp "templates_same k"
  by unfold_locales (auto simp: templates_same_def template_stamp_def)

interpretation run_rows: keyed_rows rn_ID "\<lambda>n r. r\<lparr>rn_ID := n\<rparr>" "\<lambda>_. id" "\<lambda>_ _. False"
  by unfold_locales auto

interpretation callback_rows: keyed_rows cb_ID "\<lambda>n c. c\<lparr>cb_ID := n\<rparr>" "\<lambda>now c. c\<lparr>cb_UpdatedAt := now\<rparr>" callback_same_key
  by unfold_locales (auto simp: callback_same_key_def)

definition limits_ok :: "int \<Rightarrow> int \<Rightarrow> int \<Rightarrow> int \<Rightarrow> bool" where
  "limits_ok timeout rate concurrency retry \<longleftrightarrow>
     1 \<le> timeout \<and> timeout \<le> 86400 \<and> 1 \<le> rate \<and> rate \<le> 10000 \<and> 1 \<le> concurrency \<and> concurrency \<le> 500 \<and> 0 \<le> retry \<and> retry \<le> 100"

definition template_ok :: "task_template \<Rightarrow> bool" where
  "template_ok t \<longleftrightarrow> limits_ok (tp_TimeoutSeconds t) (tp_RateLimit t) (tp_Concurrency t) (tp_RetryLimit t)"

definition run_ok :: "task_run \<Rightarrow> bool" where
  "run_ok r \<longleftrightarrow> run_live r \<and> \<not> too_long (run_columns r) \<and> rn_Status r \<in> set validTaskStatuses \<and>
     limits_ok (rn_TimeoutSeconds r) (rn_RateLimit r) (rn_Concurrency r) (rn_RetryLimit r) \<and>
     0 \<le> rn_Progress r \<and> rn_Progress r \<le> 100 \<and> 0 \<le> rn_Attempt r \<and>
     (rn_Status r = RunPending \<longrightarrow> rn_ResultCount r = 0 \<and> rn_EngineJobID r = [])"

definition callbackMaxFacts :: nat where "callbackMaxFacts = 2000"

definition callback_ok :: "discovery_callback \<Rightarrow> bool" where
  "callback_ok c \<longleftrightarrow> callback_live c \<and> 1 \<le> cb_Seq c \<and> cb_Seq c \<le> callbackMaxSeq \<and> cb_ResultCount c \<le> callbackMaxFacts \<and>
     cb_IngestAttempt c \<le> ingest_attempt_cap \<and>
     cb_IngestStatus c \<in> {IngestPending, IngestProcessing, IngestProcessed, IngestFailed} \<and> phase_status_ok (cb_Phase c) (cb_Status c)"

definition batches :: "task_db \<Rightarrow> task_run \<Rightarrow> discovery_callback list" where
  "batches d r = filter (\<lambda>c. cb_RunID c = rn_ID r) (t_rows (tb_callbacks d))"

definition processed_results :: "discovery_callback list \<Rightarrow> nat" where
  "processed_results cs = sum_list (map cb_ResultCount (filter (\<lambda>c. cb_IngestStatus c = IngestProcessed) cs))"

definition counted :: "task_db \<Rightarrow> task_run \<Rightarrow> bool" where
  "counted d r \<longleftrightarrow> (rn_Status r = RunPending \<longrightarrow> batches d r = []) \<and>
     (rn_Status r = RunRunning \<longrightarrow> rn_ResultCount r = processed_results (batches d r))"

definition run_owned :: "task_db \<Rightarrow> task_run \<Rightarrow> bool" where
  "run_owned d r \<longleftrightarrow> (\<exists>t \<in> set (t_rows (tb_templates d)). tp_ID t = rn_TemplateID r \<and> tp_ProjectID t = rn_ProjectID r)"

definition callback_owned :: "task_db \<Rightarrow> discovery_callback \<Rightarrow> bool" where
  "callback_owned d c \<longleftrightarrow> (\<exists>r \<in> set (t_rows (tb_runs d)). rn_ID r = cb_RunID c \<and> rn_ProjectID r = cb_ProjectID c)"

definition task_inv :: "(gostring \<Rightarrow> gostring) \<Rightarrow> task_db \<Rightarrow> bool" where
  "task_inv k d \<longleftrightarrow>
     discovery_inv k (tb_scopes d) \<and>
     table_ok tp_ID (templates_same k) template_ok (tb_templates d) \<and>
     table_ok rn_ID (\<lambda>_ _. False) run_ok (tb_runs d) \<and>
     table_ok cb_ID callback_same_key callback_ok (tb_callbacks d) \<and>
     (\<forall>r \<in> set (t_rows (tb_runs d)). run_owned d r \<and> counted d r) \<and>
     (\<forall>c \<in> set (t_rows (tb_callbacks d)). callback_owned d c)"

section \<open>Evolution\<close>

definition terminal_status :: "gostring \<Rightarrow> bool" where
  "terminal_status st \<longleftrightarrow> st \<notin> {RunPending, RunRunning}"

text \<open>The status diagram, and what it allows in any number of moves.\<close>

definition run_edge :: "gostring \<Rightarrow> gostring \<Rightarrow> bool" where
  "run_edge a b \<longleftrightarrow> (a = RunPending \<and> b \<in> {RunRunning, RunCancelled, RunFailed}) \<or>
     (a = RunRunning \<and> b \<in> {RunSuccess, RunPartial, RunFailed, RunCancelled})"

definition status_leads :: "gostring \<Rightarrow> gostring \<Rightarrow> bool" where
  "status_leads a b \<longleftrightarrow> run_edge\<^sup>*\<^sup>* a b"

definition run_fixed :: "task_run \<Rightarrow> task_run \<Rightarrow> bool" where
  "run_fixed a b \<longleftrightarrow> rn_ID b = rn_ID a \<and> rn_TenantID b = rn_TenantID a \<and> rn_OrgID b = rn_OrgID a \<and> rn_ProjectID b = rn_ProjectID a \<and>
     rn_TemplateID b = rn_TemplateID a \<and> rn_ScopeID b = rn_ScopeID a \<and> rn_TaskType b = rn_TaskType a \<and>
     rn_TimeoutSeconds b = rn_TimeoutSeconds a \<and> rn_RateLimit b = rn_RateLimit a \<and> rn_Concurrency b = rn_Concurrency a \<and>
     rn_RetryLimit b = rn_RetryLimit a \<and> rn_CallbackSecretRef b = rn_CallbackSecretRef a \<and> rn_ApprovedBy b = rn_ApprovedBy a \<and>
     rn_ApprovalReason b = rn_ApprovalReason a \<and> rn_CreatedBy b = rn_CreatedBy a"

definition same_outcome :: "task_run \<Rightarrow> task_run \<Rightarrow> bool" where
  "same_outcome a b \<longleftrightarrow> rn_Status b = rn_Status a \<and> rn_ResultCount b = rn_ResultCount a \<and> rn_ErrorSummary b = rn_ErrorSummary a \<and>
     rn_FinishedAt b = rn_FinishedAt a \<and> rn_EngineJobID b = rn_EngineJobID a"

definition run_follows :: "task_run \<Rightarrow> task_run \<Rightarrow> bool" where
  "run_follows a b \<longleftrightarrow> run_fixed a b \<and> status_leads (rn_Status a) (rn_Status b) \<and>
     (terminal_status (rn_Status a) \<longrightarrow> same_outcome a b)"

definition callback_follows :: "discovery_callback \<Rightarrow> discovery_callback \<Rightarrow> bool" where
  "callback_follows a b \<longleftrightarrow> cb_ID b = cb_ID a \<and> cb_TenantID b = cb_TenantID a \<and> cb_OrgID b = cb_OrgID a \<and>
     cb_ProjectID b = cb_ProjectID a \<and> cb_RunID b = cb_RunID a \<and> cb_Seq b = cb_Seq a \<and> cb_SchemaVersion b = cb_SchemaVersion a \<and>
     cb_Phase b = cb_Phase a \<and> cb_Status b = cb_Status a \<and> cb_ObservedAt b = cb_ObservedAt a \<and> cb_PayloadHash b = cb_PayloadHash a \<and>
     cb_Payload b = cb_Payload a \<and> cb_PayloadSize b = cb_PayloadSize a \<and> cb_ResultCount b = cb_ResultCount a \<and>
     cb_ErrorSummary b = cb_ErrorSummary a \<and> cb_ReceivedAt b = cb_ReceivedAt a \<and> cb_IngestAttempt a \<le> cb_IngestAttempt b \<and>
     cb_DeletedAt b = cb_DeletedAt a \<and> (cb_IngestStatus a = IngestProcessed \<longrightarrow> cb_IngestStatus b = IngestProcessed)"

definition task_after :: "task_db \<Rightarrow> task_db \<Rightarrow> bool" where
  "task_after d0 d \<longleftrightarrow>
     (\<forall>r \<in> set (t_rows (tb_runs d0)). \<exists>r' \<in> set (t_rows (tb_runs d)). run_follows r r') \<and>
     (\<forall>c \<in> set (t_rows (tb_callbacks d0)). \<exists>c' \<in> set (t_rows (tb_callbacks d)). callback_follows c c') \<and>
     prefix (tb_traffic d0) (tb_traffic d)"

definition task_kept :: "(gostring \<Rightarrow> gostring) \<Rightarrow> task_db \<Rightarrow> task_db \<Rightarrow> bool" where
  "task_kept k d0 d \<longleftrightarrow> task_inv k d \<and> task_after d0 d"

text \<open>What the server promises beyond \<open>server_ok\<close>: its collation tells the status words apart.\<close>

definition status_words :: "gostring list" where
  "status_words = validTaskStatuses @ [IngestPending, IngestProcessing, IngestProcessed, IngestFailed]"

definition tells_apart :: "(gostring \<Rightarrow> gostring) \<Rightarrow> bool" where
  "tells_apart k \<longleftrightarrow> inj_on k (set status_words)"

definition task_server_ok :: "(gostring \<Rightarrow> gostring) \<Rightarrow> env \<Rightarrow> bool" where
  "task_server_ok k e \<longleftrightarrow> server_ok k e \<and> tells_apart k"

end
