(* ===== verification/TaskKeeps.thy ===== *)
theory TaskKeeps
  imports TaskInv
begin

text \<open>
  Every statement of the task repository keeps the invariant and the evolution relation of \<open>TaskInv\<close>.
  \<open>kept_update\<close> is the one argument about updated rows; the lemmas per statement check its conditions.
\<close>

section \<open>Evolution is a preorder\<close>

lemma status_leads_refl [simp]: "status_leads a a" by (simp add: status_leads_def)

lemma status_leads_trans: "status_leads a b \<Longrightarrow> status_leads b c \<Longrightarrow> status_leads a c"
  by (simp add: status_leads_def)

lemma status_leads_edge: "run_edge a b \<Longrightarrow> status_leads a b"
  by (simp add: status_leads_def)

lemma status_leads_terminal: "status_leads a b \<Longrightarrow> terminal_status a \<Longrightarrow> b = a"
  unfolding status_leads_def by (erule converse_rtranclpE) (auto simp: run_edge_def terminal_status_def)

lemma run_fixed_trans: "run_fixed a b \<Longrightarrow> run_fixed b c \<Longrightarrow> run_fixed a c"
  by (simp add: run_fixed_def)

lemma run_follows_refl [simp]: "run_follows r r"
  by (simp add: run_follows_def run_fixed_def same_outcome_def)

lemma run_follows_trans: "run_follows a b \<Longrightarrow> run_follows b c \<Longrightarrow> run_follows a c"
  unfolding run_follows_def same_outcome_def
  using run_fixed_trans status_leads_trans by (elim conjE, intro conjI) (blast, blast, simp)

lemma callback_follows_refl [simp]: "callback_follows c c"
  by (simp add: callback_follows_def)

lemma callback_follows_trans: "callback_follows a b \<Longrightarrow> callback_follows b c \<Longrightarrow> callback_follows a c"
  by (simp add: callback_follows_def)

lemma task_after_refl [simp]: "task_after d d"
  unfolding task_after_def using run_follows_refl callback_follows_refl by blast

lemma task_after_trans: "task_after a b \<Longrightarrow> task_after b c \<Longrightarrow> task_after a c"
  unfolding task_after_def
  by (meson run_follows_trans callback_follows_trans prefix_order.trans)

section \<open>States that agree on the tables\<close>

lemma kept_frame:
  assumes "task_kept k d0 d" and "tb_runs d' = tb_runs d" and "tb_callbacks d' = tb_callbacks d" and "tb_templates d' = tb_templates d"
    and "discovery_inv k (tb_scopes d')" and "prefix (tb_traffic d) (tb_traffic d')"
  shows "task_kept k d0 d'"
proof -
  have "counted d' = counted d" "run_owned d' = run_owned d" "callback_owned d' = callback_owned d"
    using assms(2-4) by (simp_all add: fun_eq_iff counted_def batches_def run_owned_def callback_owned_def)
  then show ?thesis
    using assms by (auto simp: task_kept_def task_inv_def task_after_def intro: prefix_order.trans)
qed

lemma kept_rollback:
  assumes "task_kept k d0 d" and "prefix (tb_traffic d0) (tb_traffic d1)"
  shows "task_kept k d0 (task_rollback d d1)"
proof -
  let ?d = "task_rollback d d1"
  have "counted ?d = counted d" "run_owned ?d = run_owned d" "callback_owned ?d = callback_owned d"
    by (simp_all add: task_rollback_def fun_eq_iff counted_def batches_def run_owned_def callback_owned_def)
  then show ?thesis
    using assms
    by (simp add: task_kept_def task_inv_def task_after_def task_rollback_def template_rows.ok_rollback run_rows.ok_rollback
        callback_rows.ok_rollback discovery_inv_rollback)
qed

lemma kept_traffic: "task_kept k d0 d \<Longrightarrow> prefix (tb_traffic d0) (tb_traffic d)"
  by (simp add: task_kept_def task_after_def)

section \<open>Updated rows\<close>

lemma unique_rows_map:
  "(\<And>a b. a \<in> set rows \<Longrightarrow> b \<in> set rows \<Longrightarrow> same (g a) (g b) = same a b) \<Longrightarrow> unique_rows same rows \<Longrightarrow> unique_rows same (map g rows)"
  unfolding unique_rows_def by (induction rows) auto

lemma table_ok_map:
  assumes "table_ok rid same P t" and "t_rows t' = map g (t_rows t)" and "t_next t' = t_next t"
    and "\<And>r. r \<in> set (t_rows t) \<Longrightarrow> rid (g r) = rid r \<and> Q (g r)"
    and "\<And>a b. a \<in> set (t_rows t) \<Longrightarrow> b \<in> set (t_rows t) \<Longrightarrow> same (g a) (g b) = same a b"
  shows "table_ok rid same Q t'"
proof -
  have "map rid (map g (t_rows t)) = map rid (t_rows t)" using assms(4) by simp
  then show ?thesis
    using assms unique_rows_map [of "t_rows t" same g] by (auto simp: table_ok_def wf_rows_def simp del: map_map)
qed

lemma kept_update:
  assumes kept: "task_kept k d0 d"
    and runs: "t_rows (tb_runs d') = map h (t_rows (tb_runs d))" "t_next (tb_runs d') = t_next (tb_runs d)"
    and cbs: "t_rows (tb_callbacks d') = map g (t_rows (tb_callbacks d))" "t_next (tb_callbacks d') = t_next (tb_callbacks d)"
    and rest: "tb_templates d' = tb_templates d" "tb_scopes d' = tb_scopes d" "tb_traffic d' = tb_traffic d"
    and h: "\<And>r. r \<in> set (t_rows (tb_runs d)) \<Longrightarrow> run_ok (h r) \<and> run_follows r (h r) \<and> counted d' (h r)"
    and g: "\<And>c. c \<in> set (t_rows (tb_callbacks d)) \<Longrightarrow> callback_ok (g c) \<and> callback_follows c (g c)"
  shows "task_kept k d0 d'"
proof -
  have inv: "task_inv k d" and after: "task_after d0 d" using kept by (auto simp: task_kept_def)
  have fixed: "run_fixed r (h r)" if "r \<in> set (t_rows (tb_runs d))" for r using h [OF that] by (simp add: run_follows_def)
  have "table_ok rn_ID (\<lambda>_ _. False) run_ok (tb_runs d')"
    using inv h fixed by (intro table_ok_map [OF _ runs]) (auto simp: task_inv_def run_fixed_def)
  moreover have "table_ok cb_ID callback_same_key callback_ok (tb_callbacks d')"
    using inv g by (intro table_ok_map [OF _ cbs]) (auto simp: task_inv_def callback_follows_def callback_same_key_def)
  moreover have "\<forall>r \<in> set (t_rows (tb_runs d')). run_owned d' r \<and> counted d' r"
    using inv h fixed runs(1) rest(1) by (auto simp: task_inv_def run_owned_def run_fixed_def)
  moreover have "\<forall>c \<in> set (t_rows (tb_callbacks d')). callback_owned d' c"
  proof
    fix c' assume "c' \<in> set (t_rows (tb_callbacks d'))"
    then obtain c where c: "c \<in> set (t_rows (tb_callbacks d))" "c' = g c" using cbs(1) by auto
    then obtain r where r: "r \<in> set (t_rows (tb_runs d))" "rn_ID r = cb_RunID c" "rn_ProjectID r = cb_ProjectID c"
      using inv by (auto simp: task_inv_def callback_owned_def)
    then have "h r \<in> set (t_rows (tb_runs d'))" using runs(1) by simp
    then show "callback_owned d' c'"
      using r c g [OF c(1)] fixed [OF r(1)] by (auto simp: callback_owned_def callback_follows_def run_fixed_def)
  qed
  moreover have "task_after d d'"
    using h g runs(1) cbs(1) rest(3) by (auto simp: task_after_def)
  ultimately show ?thesis
    using inv after task_after_trans [of d0 d d'] rest(1,2) by (simp add: task_kept_def task_inv_def)
qed

lemma processed_results_map:
  "(\<And>c. c \<in> set cs \<Longrightarrow> cb_ResultCount (g c) = cb_ResultCount c \<and> (cb_IngestStatus (g c) = IngestProcessed \<longleftrightarrow> cb_IngestStatus c = IngestProcessed))
     \<Longrightarrow> processed_results (map g cs) = processed_results cs"
  by (induction cs) (auto simp: processed_results_def)

lemma batches_map:
  assumes "t_rows (tb_callbacks d') = map g (t_rows (tb_callbacks d))"
    and "\<And>c. c \<in> set (t_rows (tb_callbacks d)) \<Longrightarrow> cb_RunID (g c) = cb_RunID c" and "rn_ID r' = rn_ID r"
  shows "batches d' r' = map g (batches d r)"
proof -
  have "filter (\<lambda>c. cb_RunID c = n) (map g rows) = map g (filter (\<lambda>c. cb_RunID c = n) rows)"
    if "\<And>c. c \<in> set rows \<Longrightarrow> cb_RunID (g c) = cb_RunID c" for n rows
    using that by (induction rows) auto
  then show ?thesis using assms by (simp add: batches_def)
qed

section \<open>Parts of the state\<close>

lemma on_templates_state: "snd (on_templates m d) = d\<lparr>tb_templates := snd (m (tb_templates d))\<rparr>"
  by (auto simp: on_templates_def mapErr_def zoom_def split: prod.splits sum.splits)

lemma on_runs_state: "snd (on_runs m d) = d\<lparr>tb_runs := snd (m (tb_runs d))\<rparr>"
  by (auto simp: on_runs_def mapErr_def zoom_def split: prod.splits sum.splits)

lemma on_callbacks_state: "snd (on_callbacks m d) = d\<lparr>tb_callbacks := snd (m (tb_callbacks d))\<rparr>"
  by (auto simp: on_callbacks_def mapErr_def zoom_def split: prod.splits sum.splits)

lemma keeps_on_scope_db:
  assumes "keeps (discovery_inv k) m"
  shows "keeps (task_kept k d0) (on_scope_db m)"
proof (rule keepsI)
  fix d assume kept: "task_kept k d0 d"
  then have "discovery_inv k (snd (m (tb_scopes d)))" using assms by (simp add: keeps_def task_kept_def task_inv_def)
  then show "task_kept k d0 (snd (on_scope_db m d))"
    by (intro kept_frame [OF kept]) (auto simp: on_scope_db_def zoom_def split: prod.splits)
qed

lemma keeps_on_audit [keeps_intros]: "keeps (task_kept k d0) (on_audit m)"
proof -
  have "keeps (discovery_inv k) (zoom dd_audit (\<lambda>t d. d\<lparr>dd_audit := t\<rparr>) m)"
    by (rule keeps_zoom [where J = "\<lambda>_. True"]) (simp_all add: keeps_def discovery_inv_def owned_def)
  then show ?thesis unfolding on_audit_def by (intro keeps_on_scope_db keeps_mapErr)
qed

lemma keeps_recordTaskAudit [keeps_intros]: "keeps (task_kept k d0) (recordTaskAudit s act b a actor m)"
  unfolding recordTaskAudit_def by (intro keeps_intros)

lemma kept_scopes: "task_kept k d0 d \<Longrightarrow> discovery_inv k (tb_scopes d)"
  by (simp add: task_kept_def task_inv_def)

lemma keeps_call_engine [keeps_intros]: "keeps (task_kept k d0) (call_engine c answer)"
  by (rule keepsI, rule kept_frame, assumption) (auto simp: call_engine_def kept_scopes)

lemma keeps_engine_calls [keeps_intros]:
  "keeps (task_kept k d0) (engine_Dispatch en job)" "keeps (task_kept k d0) (engine_Cancel en j)"
  "keeps (task_kept k d0) (engine_Status en j)" "keeps (task_kept k d0) (engine_Results en r)"
  unfolding engine_Dispatch_def engine_Cancel_def engine_Status_def engine_Results_def by (rule keeps_call_engine)+

lemma keeps_enqueue_run [keeps_intros]: "keeps (task_kept k d0) (enqueue_run s p)"
  by (rule keepsI, rule kept_frame, assumption) (auto simp: enqueue_run_def kept_scopes split: option.splits)

lemma pure_task_reads [pure_intros]:
  "pure (repo_GetTaskTemplate q i)" "pure (repo_ListTaskTemplates q)" "pure (repo_GetTaskRun q n)" "pure (repo_GetTaskRunForUpdate q n)"
  "pure (repo_ListTaskRuns q)" "pure (repo_ListRunningRunsForReconcile e l)" "pure (repo_GetDiscoveryCallback q n sq)"
  "pure (repo_ListPendingDiscoveryCallbackRefs e l)" "pure (repo_ListDiscoveryCallbacksForRunForUpdate q n)"
  "pure (repo_ListIPNetworkAttribution q vs same)" "pure (validateInheritedSnapshot s q sc ty raw)"
  unfolding repo_GetTaskTemplate_def repo_ListTaskTemplates_def repo_GetTaskRun_def repo_GetTaskRunForUpdate_def repo_ListTaskRuns_def
    repo_ListRunningRunsForReconcile_def repo_GetDiscoveryCallback_def repo_ListPendingDiscoveryCallbackRefs_def
    repo_ListDiscoveryCallbacksForRunForUpdate_def repo_ListIPNetworkAttribution_def validateInheritedSnapshot_def Let_def
  by (intro pure_intros)+

lemma pure_scope_read [pure_intros]: "pure (on_scope_db (repo_GetScope q i))"
  by (rule pureI) (auto simp: on_scope_db_def zoom_def repo_GetScope_def asks_def split: prod.split_asm)

lemmas keeps_reads_task [keeps_intros] = pure_task_reads [THEN keeps_pure] pure_scope_read [THEN keeps_pure]

section \<open>Templates\<close>

lemma kept_templates:
  assumes "task_kept k d0 d" and "table_ok tp_ID (templates_same k) template_ok t'"
    and "\<And>t. t \<in> set (t_rows (tb_templates d)) \<Longrightarrow> \<exists>u \<in> set (t_rows t'). tp_ID u = tp_ID t \<and> tp_ProjectID u = tp_ProjectID t"
  shows "task_kept k d0 (d\<lparr>tb_templates := t'\<rparr>)"
proof -
  have "run_owned d r \<Longrightarrow> run_owned (d\<lparr>tb_templates := t'\<rparr>) r" for r
    using assms(3) unfolding run_owned_def by simp metis
  moreover have "counted (d\<lparr>tb_templates := t'\<rparr>) = counted d" "callback_owned (d\<lparr>tb_templates := t'\<rparr>) = callback_owned d"
    by (simp_all add: fun_eq_iff counted_def batches_def callback_owned_def)
  ultimately show ?thesis using assms(1,2) by (auto simp: task_kept_def task_inv_def task_after_def)
qed

lemma template_key_eq: "env_key e = k \<Longrightarrow> template_same_key e = templates_same k"
  by (auto simp: template_same_key_def templates_same_def sql_eq_def fun_eq_iff)

lemma template_check_ok: "template_check e r = None \<Longrightarrow> template_ok r"
  by (auto simp: template_check_def row_check_def template_ok_def limits_ok_def split: if_split_asm)

lemma keeps_CreateTaskTemplate_repo:
  assumes "env_key e = k"
  shows "keeps (task_kept k d0) (repo_CreateTaskTemplate e i)"
proof (rule keepsI)
  fix d assume kept: "task_kept k d0 d"
  show "task_kept k d0 (snd (repo_CreateTaskTemplate e i d))"
  proof (cases "template_row e i")
    case (Some row)
    let ?fk = "\<lambda>r. list_ex (\<lambda>s. sc_ProjectID s = tp_ProjectID r \<and> sc_ID s = tp_ScopeID r) (t_rows (dd_scopes (tb_scopes d)))"
    let ?m = "sql_insert (template_check e) (templates_same k) ?fk (\<lambda>n r. r\<lparr>tp_ID := n\<rparr>) row"
    obtain res t' where run: "?m (tb_templates d) = (res, t')" by (cases "?m (tb_templates d)")
    have "table_ok tp_ID (templates_same k) template_ok t'"
      using kept template_check_ok [of e row]
      by (intro template_rows.ok_insert [OF _ run]) (auto simp: task_kept_def task_inv_def template_ok_def)
    moreover have "set (t_rows (tb_templates d)) \<subseteq> set (t_rows t')"
      using run by (cases res) (auto simp: sql_insert_Inr dest: sql_insert_Inl)
    moreover have "snd (repo_CreateTaskTemplate e i d) = d\<lparr>tb_templates := t'\<rparr>"
      using run Some assms by (simp add: repo_CreateTaskTemplate_def on_templates_state template_key_eq)
    ultimately show ?thesis using kept_templates [OF kept] by auto
  qed (simp add: repo_CreateTaskTemplate_def kept)
qed

lemma keeps_update_template:
  assumes "env_key e = k" and "\<And>r. tp_ID (f r) = tp_ID r \<and> tp_ProjectID (f r) = tp_ProjectID r"
  shows "keeps (task_kept k d0) (update_template e q i f)"
proof (rule keepsI)
  fix d assume kept: "task_kept k d0 d"
  let ?p = "\<lambda>r. tp_ID r = i \<and> (tp_ProjectID r = q \<and> template_live r)"
  let ?m = "sql_update_unique (templates_same k) (template_check e) ?p f (template_stamp (env_db_now e))"
  obtain res t' where run: "?m (tb_templates d) = (res, t')" by (cases "?m (tb_templates d)")
  have "table_ok tp_ID (templates_same k) template_ok t'"
    using kept assms(2) template_check_ok [of e "f _"]
    by (intro template_rows.ok_update [OF _ run]) (auto simp: task_kept_def task_inv_def template_stamp_def template_ok_def)
  moreover have "\<exists>u \<in> set (t_rows t'). tp_ID u = tp_ID t \<and> tp_ProjectID u = tp_ProjectID t" if "t \<in> set (t_rows (tb_templates d))" for t
    using sql_update_unique_cases [OF run]
  proof (elim disjE conjE)
    assume "t' = (tb_templates d)\<lparr>t_rows := map (upd_row ?p f (template_stamp (env_db_now e))) (t_rows (tb_templates d))\<rparr>"
    then have "upd_row ?p f (template_stamp (env_db_now e)) t \<in> set (t_rows t')" using that by simp
    then show ?thesis by (rule bexI [rotated]) (simp add: upd_row_def template_stamp_def assms(2))
  qed (use that in auto)
  moreover have "snd (update_template e q i f d) = d\<lparr>tb_templates := t'\<rparr>"
    using run assms(1) by (simp add: update_template_def on_templates_state template_key_eq)
  ultimately show "task_kept k d0 (snd (update_template e q i f d))" using kept_templates [OF kept] by simp
qed

lemma keeps_template_statements:
  assumes "env_key e = k"
  shows "keeps (task_kept k d0) (repo_UpdateTaskTemplate e q i p)" "keeps (task_kept k d0) (repo_SetTaskTemplateEnabled e q i b a)"
    "keeps (task_kept k d0) (repo_DeleteTaskTemplate e q i a)"
  unfolding repo_UpdateTaskTemplate_def repo_SetTaskTemplateEnabled_def repo_DeleteTaskTemplate_def
  by (intro keeps_intros keeps_update_template [OF assms]; simp add: template_written_def)+

section \<open>Runs\<close>

lemma run_read:
  "repo_GetTaskRun q n d = (Inr r, d') \<longleftrightarrow> d' = d \<and> sql_one (\<lambda>r. rn_ID r = n \<and> (rn_ProjectID r = q \<and> run_live r)) (tb_runs d) = Some r"
  by (auto simp: repo_GetTaskRun_def asks_def split: option.split_asm)

lemma run_read_mem:
  "repo_GetTaskRun q n d = (Inr r, d') \<Longrightarrow> r \<in> set (t_rows (tb_runs d)) \<and> rn_ID r = n \<and> rn_ProjectID r = q \<and> run_live r \<and> d' = d"
  by (auto simp: run_read dest: sql_one_mem)

lemma kept_run_unique:
  "task_kept k d0 d \<Longrightarrow> a \<in> set (t_rows (tb_runs d)) \<Longrightarrow> b \<in> set (t_rows (tb_runs d)) \<Longrightarrow> rn_ID a = rn_ID b \<Longrightarrow> a = b"
  by (rule run_rows.row_unique [of "tb_runs d"]) (auto simp: task_kept_def task_inv_def table_ok_def)

lemma kept_run_ok: "task_kept k d0 d \<Longrightarrow> r \<in> set (t_rows (tb_runs d)) \<Longrightarrow> run_ok r \<and> counted d r"
  by (auto simp: task_kept_def task_inv_def table_ok_def)

lemma keeps_read_run:
  assumes "\<And>r. rn_ID r = n \<Longrightarrow> rn_ProjectID r = q \<Longrightarrow> moves (\<lambda>d. I d \<and> r \<in> set (t_rows (tb_runs d))) I (f r)"
  shows "keeps I (bindM (repo_GetTaskRun q n) f)"
  by (rule keeps_bindM_dep) (use assms in \<open>auto simp: moves_def dest!: run_read_mem intro: keeps_intros\<close>)

text \<open>An update of runs, row by row.\<close>

lemma kept_runs_update:
  assumes "task_kept k d0 d" and "sql_update chk p f id (tb_runs d) = (res, t')"
    and "\<And>r. r \<in> set (t_rows (tb_runs d)) \<Longrightarrow> p r \<Longrightarrow> chk (f r) = None \<Longrightarrow> run_ok (f r) \<and> run_follows r (f r) \<and> counted d (f r)"
  shows "task_kept k d0 (d\<lparr>tb_runs := t'\<rparr>)"
proof (cases res)
  case (Inl e)
  then show ?thesis using assms(1,2) by (auto dest: sql_update_Inl)
next
  case (Inr n)
  then have t': "t' = (tb_runs d)\<lparr>t_rows := map (upd_row p f id) (t_rows (tb_runs d))\<rparr>"
    and chk: "\<forall>r \<in> set (t_rows (tb_runs d)). p r \<longrightarrow> chk (f r) = None" using assms(2) by (auto simp: sql_update_Inr)
  have "counted (d\<lparr>tb_runs := t'\<rparr>) = counted d" by (simp add: fun_eq_iff counted_def batches_def)
  then show ?thesis
    using assms(3) chk kept_run_ok [OF assms(1)] assms(1)
    by (intro kept_update [OF assms(1), where h = "upd_row p f id" and g = "\<lambda>c. c"])
       (auto simp: t' upd_row_def task_kept_def task_inv_def table_ok_def)
qed

lemma mark_run_state:
  "snd (mark_run e q n from f d) = d\<lparr>tb_runs := snd (sql_update (run_check e)
     (\<lambda>r. rn_ID r = n \<and> (rn_ProjectID r = q \<and> sql_eq e (rn_Status r) from \<and> run_live r)) f id (tb_runs d))\<rparr>"
proof -
  have "snd (markRunUpdateResultError m d) = snd (m d)" for m
    by (auto simp: markRunUpdateResultError_def bindM_def failIf_def ok_def fail_def split: prod.splits sum.splits)
  then show ?thesis by (simp add: mark_run_def on_runs_state)
qed

lemma moves_mark_run:
  assumes "\<And>d. P d \<Longrightarrow> task_kept k d0 d"
    and "\<And>d r. P d \<Longrightarrow> r \<in> set (t_rows (tb_runs d)) \<Longrightarrow> rn_ID r = n \<Longrightarrow> run_check e (f r) = None \<Longrightarrow>
           run_ok (f r) \<and> run_follows r (f r) \<and> counted d (f r)"
  shows "moves P (task_kept k d0) (mark_run e q n from f)"
proof (rule movesI)
  fix d assume P: "P d"
  let ?m = "sql_update (run_check e) (\<lambda>r. rn_ID r = n \<and> (rn_ProjectID r = q \<and> sql_eq e (rn_Status r) from \<and> run_live r)) f id"
  obtain res t' where run: "?m (tb_runs d) = (res, t')" by (cases "?m (tb_runs d)")
  have "task_kept k d0 (d\<lparr>tb_runs := t'\<rparr>)" using assms(2) [OF P] by (intro kept_runs_update [OF assms(1) [OF P] run]) auto
  then show "task_kept k d0 (snd (mark_run e q n from f d))" by (simp add: mark_run_state run)
qed

lemma run_check_ranges:
  "run_check e r = None \<Longrightarrow> limits_ok (rn_TimeoutSeconds r) (rn_RateLimit r) (rn_Concurrency r) (rn_RetryLimit r) \<and>
     0 \<le> rn_Progress r \<and> rn_Progress r \<le> 100 \<and> 0 \<le> rn_Attempt r \<and> \<not> too_long (run_columns r)"
  by (simp add: run_check_def row_check_def limits_ok_def split: if_split_asm)

lemma kept_run_insert:
  assumes "task_kept k d0 d" and "sql_insert chk (\<lambda>_ _. False) (run_fk d) (\<lambda>n r. r\<lparr>rn_ID := n\<rparr>) row (tb_runs d) = (res, t')"
    and "chk row = None \<Longrightarrow> run_ok row" and "rn_Status row = RunPending"
  shows "task_kept k d0 (d\<lparr>tb_runs := t'\<rparr>)"
proof (cases res)
  case (Inl e)
  then show ?thesis using assms(1,2) by (auto dest: sql_insert_Inl)
next
  case (Inr n)
  let ?d = "d\<lparr>tb_runs := t'\<rparr>" and ?row = "row\<lparr>rn_ID := n\<rparr>"
  have t': "t_rows t' = t_rows (tb_runs d) @ [?row]" and n: "n = t_next (tb_runs d)" and fk: "run_fk d row" and chk: "chk row = None"
    using assms(2) Inr by (auto simp: sql_insert_Inr)
  have inv: "task_inv k d" using assms(1) by (simp add: task_kept_def)
  have ok: "table_ok rn_ID (\<lambda>_ _. False) run_ok t'"
    using inv assms(3) by (intro run_rows.ok_insert [OF _ assms(2)]) (auto simp: task_inv_def run_ok_def run_live_def run_columns_def)
  have "cb_RunID c < n" if c: "c \<in> set (t_rows (tb_callbacks d))" for c
  proof -
    obtain r where "r \<in> set (t_rows (tb_runs d))" "rn_ID r = cb_RunID c"
      using inv c by (auto simp: task_inv_def callback_owned_def)
    then show ?thesis using inv n by (auto simp: task_inv_def table_ok_def wf_rows_def)
  qed
  then have "batches ?d ?row = []" by (auto simp: batches_def filter_empty_conv)
  then have "counted ?d ?row" using assms(4) by (simp add: counted_def)
  moreover have "counted ?d = counted d" by (simp add: fun_eq_iff counted_def batches_def)
  moreover have "run_owned ?d = run_owned d" by (simp add: fun_eq_iff run_owned_def)
  moreover have "run_owned d ?row" using fk by (auto simp: run_fk_def run_owned_def list_ex_iff)
  moreover have "\<forall>c \<in> set (t_rows (tb_callbacks d)). callback_owned ?d c"
    using inv by (auto simp: task_inv_def callback_owned_def t')
  moreover have "task_after d ?d" using t' by (auto simp: task_after_def intro: run_follows_refl callback_follows_refl)
  ultimately show ?thesis
    using inv assms(1) ok task_after_trans [of d0 d ?d] by (auto simp: task_kept_def task_inv_def t')
qed

lemma keeps_CreateTaskRun_repo: "keeps (task_kept k d0) (repo_CreateTaskRun e p)"
proof -
  have "keeps (task_kept k d0) (\<lambda>d. on_runs (sql_insert (run_check e) (\<lambda>_ _. False) (run_fk d) (\<lambda>n r. r\<lparr>rn_ID := n\<rparr>) (run_row p)) d)"
  proof (rule keepsI)
    fix d assume kept: "task_kept k d0 d"
    obtain res t' where run: "sql_insert (run_check e) (\<lambda>_ _. False) (run_fk d) (\<lambda>n r. r\<lparr>rn_ID := n\<rparr>) (run_row p) (tb_runs d) = (res, t')"
      by (cases "sql_insert (run_check e) (\<lambda>_ _. False) (run_fk d) (\<lambda>n r. r\<lparr>rn_ID := n\<rparr>) (run_row p) (tb_runs d)")
    have status: "rn_Status (run_row p) = RunPending" by (simp add: run_row_def)
    have "run_check e (run_row p) = None \<Longrightarrow> run_ok (run_row p)"
      using run_check_ranges [of e "run_row p"] by (simp add: run_ok_def run_live_def run_row_def validTaskStatuses_def)
    then show "task_kept k d0 (snd (on_runs (sql_insert (run_check e) (\<lambda>_ _. False) (run_fk d) (\<lambda>n r. r\<lparr>rn_ID := n\<rparr>) (run_row p)) d))"
      using kept_run_insert [OF kept run] status by (simp add: on_runs_state run)
  qed
  moreover have "keeps (task_kept k d0) (repo_BindEngineRunSettings q n v)" for q n v
    by (rule keepsI, rule kept_frame, assumption) (auto simp: repo_BindEngineRunSettings_def kept_scopes)
  ultimately show ?thesis unfolding repo_CreateTaskRun_def by (intro keeps_intros)
qed

text \<open>A run that was read, and is still as it was.\<close>

abbreviation read_run :: "(gostring \<Rightarrow> gostring) \<Rightarrow> task_db \<Rightarrow> task_run \<Rightarrow> task_db \<Rightarrow> bool" where
  "read_run k d0 r d \<equiv> task_kept k d0 d \<and> r \<in> set (t_rows (tb_runs d))"

lemma moves_mark_read:
  assumes "n = rn_ID r"
    and "\<And>d. run_ok r \<Longrightarrow> counted d r \<Longrightarrow> run_check e (f r) = None \<Longrightarrow> run_ok (f r) \<and> run_follows r (f r) \<and> counted d (f r)"
  shows "moves (read_run k d0 r) (task_kept k d0) (mark_run e q n from f)"
  by (rule moves_mark_run) (use assms kept_run_unique kept_run_ok in blast)+

lemma edge_from_read: "isTaskRunTransitionAllowed a b \<Longrightarrow> run_edge a b \<and> \<not> terminal_status a \<and> b \<in> set validTaskStatuses \<and> b \<noteq> RunPending"
  by (auto simp: isTaskRunTransitionAllowed_def run_edge_def terminal_status_def validTaskStatuses_def)

lemma counted_cong: "rn_ID r' = rn_ID r \<Longrightarrow> batches d r' = batches d r"
  by (simp add: batches_def)

lemmas marked_simps = run_ok_def run_live_def run_follows_def run_fixed_def status_leads_edge counted_def run_closed_def
  terminal_status_def validTaskStatuses_def

lemma moves_mark_open:
  assumes "n = rn_ID r" and "rn_Status r = RunPending"
  shows "moves (read_run k d0 r) (task_kept k d0) (repo_MarkRunRunning e q n a from now)"
    and "moves (read_run k d0 r) (task_kept k d0) (repo_MarkRunDispatched e q n a from job now)"
  unfolding repo_MarkRunRunning_def repo_MarkRunDispatched_def
  by (intro moves_mark_read [OF assms(1)];
      use assms(2) in \<open>auto simp: marked_simps run_edge_def batches_def processed_results_def dest: run_check_ranges\<close>)+

lemma moves_mark_closed:
  assumes "n = rn_ID r" and "run_edge (rn_Status r) st" and "st \<noteq> RunRunning"
    and "\<And>r. run_fixed r (f r) \<and> rn_Status (f r) = st \<and> rn_DeletedAt (f r) = rn_DeletedAt r"
  shows "moves (read_run k d0 r) (task_kept k d0) (mark_run e q n from f)"
proof (rule moves_mark_read [OF assms(1)])
  fix d assume "run_ok r" "counted d r" "run_check e (f r) = None"
  moreover have "st \<in> set validTaskStatuses" "st \<noteq> RunPending" "\<not> terminal_status (rn_Status r)"
    using assms(2) by (auto simp: run_edge_def validTaskStatuses_def terminal_status_def)
  ultimately show "run_ok (f r) \<and> run_follows r (f r) \<and> counted d (f r)"
    using assms(2-4) run_check_ranges [of e "f r"]
    by (simp add: run_ok_def run_live_def run_follows_def counted_def status_leads_edge)
qed

lemma moves_mark_close:
  assumes "n = rn_ID r"
  shows "run_edge (rn_Status r) RunSuccess \<Longrightarrow> moves (read_run k d0 r) (task_kept k d0) (repo_MarkRunSucceeded e q n a from c now)"
    and "run_edge (rn_Status r) RunPartial \<Longrightarrow> moves (read_run k d0 r) (task_kept k d0) (repo_MarkRunPartialSuccess e q n a from sm c now)"
    and "run_edge (rn_Status r) RunFailed \<Longrightarrow> moves (read_run k d0 r) (task_kept k d0) (repo_MarkRunFailed e q n a from sm c now)"
    and "run_edge (rn_Status r) RunCancelled \<Longrightarrow> moves (read_run k d0 r) (task_kept k d0) (repo_MarkRunCancelled e q n a from sm now)"
    and "run_edge (rn_Status r) RunFailed \<Longrightarrow> moves (read_run k d0 r) (task_kept k d0) (repo_MarkRunDispatchFailed e q n a from sm now)"
  unfolding repo_MarkRunSucceeded_def repo_MarkRunPartialSuccess_def repo_MarkRunFailed_def repo_MarkRunCancelled_def
    repo_MarkRunDispatchFailed_def
  by (erule moves_mark_closed [OF assms]; simp add: run_closed_def run_fixed_def)+

lemma moves_changeTaskRunStatusWith:
  assumes "uri_RunID i = rn_ID r"
  shows "moves (read_run k d0 r) (task_kept k d0) (changeTaskRunStatusWith e r i st now)"
  unfolding changeTaskRunStatusWith_def
  by (intro moves_failIf moves_if moves_mark_open [OF assms] moves_mark_close [OF assms] moves_keeps [OF keeps_fail])
     (use edge_from_read [of "rn_Status r" st] in \<open>auto simp: run_edge_def\<close>)

lemma keeps_IncrementRunAttempt [keeps_intros]: "keeps (task_kept k d0) (repo_IncrementRunAttempt e q n a)"
proof (rule keepsI)
  fix d assume kept: "task_kept k d0 d"
  let ?m = "sql_update (run_check e) (\<lambda>r. rn_ID r = n \<and> (rn_ProjectID r = q \<and> run_live r))
       (\<lambda>r. r\<lparr>rn_Attempt := rn_Attempt r + 1, rn_UpdatedBy := a\<rparr>) id"
  obtain res t' where run: "?m (tb_runs d) = (res, t')" by (cases "?m (tb_runs d)")
  have "task_kept k d0 (d\<lparr>tb_runs := t'\<rparr>)"
    using kept_run_ok [OF kept] run_check_ranges [of e]
    by (intro kept_runs_update [OF kept run])
       (auto simp: run_ok_def run_live_def run_follows_def run_fixed_def same_outcome_def counted_def batches_def)
  then show "task_kept k d0 (snd (repo_IncrementRunAttempt e q n a d))"
    by (simp add: repo_IncrementRunAttempt_def on_runs_state run)
qed

text \<open>The receipt of a batch does not add to the count of the run.\<close>

lemma moves_callback_received:
  assumes "n = rn_ID r" and "rn_Status r = RunRunning"
  shows "moves (read_run k d0 r) (task_kept k d0) (repo_MarkRunCallbackReceived e q n a 0 now)"
  unfolding repo_MarkRunCallbackReceived_def
  by (intro moves_mark_read [OF assms(1)]) (use assms(2) in \<open>auto simp: marked_simps batches_def dest: run_check_ranges\<close>)

section \<open>Callbacks\<close>

lemma ingest_status_eq:
  assumes "tells_apart k" and "env_key e = k" and "callback_ok c"
    and "w \<in> {IngestPending, IngestProcessing, IngestProcessed, IngestFailed}"
  shows "sql_eq e (cb_IngestStatus c) w \<longleftrightarrow> cb_IngestStatus c = w"
proof -
  have "{IngestPending, IngestProcessing, IngestProcessed, IngestFailed} \<subseteq> set status_words" by (simp add: status_words_def)
  moreover have "cb_IngestStatus c \<in> {IngestPending, IngestProcessing, IngestProcessed, IngestFailed}" using assms(3) by (simp add: callback_ok_def)
  ultimately show ?thesis using assms(1,2,4) inj_on_eq_iff [of k "set status_words"] by (auto simp: tells_apart_def sql_eq_def)
qed

lemma callback_upd_row:
  assumes "\<And>c. callback_ok c \<Longrightarrow> p c \<Longrightarrow> callback_ok (f c) \<and> callback_follows c (f c)" and "callback_ok c"
  shows "callback_ok (upd_row p f (\<lambda>c. c\<lparr>cb_UpdatedAt := now\<rparr>) c) \<and> callback_follows c (upd_row p f (\<lambda>c. c\<lparr>cb_UpdatedAt := now\<rparr>) c)"
  using assms(1) [OF assms(2)] assms(2) by (auto simp: upd_row_def callback_ok_def callback_live_def callback_follows_def)

lemma keeps_update_callback:
  assumes "\<And>c. callback_ok c \<Longrightarrow> p c \<Longrightarrow> callback_ok (f c) \<and> callback_follows c (f c)"
    and "\<And>c. callback_ok c \<Longrightarrow> p c \<Longrightarrow> cb_IngestStatus (f c) = IngestProcessed \<longleftrightarrow> cb_IngestStatus c = IngestProcessed"
  shows "keeps (task_kept k d0) (update_callback e p f)"
proof (rule keepsI)
  fix d assume kept: "task_kept k d0 d"
  let ?stamp = "\<lambda>c. c\<lparr>cb_UpdatedAt := env_db_now e\<rparr>"
  let ?m = "sql_update (callback_check e) p f ?stamp" and ?g = "upd_row p f ?stamp"
  obtain res t' where run: "?m (tb_callbacks d) = (res, t')" by (cases "?m (tb_callbacks d)")
  have "task_kept k d0 (d\<lparr>tb_callbacks := t'\<rparr>)"
  proof (cases res)
    case (Inr n)
    then have t': "t' = (tb_callbacks d)\<lparr>t_rows := map ?g (t_rows (tb_callbacks d))\<rparr>" using run by (simp add: sql_update_Inr)
    have row: "callback_ok c" if "c \<in> set (t_rows (tb_callbacks d))" for c
      using kept that by (auto simp: task_kept_def task_inv_def table_ok_def)
    note g = callback_upd_row [OF assms(1) row]
    have same: "cb_IngestStatus (?g c) = IngestProcessed \<longleftrightarrow> cb_IngestStatus c = IngestProcessed" if "c \<in> set (t_rows (tb_callbacks d))" for c
      using assms(2) row [OF that] by (auto simp: upd_row_def)
    have "counted (d\<lparr>tb_callbacks := t'\<rparr>) r" if r: "r \<in> set (t_rows (tb_runs d))" for r
    proof -
      have "batches (d\<lparr>tb_callbacks := t'\<rparr>) r = map ?g (batches d r)"
        by (rule batches_map) (use g in \<open>auto simp: t' callback_follows_def\<close>)
      moreover have "processed_results (map ?g (batches d r)) = processed_results (batches d r)"
        by (rule processed_results_map) (use g same in \<open>auto simp: batches_def callback_follows_def\<close>)
      ultimately show ?thesis using kept_run_ok [OF kept r] by (simp add: counted_def)
    qed
    then show ?thesis
      using g kept_run_ok [OF kept] by (intro kept_update [OF kept, where h = "\<lambda>r. r" and g = ?g]) (auto simp: t')
  qed (use kept run in \<open>auto dest: sql_update_Inl\<close>)
  then show "task_kept k d0 (snd (update_callback e p f d))" by (simp add: update_callback_def on_callbacks_state run)
qed

lemma ingest_status_eqs:
  assumes "tells_apart k" and "env_key e = k" and "callback_ok c"
  shows "sql_eq e (cb_IngestStatus c) IngestPending \<longleftrightarrow> cb_IngestStatus c = IngestPending"
    and "sql_eq e (cb_IngestStatus c) IngestProcessing \<longleftrightarrow> cb_IngestStatus c = IngestProcessing"
    and "sql_eq e (cb_IngestStatus c) IngestFailed \<longleftrightarrow> cb_IngestStatus c = IngestFailed"
  by (rule ingest_status_eq [OF assms], simp)+

lemma claimed_open:
  assumes "tells_apart k" and "env_key e = k" and "callback_ok c" and "claimable e c"
  shows "cb_IngestStatus c \<noteq> IngestProcessed \<and> cb_IngestAttempt c < ingest_attempt_cap"
  using assms(4) unfolding claimable_def sql_in_def by (simp add: ingest_status_eqs [OF assms(1-3)]) (elim conjE disjE; simp)

lemma keeps_callback_statements:
  assumes "tells_apart k" and "env_key e = k"
  shows "keeps (task_kept k d0) (repo_MarkDiscoveryCallbackEnqueued e q n sq t)"
    and "keeps (task_kept k d0) (repo_MarkDiscoveryCallbackProcessing e q n sq)"
    and "keeps (task_kept k d0) (repo_MarkDiscoveryCallbackFailed e q n sq sm)"
    and "keeps (task_kept k d0) (repo_ReleaseStaleDiscoveryCallbackIngest e)"
proof -
  show "keeps (task_kept k d0) (repo_MarkDiscoveryCallbackEnqueued e q n sq t)"
    unfolding repo_MarkDiscoveryCallbackEnqueued_def
    by (rule keeps_update_callback) (simp_all add: callback_ok_def callback_live_def callback_follows_def)
  show "keeps (task_kept k d0) (repo_MarkDiscoveryCallbackProcessing e q n sq)"
    unfolding repo_MarkDiscoveryCallbackProcessing_def
    by (intro keeps_bindM keeps_update_callback keeps_ok; frule claimed_open [OF assms], simp)
       (simp_all add: callback_ok_def callback_live_def callback_follows_def)
  show "keeps (task_kept k d0) (repo_MarkDiscoveryCallbackFailed e q n sq sm)"
    unfolding repo_MarkDiscoveryCallbackFailed_def
    by (rule keeps_update_callback; simp add: ingest_status_eqs [OF assms]; simp add: callback_ok_def callback_live_def callback_follows_def)
  show "keeps (task_kept k d0) (repo_ReleaseStaleDiscoveryCallbackIngest e)"
    unfolding repo_ReleaseStaleDiscoveryCallbackIngest_def
    by (rule keeps_update_callback; simp add: ingest_status_eqs [OF assms]; simp add: callback_ok_def callback_live_def callback_follows_def)
qed

lemma kept_callback_insert:
  assumes kept: "task_kept k d0 d" and r: "r \<in> set (t_rows (tb_runs d))" "rn_ID r = cb_RunID c" "rn_Status r = RunRunning"
    and c: "callback_ok c" "cb_IngestStatus c = IngestPending"
  shows "task_kept k d0 (snd (repo_InsertDiscoveryCallback e c d)) \<and> tb_runs (snd (repo_InsertDiscoveryCallback e c d)) = tb_runs d"
proof -
  let ?fk = "\<lambda>c. list_ex (\<lambda>r. rn_ProjectID r = cb_ProjectID c \<and> rn_ID r = cb_RunID c) (t_rows (tb_runs d))"
  let ?m = "sql_insert (callback_check e) callback_same_key ?fk (\<lambda>n c. c\<lparr>cb_ID := n\<rparr>) c"
  obtain res t' where run: "?m (tb_callbacks d) = (res, t')" by (cases "?m (tb_callbacks d)")
  let ?d = "d\<lparr>tb_callbacks := t'\<rparr>"
  have st: "snd (repo_InsertDiscoveryCallback e c d) = ?d"
    using on_callbacks_state [of ?m d] by (auto simp: repo_InsertDiscoveryCallback_def run split: prod.splits sum.splits)
  have inv: "task_inv k d" and after: "task_after d0 d" using kept by (auto simp: task_kept_def)
  have "task_kept k d0 ?d"
  proof (cases res)
    case (Inr n)
    let ?row = "c\<lparr>cb_ID := n\<rparr>"
    have t': "t_rows t' = t_rows (tb_callbacks d) @ [?row]" and fk: "?fk c" using run Inr by (auto simp: sql_insert_Inr)
    have ok: "table_ok cb_ID callback_same_key callback_ok t'"
      using inv c(1) by (intro callback_rows.ok_insert [OF _ run]) (auto simp: task_inv_def callback_ok_def callback_live_def)
    have "counted ?d q" if q: "q \<in> set (t_rows (tb_runs d))" for q
    proof -
      have "batches ?d q = batches d q @ (if cb_RunID c = rn_ID q then [?row] else [])" by (simp add: batches_def t')
      moreover have "rn_Status q = RunRunning" if "cb_RunID c = rn_ID q"
        using kept_run_unique [OF kept r(1) q] r(2,3) that by simp
      ultimately show ?thesis using kept_run_ok [OF kept q] c(2) by (auto simp: counted_def processed_results_def)
    qed
    moreover have "run_owned ?d = run_owned d" "callback_owned ?d = callback_owned d"
      by (simp_all add: fun_eq_iff run_owned_def callback_owned_def)
    moreover have "callback_owned d ?row" using fk by (auto simp: callback_owned_def list_ex_iff)
    moreover have "task_after d ?d" using t' by (auto simp: task_after_def intro: run_follows_refl callback_follows_refl)
    ultimately show ?thesis
      using inv ok after task_after_trans [of d0 d ?d] by (auto simp: task_kept_def task_inv_def t')
  qed (use kept run in \<open>auto dest: sql_insert_Inl\<close>)
  then show ?thesis by (simp add: st)
qed

end
