(* ===== verification/TaskSteps.thy ===== *)
theory TaskSteps
  imports TaskKeeps
begin

text \<open>
  Every operation of the service keeps \<open>task_kept\<close>: templates, runs, dispatch, the inbox, the ingest and
  reconciliation. \<open>task_step\<close> is one call of the service, or a change made by another component, and
  \<open>task_reachable\<close> are the states that calls lead to.
\<close>

section \<open>Completion of a batch\<close>

lemma unique_rows_eq:
  assumes "unique_rows same rows" and "a \<in> set rows" and "b \<in> set rows" and "same a b" and "\<And>x y. same x y \<Longrightarrow> same y x"
  shows "a = b"
  using assms(1-4) unfolding unique_rows_def
proof (induction rows)
  case (Cons x xs)
  then show ?case using assms(5) by auto
qed simp

lemma processed_results_mark:
  assumes "distinct cs" and "c0 \<in> set cs" and "cb_IngestStatus c0 \<noteq> IngestProcessed"
    and "cb_IngestStatus (g c0) = IngestProcessed \<and> cb_ResultCount (g c0) = cb_ResultCount c0"
    and "\<And>c. c \<in> set cs \<Longrightarrow> c \<noteq> c0 \<Longrightarrow> g c = c"
  shows "processed_results (map g cs) = processed_results cs + cb_ResultCount c0"
  using assms
proof (induction cs)
  case (Cons c cs)
  show ?case
  proof (cases "c = c0")
    case True
    then have "map g cs = cs" using Cons.prems by (auto intro!: map_idI)
    with True Cons.prems show ?thesis by (simp add: processed_results_def)
  next
    case False
    with Cons.prems Cons.IH have "processed_results (map g cs) = processed_results cs + cb_ResultCount c0" by auto
    with False Cons.prems show ?thesis by (simp add: processed_results_def)
  qed
qed simp

lemma kept_callback_unique:
  assumes "task_kept k d0 d" and "c \<in> set (t_rows (tb_callbacks d))" and "c' \<in> set (t_rows (tb_callbacks d))"
    and "cb_at q n sq c" and "cb_at q n sq c'"
  shows "c = c'"
  using assms
  by (intro unique_rows_eq [of callback_same_key "t_rows (tb_callbacks d)"])
     (auto simp: task_kept_def task_inv_def table_ok_def callback_same_key_def cb_at_def callback_live_def)

lemma callback_read:
  "repo_GetDiscoveryCallback q n sq d = (Inr c, d') \<Longrightarrow> d' = d \<and> c \<in> set (t_rows (tb_callbacks d)) \<and> cb_at q n sq c"
  by (auto simp: repo_GetDiscoveryCallback_def asks_def dest: sql_one_mem split: option.split_asm)

text \<open>
  The row of the batch and the count of its run change together: \<open>g\<close> marks the batch, \<open>h\<close> adds to the
  run when it is open.
\<close>

lemma kept_processed:
  assumes kept: "task_kept k d0 d" and c0: "c0 \<in> set (t_rows (tb_callbacks d))" "cb_at q n sq c0" "cb_IngestStatus c0 = IngestProcessing"
    and cbs: "t_rows (tb_callbacks d') = map g (t_rows (tb_callbacks d))" "t_next (tb_callbacks d') = t_next (tb_callbacks d)"
    and runs: "t_rows (tb_runs d') = map h (t_rows (tb_runs d))" "t_next (tb_runs d') = t_next (tb_runs d)"
    and rest: "tb_templates d' = tb_templates d" "tb_scopes d' = tb_scopes d" "tb_traffic d' = tb_traffic d"
    and g: "\<And>c. c \<in> set (t_rows (tb_callbacks d)) \<Longrightarrow> c \<noteq> c0 \<Longrightarrow> g c = c"
    and g0: "callback_ok (g c0) \<and> callback_follows c0 (g c0) \<and> cb_IngestStatus (g c0) = IngestProcessed"
    and h: "\<And>r. r \<in> set (t_rows (tb_runs d)) \<Longrightarrow> rn_ID r \<noteq> n \<or> rn_Status r \<noteq> RunRunning \<Longrightarrow> h r = r"
    and h0: "\<And>r. r \<in> set (t_rows (tb_runs d)) \<Longrightarrow> rn_ID r = n \<Longrightarrow> rn_Status r = RunRunning \<Longrightarrow>
      run_ok (h r) \<and> run_follows r (h r) \<and> rn_Status (h r) = RunRunning \<and> rn_ResultCount (h r) = rn_ResultCount r + cb_ResultCount c0"
  shows "task_kept k d0 d'"
proof (rule kept_update [OF kept runs cbs rest])
  have ok: "callback_ok c" if "c \<in> set (t_rows (tb_callbacks d))" for c
    using kept that by (auto simp: task_kept_def task_inv_def table_ok_def)
  show "callback_ok (g c) \<and> callback_follows c (g c)" if "c \<in> set (t_rows (tb_callbacks d))" for c
    using g [OF that] g0 ok [OF that] by (cases "c = c0") auto
  fix r assume r: "r \<in> set (t_rows (tb_runs d))"
  have id: "rn_ID (h r) = rn_ID r" using h [OF r] h0 [OF r]
    by (cases "rn_ID r \<noteq> n \<or> rn_Status r \<noteq> RunRunning") (auto simp: run_follows_def run_fixed_def)
  have run_id: "cb_RunID (g c) = cb_RunID c" if "c \<in> set (t_rows (tb_callbacks d))" for c
    using g [OF that] g0 by (cases "c = c0") (auto simp: callback_follows_def)
  have b: "batches d' (h r) = map g (batches d r)" by (rule batches_map [OF cbs(1) run_id id])
  have at: "cb_RunID c0 = n" using c0(2) by (simp add: cb_at_def)
  have "counted d' (h r)"
  proof (cases "rn_ID r = n")
    case False
    have "g c = c" if "c \<in> set (batches d r)" for c
      using that False at by (intro g) (auto simp: batches_def)
    then have "map g (batches d r) = batches d r" by (simp add: map_idI)
    then show ?thesis using kept_run_ok [OF kept r] h [OF r] False b by (simp add: counted_def)
  next
    case True
    then have mem: "c0 \<in> set (batches d r)" using c0 at by (simp add: batches_def)
    have "distinct (t_rows (tb_callbacks d))"
      using kept by (auto simp: task_kept_def task_inv_def table_ok_def wf_rows_def strict_sorted_iff distinct_map)
    then have "processed_results (map g (batches d r)) = processed_results (batches d r) + cb_ResultCount c0"
      using g g0 c0(3) mem by (intro processed_results_mark) (auto simp: batches_def callback_follows_def)
    then show ?thesis
      using kept_run_ok [OF kept r] True h [OF r] h0 [OF r] mem b
      by (cases "rn_Status r = RunRunning") (auto simp: counted_def)
  qed
  then show "run_ok (h r) \<and> run_follows r (h r) \<and> counted d' (h r)"
    using h [OF r] h0 [OF r] kept_run_ok [OF kept r] by (cases "rn_ID r \<noteq> n \<or> rn_Status r \<noteq> RunRunning") auto
qed

section \<open>Templates and runs\<close>

lemma keeps_task_tx [keeps_intros]:
  "keeps (task_kept k d0) m \<Longrightarrow> keeps (task_kept k d0) (task_runInTx s m)"
  unfolding task_runInTx_def by (intro keeps_intros kept_rollback kept_traffic)

lemma keeps_CreateTaskTemplate:
  "env_key (tv_env s) = k \<Longrightarrow> keeps (task_kept k d0) (CreateTaskTemplate s i)"
  unfolding CreateTaskTemplate_def prepareTaskTemplateInput_def create_template_body_def
  by (intro keeps_intros keeps_CreateTaskTemplate_repo)

lemma keeps_UpdateTaskTemplate:
  "env_key (tv_env s) = k \<Longrightarrow> keeps (task_kept k d0) (UpdateTaskTemplate s i)"
  unfolding UpdateTaskTemplate_def update_template_body_def Let_def
  by (intro keeps_intros keeps_template_statements)

lemma keeps_SetTaskTemplateEnabled:
  "env_key (tv_env s) = k \<Longrightarrow> keeps (task_kept k d0) (SetTaskTemplateEnabled s i)"
  unfolding SetTaskTemplateEnabled_def template_usable_def
  by (intro keeps_intros keeps_template_statements)

lemma keeps_DeleteTaskTemplate:
  "env_key (tv_env s) = k \<Longrightarrow> keeps (task_kept k d0) (DeleteTaskTemplate s i)"
  unfolding DeleteTaskTemplate_def by (intro keeps_intros keeps_template_statements)

lemma keeps_CreateTaskRun [keeps_intros]: "keeps (task_kept k d0) (CreateTaskRun s i)"
  unfolding CreateTaskRun_def create_run_body_def by (intro keeps_intros keeps_CreateTaskRun_repo)

lemma keeps_changeTaskRunStatus [keeps_intros]: "keeps (task_kept k d0) (changeTaskRunStatus s i act st)"
  unfolding changeTaskRunStatus_def
  by (intro keeps_bindM keeps_failIf keeps_liftM keeps_task_tx keeps_read_run moves_act [OF moves_changeTaskRunStatusWith] keeps_intros) simp

lemma keeps_MarkTaskRun [keeps_intros]:
  "keeps (task_kept k d0) (MarkTaskRunRunning s i)" "keeps (task_kept k d0) (MarkTaskRunSucceeded s i)"
  "keeps (task_kept k d0) (MarkTaskRunPartialSuccess s i)" "keeps (task_kept k d0) (MarkTaskRunFailed s i)"
  "keeps (task_kept k d0) (MarkTaskRunCancelled s i)"
  unfolding MarkTaskRunRunning_def MarkTaskRunSucceeded_def MarkTaskRunPartialSuccess_def MarkTaskRunFailed_def MarkTaskRunCancelled_def
  by (rule keeps_changeTaskRunStatus)+

lemma keeps_IncrementTaskRunAttempt: "keeps (task_kept k d0) (IncrementTaskRunAttempt s q n a)"
  unfolding IncrementTaskRunAttempt_def by (intro keeps_intros)

lemma keeps_CreateAndEnqueueTaskRun: "keeps (task_kept k d0) (CreateAndEnqueueTaskRun s i)"
  unfolding CreateAndEnqueueTaskRun_def GetTaskRun_def by (intro keeps_intros)

section \<open>Dispatch\<close>

lemma pure_BuildDispatchPlan [pure_intros]: "pure (BuildDispatchPlan s q n a)"
  unfolding BuildDispatchPlan_def authorise_target_def refuseCDNEdgeTargets_def Let_def by (intro pure_intros)

lemma keeps_recordRunDispatched [keeps_intros]: "keeps (task_kept k d0) (recordRunDispatched s i job)"
  unfolding recordRunDispatched_def
  by (intro keeps_task_tx keeps_read_run moves_if moves_failIf moves_act [OF moves_mark_open(2)] moves_keeps [OF keeps_ok] keeps_intros) auto

lemma keeps_recordRunDispatchFailed [keeps_intros]: "keeps (task_kept k d0) (recordRunDispatchFailed s i sm)"
  unfolding recordRunDispatchFailed_def
  by (intro keeps_task_tx keeps_read_run moves_failIf moves_act [OF moves_mark_close(5)] keeps_intros) (auto simp: run_edge_def)

lemma keeps_settle_dispatch [keeps_intros]: "keeps (task_kept k d0) (settle_dispatch s en i job)"
  unfolding settle_dispatch_def by (intro keeps_intros)

lemma keeps_dispatch_attempts [keeps_intros]: "keeps (task_kept k d0) (dispatch_attempts s en job i n lastErr)"
  by (induction n arbitrary: lastErr) (auto intro!: keeps_intros)

lemma keeps_DispatchTaskRun: "keeps (task_kept k d0) (DispatchTaskRun s i)"
  unfolding DispatchTaskRun_def by (intro keeps_intros keeps_pure [OF pure_BuildDispatchPlan])

lemma keeps_CancelDispatchedTaskRun: "keeps (task_kept k d0) (CancelDispatchedTaskRun s i)"
  unfolding CancelDispatchedTaskRun_def by (intro keeps_intros)

section \<open>The inbox\<close>

lemma keeps_enqueueStoredCallback:
  assumes "tells_apart k" and "env_key (tv_env s) = k"
  shows "keeps (task_kept k d0) (enqueueStoredCallback s ref)"
  unfolding enqueueStoredCallback_def
  by (cases ref) (auto intro!: keeps_intros keeps_callback_statements [OF assms])

lemma keeps_recordCallbackReject [keeps_intros]: "keeps (task_kept k d0) (recordCallbackReject s i e x)"
  unfolding recordCallbackReject_def by (intro keeps_intros)

lemma keeps_rejecting [keeps_intros]: "keeps (task_kept k d0) (rejecting s i r)"
  unfolding rejecting_def by (intro keeps_intros)

lemma rejecting_Inr: "rejecting s i r d = (Inr x, d') \<longleftrightarrow> r = Inr x \<and> d' = d"
  by (auto simp: rejecting_def recordCallbackReject_def Inr_iffs split: sum.splits)

lemma candidate_ok:
  assumes "validateCallbackPayload p" and "hci_Seq i \<noteq> 0" and "hci_Seq i \<le> callbackMaxSeq"
  shows "callback_ok (callback_candidate s i p r)"
  using assms
  by (auto simp: callback_ok_def callback_candidate_def callback_live_def validateCallbackPayload_def callbackMaxFacts_def ingest_attempt_cap_def)

lemma moves_bind:
  "moves P Q m \<Longrightarrow> (\<And>x. moves Q I (f x)) \<Longrightarrow> (\<And>s. Q s \<Longrightarrow> I s) \<Longrightarrow> moves P I (bindM m f)"
  by (fastforce simp: moves_def bindM_def split: prod.splits sum.splits)

lemma moves_sum_case:
  "(\<And>e. moves P I (f e)) \<Longrightarrow> (\<And>x. moves P I (g x)) \<Longrightarrow> moves P I (case r of Inl e \<Rightarrow> f e | Inr x \<Rightarrow> g x)"
  by (cases r) auto

lemma keeps_receive_body:
  assumes "validateCallbackPayload p" and "hci_Seq i \<noteq> 0" and "hci_Seq i \<le> callbackMaxSeq"
  shows "keeps (task_kept k d0) (receive_body s i p)"
proof -
  have insert: "moves (read_run k d0 r) (read_run k d0 r) (repo_InsertDiscoveryCallback (tv_env s) (callback_candidate s i p r))"
    if "rn_ID r = hci_RunID i" and "rn_Status r = RunRunning" for r
    by (rule movesI)
       (use that candidate_ok [OF assms] kept_callback_insert in \<open>auto simp: callback_candidate_def\<close>)
  show ?thesis
    unfolding receive_body_def store_new_def repo_GetTaskRunForUpdate_def known_callback_def
    by (intro keeps_read_run moves_failIf moves_pure moves_sum_case moves_if
        moves_bind [OF insert] moves_act [OF moves_callback_received] moves_keeps [OF keeps_ok] moves_keeps [OF keeps_pure] pure_intros keeps_ok)
       auto
qed

lemma parseCallbackPayload_valid: "parseCallbackPayload s raw = Inr p \<Longrightarrow> validateCallbackPayload p"
  by (auto simp: parseCallbackPayload_def split: option.split_asm jval.split_asm if_split_asm)

lemma keeps_HandleCallback:
  assumes "tells_apart k" and "env_key (tv_env s) = k"
  shows "keeps (task_kept k d0) (HandleCallback s i)"
proof (cases "hci_Seq i = 0 \<or> callbackMaxSeq < hci_Seq i")
  case True
  then show ?thesis unfolding HandleCallback_def by (auto intro: keeps_intros)
next
  case False
  have tail: "keeps (task_kept k d0) (case x of (duplicate, stored) \<Rightarrow>
      bindM (if cb_IngestStatus stored = IngestPending
             then enqueueStoredCallback s (cb_ProjectID stored, cb_RunID stored, cb_Seq stored) else ok ()) (\<lambda>_. ok duplicate))" for x
    by (cases x) (auto intro!: keeps_intros keeps_enqueueStoredCallback [OF assms])
  show ?thesis
    unfolding HandleCallback_def
    by (intro keeps_if keeps_bindM_post [where P = validateCallbackPayload, OF keeps_rejecting] keeps_bindM keeps_intros tail
        keeps_receive_body)
       (use False in \<open>auto simp: rejecting_Inr dest: parseCallbackPayload_valid\<close>)
qed

lemma keeps_recover_refs:
  assumes "tells_apart k" and "env_key (tv_env s) = k"
  shows "keeps (task_kept k d0) (recover_refs s refs)"
  by (induction refs) (auto intro!: keeps_intros keeps_enqueueStoredCallback [OF assms])

lemma keeps_RecoverPendingCallbacks:
  assumes "tells_apart k" and "env_key (tv_env s) = k"
  shows "keeps (task_kept k d0) (RecoverPendingCallbacks s l)"
  unfolding RecoverPendingCallbacks_def Let_def
  by (intro keeps_intros keeps_callback_statements [OF assms] keeps_recover_refs [OF assms])

section \<open>Ingest\<close>

lemma pure_apply_lifecycle [pure_intros]: "pure (apply_lifecycle s q n ty st)"
  unfolding apply_lifecycle_def by (intro pure_intros)

lemma keeps_finalize_run: "keeps (task_kept k d0) (finalize_run s q n st sm)"
  unfolding finalize_run_def
  by (intro keeps_read_run moves_if moves_pure [OF pure_apply_lifecycle] moves_act [OF moves_changeTaskRunStatusWith]
      moves_keeps [OF keeps_ok] keeps_intros) auto

text \<open>Transactions that make no call to an engine leave the traffic as it is.\<close>

lemma keeps_traffic_tables [keeps_intros]:
  "keeps (\<lambda>d. Q (tb_traffic d)) (on_runs m1)" "keeps (\<lambda>d. Q (tb_traffic d)) (on_callbacks m2)" "keeps (\<lambda>d. Q (tb_traffic d)) (on_audit m3)"
  by (simp_all add: keeps_def on_runs_state on_callbacks_state)
     (simp add: on_audit_def on_scope_db_def zoom_def split: prod.split)

lemma keeps_traffic_mark [keeps_intros]: "keeps (\<lambda>d. Q (tb_traffic d)) (mark_run e q n from f)"
  unfolding mark_run_def markRunUpdateResultError_def by (intro keeps_intros)

lemma keeps_traffic_change [keeps_intros]: "keeps (\<lambda>d. Q (tb_traffic d)) (changeTaskRunStatusWith e r i st now)"
  unfolding changeTaskRunStatusWith_def repo_MarkRunRunning_def repo_MarkRunSucceeded_def repo_MarkRunPartialSuccess_def
    repo_MarkRunFailed_def repo_MarkRunCancelled_def
  by (intro keeps_intros)

lemma keeps_traffic_audit [keeps_intros]: "keeps (\<lambda>d. Q (tb_traffic d)) (recordTaskAudit s act b a actor m)"
  unfolding recordTaskAudit_def by (intro keeps_intros)

lemma keeps_traffic_finalize [keeps_intros]: "keeps (\<lambda>d. Q (tb_traffic d)) (finalize_run s q n st sm)"
  unfolding finalize_run_def by (intro keeps_intros keeps_pure [OF pure_apply_lifecycle])

lemma keeps_traffic_complete: "keeps (\<lambda>d. Q (tb_traffic d)) (complete_body s q n sq)"
  unfolding complete_body_def mark_processed_def close_if_ready_def repo_MarkDiscoveryCallbackProcessed_def update_callback_def
    repo_MarkRunCallbackReceived_def
  by (intro keeps_intros)

text \<open>The part of the transaction before the callbacks are listed.\<close>

lemma processed_callback_row:
  assumes "callback_ok c"
  shows "callback_ok (c\<lparr>cb_IngestStatus := IngestProcessed, cb_IngestError := [], cb_ProcessedAt := t, cb_UpdatedAt := u\<rparr>) \<and>
    callback_follows c (c\<lparr>cb_IngestStatus := IngestProcessed, cb_IngestError := [], cb_ProcessedAt := t, cb_UpdatedAt := u\<rparr>)"
  using assms by (simp add: callback_ok_def callback_live_def callback_follows_def)

lemma received_run_row:
  assumes "run_ok r" and "rn_Status r = RunRunning" and "char_len a \<le> 64"
  shows "run_ok (r\<lparr>rn_LastCallbackAt := t, rn_ResultCount := c, rn_UpdatedBy := a\<rparr>) \<and>
    run_follows r (r\<lparr>rn_LastCallbackAt := t, rn_ResultCount := c, rn_UpdatedBy := a\<rparr>)"
  using assms by (simp add: run_ok_def run_live_def run_follows_def run_fixed_def terminal_status_def run_columns_def too_long_def)

lemma kept_marked_processed:
  assumes kept: "task_kept k d0 d" and key: "tells_apart k" "env_key e = k"
    and c0: "c0 \<in> set (t_rows (tb_callbacks d))" "cb_at q n sq c0" "cb_IngestStatus c0 = IngestProcessing"
    and mark: "repo_MarkDiscoveryCallbackProcessed e q n sq now d = (Inr b, d1)"
    and read: "repo_GetTaskRun q n d1 = (Inr r, d1)"
    and recv: "(if rn_Status r = RunRunning then repo_MarkRunCallbackReceived e q n a (cb_ResultCount c0) now else ok ()) d1 = (Inr u, d2)"
    and fits: "char_len a \<le> 64"
  shows "task_kept k d0 d2"
proof -
  let ?p = "\<lambda>c. cb_at q n sq c \<and> sql_eq e (cb_IngestStatus c) IngestProcessing"
  let ?f = "\<lambda>c. c\<lparr>cb_IngestStatus := IngestProcessed, cb_IngestError := [], cb_ProcessedAt := env_col e now\<rparr>"
  let ?g = "upd_row ?p ?f (\<lambda>c. c\<lparr>cb_UpdatedAt := env_db_now e\<rparr>)"
  have d1: "d1 = d\<lparr>tb_callbacks := (tb_callbacks d)\<lparr>t_rows := map ?g (t_rows (tb_callbacks d))\<rparr>\<rparr>"
    using mark by (auto simp: repo_MarkDiscoveryCallbackProcessed_def update_callback_def Inr_iffs on_callbacks_def zoom_iff sql_update_Inr)
  let ?h = "if rn_Status r = RunRunning
    then upd_row (\<lambda>x. rn_ID x = n \<and> (rn_ProjectID x = q \<and> sql_eq e (rn_Status x) RunRunning \<and> run_live x))
      (\<lambda>x. x\<lparr>rn_LastCallbackAt := run_time e now, rn_ResultCount := rn_ResultCount x + cb_ResultCount c0, rn_UpdatedBy := a\<rparr>) id
    else (\<lambda>x. x)"
  have d2: "d2 = d1\<lparr>tb_runs := (tb_runs d)\<lparr>t_rows := map ?h (t_rows (tb_runs d))\<rparr>\<rparr>"
    using recv d1
    by (auto simp: repo_MarkRunCallbackReceived_def mark_run_def markRunUpdateResultError_def Inr_iffs on_runs_def zoom_iff sql_update_Inr
        split: if_split_asm)
  have r: "r \<in> set (t_rows (tb_runs d))" "rn_ID r = n" "rn_ProjectID r = q" "run_live r"
    using run_read_mem [OF read] d1 by auto
  have ok: "callback_ok c" if "c \<in> set (t_rows (tb_callbacks d))" for c
    using kept that by (auto simp: task_kept_def task_inv_def table_ok_def)
  show ?thesis
  proof (rule kept_processed [OF kept c0, where d' = d2 and g = ?g and h = ?h])
    show "?g c = c" if "c \<in> set (t_rows (tb_callbacks d))" "c \<noteq> c0" for c
      using kept_callback_unique [OF kept that(1) c0(1) _ c0(2)] that(2) by (auto simp: upd_row_def)
    have "cb_IngestStatus (?f c0) \<noteq> cb_IngestStatus c0" using c0(3) by simp
    then have "?f c0 \<noteq> c0" by metis
    then have "?g c0 = c0\<lparr>cb_IngestStatus := IngestProcessed, cb_IngestError := [], cb_ProcessedAt := env_col e now, cb_UpdatedAt := env_db_now e\<rparr>"
      using c0 by (simp add: upd_row_def)
    then show "callback_ok (?g c0) \<and> callback_follows c0 (?g c0) \<and> cb_IngestStatus (?g c0) = IngestProcessed"
      using processed_callback_row [OF ok [OF c0(1)]] by simp
    fix x assume x: "x \<in> set (t_rows (tb_runs d))"
    show "?h x = x" if "rn_ID x \<noteq> n \<or> rn_Status x \<noteq> RunRunning"
      using that kept_run_unique [OF kept x r(1)] r(2) by (auto simp: upd_row_def)
    show "run_ok (?h x) \<and> run_follows x (?h x) \<and> rn_Status (?h x) = RunRunning \<and> rn_ResultCount (?h x) = rn_ResultCount x + cb_ResultCount c0"
      if "rn_ID x = n" "rn_Status x = RunRunning"
    proof -
      have "x = r" using kept_run_unique [OF kept x r(1)] that r(2) by simp
      moreover have "upd_row p f id x = f x" if "p x" for p and f :: "task_run \<Rightarrow> task_run" using that by (simp add: upd_row_def)
      ultimately show ?thesis using that r fits received_run_row [of r] kept_run_ok [OF kept r(1)] by simp
    qed
  qed (simp_all add: d2 d1)
qed

lemma keeps_close_if_ready: "keeps (task_kept k d0) (close_if_ready s q n)"
  unfolding close_if_ready_def by (intro keeps_intros keeps_finalize_run)

lemma kept_complete:
  assumes kept: "task_kept k d0 d" and key: "tells_apart k" "env_key (tv_env s) = k"
    and run: "complete_body s q n sq d = (Inr x, d')"
  shows "task_kept k d0 d'"
proof -
  obtain c0 where c0: "repo_GetDiscoveryCallback q n sq d = (Inr c0, d)"
    and body: "cb_IngestStatus c0 = IngestProcessed \<and> d' = d \<or>
      cb_IngestStatus c0 = IngestProcessing \<and> (\<exists>d2. mark_processed s q n sq c0 d = (Inr (), d2) \<and> close_if_ready s q n d2 = (Inr x, d'))"
    using run unfolding complete_body_def repo_GetTaskRunForUpdate_def
    by (auto simp: bindM_Inr_iff failIf_Inr_iff ok_Inr_iff dest!: run_read_mem dest: callback_read split: if_split_asm)
  from body show ?thesis
  proof (elim disjE conjE exE)
    fix d2 assume st: "cb_IngestStatus c0 = IngestProcessing" and mark: "mark_processed s q n sq c0 d = (Inr (), d2)"
      and close: "close_if_ready s q n d2 = (Inr x, d')"
    obtain d1 r where *: "repo_MarkDiscoveryCallbackProcessed (tv_env s) q n sq (tv_now s) d = (Inr True, d1)" "repo_GetTaskRun q n d1 = (Inr r, d1)"
      "(if rn_Status r = RunRunning then repo_MarkRunCallbackReceived (tv_env s) q n ''engine'' (cb_ResultCount c0) (tv_now s) else ok ()) d1 = (Inr (), d2)"
    proof -
      from mark obtain d1 r d3 where "repo_MarkDiscoveryCallbackProcessed (tv_env s) q n sq (tv_now s) d = (Inr True, d1)"
        and read: "repo_GetTaskRun q n d1 = (Inr r, d3)"
        and "(if rn_Status r = RunRunning then repo_MarkRunCallbackReceived (tv_env s) q n ''engine'' (cb_ResultCount c0) (tv_now s) else ok ()) d3 = (Inr (), d2)"
        unfolding mark_processed_def bindM_Inr_iff failIf_Inr_iff by auto
      moreover have "d3 = d1" using run_read_mem [OF read] by simp
      ultimately show ?thesis using that by simp
    qed
    have "task_kept k d0 d2"
      using kept_marked_processed [OF kept key _ _ st *] callback_read [OF c0] by (simp add: char_len_def continuation_def)
    then show ?thesis using close keepsD [OF keeps_close_if_ready] by blast
  qed (use kept in simp)
qed

lemma keeps_CompleteDiscoveryCallbackIngest:
  assumes "tells_apart k" and "env_key (tv_env s) = k" and "ds_db (tv_base s)"
  shows "keeps (task_kept k d0) (CompleteDiscoveryCallbackIngest s q n sq)"
  unfolding CompleteDiscoveryCallbackIngest_def task_runInTx_def
  using assms(3) kept_complete [OF _ assms(1,2)]
  by (simp, intro keeps_inTx_body [OF _ keeps_traffic_complete [of "prefix (tb_traffic d0)"]])
     (auto intro: kept_traffic kept_rollback)

lemma keeps_ingest_Handle:
  assumes "tells_apart k" and "env_key (tv_env s) = k" and "ds_db (tv_base s)"
  shows "keeps (task_kept k d0) (ingest_Handle s facts ref)"
  unfolding ingest_Handle_def ClaimDiscoveryCallbackIngest_def FailDiscoveryCallbackIngest_def
  by (intro keeps_intros keeps_callback_statements [OF assms(1,2)] keeps_CompleteDiscoveryCallbackIngest [OF assms])

text \<open>The calls of the worker on their own: between them other calls may happen, or the worker may stop.\<close>

lemma keeps_worker_calls:
  assumes "tells_apart k" and "env_key (tv_env s) = k"
  shows "keeps (task_kept k d0) (ClaimDiscoveryCallbackIngest s q n sq)" "keeps (task_kept k d0) (FailDiscoveryCallbackIngest s q n sq)"
  unfolding ClaimDiscoveryCallbackIngest_def FailDiscoveryCallbackIngest_def
  by (intro keeps_intros keeps_callback_statements [OF assms])+

section \<open>Reconciliation\<close>

lemma keeps_recordRunStatus [keeps_intros]:
  "keeps (task_kept k d0) (recordRunStatusWithLifecycle s q n a st c sm m b)" "keeps (task_kept k d0) (recordRunStatus s q n a st c sm m)"
proof -
  show *: "keeps (task_kept k d0) (recordRunStatusWithLifecycle s q n a st c sm m b)" for b
    unfolding recordRunStatusWithLifecycle_def record_status_body_def
    by (intro keeps_task_tx keeps_read_run moves_if moves_pure moves_act [OF moves_changeTaskRunStatusWith] moves_keeps [OF keeps_ok]
        keeps_intros pure_intros) (auto simp: closing_input_def)
  show "keeps (task_kept k d0) (recordRunStatus s q n a st c sm m)" unfolding recordRunStatus_def by (rule *)
qed

lemma pure_ingest_open [pure_intros]: "pure (ingest_open s r st)"
  unfolding ingest_open_def by (intro pure_intros)

lemma keeps_reconcileRun [keeps_intros]: "keeps (task_kept k d0) (reconcileRun s r a m b)"
  unfolding reconcileRun_def collect_results_def close_by_status_def time_out_run_def Let_def
  by (intro keeps_intros keeps_pure [OF pure_ingest_open])

lemma keeps_reconcile_scoped [keeps_intros]: "keeps (task_kept k d0) (reconcile_scoped sc r a m b)"
  unfolding reconcile_scoped_def by (intro keeps_intros)

lemma keeps_ReconcileTaskRun: "keeps (task_kept k d0) (ReconcileTaskRun s sc i)"
  unfolding ReconcileTaskRun_def by (intro keeps_intros)

lemma keeps_reconcile_runs [keeps_intros]: "keeps (task_kept k d0) (reconcile_runs sc a m now rs acc)"
  by (induction rs arbitrary: acc) (auto intro!: keeps_intros)

lemma keeps_ReconcileRuns:
  "keeps (task_kept k d0) (ReconcileRunningRuns s sc i)" "keeps (task_kept k d0) (ReconcileTimedOutRuns s sc i)"
  unfolding ReconcileRunningRuns_def ReconcileTimedOutRuns_def reconcile_ready_def by (intro keeps_intros)+

section \<open>Reachable states\<close>

definition task_service_ok :: "(gostring \<Rightarrow> gostring) \<Rightarrow> task_service \<Rightarrow> bool" where
  "task_service_ok k s \<longleftrightarrow> task_server_ok k (tv_env s) \<and> ds_db (tv_base s)"

inductive task_step :: "(gostring \<Rightarrow> gostring) \<Rightarrow> task_db \<Rightarrow> task_db \<Rightarrow> bool" for k where
  scopes: "scope_step k (tb_scopes d) ds \<Longrightarrow> task_step k d (d\<lparr>tb_scopes := ds\<rparr>)"
| network: "task_step k d (d\<lparr>tb_network := ns\<rparr>)"
| settings: "task_step k d (d\<lparr>tb_versions := vs\<rparr>)"
| create_template: "task_service_ok k s \<Longrightarrow> task_step k d (snd (CreateTaskTemplate s cti d))"
| update_template: "task_service_ok k s \<Longrightarrow> task_step k d (snd (UpdateTaskTemplate s uti d))"
| enable_template: "task_service_ok k s \<Longrightarrow> task_step k d (snd (SetTaskTemplateEnabled s eti d))"
| delete_template: "task_service_ok k s \<Longrightarrow> task_step k d (snd (DeleteTaskTemplate s dti d))"
| create_run: "task_service_ok k s \<Longrightarrow> task_step k d (snd (CreateTaskRun s cri d))"
| create_enqueue: "task_service_ok k s \<Longrightarrow> task_step k d (snd (CreateAndEnqueueTaskRun s cri d))"
| mark: "task_service_ok k s \<Longrightarrow> task_step k d (snd (changeTaskRunStatus s uri act st d))"
| attempt: "task_service_ok k s \<Longrightarrow> task_step k d (snd (IncrementTaskRunAttempt s q n a d))"
| dispatch: "task_service_ok k s \<Longrightarrow> task_step k d (snd (DispatchTaskRun s dpi d))"
| cancel: "task_service_ok k s \<Longrightarrow> task_step k d (snd (CancelDispatchedTaskRun s uri d))"
| callback: "task_service_ok k s \<Longrightarrow> task_step k d (snd (HandleCallback s hci d))"
| recover: "task_service_ok k s \<Longrightarrow> task_step k d (snd (RecoverPendingCallbacks s l d))"
| ingest: "task_service_ok k s \<Longrightarrow> task_step k d (snd (ingest_Handle s facts ref d))"
| claim: "task_service_ok k s \<Longrightarrow> task_step k d (snd (ClaimDiscoveryCallbackIngest s q n sq d))"
| complete: "task_service_ok k s \<Longrightarrow> task_step k d (snd (CompleteDiscoveryCallbackIngest s q n sq d))"
| give_up: "task_service_ok k s \<Longrightarrow> task_step k d (snd (FailDiscoveryCallbackIngest s q n sq d))"
| reconcile: "task_service_ok k s \<Longrightarrow> task_step k d (snd (ReconcileTaskRun s sc rci d))"
| reconcile_running: "task_service_ok k s \<Longrightarrow> task_step k d (snd (ReconcileRunningRuns s sc rai d))"
| reconcile_timed_out: "task_service_ok k s \<Longrightarrow> task_step k d (snd (ReconcileTimedOutRuns s sc rai d))"

inductive task_reachable :: "(gostring \<Rightarrow> gostring) \<Rightarrow> task_db \<Rightarrow> bool" for k where
  init: "task_reachable k (empty_task_db projects versions network)"
| step: "task_reachable k d \<Longrightarrow> task_step k d d' \<Longrightarrow> task_reachable k d'"

inductive_cases task_stepE: "task_step k d d'"

lemma task_inv_empty: "task_inv k (empty_task_db ps vs ns)"
  unfolding task_inv_def empty_task_db_def
  by (simp add: discovery_inv_empty template_rows.ok_empty run_rows.ok_empty callback_rows.ok_empty) (simp add: empty_table_def)

lemmas keeps_task_operations = keeps_CreateTaskTemplate keeps_UpdateTaskTemplate keeps_SetTaskTemplateEnabled keeps_DeleteTaskTemplate
  keeps_CreateTaskRun keeps_CreateAndEnqueueTaskRun keeps_changeTaskRunStatus keeps_IncrementTaskRunAttempt keeps_DispatchTaskRun
  keeps_CancelDispatchedTaskRun keeps_HandleCallback keeps_RecoverPendingCallbacks keeps_ingest_Handle keeps_ReconcileTaskRun keeps_ReconcileRuns
  keeps_worker_calls keeps_CompleteDiscoveryCallbackIngest

lemma kept_snd: "keeps (task_kept k d0) m \<Longrightarrow> task_kept k d0 d \<Longrightarrow> task_kept k d0 (snd (m d))"
  by (simp add: keeps_def)

lemma kept_scope_step: "task_kept k d0 d \<Longrightarrow> scope_step k (tb_scopes d) ds \<Longrightarrow> task_kept k d0 (d\<lparr>tb_scopes := ds\<rparr>)"
  by (rule kept_frame, assumption) (auto dest: scope_step_inv kept_scopes)

lemma kept_other_parts:
  "task_kept k d0 d \<Longrightarrow> task_kept k d0 (d\<lparr>tb_network := ns\<rparr>)" "task_kept k d0 d \<Longrightarrow> task_kept k d0 (d\<lparr>tb_versions := vs\<rparr>)"
  by (rule kept_frame, assumption, simp_all add: kept_scopes)+

lemma task_step_kept: "task_step k d d' \<Longrightarrow> task_kept k d0 d \<Longrightarrow> task_kept k d0 d'"
  by (erule task_stepE; hypsubst;
      (erule (1) kept_scope_step | erule kept_other_parts |
       rule kept_snd [rotated], assumption, (rule keeps_task_operations; simp add: task_service_ok_def task_server_ok_def server_ok_def)))

lemma task_reachable_inv: "task_reachable k d \<Longrightarrow> task_inv k d"
proof (induction rule: task_reachable.induct)
  case (step d d')
  then show ?case using task_step_kept [of k d d' d] by (simp add: task_kept_def)
qed (rule task_inv_empty)

lemma task_steps_after:
  assumes "(task_step k)\<^sup>*\<^sup>* d d'" and "task_inv k d"
  shows "task_after d d'"
proof -
  have "task_kept k d d'"
    using assms(1) by (induction rule: rtranclp_induct) (use assms(2) task_step_kept in \<open>auto simp: task_kept_def\<close>)
  then show ?thesis by (simp add: task_kept_def)
qed

end
