(* ===== verification/TaskDispatch.thy ===== *)
theory TaskDispatch
  imports TaskSteps
begin

text \<open>
  What reaches an engine. \<open>job_safe\<close> collects what the code promises of a job: its targets are authorised
  by the scope at the time of dispatch, and an active job respects the policy, the caps, the
  ownership proofs and the CDN refusal. The plan establishes it, and the attempts send nothing else.
\<close>

section \<open>Jobs\<close>

definition target_allowed :: "task_service \<Rightarrow> task_db \<Rightarrow> nat \<Rightarrow> nat \<Rightarrow> dispatch_target \<Rightarrow> bool" where
  "target_allowed s d q sc t \<longleftrightarrow>
     (\<exists>why. IsTypedTargetAllowed (tv_base s) q sc (dt_Type t) (dt_Value t) (tb_scopes d) = (True, why, None))"

definition ownership_proved :: "task_service \<Rightarrow> nat \<Rightarrow> dispatch_target \<Rightarrow> bool" where
  "ownership_proved s q t \<longleftrightarrow>
     (\<exists>verified. tv_ownership s = Some verified \<and> ownershipHostFor t \<noteq> [] \<and> verified q (ownershipHostFor t) = Inr True)"

definition edge_address :: "task_db \<Rightarrow> nat \<Rightarrow> gostring \<Rightarrow> bool" where
  "edge_address d q v \<longleftrightarrow> ip_role (filter (\<lambda>n. ipn_ProjectID n = q) (tb_network d)) v = ''cdn_edge''"

definition job_safe :: "task_service \<Rightarrow> task_db \<Rightarrow> scan_job \<Rightarrow> bool" where
  "job_safe s d job \<longleftrightarrow>
     sj_Targets job \<noteq> [] \<and>
     (\<forall>t \<in> set (sj_Targets job). target_allowed s d (sj_ProjectID job) (sj_ScopeID job) t \<and>
        (dt_Type t \<noteq> TargetTypeURL \<longrightarrow> value_ok (dt_Type t) (dt_Value t))) \<and>
     (IsActiveTaskType (sj_JobType job) \<longrightarrow>
        ap_Enabled (tv_policy s) \<and> sj_RateLimit job \<le> MaxActiveRateLimit \<and> sj_Concurrency job \<le> MaxActiveConcurrency \<and>
        (\<forall>t \<in> set (sj_Targets job).
           (ap_RequireOwnership (tv_policy s) \<longrightarrow> ownership_proved s (sj_ProjectID job) t) \<and>
           (dt_Type t = TargetTypeIP \<longrightarrow> \<not> edge_address d (sj_ProjectID job) (TrimSpace (dt_Value t)))))"

section \<open>The plan\<close>

lemma forM_unit_Inr:
  assumes "\<And>x. pure (f x)"
  shows "forM f xs d = (Inr ys, d') \<Longrightarrow> d' = d \<and> (\<forall>x \<in> set xs. \<exists>y. f x d = (Inr y, d))"
proof (induction xs arbitrary: ys)
  case (Cons x xs)
  then show ?case using pure_state [OF assms] by (auto simp: Inr_iffs) (metis)+
qed (simp add: Inr_iffs)

lemma first_error_ok: "first_error f xs = Inr () \<longleftrightarrow> (\<forall>x \<in> set xs. f x = Inr ())"
  by (induction xs) (auto split: sum.splits)

lemma authorise_target_ok:
  assumes "authorise_target s q sc t d = (Inr u, d')"
  shows "target_allowed s d q sc t"
  using assms
  by (auto simp: authorise_target_def asks_def target_allowed_def split: prod.split_asm option.split_asm if_split_asm)

lemma ownership_ok:
  assumes "requireVerifiedOwnership (tv_ownership s) q ty ts = Inr ()" and "IsActiveTaskType ty" and "t \<in> set ts"
  shows "ownership_proved s q t"
proof (cases "tv_ownership s")
  case None
  then show ?thesis using assms(1,2) by (simp add: requireVerifiedOwnership_def)
next
  case (Some verified)
  then have "(let host = ownershipHostFor t in
      if host = [] then Inl DErrOwnershipRequired
      else case verified q host of Inl e \<Rightarrow> Inl e | Inr v \<Rightarrow> if \<not> v then Inl DErrOwnershipRequired else Inr ()) = (Inr () :: discovery_error + unit)"
    using assms by (simp add: requireVerifiedOwnership_def first_error_ok)
  then have "ownershipHostFor t \<noteq> [] \<and> verified q (ownershipHostFor t) = Inr True"
    by (simp add: Let_def split: if_split_asm sum.split_asm)
  then show ?thesis using Some by (simp add: ownership_proved_def)
qed

lemma find_filter_implied: "(\<And>x. P x \<Longrightarrow> Q x) \<Longrightarrow> List.find P (filter Q xs) = List.find P xs"
  by (induction xs) auto

lemma ip_role_rows:
  assumes "v \<in> set addrs"
  shows "ip_role (filter (\<lambda>n. ipn_ProjectID n = q \<and> list_ex (sql_eq e (ipn_Value n)) addrs) rows) v =
    ip_role (filter (\<lambda>n. ipn_ProjectID n = q) rows) v"
proof -
  have "list_ex (sql_eq e (ipn_Value n)) addrs" if "ipn_Value n = v" for n
    using assms that by (auto simp: list_ex_iff intro: bexI [of _ v])
  then have "List.find (\<lambda>n. ipn_Value n = v) (filter (\<lambda>n. list_ex (sql_eq e (ipn_Value n)) addrs) ns) = List.find (\<lambda>n. ipn_Value n = v) ns" for ns
    by (rule find_filter_implied)
  from this [of "filter (\<lambda>n. ipn_ProjectID n = q) (rev rows)"] show ?thesis by (simp add: ip_role_def rev_filter)
qed

lemma cdn_refusal_ok:
  assumes "refuseCDNEdgeTargets s q ty ts d = (Inr u, d')" and "IsActiveTaskType ty" and "t \<in> set ts" and "dt_Type t = TargetTypeIP"
  shows "\<not> edge_address d q (TrimSpace (dt_Value t))"
proof -
  let ?addrs = "map (\<lambda>t. TrimSpace (dt_Value t)) (filter (\<lambda>t. dt_Type t = TargetTypeIP) ts)"
  have v: "TrimSpace (dt_Value t) \<in> set ?addrs" using assms(3,4) by auto
  then have "?addrs \<noteq> []" by (metis list.set(1) empty_iff)
  then show ?thesis
    using assms(1,2) v ip_role_rows [OF v, of q "tv_env s" "tb_network d"]
    by (auto simp: refuseCDNEdgeTargets_def repo_ListIPNetworkAttribution_def Inr_iffs first_error_ok edge_address_def Let_def
        simp del: set_map split: if_split_asm)
qed

lemma normalize_targets_ok:
  "normalize_targets ts = Inr out \<Longrightarrow> length out = length ts \<and> (\<forall>t \<in> set out. dt_Type t \<noteq> TargetTypeURL \<longrightarrow> value_ok (dt_Type t) (dt_Value t))"
  by (induction ts arbitrary: out) (auto simp: normalizeTargetValue_ok split: sum.split_asm)

lemma parseDispatchConfig_ok:
  assumes "parseDispatchConfig raw = Inr c"
  shows "dc_Targets c \<noteq> [] \<and> (\<forall>t \<in> set (dc_Targets c). dt_Type t \<noteq> TargetTypeURL \<longrightarrow> value_ok (dt_Type t) (dt_Value t))"
  using assms by (auto simp: parseDispatchConfig_def dest!: normalize_targets_ok split: sum.split_asm option.split_asm prod.split_asm if_split_asm)

lemma bindM_pure_Inr: "pure m \<Longrightarrow> bindM m f d = (Inr y, d') \<longleftrightarrow> (\<exists>x. m d = (Inr x, d) \<and> f x d = (Inr y, d'))"
  by (auto simp: bindM_Inr_iff dest: pure_state)

lemma pure_authorise [pure_intros]: "pure (authorise_target s q sc t)"
  unfolding authorise_target_def by (rule pure_intros)

lemma pure_cdn [pure_intros]: "pure (refuseCDNEdgeTargets s q ty ts)"
  unfolding refuseCDNEdgeTargets_def Let_def by (intro pure_intros)

lemma plan_safe:
  assumes "BuildDispatchPlan s q n a d = (Inr plan, d')"
  shows "d' = d \<and> job_safe s d (scanJobFromDispatchPlan plan url) \<and> pl_RunID plan = n \<and> pl_ProjectID plan = q \<and>
    (\<exists>r \<in> set (t_rows (tb_runs d)). rn_ID r = n \<and> rn_ProjectID r = q \<and> rn_Status r = RunPending \<and> pl_TaskType plan = rn_TaskType r \<and>
      pl_RetryLimit plan = rn_RetryLimit r)"
proof -
  have d': "d' = d" using pure_state [OF pure_BuildDispatchPlan assms] .
  have ownership: "pure (if b then liftM x else ok ())" for b and x :: "discovery_error + unit" by (intro pure_intros)
  obtain r c ys u w u1 u2 and t :: task_template where r: "repo_GetTaskRun q n d = (Inr r, d)" "rn_Status r = RunPending"
    and pol: "requireActiveDispatchEnabled (tv_policy s) (rn_TaskType r) = Inr u1"
      "ValidateActiveTaskLimits (rn_TaskType r) (rn_RateLimit r) (rn_Concurrency r) = Inr u2"
    and c: "parseDispatchConfig (tp_Config t) = Inr c"
    and auth: "forM (authorise_target s q (rn_ScopeID r)) (dc_Targets c) d = (Inr ys, d)"
    and own: "(if ap_RequireOwnership (tv_policy s)
       then liftM (requireVerifiedOwnership (tv_ownership s) q (rn_TaskType r) (dc_Targets c)) else ok ()) d = (Inr w, d)"
    and cdn: "refuseCDNEdgeTargets s q (rn_TaskType r) (dc_Targets c) d = (Inr u, d)"
    and plan: "plan = plan_of r c"
    using assms
    by (simp only: BuildDispatchPlan_def bindM_pure_Inr pure_basic pure_task_reads pure_forM [OF pure_authorise] pure_cdn ownership
        failIf_Inr_iff liftM_Inr_iff ok_Inr_iff not_not) (elim exE conjE, rule that; assumption)
  have safe: "target_allowed s d q (rn_ScopeID r) t" if "t \<in> set (dc_Targets c)" for t
    using forM_unit_Inr [OF pure_authorise auth] that authorise_target_ok by blast
  have active: "ap_Enabled (tv_policy s) \<and> rn_RateLimit r \<le> MaxActiveRateLimit \<and> rn_Concurrency r \<le> MaxActiveConcurrency"
    if "IsActiveTaskType (rn_TaskType r)"
    using pol that by (auto simp: requireActiveDispatchEnabled_def ValidateActiveTaskLimits_def split: if_split_asm)
  have owned: "ownership_proved s q t" if "IsActiveTaskType (rn_TaskType r)" "ap_RequireOwnership (tv_policy s)" "t \<in> set (dc_Targets c)" for t
    using own that by (intro ownership_ok) (auto simp: liftM_Inr_iff)
  show ?thesis
    using d' run_read_mem [OF r(1)] r(2) parseDispatchConfig_ok [OF c] safe active owned cdn_refusal_ok [OF cdn]
    by (auto simp: plan plan_of_def job_safe_def scanJobFromDispatchPlan_def)
qed

section \<open>The attempts\<close>

text \<open>The traffic since \<open>tr\<close>: this job at most \<open>c\<close> times, and cancellations.\<close>

definition sent :: "engine_call list \<Rightarrow> scan_job \<Rightarrow> nat \<Rightarrow> task_db \<Rightarrow> bool" where
  "sent tr job c d \<longleftrightarrow> (\<exists>calls. tb_traffic d = tr @ calls \<and> (\<forall>x \<in> set calls. x = CallDispatch job \<or> (\<exists>j. x = CallCancel j)) \<and>
     length (filter (\<lambda>x. x = CallDispatch job) calls) \<le> c)"

lemma sent_mono: "sent tr job c d \<Longrightarrow> c \<le> c' \<Longrightarrow> sent tr job c' d"
  unfolding sent_def by (meson order_trans)

lemma keeps_traffic_tx [keeps_intros]:
  "keeps (\<lambda>d. Q (tb_traffic d)) m \<Longrightarrow> keeps (\<lambda>d. Q (tb_traffic d)) (task_runInTx s m)"
  unfolding task_runInTx_def by (intro keeps_intros) (simp_all add: task_rollback_def)

lemma keeps_traffic_records [keeps_intros]:
  "keeps (\<lambda>d. Q (tb_traffic d)) (recordRunDispatched s i job)" "keeps (\<lambda>d. Q (tb_traffic d)) (recordRunDispatchFailed s i sm)"
  "keeps (\<lambda>d. Q (tb_traffic d)) (repo_IncrementRunAttempt e q n a)"
  unfolding recordRunDispatched_def recordRunDispatchFailed_def repo_MarkRunDispatched_def repo_MarkRunDispatchFailed_def
    repo_IncrementRunAttempt_def
  by (intro keeps_intros)+

lemma keeps_sent [keeps_intros]:
  "keeps (sent tr job c) (recordRunDispatched s i j)" "keeps (sent tr job c) (recordRunDispatchFailed s i sm)"
  "keeps (sent tr job c) (repo_IncrementRunAttempt e q n a)"
  unfolding sent_def by (rule keeps_traffic_records)+

lemma keeps_sent_cancel [keeps_intros]: "keeps (sent tr job c) (engine_Cancel en j)"
  by (rule keepsI) (auto simp: sent_def engine_Cancel_def call_engine_def)

lemma moves_sent_dispatch: "moves (sent tr job c) (sent tr job (Suc c)) (engine_Dispatch en job)"
  by (rule movesI) (auto simp: sent_def engine_Dispatch_def call_engine_def)

lemma keeps_sent_settle [keeps_intros]: "keeps (sent tr job c) (settle_dispatch s en i j)"
  unfolding settle_dispatch_def by (intro keeps_intros)

lemma moves_weaken: "moves P Q m \<Longrightarrow> (\<And>s. Q s \<Longrightarrow> R s) \<Longrightarrow> moves P R m"
  by (simp add: moves_def)

lemma attempts_sent: "moves (sent tr job c) (sent tr job (c + n)) (dispatch_attempts s en job i n lastErr)"
proof (induction n arbitrary: c lastErr)
  case 0
  then show ?case by (simp add: moves_keeps keeps_ok)
next
  case (Suc n)
  have *: "moves (sent tr job (Suc c)) (sent tr job (c + Suc n)) m" if "keeps (sent tr job (Suc c)) m" for m :: "'x task_op"
    using that by (rule moves_weaken [OF moves_keeps]) (auto intro: sent_mono)
  have rec: "moves (sent tr job (Suc c)) (sent tr job (c + Suc n)) (dispatch_attempts s en job i n e)" for e
    using Suc.IH [of "Suc c"] by simp
  show ?case
    unfolding dispatch_attempts.simps
    by (intro moves_bind [where Q = "sent tr job c", OF moves_keeps [OF keeps_sent(3)]] moves_bind [OF moves_sent_dispatch]
        moves_sum_case moves_if rec * keeps_intros) (auto intro: sent_mono)
qed

lemma moves_pure_at:
  assumes "pure m" and "I d" and "\<And>x. m d = (Inr x, d) \<Longrightarrow> moves (\<lambda>s. s = d) I (f x)"
  shows "moves (\<lambda>s. s = d) I (bindM m f)"
proof (rule movesI)
  fix s assume "s = d"
  moreover obtain r where "m d = (r, d)" using pure_state [OF assms(1)] by (metis surj_pair)
  ultimately show "I (snd (bindM m f s))" using assms(2,3) by (cases r) (auto simp: bindM_def moves_def)
qed

definition run_allows :: "task_service \<Rightarrow> dispatch_input \<Rightarrow> task_db \<Rightarrow> scan_job \<Rightarrow> nat \<Rightarrow> bool" where
  "run_allows s i d job n \<longleftrightarrow> job_safe s d job \<and>
     (\<exists>r \<in> set (t_rows (tb_runs d)). rn_ID r = dpi_RunID i \<and> rn_ProjectID r = dpi_ProjectID i \<and> rn_Status r = RunPending \<and>
        sj_RunID job = rn_ID r \<and> sj_ProjectID job = rn_ProjectID r \<and> sj_JobType job = rn_TaskType r \<and> n = nat (rn_RetryLimit r + 1))"

lemma dispatch_sends:
  "tb_traffic (snd (DispatchTaskRun s i d)) = tb_traffic d \<or>
   (\<exists>job n. run_allows s i d job n \<and> sent (tb_traffic d) job n (snd (DispatchTaskRun s i d)))"
proof -
  let ?I = "\<lambda>d'. tb_traffic d' = tb_traffic d \<or> (\<exists>job n. run_allows s i d job n \<and> sent (tb_traffic d) job n d')"
  have tail: "moves (\<lambda>s. s = d) ?I (bindM (dispatch_attempts s en (scanJobFromDispatchPlan plan (dpi_CallbackURL i)) i (nat (pl_RetryLimit plan + 1)) None) (\<lambda>res.
       case res of Inr run \<Rightarrow> ok (run, None)
       | Inl lastErr \<Rightarrow> bindM (recordRunDispatchFailed s i (sanitizeEngineErrorSummary lastErr ''engine dispatch failed'')) (\<lambda>run. ok (run, lastErr))))"
    if plan: "BuildDispatchPlan s (dpi_ProjectID i) (dpi_RunID i) (dpi_ActorID i) d = (Inr plan, d)" for plan en
  proof -
    let ?job = "scanJobFromDispatchPlan plan (dpi_CallbackURL i)" and ?n = "nat (pl_RetryLimit plan + 1)"
    have "sent (tb_traffic d) ?job 0 d" by (auto simp: sent_def)
    then have att: "moves (\<lambda>s. s = d) (sent (tb_traffic d) ?job ?n) (dispatch_attempts s en ?job i ?n None)"
      using attempts_sent [of "tb_traffic d" ?job 0] by (auto simp: moves_def)
    have "run_allows s i d ?job ?n"
      using plan_safe [OF plan, of "dpi_CallbackURL i"] by (auto simp: run_allows_def scanJobFromDispatchPlan_def)
    then show ?thesis
      by (intro moves_weaken [where Q = "sent (tb_traffic d) ?job ?n", OF moves_act [OF att]]) (auto intro!: keeps_intros)
  qed
  have "moves (\<lambda>s. s = d) ?I (DispatchTaskRun s i)"
    unfolding DispatchTaskRun_def
    by (intro tail moves_pure_at moves_if pure_intros; (assumption | simp add: moves_def ok_def)?)
  then show ?thesis by (simp add: moves_def)
qed

end
