(* ===== verification/TaskFacts.thy ===== *)
theory TaskFacts
  imports TaskDispatch
begin

text \<open>
  What single operations achieve: a run that was read can be marked, its audit row can be written, and
  a summary of any length is stored; so a run is closed whatever text the engine sends. The state of
  the inbox decides when a run is complete (\<open>final_state_spec\<close>), and a stored batch is not stored again.
\<close>

section \<open>Summaries\<close>

lemma char_len_take_runes: "char_len (take_runes n s) \<le> n"
  by (induction n s rule: take_runes.induct) (auto simp: char_len_def)

lemma truncated_fits: "char_len (truncateErrorSummary s) \<le> maxErrorSummaryLen"
  by (simp add: truncateErrorSummary_def char_len_take_runes)

lemma prefix_take_runes: "prefix (take_runes n s) s"
  by (induction n s rule: take_runes.induct) auto

lemma take_runes_len: "n \<le> char_len s \<Longrightarrow> char_len (take_runes n s) = n"
  by (induction n s rule: take_runes.induct) (auto simp: char_len_def)

section \<open>Marking a run\<close>

lemma mark_run_Inr:
  assumes kept: "task_kept k d0 d" and r: "r \<in> set (t_rows (tb_runs d))"
    and chk: "run_check e (f r) = None" "f r \<noteq> r"
  shows "mark_run e (rn_ProjectID r) (rn_ID r) (rn_Status r) f d =
    (Inr (), d\<lparr>tb_runs := (tb_runs d)\<lparr>t_rows := map (\<lambda>x. if x = r then f r else x) (t_rows (tb_runs d))\<rparr>\<rparr>)"
proof -
  let ?p = "\<lambda>x. rn_ID x = rn_ID r \<and> (rn_ProjectID x = rn_ProjectID r \<and> sql_eq e (rn_Status x) (rn_Status r) \<and> run_live x)"
  have live: "run_live r" using kept_run_ok [OF kept r] by (simp add: run_ok_def)
  have p: "?p x \<longleftrightarrow> x = r" if "x \<in> set (t_rows (tb_runs d))" for x
    using kept_run_unique [OF kept that r] live by auto
  have "map (upd_row ?p f id) (t_rows (tb_runs d)) = map (\<lambda>x. if x = r then f r else x) (t_rows (tb_runs d))"
    using p chk(2) by (intro map_cong) (auto simp: upd_row_def)
  moreover have "length (filter (\<lambda>x. ?p x \<and> f x \<noteq> x) (t_rows (tb_runs d))) \<noteq> 0"
    using r p chk(2) by (auto simp: filter_empty_conv)
  ultimately obtain m where "sql_update (run_check e) ?p f id (tb_runs d) =
      (Inr m, (tb_runs d)\<lparr>t_rows := map (\<lambda>x. if x = r then f r else x) (t_rows (tb_runs d))\<rparr>)" "m \<noteq> 0"
    using p chk(1) by (simp add: sql_update_Inr)
  then show ?thesis
    by (simp add: mark_run_def markRunUpdateResultError_def bindM_Inr_iff failIf_Inr_iff on_runs_def mapErr_Inr_iff zoom_iff)
qed

lemma read_stored:
  assumes "task_kept k d0 d" and "r \<in> set (t_rows (tb_runs d))"
  shows "repo_GetTaskRun (rn_ProjectID r) (rn_ID r) d = (Inr r, d)"
  using assms kept_run_ok [OF assms] run_rows.one_by_id [of "tb_runs d" r "\<lambda>x. rn_ProjectID x = rn_ProjectID r \<and> run_live x"]
  by (auto simp: run_read task_kept_def task_inv_def table_ok_def run_ok_def)

lemma kept_runs_wf: "task_kept k d0 d \<Longrightarrow> wf_rows rn_ID (tb_runs d)"
  by (simp add: task_kept_def task_inv_def table_ok_def)

lemma mark_run_read:
  assumes wf: "wf_rows rn_ID (tb_runs d)" and read: "repo_GetTaskRun q n d = (Inr r, d)" and mark: "mark_run e q n (rn_Status r) f d = (Inr u, d')"
    and after: "repo_GetTaskRun q n d' = (Inr r', d'')" and same: "\<And>x. rn_ID (f x) = rn_ID x"
  shows "r' = f r \<and> tb_callbacks d' = tb_callbacks d"
proof -
  let ?p = "\<lambda>x. rn_ID x = n \<and> (rn_ProjectID x = q \<and> sql_eq e (rn_Status x) (rn_Status r) \<and> run_live x)"
  have d': "tb_callbacks d' = tb_callbacks d" "t_rows (tb_runs d') = map (upd_row ?p f id) (t_rows (tb_runs d))"
    using mark by (auto simp: mark_run_def markRunUpdateResultError_def Inr_iffs on_runs_def zoom_iff sql_update_Inr)
  have r: "r \<in> set (t_rows (tb_runs d))" "rn_ID r = n" "rn_ProjectID r = q" "run_live r" using run_read_mem [OF read] by auto
  obtain x where x: "x \<in> set (t_rows (tb_runs d))" "r' = upd_row ?p f id x" "rn_ID r' = n"
    using run_read_mem [OF after] d'(2) by auto
  then have "rn_ID x = n" using same by (auto simp: upd_row_def split: if_split_asm)
  then have "x = r" using run_rows.row_unique [OF wf x(1) r(1)] r(2) by simp
  then have "?p x" using r by simp
  then have "r' = f r" using \<open>x = r\<close> x(2) by (auto simp: upd_row_def)
  then show ?thesis using d' by simp
qed

lemma tx_Inr: "task_runInTx s m d = (Inr x, d') \<longleftrightarrow> m d = (Inr x, d')"
  by (simp add: task_runInTx_def inTx_Inr_iff)

section \<open>Audit of a run\<close>

definition meta_fits :: "discovery_meta \<Rightarrow> bool" where
  "meta_fits m \<longleftrightarrow> char_len (dm_IP m) \<le> 64 \<and> char_len (dm_UserAgent m) \<le> 512 \<and> char_len (dm_RequestID m) \<le> 64"

lemma char_len_le: "char_len s \<le> length s"
  by (simp add: char_len_def)

lemma length_FormatUint: "n < 10 ^ m \<Longrightarrow> 0 < m \<Longrightarrow> length (FormatUint n) \<le> m"
proof (induction n arbitrary: m rule: FormatUint.induct)
  case (1 n)
  show ?case
  proof (cases "n < 10")
    case False
    then have "1 < m" using 1(2,3) by (cases "m = 1") auto
    then obtain m' where m: "m = Suc m'" "0 < m'" by (cases m) auto
    then have "n div 10 < 10 ^ m'" using 1(2) by (simp add: less_mult_imp_div_less mult.commute)
    then have "length (FormatUint (n div 10)) \<le> m'" using 1(1) [OF False] m(2) by simp
    then show ?thesis using False m(1) by (subst FormatUint.simps) simp
  next
    case True
    then show ?thesis using 1(3) by (subst FormatUint.simps) simp
  qed
qed

lemma length_FormatUint64: "n < 2 ^ 64 \<Longrightarrow> length (FormatUint n) \<le> 64"
  using length_FormatUint [of n 64] by (simp add: order.strict_trans2)

lemma run_audited:
  assumes "run_ok b" and "char_len actor \<le> 64" and "meta_fits m" and "rn_ID b < 2 ^ 64" and "char_len act \<le> 128"
  shows "\<exists>d'. recordTaskAudit s act (Some (ERun b)) (Some (ERun a)) actor m d = (Inr (), d') \<and> tb_runs d' = tb_runs d \<and>
    tb_callbacks d' = tb_callbacks d \<and> tb_traffic d' = tb_traffic d"
proof (cases "audits (tv_base s)")
  case True
  let ?v = "task_event act (Some (ERun b)) (Some (ERun a)) actor m"
  have "\<not> too_long (run_columns b)" using assms(1) by (simp add: run_ok_def)
  then have "char_len (rn_TenantID b) \<le> 64" "char_len (rn_OrgID b) \<le> 64" by (simp_all add: too_long_def run_columns_def)
  moreover have "char_len (FormatUint (rn_ID b)) \<le> 64"
    using length_FormatUint64 [OF assms(4)] char_len_le [of "FormatUint (rn_ID b)"] by simp
  ultimately have "audit_check (tv_env s) (audit_entry (tv_env s) (with_defaults ?v)) = None"
    using assms(2,3,5)
    by (simp add: audit_check_def row_check_def too_long_def audit_entry_def task_event_def meta_fits_def sql_in_def
        char_len_def continuation_def empty_event_def)
  then show ?thesis
    using True
    by (auto simp: recordTaskAudit_def on_audit_def on_scope_db_def zoom_iff mapErr_Inr_iff audit_Record_Inr
        intro!: exI [of _ "d\<lparr>tb_scopes := _\<rparr>"])
qed (simp add: recordTaskAudit_def ok_def)

section \<open>Closing a run\<close>

lemma audit_keeps_runs: "recordTaskAudit s act b a actor m d = (Inr (), d') \<Longrightarrow> tb_runs d' = tb_runs d \<and> tb_callbacks d' = tb_callbacks d"
  by (auto simp: recordTaskAudit_def on_audit_def on_scope_db_def zoom_iff mapErr_Inr_iff ok_Inr_iff split: if_split_asm)

definition closing_statuses :: "gostring list" where
  "closing_statuses = [RunSuccess, RunPartial, RunFailed, RunCancelled]"

lemma closed_check:
  assumes "run_ok r" and "char_len actor \<le> 64" and "char_len sm \<le> 1024" and "st \<in> set validTaskStatuses" and "0 \<le> pr" "pr \<le> 100"
  shows "run_check e (r\<lparr>rn_Status := st, rn_Progress := pr, rn_ErrorSummary := sm, rn_FinishedAt := t, rn_UpdatedBy := actor\<rparr>) = None"
    and "run_check e (run_closed e st pr c sm now actor r) = None"
proof -
  have "char_len st \<le> 16" using assms(4) by (auto simp: validTaskStatuses_def char_len_def continuation_def)
  then show "run_check e (r\<lparr>rn_Status := st, rn_Progress := pr, rn_ErrorSummary := sm, rn_FinishedAt := t, rn_UpdatedBy := actor\<rparr>) = None"
    "run_check e (run_closed e st pr c sm now actor r) = None"
    using assms by (simp_all add: run_check_def row_check_def run_closed_def run_ok_def limits_ok_def too_long_def run_columns_def sql_in_member)
qed

text \<open>What a run is after it was closed; of a cancelled run the count stays.\<close>

definition closed_as :: "task_run \<Rightarrow> gostring \<Rightarrow> gostring \<Rightarrow> gostring \<Rightarrow> task_run \<Rightarrow> bool" where
  "closed_as r st sm actor r' \<longleftrightarrow> run_fixed r r' \<and> rn_Status r' = st \<and> rn_UpdatedBy r' = actor \<and>
     rn_ErrorSummary r' = (if st = RunSuccess then [] else sm) \<and> rn_EngineJobID r' = rn_EngineJobID r"

lemma change_closes:
  assumes kept: "task_kept k d0 d" and r: "r \<in> set (t_rows (tb_runs d))" "rn_Status r = RunRunning"
    and i: "uri_RunID i = rn_ID r" "uri_ProjectID i = rn_ProjectID r" "char_len (uri_ActorID i) \<le> 64" "char_len (uri_ErrorSummary i) \<le> 1024"
    and st: "st \<in> set closing_statuses"
  shows "\<exists>r' d'. changeTaskRunStatusWith e r i st now d = (Inr (), d') \<and> r' \<in> set (t_rows (tb_runs d')) \<and>
    closed_as r st (uri_ErrorSummary i) (uri_ActorID i) r'"
proof -
  have ok: "run_ok r" using kept_run_ok [OF kept r(1)] by simp
  have *: "\<exists>r' d'. mark_run e (rn_ProjectID r) (rn_ID r) (rn_Status r) f d = (Inr (), d') \<and> r' \<in> set (t_rows (tb_runs d')) \<and>
      closed_as r st (uri_ErrorSummary i) (uri_ActorID i) r'"
    if "run_check e (f r) = None" and "closed_as r st (uri_ErrorSummary i) (uri_ActorID i) (f r)" for f
  proof -
    have "rn_Status (f r) \<noteq> rn_Status r" using that(2) r(2) st by (auto simp: closed_as_def closing_statuses_def)
    then have "f r \<noteq> r" by metis
    then show ?thesis using mark_run_Inr [OF kept r(1), of e f] that r(1) by force
  qed
  let ?m = "mark_run e (rn_ProjectID r) (rn_ID r) (rn_Status r)" and ?n = "uri_ResultCount i" and ?sm = "uri_ErrorSummary i" and ?a = "uri_ActorID i"
  note change = changeTaskRunStatusWith_def bindM_def failIf_def ok_def isTaskRunTransitionAllowed_def repo_MarkRunSucceeded_def
    repo_MarkRunPartialSuccess_def repo_MarkRunFailed_def repo_MarkRunCancelled_def
  note as = closed_as_def run_closed_def run_fixed_def
  have nil: "char_len [] \<le> 1024" by (simp add: char_len_def)
  from st consider "st = RunSuccess" | "st = RunPartial" | "st = RunFailed" | "st = RunCancelled" by (auto simp: closing_statuses_def)
  then show ?thesis
  proof cases
    case 1
    have "changeTaskRunStatusWith e r i st now d = ?m (run_closed e RunSuccess 100 ?n [] now ?a) d" using 1 i r(2) by (simp add: change)
    moreover have "\<exists>r' d'. ?m (run_closed e RunSuccess 100 ?n [] now ?a) d = (Inr (), d') \<and> r' \<in> set (t_rows (tb_runs d')) \<and> closed_as r st ?sm ?a r'"
      by (rule *) (use 1 closed_check(2) [OF ok i(3) nil] in \<open>simp_all add: as validTaskStatuses_def\<close>)
    ultimately show ?thesis by simp
  next
    case 2
    have "changeTaskRunStatusWith e r i st now d = ?m (run_closed e RunPartial 100 ?n ?sm now ?a) d" using 2 i r(2) by (simp add: change)
    moreover have "\<exists>r' d'. ?m (run_closed e RunPartial 100 ?n ?sm now ?a) d = (Inr (), d') \<and> r' \<in> set (t_rows (tb_runs d')) \<and> closed_as r st ?sm ?a r'"
      by (rule *) (use 2 closed_check(2) [OF ok i(3,4)] in \<open>simp_all add: as validTaskStatuses_def\<close>)
    ultimately show ?thesis by simp
  next
    case 3
    have "changeTaskRunStatusWith e r i st now d = ?m (run_closed e RunFailed 0 ?n ?sm now ?a) d" using 3 i r(2) by (simp add: change)
    moreover have "\<exists>r' d'. ?m (run_closed e RunFailed 0 ?n ?sm now ?a) d = (Inr (), d') \<and> r' \<in> set (t_rows (tb_runs d')) \<and> closed_as r st ?sm ?a r'"
      by (rule *) (use 3 closed_check(2) [OF ok i(3,4)] in \<open>simp_all add: as validTaskStatuses_def\<close>)
    ultimately show ?thesis by simp
  next
    case 4
    let ?f = "\<lambda>r. r\<lparr>rn_Status := RunCancelled, rn_Progress := 0, rn_ErrorSummary := ?sm, rn_FinishedAt := run_time e now, rn_UpdatedBy := ?a\<rparr>"
    have "changeTaskRunStatusWith e r i st now d = ?m ?f d" using 4 i r(2) by (simp add: change)
    moreover have "\<exists>r' d'. ?m ?f d = (Inr (), d') \<and> r' \<in> set (t_rows (tb_runs d')) \<and> closed_as r st ?sm ?a r'"
      by (rule *) (use 4 closed_check(1) [OF ok i(3,4)] in \<open>simp_all add: as validTaskStatuses_def\<close>)
    ultimately show ?thesis by simp
  qed
qed

lemma record_closes:
  assumes kept: "task_kept k d0 d" and r: "r \<in> set (t_rows (tb_runs d))" "rn_Status r = RunRunning" "rn_ID r < 2 ^ 64"
    and fits: "char_len actor \<le> 64" "meta_fits m" and st: "st \<in> set closing_statuses"
  shows "\<exists>r' d'. recordRunStatus s (rn_ProjectID r) (rn_ID r) actor st c sm m d = (Inr r', d') \<and>
    repo_GetTaskRun (rn_ProjectID r) (rn_ID r) d' = (Inr r', d') \<and> closed_as r st (truncateErrorSummary sm) actor r'"
proof -
  let ?i = "closing_input (rn_ProjectID r) (rn_ID r) actor c (truncateErrorSummary sm) m"
  have i: "uri_RunID ?i = rn_ID r" "uri_ProjectID ?i = rn_ProjectID r" "char_len (uri_ActorID ?i) \<le> 64" "char_len (uri_ErrorSummary ?i) \<le> 1024"
    using fits(1) truncated_fits [of sm] by (simp_all add: closing_input_def maxErrorSummaryLen_def)
  obtain r' d1 where change: "changeTaskRunStatusWith (tv_env s) r ?i st (tv_now s) d = (Inr (), d1)"
    and r': "r' \<in> set (t_rows (tb_runs d1))" "closed_as r st (truncateErrorSummary sm) actor r'"
    using change_closes [OF kept r(1,2) i st, of "tv_env s" "tv_now s"] by (auto simp: closing_input_def)
  have "moves (read_run k d0 r) (task_kept k d0) (changeTaskRunStatusWith (tv_env s) r ?i st (tv_now s))"
    by (rule moves_changeTaskRunStatusWith) (rule i(1))
  then have kept1: "task_kept k d0 d1" using kept r(1) change by (auto simp: moves_def dest!: spec [of _ d])
  have id: "rn_ID r' = rn_ID r" "rn_ProjectID r' = rn_ProjectID r" using r'(2) by (simp_all add: closed_as_def run_fixed_def)
  obtain d2 where audit: "recordTaskAudit s ActionRunStatusChange (Some (ERun r)) (Some (ERun r')) actor m d1 = (Inr (), d2)"
    "tb_runs d2 = tb_runs d1"
    using run_audited [of r actor m ActionRunStatusChange s r' d1] kept_run_ok [OF kept r(1)] fits r(3)
    by (auto simp: char_len_def continuation_def)
  have ne: "rn_Status r \<noteq> st" using r(2) st by (auto simp: closing_statuses_def)
  have "record_status_body s ?i st False d = (Inr r', d2)"
    using read_stored [OF kept r(1)] change read_stored [OF kept1 r'(1)] audit(1) ne
    by (simp add: record_status_body_def bindM_def ok_def i(1,2) id) (simp add: closing_input_def ok_def)
  moreover have "repo_GetTaskRun (rn_ProjectID r) (rn_ID r) d2 = (Inr r', d2)"
    using read_stored [OF kept1 r'(1)] audit(2) id by (simp add: run_read)
  ultimately show ?thesis
    using r'(2) by (auto simp: recordRunStatus_def recordRunStatusWithLifecycle_def task_runInTx_def inTx_Inr_iff)
qed

section \<open>When a run is complete\<close>

lemma final_marker_spec:
  "final_marker best cs = Some c \<Longrightarrow> (best = Some c \<or> c \<in> set cs \<and> isFinalCallbackPhase (cb_Phase c)) \<and>
     (\<forall>x \<in> set cs. isFinalCallbackPhase (cb_Phase x) \<longrightarrow> cb_Seq c \<le> cb_Seq x) \<and> (\<forall>b. best = Some b \<longrightarrow> cb_Seq c \<le> cb_Seq b)"
proof (induction best cs rule: final_marker.induct)
  case (2 best x xs)
  then show ?case by (auto split: if_split_asm option.split_asm)
qed simp

lemma final_marker_None: "final_marker best cs = None \<longleftrightarrow> best = None \<and> (\<forall>x \<in> set cs. \<not> isFinalCallbackPhase (cb_Phase x))"
  by (induction best cs rule: final_marker.induct) (auto split: option.splits)

text \<open>
  The reference: \<open>c\<close> is the first final batch of the run, and every batch up to it has arrived and was
  processed.
\<close>

definition run_complete :: "discovery_callback list \<Rightarrow> discovery_callback \<Rightarrow> bool" where
  "run_complete cs c \<longleftrightarrow> c \<in> set cs \<and> isFinalCallbackPhase (cb_Phase c) \<and>
     (\<forall>x \<in> set cs. isFinalCallbackPhase (cb_Phase x) \<longrightarrow> cb_Seq c \<le> cb_Seq x) \<and>
     (\<forall>n \<in> {1 .. cb_Seq c}. \<exists>x \<in> set cs. cb_Seq x = n) \<and>
     (\<forall>x \<in> set cs. cb_Seq x \<le> cb_Seq c \<longrightarrow> cb_IngestStatus x = IngestProcessed)"

lemma final_status_final:
  "isFinalCallbackPhase (cb_Phase c) \<Longrightarrow> phase_status_ok (cb_Phase c) (cb_Status c) \<Longrightarrow> final_status c = Some (cb_Status c)"
  by (auto simp: isFinalCallbackPhase_def phase_status_ok_def final_status_def split: if_split_asm)

lemma final_state_spec:
  assumes "\<forall>c \<in> set cs. callback_ok c" and "distinct (map cb_Seq cs)"
  shows "callbackFinalState s cs = Inr (Some (st, sm)) \<longleftrightarrow> (\<exists>c. run_complete cs c \<and> st = cb_Status c \<and> sm = final_summary s c)"
    and "\<exists>x. callbackFinalState s cs = Inr x"
proof -
  have ok: "final_status c = Some (cb_Status c)" if "c \<in> set cs" "isFinalCallbackPhase (cb_Phase c)" for c
    using that assms(1) by (intro final_status_final) (auto simp: callback_ok_def)
  have unique: "c = c'" if "c \<in> set cs" "c' \<in> set cs" "cb_Seq c = cb_Seq c'" for c c'
    using that assms(2) by (auto simp: distinct_map dest: inj_onD)
  have "(\<exists>x. callbackFinalState s cs = Inr x) \<and>
    (callbackFinalState s cs = Inr (Some (st, sm)) \<longleftrightarrow> (\<exists>c. run_complete cs c \<and> st = cb_Status c \<and> sm = final_summary s c))"
  proof (cases "final_marker None cs")
    case None
    then have "\<not> run_complete cs c" for c by (auto simp: final_marker_None run_complete_def)
    with None show ?thesis by (simp add: callbackFinalState_def)
  next
    case (Some f)
    note f = final_marker_spec [OF Some]
    then have mem: "f \<in> set cs" "isFinalCallbackPhase (cb_Phase f)" by auto
    have only: "run_complete cs c \<Longrightarrow> c = f" for c
      using unique [of c f] mem f by (auto simp: run_complete_def dest: order_antisym)
    let ?A = "list_ex (\<lambda>c. cb_IngestStatus c \<noteq> IngestProcessed) (filter (\<lambda>c. cb_Seq c \<le> cb_Seq f) cs)"
    let ?B = "list_ex (\<lambda>want. \<not> List.member (map cb_Seq (filter (\<lambda>c. cb_Seq c \<le> cb_Seq f) cs)) want) [1 ..< Suc (cb_Seq f)]"
    have "?A \<or> ?B \<longleftrightarrow> \<not> run_complete cs f"
      using mem f by (auto simp: run_complete_def list_ex_iff Ball_def)
    moreover have "callbackFinalState s cs = (if ?A \<or> ?B then Inr None else Inr (Some (cb_Status f, final_summary s f)))"
      using Some ok [OF mem] by (cases ?A; cases ?B) (simp_all only: callbackFinalState_def Let_def option.simps if_True if_False simp_thms)
    ultimately have eq: "callbackFinalState s cs = (if run_complete cs f then Inr (Some (cb_Status f, final_summary s f)) else Inr None)"
      by simp
    show ?thesis
    proof (cases "run_complete cs f")
      case True
      then have "callbackFinalState s cs = Inr (Some (cb_Status f, final_summary s f))" using eq by simp
      moreover have "run_complete cs c \<longleftrightarrow> c = f" for c using True only by blast
      ultimately show ?thesis by auto
    next
      case False
      then have "callbackFinalState s cs = Inr None" and "\<And>c. \<not> run_complete cs c" using eq only by auto
      then show ?thesis by simp
    qed
  qed
  then show "callbackFinalState s cs = Inr (Some (st, sm)) \<longleftrightarrow> (\<exists>c. run_complete cs c \<and> st = cb_Status c \<and> sm = final_summary s c)"
    "\<exists>x. callbackFinalState s cs = Inr x" by auto
qed

section \<open>The deadline of a run\<close>

lemma kept_call: "task_kept k d0 d \<Longrightarrow> task_kept k d0 (d\<lparr>tb_traffic := tb_traffic d @ cs\<rparr>)"
  by (rule kept_frame, assumption) (simp_all add: kept_scopes)

lemma listed_callbacks_ok:
  assumes "task_kept k d0 d" and "cs = sort_key cb_Seq (sql_many (\<lambda>c. cb_ProjectID c = q \<and> cb_RunID c = n \<and> callback_live c) (tb_callbacks d))"
  shows "\<forall>c \<in> set cs. callback_ok c" and "distinct (map cb_Seq cs)"
proof -
  have inv: "table_ok cb_ID callback_same_key callback_ok (tb_callbacks d)" using assms(1) by (simp add: task_kept_def task_inv_def)
  show "\<forall>c \<in> set cs. callback_ok c" using inv assms(2) by (auto simp: sql_many_def table_ok_def)
  let ?rows = "sql_many (\<lambda>c. cb_ProjectID c = q \<and> cb_RunID c = n \<and> callback_live c) (tb_callbacks d)"
  have "distinct (t_rows (tb_callbacks d))"
    using inv by (auto simp: table_ok_def wf_rows_def strict_sorted_iff distinct_map)
  moreover have "inj_on cb_Seq (set ?rows)"
    using kept_callback_unique [OF assms(1)] by (intro inj_onI) (auto simp: sql_many_def cb_at_def)
  ultimately show "distinct (map cb_Seq cs)" by (simp add: assms(2) distinct_map sql_many_def)
qed

lemma ingest_open_decides:
  assumes "task_kept k d0 d"
  shows "\<exists>b. ingest_open s r st d = (Inr b, d)"
proof (cases "\<not> IsActiveTaskType (rn_TaskType r) \<and> (st = EngineJobStatusSuccess \<or> st = EngineJobStatusPartialSuccess)")
  case True
  obtain cs where cs: "cs = sort_key cb_Seq (sql_many (\<lambda>c. cb_ProjectID c = rn_ProjectID r \<and> cb_RunID c = rn_ID r \<and> callback_live c) (tb_callbacks d))"
    by blast
  obtain x where fx: "callbackFinalState s cs = Inr x" using final_state_spec(2) [OF listed_callbacks_ok [OF assms cs]] by blast
  have "repo_ListDiscoveryCallbacksForRunForUpdate (rn_ProjectID r) (rn_ID r) d = (Inr cs, d)"
    by (simp add: repo_ListDiscoveryCallbacksForRunForUpdate_def gets_def cs)
  then have "ingest_open s r st d = (Inr (cs \<noteq> [] \<and> x = None), d)"
    using True fx by (cases "cs = []") (simp_all add: ingest_open_def bindM_def ok_def liftM_def)
  then show ?thesis by blast
next
  case False
  then have "ingest_open s r st d = (Inr False, d)" by (auto simp: ingest_open_def ok_def)
  then show ?thesis by blast
qed

text \<open>What an engine may report.\<close>

definition engine_statuses :: "gostring list" where
  "engine_statuses = [EngineJobStatusRunning, EngineJobStatusSuccess, EngineJobStatusPartialSuccess, EngineJobStatusFailed, EngineJobStatusCancelled]"

lemma timeout_closes:
  assumes kept: "task_kept k d0 d" and r: "r \<in> set (t_rows (tb_runs d))" "rn_Status r = RunRunning" "rn_ID r < 2 ^ 64"
      "TrimSpace (rn_EngineJobID r) \<noteq> []" "\<not> IsActiveTaskType (rn_TaskType r)"
    and fits: "char_len actor \<le> 64" "meta_fits m"
    and en: "engineForTaskType s (rn_TaskType r) = Inr en" "en_Status en (tb_traffic d) (rn_EngineJobID r) = Inr st"
      "es_Status st \<in> set engine_statuses"
  shows "\<exists>r' d'. reconcileRun s r actor m True d = (Inr r', d') \<and> repo_GetTaskRun (rn_ProjectID r) (rn_ID r) d' = (Inr r', d') \<and>
    rn_Status r' \<in> set closing_statuses \<and> run_fixed r r'"
proof -
  let ?d1 = "d\<lparr>tb_traffic := tb_traffic d @ [CallStatus (rn_EngineJobID r)]\<rparr>"
  have kept1: "task_kept k d0 ?d1" by (rule kept_call [OF kept])
  have closes: "\<exists>r' d'. recordRunStatus s (rn_ProjectID r) (rn_ID r) actor w c sm m dx = (Inr r', d') \<and>
      repo_GetTaskRun (rn_ProjectID r) (rn_ID r) d' = (Inr r', d') \<and> rn_Status r' \<in> set closing_statuses \<and> run_fixed r r'"
    if "task_kept k d0 dx" "tb_runs dx = tb_runs d" "w \<in> set closing_statuses" for w c sm dx
    using record_closes [OF that(1) _ r(2,3) fits that(3)] that r(1) by (fastforce simp: closed_as_def)
  have words: "RunFailed \<in> set closing_statuses" "RunSuccess \<in> set closing_statuses" "RunPartial \<in> set closing_statuses" "RunCancelled \<in> set closing_statuses"
    by (simp_all add: closing_statuses_def)
  have status: "engine_Status en (rn_EngineJobID r) d = (Inr (Inr st), ?d1)" by (simp add: engine_Status_def call_engine_def en(2))
  obtain b where opened: "ingest_open s r (es_Status st) ?d1 = (Inr b, ?d1)" using ingest_open_decides [OF kept1] by blast
  have collect: "collect_results s en r st ?d1 = (Inr (es_ResultCount st, False), ?d1)" using r(5) by (simp add: collect_results_def ok_def)
  have run: "reconcileRun s r actor m True d = (if b
      then recordRunStatus s (rn_ProjectID r) (rn_ID r) actor RunFailed (rn_ResultCount r) ''engine completed but result ingestion did not finish before timeout'' m ?d1
      else close_by_status s en r actor m True st (es_ResultCount st) False ?d1)"
    using r(2,4) en(1) status opened collect by (simp add: reconcileRun_def bindM_def failIf_def ok_def liftM_def)
  have cancel: "engine_Cancel en (rn_EngineJobID r) ?d1 = (Inr (en_Cancel en (tb_traffic ?d1) (rn_EngineJobID r)), ?d1\<lparr>tb_traffic := tb_traffic ?d1 @ [CallCancel (rn_EngineJobID r)]\<rparr>)"
    by (simp add: engine_Cancel_def call_engine_def)
  have "\<exists>r' d'. close_by_status s en r actor m True st (es_ResultCount st) False ?d1 = (Inr r', d') \<and>
      repo_GetTaskRun (rn_ProjectID r) (rn_ID r) d' = (Inr r', d') \<and> rn_Status r' \<in> set closing_statuses \<and> run_fixed r r'"
  proof (cases "es_Status st = EngineJobStatusRunning")
    case True
    then show ?thesis
      using closes [OF kept_call [OF kept1] _ words(1)] cancel by (simp add: close_by_status_def Let_def time_out_run_def bindM_def)
  next
    case False
    then show ?thesis
      using closes [OF kept1 _ words(1)] closes [OF kept1 _ words(2)] closes [OF kept1 _ words(3)] closes [OF kept1 _ words(4)] en(3)
      by (auto simp: close_by_status_def Let_def recordRunStatus_def engine_statuses_def)
  qed
  then show ?thesis using run closes [OF kept1 _ words(1)] by auto
qed

end
