(* ===== verification/CallbackFacts.thy ===== *)
theory CallbackFacts
  imports TaskFacts
begin

text \<open>
  Receipt of callbacks: what an accepted callback has passed, and that a batch which is delivered
  again changes nothing.
\<close>

section \<open>Accepted callbacks\<close>

definition received :: "task_service \<Rightarrow> callback_input \<Rightarrow> callback_payload \<Rightarrow> bool" where
  "received s i p \<longleftrightarrow>
     hci_ProjectID i \<noteq> 0 \<and> hci_RunID i \<noteq> 0 \<and> hci_Seq i \<noteq> 0 \<and> hci_Seq i \<le> callbackMaxSeq \<and> hci_RawBody i \<noteq> [] \<and>
     length (hci_RawBody i) \<le> callbackMaxBodyBytes \<and>
     verifyCallbackSignature s (hci_Secret i) (hci_Timestamp i) (hci_Signature i) (hci_RawBody i) (tv_now s) = Inr () \<and>
     parseCallbackPayload s (hci_RawBody i) = Inr p \<and> cp_RunID p = hci_RunID i \<and> cp_Seq p = hci_Seq i"

definition enqueue_if_pending :: "task_service \<Rightarrow> discovery_callback \<Rightarrow> unit task_op" where
  "enqueue_if_pending s st =
     (if cb_IngestStatus st = IngestPending then enqueueStoredCallback s (cb_ProjectID st, cb_RunID st, cb_Seq st) else ok ())"

lemma handle_InrD:
  assumes "HandleCallback s i d = (Inr dup, d')"
  shows "\<exists>p st d1. received s i p \<and> task_runInTx s (receive_body s i p) d = (Inr (dup, st), d1) \<and> enqueue_if_pending s st d1 = (Inr (), d')"
  using assms unfolding HandleCallback_def recordCallbackReject_def received_def enqueue_if_pending_def
  by (auto simp: bindM_Inr_iff rejecting_Inr tryM_Inr_iff fail_Inr_iff ok_Inr_iff split: if_split_asm prod.split_asm)

lemma handle_InrI:
  assumes "received s i p" and "task_runInTx s (receive_body s i p) d = (Inr (dup, st), d1)" and "enqueue_if_pending s st d1 = (Inr (), d')"
  shows "HandleCallback s i d = (Inr dup, d')"
  using assms unfolding HandleCallback_def received_def enqueue_if_pending_def rejecting_def
  by (simp add: bindM_def tryM_def ok_def)

lemma receive_Inr:
  assumes "receive_body s i p d = (Inr (dup, st), d1)"
  shows "\<exists>r. repo_GetTaskRun (hci_ProjectID i) (hci_RunID i) d = (Inr r, d) \<and>
     (rn_CallbackSecretRef r = [] \<or> rn_CallbackSecretRef r = TrimSpace (hci_SecretRef i)) \<and>
     (\<not> dup \<longrightarrow> rn_Status r = RunRunning \<and> st = callback_candidate s i p r \<and>
        (\<exists>d2. repo_InsertDiscoveryCallback (tv_env s) st d = (Inr True, d2) \<and>
           repo_MarkRunCallbackReceived (tv_env s) (hci_ProjectID i) (hci_RunID i) ''engine'' 0 (tv_now s) d2 = (Inr (), d1)))"
proof -
  let ?get = "repo_GetDiscoveryCallback (hci_ProjectID i) (hci_RunID i) (hci_Seq i)"
  obtain r where r: "repo_GetTaskRun (hci_ProjectID i) (hci_RunID i) d = (Inr r, d)"
    using assms unfolding receive_body_def repo_GetTaskRunForUpdate_def bindM_pure_Inr [OF pure_task_reads(3)] by blast
  obtain g where g: "?get d = (g, d)" using pure_state [OF pure_task_reads(7)] by (metis surj_pair)
  have secret: "rn_CallbackSecretRef r = [] \<or> rn_CallbackSecretRef r = TrimSpace (hci_SecretRef i)"
    and rest: "(case g of Inr existing \<Rightarrow> known_callback (callbackPayloadHash s (hci_RawBody i)) existing
       | Inl e \<Rightarrow> bindM (failIf (e \<noteq> DErrNotFound) e) (\<lambda>_. store_new s i p r)) d = (Inr (dup, st), d1)"
    using assms r g by (auto simp: receive_body_def repo_GetTaskRunForUpdate_def bindM_def [of _ _ d] tryM_def failIf_apply split: if_split_asm)
  have "\<not> dup \<Longrightarrow> store_new s i p r d = (Inr (dup, st), d1)"
    using rest by (auto simp: known_callback_def bindM_Inr_iff failIf_Inr_iff ok_Inr_iff fail_Inr_iff split: sum.split_asm if_split_asm)
  then show ?thesis
    using r secret
    by (auto simp: store_new_def known_callback_def bindM_Inr_iff failIf_Inr_iff ok_Inr_iff fail_Inr_iff split: if_split_asm)
qed

section \<open>A second delivery\<close>

lemma update_again:
  assumes "sql_update chk p f g t = (Inr n, t')"
    and "\<And>c. p (g (f c)) = p c" and "\<And>c. f (g (f c)) = g (f c)" and "\<And>c. chk (g c) = chk c"
  shows "sql_update chk p f g t' = (Inr 0, t')"
proof -
  have t': "t_rows t' = map (upd_row p f g) (t_rows t)" and chk: "\<forall>r \<in> set (t_rows t). p r \<longrightarrow> chk (f r) = None"
    using assms(1) by (auto simp: sql_update_Inr)
  have fix_row: "f r = r" if "r \<in> set (t_rows t')" "p r" for r
    using that assms(2,3) t' by (auto simp: upd_row_def split: if_split_asm)
  have "chk (f r) = None" if r: "r \<in> set (t_rows t')" "p r" for r
  proof -
    obtain c where c: "c \<in> set (t_rows t)" "r = upd_row p f g c" using r(1) t' by auto
    then have "p c" using r(2) assms(2) by (auto simp: upd_row_def split: if_split_asm)
    then show ?thesis using chk c assms(3,4) by (auto simp: upd_row_def)
  qed
  moreover have "filter (\<lambda>r. p r \<and> f r \<noteq> r) (t_rows t') = []" using fix_row by (auto simp: filter_empty_conv)
  moreover have "map (upd_row p f g) (t_rows t') = t_rows t'" using fix_row by (intro upd_rows_unchanged)
  ultimately show ?thesis by (simp add: sql_update_Inr)
qed

lemma enqueue_again:
  assumes "enqueueStoredCallback s ref d = (Inr (), d')"
  shows "enqueueStoredCallback s ref d' = (Inr (), d')"
proof -
  obtain q n sq where ref: "ref = (q, n, sq)" by (cases ref)
  obtain f m where f: "tv_callbackEnqueue s = Some f" "f ref = None"
    and upd: "repo_MarkDiscoveryCallbackEnqueued (tv_env s) q n sq (tv_now s) d = (Inr m, d')"
    using assms ref by (auto simp: enqueueStoredCallback_def bindM_Inr_iff mapErr_Inr_iff ok_Inr_iff fail_Inr_iff split: option.split_asm)
  let ?p = "cb_at q n sq" and ?f = "\<lambda>c. c\<lparr>cb_EnqueuedAt := env_col (tv_env s) (tv_now s)\<rparr>" and ?g = "\<lambda>c. c\<lparr>cb_UpdatedAt := env_db_now (tv_env s)\<rparr>"
  obtain t' where t': "sql_update (callback_check (tv_env s)) ?p ?f ?g (tb_callbacks d) = (Inr m, t')" "d' = d\<lparr>tb_callbacks := t'\<rparr>"
    using upd by (auto simp: repo_MarkDiscoveryCallbackEnqueued_def update_callback_def on_callbacks_def mapErr_Inr_iff zoom_iff)
  have "sql_update (callback_check (tv_env s)) ?p ?f ?g t' = (Inr 0, t')"
    by (rule update_again [OF t'(1)]) (simp_all add: cb_at_def callback_live_def callback_check_def)
  then have "repo_MarkDiscoveryCallbackEnqueued (tv_env s) q n sq (tv_now s) d' = (Inr 0, d')"
    by (simp add: repo_MarkDiscoveryCallbackEnqueued_def update_callback_def on_callbacks_def mapErr_Inr_iff zoom_iff t'(2))
  then show ?thesis using f ref by (simp add: enqueueStoredCallback_def bindM_Inr_iff mapErr_Inr_iff ok_Inr_iff)
qed

lemma mark_run_frame: "mark_run e q n from f d = (res, d') \<Longrightarrow> tb_callbacks d' = tb_callbacks d"
  by (drule arg_cong [of _ _ snd]) (auto simp: mark_run_state)

lemma stored_once:
  assumes "receive_body s i p d = (Inr (False, st), d1)"
  shows "st = callback_candidate s i p (the (sql_one (\<lambda>r. rn_ID r = hci_RunID i \<and> (rn_ProjectID r = hci_ProjectID i \<and> run_live r)) (tb_runs d))) \<and>
    (\<exists>c \<in> set (t_rows (tb_callbacks d1)). cb_at (hci_ProjectID i) (hci_RunID i) (hci_Seq i) c \<and> cb_PayloadHash c = callbackPayloadHash s (hci_RawBody i))"
proof -
  obtain r d2 where r: "repo_GetTaskRun (hci_ProjectID i) (hci_RunID i) d = (Inr r, d)" and st: "st = callback_candidate s i p r"
    and ins: "repo_InsertDiscoveryCallback (tv_env s) st d = (Inr True, d2)"
    and mark: "repo_MarkRunCallbackReceived (tv_env s) (hci_ProjectID i) (hci_RunID i) ''engine'' 0 (tv_now s) d2 = (Inr (), d1)"
    using receive_Inr [OF assms] by auto
  let ?n = "t_next (tb_callbacks d)"
  have "st\<lparr>cb_ID := ?n\<rparr> \<in> set (t_rows (tb_callbacks d2))"
    using ins by (auto simp: repo_InsertDiscoveryCallback_def on_callbacks_def mapErr_def zoom_def sql_insert_Inr split: prod.split_asm sum.split_asm)
  moreover have "tb_callbacks d1 = tb_callbacks d2"
    using mark unfolding repo_MarkRunCallbackReceived_def by (rule mark_run_frame)
  ultimately show ?thesis
    using r st by (auto simp: run_read callback_candidate_def cb_at_def callback_live_def intro!: bexI [of _ "st\<lparr>cb_ID := ?n\<rparr>"])
qed

lemma read_callback:
  assumes "task_kept k d0 d" and "c \<in> set (t_rows (tb_callbacks d))" and "cb_at q n sq c"
  shows "repo_GetDiscoveryCallback q n sq d = (Inr c, d)"
proof (cases "sql_one (cb_at q n sq) (tb_callbacks d)")
  case None
  then show ?thesis using assms(2,3) by (simp add: sql_one_None)
next
  case (Some x)
  then have "x = c" using sql_one_mem [OF Some] kept_callback_unique [OF assms(1) _ assms(2) _ assms(3)] by simp
  then show ?thesis using Some by (simp add: repo_GetDiscoveryCallback_def asks_def)
qed

lemma deliver_again:
  assumes inv: "task_inv k d" and key: "tells_apart k" "env_key (tv_env s) = k" and first: "HandleCallback s i d = (Inr False, d')"
  shows "HandleCallback s i d' = (Inr True, d')"
proof -
  obtain p st d1 where rec: "received s i p" and tx: "task_runInTx s (receive_body s i p) d = (Inr (False, st), d1)"
    and enq: "enqueue_if_pending s st d1 = (Inr (), d')" using handle_InrD [OF first] by blast
  have body: "receive_body s i p d = (Inr (False, st), d1)" using tx by (simp add: tx_Inr)
  obtain r where r: "repo_GetTaskRun (hci_ProjectID i) (hci_RunID i) d = (Inr r, d)" "st = callback_candidate s i p r"
    and secret: "rn_CallbackSecretRef r = [] \<or> rn_CallbackSecretRef r = TrimSpace (hci_SecretRef i)"
    using receive_Inr [OF body] by auto
  have ok: "validateCallbackPayload p" "hci_Seq i \<noteq> 0" "hci_Seq i \<le> callbackMaxSeq" using rec parseCallbackPayload_valid by (auto simp: received_def)
  have "task_kept k d d" using inv by (simp add: task_kept_def)
  then have k1: "task_kept k d d1" by (rule keepsD [OF keeps_receive_body [OF ok] _ body])
  then have k11: "task_kept k d1 d1" by (simp add: task_kept_def)
  have stref: "cb_ProjectID st = hci_ProjectID i" "cb_RunID st = hci_RunID i" "cb_Seq st = hci_Seq i" "cb_IngestStatus st = IngestPending"
    using r(2) by (simp_all add: callback_candidate_def)
  then have enq': "enqueueStoredCallback s (hci_ProjectID i, hci_RunID i, hci_Seq i) d1 = (Inr (), d')" using enq by (simp add: enqueue_if_pending_def)
  have k2: "task_kept k d1 d'" "task_kept k d d'"
    by (rule keepsD [OF keeps_enqueueStoredCallback [OF key] k11 enq'], rule keepsD [OF keeps_enqueueStoredCallback [OF key] k1 enq'])
  obtain c where c: "c \<in> set (t_rows (tb_callbacks d'))" "cb_at (hci_ProjectID i) (hci_RunID i) (hci_Seq i) c"
    "cb_PayloadHash c = callbackPayloadHash s (hci_RawBody i)"
    using stored_once [OF body] k2(1) by (fastforce simp: task_kept_def task_after_def callback_follows_def cb_at_def callback_live_def)
  have get: "repo_GetDiscoveryCallback (hci_ProjectID i) (hci_RunID i) (hci_Seq i) d' = (Inr c, d')" by (rule read_callback [OF k2(1) c(1,2)])
  obtain r' where r': "r' \<in> set (t_rows (tb_runs d'))" "run_fixed r r'"
    using k2(2) run_read_mem [OF r(1)] by (auto simp: task_kept_def task_after_def run_follows_def)
  then have run: "repo_GetTaskRun (hci_ProjectID i) (hci_RunID i) d' = (Inr r', d')"
    using read_stored [OF k2(1) r'(1)] run_read_mem [OF r(1)] by (simp add: run_fixed_def)
  have "receive_body s i p d' = (Inr (True, c), d')"
    using run get secret r'(2) c(3)
    by (auto simp: receive_body_def repo_GetTaskRunForUpdate_def bindM_def tryM_def failIf_apply known_callback_def ok_def run_fixed_def)
  moreover have "enqueue_if_pending s c d' = (Inr (), d')"
    using enqueue_again [OF enq'] c(2) by (simp add: enqueue_if_pending_def cb_at_def ok_def)
  ultimately show ?thesis using handle_InrI [OF rec] by (simp add: tx_Inr)
qed

end
