(* ===== verification/TaskScenario.thy ===== *)
theory TaskScenario
  imports CallbackFacts DiscoveryProperties
begin

text \<open>
  A run of the task operations that the witnesses of the task properties evaluate: a web probe of an
  authorised address, approved by a second person, and a DNS task; both are created, started and
  dispatched, and the engine reports a batch for the DNS task. The engine is busy at the first call.
\<close>

section \<open>The parts around the service\<close>

definition scan_busy :: engine_error where
  "scan_busy = \<lparr>ee_Text = ''busy'', ee_Rejected = False, ee_Status = Some 503, ee_Cause = None\<rparr>"

definition scan_engine :: engine where
  "scan_engine =
     \<lparr>en_projects = None, en_resolver = False,
      en_Dispatch = (\<lambda>calls job. if calls = [] then Inl scan_busy else Inr ''job-1''),
      en_Cancel = (\<lambda>calls job. Inr ()),
      en_Status = (\<lambda>calls job. Inr \<lparr>es_Status = EngineJobStatusRunning, es_Progress = 10, es_ResultCount = 0, es_ErrorSummary = []\<rparr>),
      en_Results = (\<lambda>calls run. Inr \<lparr>ps_FactCount = 0, ps_TargetCount = 1, ps_TotalTargets = 1, ps_FinishedTargets = 1\<rparr>)\<rparr>"

definition scan_payload :: callback_payload where
  "scan_payload =
     \<lparr>cp_StageProgress = None, cp_SchemaVersion = ''1.0'', cp_RunID = 1, cp_Seq = 1, cp_Phase = PhaseCompleted, cp_Status = RunSuccess,
      cp_ResultCount = 0, cp_ObservedAt = epoch + 1, cp_Assets = Some [], cp_Relations = Some [], cp_Exposures = Some [],
      cp_Organizations = [], cp_Filings = [], cp_ProviderErrors = Some [], cp_ErrorSummary = []\<rparr>"

definition scan_service :: "time \<Rightarrow> task_service" where
  "scan_service now =
     \<lparr>tv_base = demo_service now, tv_policy = \<lparr>ap_Enabled = True, ap_RequireApproval = True, ap_RequireOwnership = False\<rparr>, tv_version = 0,
      tv_router = Some \<lparr>er_passive = Some scan_engine, er_active = Some scan_engine\<rparr>, tv_engine = None, tv_ownership = None,
      tv_secretRef = ''engine-1'', tv_enqueue = Some (\<lambda>_. None), tv_inherited = (\<lambda>_ _ _ _ _. Inr ()), tv_lifecycle = (\<lambda>_ _ _ _ _. Inr ()),
      tv_callbackEnqueue = Some (\<lambda>_. None), tv_hmac = (\<lambda>key text. take 2 key @ take 2 text), tv_sha256 = take 4,
      tv_decode = (\<lambda>strict raw. Some scan_payload), tv_errorText = (\<lambda>e. ''refused'')\<rparr>"

lemma scan_server: "task_service_ok ascii_key (scan_service now)"
proof -
  have "distinct (map ascii_key (remdups status_words))" by code_simp
  then have "tells_apart ascii_key" by (simp add: tells_apart_def distinct_map)
  then show ?thesis using demo_server [of now] by (simp add: task_service_ok_def task_server_ok_def scan_service_def demo_service_def)
qed

section \<open>The inputs\<close>

definition scan_template :: "gostring \<Rightarrow> gostring \<Rightarrow> create_template_input" where
  "scan_template ty config =
     \<lparr>cti_TenantID = [], cti_OrgID = [], cti_ProjectID = 1, cti_ScopeID = 1, cti_Name = ''nightly'', cti_TaskType = ty,
      cti_Config = config, cti_Schedule = [], cti_Enabled = True, cti_TimeoutSeconds = 60, cti_RateLimit = 10, cti_Concurrency = 5,
      cti_RetryLimit = 2, cti_ActorID = ''alice'', cti_Meta = demo_meta\<rparr>"

definition dns_template :: create_template_input where
  "dns_template = scan_template TaskTypeDNS ''{\"targets\":[{\"type\":\"domain\",\"value\":\"www.example.com\"}]}''"

definition web_template :: create_template_input where
  "web_template = scan_template TaskTypeWebProbe ''{\"targets\":[{\"type\":\"url\",\"value\":\"https://www.example.com/\"}]}''"

definition scan_run :: create_run_input where
  "scan_run = \<lparr>cri_TemplateID = 1, cri_ProjectID = 1, cri_ActorID = ''alice'', cri_ApprovedBy = ''bob'', cri_ApprovalReason = ''window'',
     cri_Meta = demo_meta\<rparr>"

definition scan_dispatch :: dispatch_input where
  "scan_dispatch = \<lparr>dpi_ProjectID = 1, dpi_RunID = 1, dpi_ActorID = ''worker'', dpi_CallbackURL = ''https://asm/cb'', dpi_Meta = demo_meta\<rparr>"

definition scan_body :: gostring where
  "scan_body = ''{\"schema_version\":\"1.0\",\"run_id\":1,\"seq\":1,\"phase\":\"completed\",\"status\":\"success\",\"result_count\":0,'' @
     ''\"observed_at\":\"1970-01-01T00:00:00Z\",\"assets\":[],\"relations\":[],\"exposures\":[],\"provider_errors\":[],\"error_summary\":\"\"}''"

definition scan_callback :: callback_input where
  "scan_callback = \<lparr>hci_ProjectID = 1, hci_RunID = 1, hci_Seq = 1, hci_SecretRef = ''engine-1'', hci_Timestamp = ''40'',
     hci_Signature = ''sha256=73653430'', hci_RawBody = scan_body, hci_Secret = ''secret''\<rparr>"

section \<open>The states\<close>

text \<open>The scope, created by a service without a database handle, which writes no audit rows.\<close>

definition scan_scope :: create_scope_input where
  "scan_scope = demo_scope\<lparr>csi_Targets :=
     [demo_entry TargetTypeDomain MatchModeInclude CoverageModeSubdomains ''example.com'',
      demo_entry TargetTypeIP MatchModeInclude [] ''8.8.8.8'']\<rparr>"

definition scan_entry :: "nat \<Rightarrow> gostring \<Rightarrow> gostring \<Rightarrow> gostring \<Rightarrow> scope_target" where
  "scan_entry n ty cov v =
     \<lparr>st_URLRule = None, st_ID = n, st_TenantID = [], st_OrgID = [], st_ProjectID = 1, st_ScopeID = 1, st_TargetType = ty,
      st_MatchMode = MatchModeInclude, st_CoverageMode = cov, st_Value = v, st_CreatedAt = 5, st_UpdatedAt = 5,
      st_CreatedBy = ''alice'', st_UpdatedBy = ''alice'', st_DeletedAt = epoch\<rparr>"

definition scan_scopes :: discovery_db where
  "scan_scopes =
     \<lparr>dd_projects = [1],
      dd_scopes = \<lparr>t_rows =
        [\<lparr>sc_ID = 1, sc_TenantID = [], sc_OrgID = [], sc_ProjectID = 1, sc_Name = ''edge'', sc_Status = StatusActive,
          sc_AuthorizedBy = ''ciso'', sc_ValidFrom = 10, sc_ValidUntil = 90, sc_IsDefault = True, sc_CreatedAt = 5, sc_UpdatedAt = 5,
          sc_CreatedBy = ''alice'', sc_UpdatedBy = ''alice'', sc_DeletedAt = epoch, sc_Targets = []\<rparr>], t_next = 2\<rparr>,
      dd_targets = \<lparr>t_rows =
        [scan_entry 1 TargetTypeDomain CoverageModeSubdomains ''example.com'', scan_entry 2 TargetTypeIP CoverageModeExact ''8.8.8.8''],
        t_next = 3\<rparr>,
      dd_audit = empty_table\<rparr>"

lemma scan_scopes_created: "snd (CreateScope (demo_service 5\<lparr>ds_db := False\<rparr>) scan_scope (empty_discovery_db [1])) = scan_scopes"
  by code_simp

definition scan_start :: task_db where
  "scan_start = \<lparr>tb_scopes = scan_scopes, tb_templates = empty_table, tb_runs = empty_table, tb_callbacks = empty_table,
      tb_versions = [], tb_bindings = [], tb_network = [], tb_traffic = [], tb_queue = []\<rparr>"

definition scan_templated :: "create_template_input \<Rightarrow> task_db" where
  "scan_templated t = snd (CreateTaskTemplate (scan_service 20) t scan_start)"

definition scan_pending :: "create_template_input \<Rightarrow> task_db" where
  "scan_pending t = snd (CreateTaskRun (scan_service 21) scan_run (scan_templated t))"

definition scan_running :: "create_template_input \<Rightarrow> task_db" where
  "scan_running t = snd (DispatchTaskRun (scan_service 22) scan_dispatch (scan_pending t))"

abbreviation scan_late :: task_service where "scan_late \<equiv> scan_service (epoch + 100 * second)"
abbreviation scan_later :: task_service where "scan_later \<equiv> scan_service (epoch + 101 * second)"

definition scan_received :: task_db where
  "scan_received = snd (HandleCallback scan_late scan_callback (scan_running dns_template))"

definition scan_claimed :: task_db where
  "scan_claimed = snd (ClaimDiscoveryCallbackIngest scan_late 1 1 1 scan_received)"

lemma scan_start_reachable: "task_reachable ascii_key scan_start"
proof -
  have "server_ok ascii_key (ds_env (demo_service 5\<lparr>ds_db := False\<rparr>))" using demo_server [of 5] by simp
  from scope_step.create [OF this, of "empty_discovery_db [1]" scan_scope]
  have "scope_step ascii_key (tb_scopes (empty_task_db [1] [] [])) scan_scopes" by (simp only: scan_scopes_created empty_task_db_def task_db.simps)
  from task_reachable.step [OF task_reachable.init task_step.scopes [OF this]] show ?thesis
    by (simp add: scan_start_def empty_task_db_def)
qed

lemma scan_reachable:
  "task_reachable ascii_key (scan_templated t)" "task_reachable ascii_key (scan_pending t)" "task_reachable ascii_key (scan_running t)"
  "task_reachable ascii_key scan_received" "task_reachable ascii_key scan_claimed"
proof -
  show t: "task_reachable ascii_key (scan_templated t)" for t
    unfolding scan_templated_def by (rule task_reachable.step [OF scan_start_reachable task_step.create_template [OF scan_server]])
  show p: "task_reachable ascii_key (scan_pending t)" for t
    unfolding scan_pending_def by (rule task_reachable.step [OF t task_step.create_run [OF scan_server]])
  show r: "task_reachable ascii_key (scan_running t)" for t
    unfolding scan_running_def by (rule task_reachable.step [OF p task_step.dispatch [OF scan_server]])
  show c: "task_reachable ascii_key scan_received"
    unfolding scan_received_def by (rule task_reachable.step [OF r task_step.callback [OF scan_server]])
  show "task_reachable ascii_key scan_claimed"
    unfolding scan_claimed_def by (rule task_reachable.step [OF c task_step.claim [OF scan_server]])
qed

lemmas scan_invs = scan_reachable [THEN task_reachable_inv]

section \<open>What happens\<close>

lemma scan_approved:
  "case CreateTaskRun (scan_service 21) scan_run (scan_templated web_template) of
     (Inl _, _) \<Rightarrow> False | (Inr r, _) \<Rightarrow> IsActiveTaskType (rn_TaskType r)"
  by code_simp

lemma scan_created: "t_rows (tb_runs (scan_pending dns_template)) \<noteq> []"
  by code_simp

lemma scan_quiet: "tb_traffic (scan_pending web_template) = []"
  by code_simp

lemma scan_sent: "case tb_traffic (scan_running web_template) of
   [] \<Rightarrow> False | x # xs \<Rightarrow> length xs = 1 \<and> (case x of CallDispatch job \<Rightarrow> sj_JobType job = TaskTypeWebProbe | _ \<Rightarrow> False)"
  by code_simp

lemma scan_open: "case t_rows (tb_runs (scan_running dns_template)) of
   [r] \<Rightarrow> rn_ID r = 1 \<and> rn_Status r = RunRunning \<and> rn_EngineJobID r = ''job-1'' \<and> rn_TaskType r = TaskTypeDNS | _ \<Rightarrow> False"
  by code_simp

lemma scan_started: "is_ok (fst (DispatchTaskRun (scan_service 22) scan_dispatch (scan_pending dns_template)))"
  by code_simp

lemma scan_delivered: "case HandleCallback scan_late scan_callback (scan_running dns_template) of
   (Inr dup, d) \<Rightarrow> \<not> dup \<and> (case t_rows (tb_runs d) of [r] \<Rightarrow> rn_Status r = RunRunning \<and> rn_ID r = 1 \<and>
       rn_LastCallbackAt r = epoch + 100 * second \<and> rn_UpdatedBy r = ''engine'' | _ \<Rightarrow> False) \<and>
     map (\<lambda>c. (cb_RunID c, cb_IngestStatus c)) (t_rows (tb_callbacks d)) = [(1, IngestPending)] | _ \<Rightarrow> False"
  by code_simp

lemma scan_batch:
  "\<exists>r c. t_rows (tb_runs scan_received) = [r] \<and> rn_Status r = RunRunning \<and> rn_ID r = 1 \<and> t_rows (tb_callbacks scan_received) = [c] \<and>
     cb_RunID c = 1 \<and> cb_IngestStatus c = IngestPending"
  using scan_delivered by (auto simp: scan_received_def split: prod.split_asm sum.split_asm list.split_asm)

lemma scan_stamped:
  "\<exists>r. t_rows (tb_runs scan_received) = [r] \<and> rn_ID r = 1 \<and> rn_LastCallbackAt r = epoch + 100 * second \<and> rn_UpdatedBy r = ''engine''"
  using scan_delivered by (auto simp: scan_received_def split: prod.split_asm sum.split_asm list.split_asm)

lemma scan_completed: "case CompleteDiscoveryCallbackIngest scan_later 1 1 1 scan_claimed of
   (Inr res, d) \<Rightarrow> cr_Processed res \<and> cr_Finalized res | _ \<Rightarrow> False"
  by code_simp

end
