(* ===== verification/TaskProperties.thy ===== *)
theory TaskProperties
  imports TaskScenario
begin

text \<open>
  The properties of task templates and task runs: what reaches an engine, how runs evolve, the result
  count of a run, the deadline, approval of active runs, and the integrity of the tables.
\<close>

section \<open>Dispatch\<close>

fun is_dispatch :: "engine_call \<Rightarrow> bool" where
  "is_dispatch (CallDispatch job) = True"
| "is_dispatch _ = False"

lemma sent_calls:
  assumes "sent tr job n d"
  shows "\<exists>calls. tb_traffic d = tr @ calls \<and> length (filter is_dispatch calls) \<le> n \<and> (\<forall>j. CallDispatch j \<in> set calls \<longrightarrow> j = job)"
proof -
  obtain calls where calls: "tb_traffic d = tr @ calls" "\<forall>x \<in> set calls. x = CallDispatch job \<or> (\<exists>j. x = CallCancel j)"
    "length (filter (\<lambda>x. x = CallDispatch job) calls) \<le> n" using assms unfolding sent_def by blast
  have "filter is_dispatch calls = filter (\<lambda>x. x = CallDispatch job) calls" by (rule filter_cong) (use calls(2) in auto)
  then show ?thesis using calls by (intro exI [of _ calls]) auto
qed

text \<open>C2: whatever state the platform is in and whatever the engines answer, dispatching a run calls an engine only with a job
  of that run, which is pending, and at most retry limit + 1 times, hence at most 101 times. Every target of the
  job is allowed by the scope at that moment; a job that probes actively needs the policy to be enabled, respects the
  caps on rate and concurrency, has proofs of ownership where the policy asks for them, and aims at no address
  known as the edge of a content delivery network.\<close>

theorem dispatch_only_authorised:
  assumes "task_reachable k d"
  shows "\<exists>calls. tb_traffic (snd (DispatchTaskRun s i d)) = tb_traffic d @ calls \<and> length (filter is_dispatch calls) \<le> 101 \<and>
    (\<forall>job. CallDispatch job \<in> set calls \<longrightarrow> job_safe s d job \<and>
       (\<exists>r \<in> set (t_rows (tb_runs d)). rn_ID r = dpi_RunID i \<and> rn_ProjectID r = dpi_ProjectID i \<and> rn_Status r = RunPending \<and>
          sj_RunID job = rn_ID r \<and> sj_ProjectID job = rn_ProjectID r \<and> sj_JobType job = rn_TaskType r \<and>
          int (length (filter is_dispatch calls)) \<le> rn_RetryLimit r + 1))"
proof (cases "tb_traffic (snd (DispatchTaskRun s i d)) = tb_traffic d")
  case True
  then show ?thesis by (intro exI [of _ "[]"]) simp
next
  case False
  then obtain job n where allows: "run_allows s i d job n" and sent: "sent (tb_traffic d) job n (snd (DispatchTaskRun s i d))"
    using dispatch_sends [of s i d] by blast
  obtain r where r: "r \<in> set (t_rows (tb_runs d))" "rn_ID r = dpi_RunID i" "rn_ProjectID r = dpi_ProjectID i" "rn_Status r = RunPending"
    "sj_RunID job = rn_ID r" "sj_ProjectID job = rn_ProjectID r" "sj_JobType job = rn_TaskType r" "n = nat (rn_RetryLimit r + 1)"
    and safe: "job_safe s d job" using allows by (auto simp: run_allows_def)
  have "run_ok r" using task_reachable_inv [OF assms] r(1) by (simp add: task_inv_def table_ok_def)
  then have "0 \<le> rn_RetryLimit r" "rn_RetryLimit r \<le> 100" by (simp_all add: run_ok_def limits_ok_def)
  moreover obtain calls where "tb_traffic (snd (DispatchTaskRun s i d)) = tb_traffic d @ calls"
    "length (filter is_dispatch calls) \<le> n" "\<forall>j. CallDispatch j \<in> set calls \<longrightarrow> j = job" using sent_calls [OF sent] by blast
  ultimately show ?thesis using r safe by (intro exI [of _ calls]) auto
qed

theorem dispatch_only_authorised_witness:
  "\<exists>job. CallDispatch job \<in> set (tb_traffic (scan_running web_template)) \<and> job_safe (scan_service 22) (scan_pending web_template) job \<and>
     sj_JobType job = TaskTypeWebProbe"
proof -
  obtain calls where calls: "tb_traffic (scan_running web_template) = tb_traffic (scan_pending web_template) @ calls"
    "\<And>job. CallDispatch job \<in> set calls \<Longrightarrow> job_safe (scan_service 22) (scan_pending web_template) job"
    using dispatch_only_authorised [OF scan_reachable(2) [of web_template], of "scan_service 22" scan_dispatch]
    unfolding scan_running_def by blast
  then show ?thesis using scan_sent scan_quiet by (auto split: list.split_asm engine_call.split_asm)
qed

definition stored_run :: "dispatch_input \<Rightarrow> task_run \<Rightarrow> task_db \<Rightarrow> bool" where
  "stored_run i r d \<longleftrightarrow> repo_GetTaskRun (dpi_ProjectID i) (dpi_RunID i) d = (Inr r, d)"

lemma audited_run_stored:
  "recordTaskAudit s act b a actor m d = (Inr (), d') \<Longrightarrow> repo_GetTaskRun q n d = (Inr r, d'') \<Longrightarrow> repo_GetTaskRun q n d' = (Inr r, d')"
  by (drule audit_keeps_runs) (simp add: run_read)

lemma recorded_running:
  assumes kept: "task_kept k d0 d" and run: "recordRunDispatched s i j d = (Inr r, d')"
  shows "stored_run i r d' \<and> rn_Status r = RunRunning"
proof -
  let ?q = "dpi_ProjectID i" and ?n = "dpi_RunID i"
  obtain b where b: "repo_GetTaskRun ?q ?n d = (Inr b, d)"
    and rest: "(if rn_Status b = RunRunning \<and> rn_EngineJobID b = j then ok b
       else bindM (failIf (rn_Status b \<noteq> RunPending) DErrInvalidRunTransition) (\<lambda>_.
         bindM (repo_MarkRunDispatched (tv_env s) ?q ?n (dpi_ActorID i) (rn_Status b) j (tv_now s)) (\<lambda>_.
         bindM (repo_GetTaskRun ?q ?n) (\<lambda>after.
         bindM (recordTaskAudit s ActionRunStatusChange (Some (ERun b)) (Some (ERun after)) (dpi_ActorID i) (dpi_Meta i)) (\<lambda>_.
         ok after))))) d = (Inr r, d')"
    using run unfolding recordRunDispatched_def tx_Inr bindM_pure_Inr [OF pure_task_reads(3)] by blast
  show ?thesis
  proof (cases "rn_Status b = RunRunning \<and> rn_EngineJobID b = j")
    case True
    then show ?thesis using rest b by (simp add: ok_Inr_iff stored_run_def)
  next
    case False
    then obtain d1 d2 where mark: "repo_MarkRunDispatched (tv_env s) ?q ?n (dpi_ActorID i) (rn_Status b) j (tv_now s) d = (Inr (), d1)"
      and after: "repo_GetTaskRun ?q ?n d1 = (Inr r, d2)"
      and audit: "recordTaskAudit s ActionRunStatusChange (Some (ERun b)) (Some (ERun r)) (dpi_ActorID i) (dpi_Meta i) d2 = (Inr (), d')"
      using rest by (auto simp: bindM_Inr_iff failIf_Inr_iff ok_Inr_iff)
    from mark_run_read [OF kept_runs_wf [OF kept] b mark [unfolded repo_MarkRunDispatched_def] after]
    have "rn_Status r = RunRunning" by simp
    moreover have "d2 = d1" using run_read_mem [OF after] by simp
    ultimately show ?thesis using audited_run_stored [OF audit] after by (simp add: stored_run_def)
  qed
qed

lemma recorded_failed:
  assumes kept: "task_kept k d0 d" and run: "recordRunDispatchFailed s i sm d = (Inr r, d')"
  shows "stored_run i r d' \<and> rn_Status r = RunFailed"
proof -
  let ?q = "dpi_ProjectID i" and ?n = "dpi_RunID i"
  obtain b d1 d2 where b: "repo_GetTaskRun ?q ?n d = (Inr b, d)"
    and mark: "repo_MarkRunDispatchFailed (tv_env s) ?q ?n (dpi_ActorID i) (rn_Status b) sm (tv_now s) d = (Inr (), d1)"
    and after: "repo_GetTaskRun ?q ?n d1 = (Inr r, d2)"
    and audit: "recordTaskAudit s ActionRunStatusChange (Some (ERun b)) (Some (ERun r)) (dpi_ActorID i) (dpi_Meta i) d2 = (Inr (), d')"
    using run unfolding recordRunDispatchFailed_def tx_Inr bindM_pure_Inr [OF pure_task_reads(3)] bindM_Inr_iff [of "repo_MarkRunDispatchFailed _ _ _ _ _ _ _"]
    by (auto simp: bindM_Inr_iff failIf_Inr_iff ok_Inr_iff)
  from mark_run_read [OF kept_runs_wf [OF kept] b mark [unfolded repo_MarkRunDispatchFailed_def] after]
  have "rn_Status r = RunFailed" by simp
  moreover have "d2 = d1" using run_read_mem [OF after] by simp
  ultimately show ?thesis using audited_run_stored [OF audit] after by (simp add: stored_run_def)
qed

lemma settled_running:
  assumes kept: "task_kept k d0 d" and run: "settle_dispatch s en i j d = (Inr r, d')"
  shows "stored_run i r d' \<and> rn_Status r = RunRunning"
proof -
  obtain x d1 where rec: "recordRunDispatched s i j d = (x, d1)" by (cases "recordRunDispatched s i j d")
  show ?thesis
  proof (cases x)
    case (Inr y)
    then have "y = r" "d1 = d'" using run rec by (simp_all add: settle_dispatch_def bindM_def tryM_def ok_def)
    then show ?thesis using recorded_running [OF kept] rec Inr by simp
  next
    case (Inl e)
    obtain z where z: "repo_GetTaskRun (dpi_ProjectID i) (dpi_RunID i) d1 = (z, d1)" using pure_state [OF pure_task_reads(3)] by (metis surj_pair)
    show ?thesis
      using run rec Inl z
      by (cases z) (auto simp: settle_dispatch_def bindM_def tryM_def ok_def fail_def engine_Cancel_def call_engine_def stored_run_def split: if_split_asm)
  qed
qed

lemma attempts_outcome:
  "task_kept k d0 d \<Longrightarrow> dispatch_attempts s en job i n err d = (Inr res, d') \<Longrightarrow>
     task_kept k d0 d' \<and> (\<forall>r. res = Inr r \<longrightarrow> stored_run i r d' \<and> rn_Status r = RunRunning) \<and> (n \<noteq> 0 \<or> err \<noteq> None \<longrightarrow> res \<noteq> Inl None)"
proof (induction n arbitrary: d err)
  case 0
  then show ?case by (simp add: ok_Inr_iff)
next
  case (Suc n)
  have keep: "task_kept k d0 d'" by (rule keepsD [OF keeps_dispatch_attempts Suc.prems])
  obtain m d1 where inc: "repo_IncrementRunAttempt (tv_env s) (dpi_ProjectID i) (dpi_RunID i) (dpi_ActorID i) d = (Inr m, d1)"
    and rest: "(case en_Dispatch en (tb_traffic d1) job of
       Inr engineJobID \<Rightarrow> bindM (settle_dispatch s en i engineJobID) (\<lambda>run. ok (Inr run))
     | Inl err \<Rightarrow> if dispatchErrorIsPermanent err then ok (Inl (Some err)) else dispatch_attempts s en job i n (Some err))
       (d1\<lparr>tb_traffic := tb_traffic d1 @ [CallDispatch job]\<rparr>) = (Inr res, d')"
    using Suc.prems(2) by (auto simp: bindM_Inr_iff engine_Dispatch_def call_engine_def)
  have "task_kept k d0 d1" by (rule keepsD [OF keeps_IncrementRunAttempt Suc.prems(1) inc])
  then have kept2: "task_kept k d0 (d1\<lparr>tb_traffic := tb_traffic d1 @ [CallDispatch job]\<rparr>)" by (rule kept_call)
  show ?case
  proof (cases "en_Dispatch en (tb_traffic d1) job")
    case (Inr j)
    then show ?thesis using rest keep settled_running [OF kept2] by (auto simp: bindM_Inr_iff ok_Inr_iff)
  next
    case (Inl e)
    show ?thesis
    proof (cases "dispatchErrorIsPermanent e")
      case True
      then show ?thesis using rest keep Inl by (auto simp: ok_Inr_iff)
    next
      case False
      then show ?thesis using Suc.IH [OF kept2, of "Some e"] rest Inl by auto
    qed
  qed
qed

text \<open>C17: a dispatch that returns a run has settled it: without an error the stored run is running, and with an error of the engine
  it is stored as failed. It is never left pending.\<close>

theorem dispatch_settles_run:
  assumes "task_reachable k d" and "DispatchTaskRun s i d = (Inr (run, err), d')"
  shows "repo_GetTaskRun (dpi_ProjectID i) (dpi_RunID i) d' = (Inr run, d') \<and> rn_Status run = (if err = None then RunRunning else RunFailed)"
proof -
  have kept: "task_kept k d d" using task_reachable_inv [OF assms(1)] by (simp add: task_kept_def)
  obtain r where r: "repo_GetTaskRun (dpi_ProjectID i) (dpi_RunID i) d = (Inr r, d)"
    using assms(2) unfolding DispatchTaskRun_def by (auto simp: bindM_Inr_iff failIf_Inr_iff dest: run_read_mem)
  show ?thesis
  proof (cases "rn_Status r = RunRunning \<and> TrimSpace (rn_EngineJobID r) \<noteq> []")
    case True
    then show ?thesis using assms(2) r by (auto simp: DispatchTaskRun_def bindM_def failIf_def ok_def fail_def split: if_split_asm)
  next
    case False
    obtain plan en res d0 d1 where plan0: "BuildDispatchPlan s (dpi_ProjectID i) (dpi_RunID i) (dpi_ActorID i) d = (Inr plan, d0)"
      and att0: "dispatch_attempts s en (scanJobFromDispatchPlan plan (dpi_CallbackURL i)) i (nat (pl_RetryLimit plan + 1)) None d0 = (Inr res, d1)"
      and fin: "(case res of Inr run \<Rightarrow> ok (run, None)
       | Inl lastErr \<Rightarrow> bindM (recordRunDispatchFailed s i (sanitizeEngineErrorSummary lastErr ''engine dispatch failed'')) (\<lambda>run.
           ok (run, lastErr))) d1 = (Inr (run, err), d')"
      using assms(2) r False unfolding DispatchTaskRun_def bindM_Inr_iff failIf_Inr_iff liftM_Inr_iff if_not_P [OF False]
      by (force simp: bindM_Inr_iff failIf_Inr_iff liftM_Inr_iff)
    have plan: "BuildDispatchPlan s (dpi_ProjectID i) (dpi_RunID i) (dpi_ActorID i) d = (Inr plan, d)"
      and att: "dispatch_attempts s en (scanJobFromDispatchPlan plan (dpi_CallbackURL i)) i (nat (pl_RetryLimit plan + 1)) None d = (Inr res, d1)"
      using plan0 att0 pure_state [OF pure_BuildDispatchPlan plan0] by simp_all
    obtain x where "x \<in> set (t_rows (tb_runs d))" "pl_RetryLimit plan = rn_RetryLimit x" using plan_safe [OF plan] by blast
    then have "0 \<le> pl_RetryLimit plan" using kept_run_ok [OF kept] by (simp add: run_ok_def limits_ok_def)
    then have "task_kept k d d1 \<and> (\<forall>r. res = Inr r \<longrightarrow> stored_run i r d1 \<and> rn_Status r = RunRunning) \<and> res \<noteq> Inl None"
      using attempts_outcome [OF kept att] by simp
    then show ?thesis
      using fin recorded_failed [of k d d1] by (cases res) (auto simp: stored_run_def bindM_Inr_iff ok_Inr_iff)
  qed
qed

theorem dispatch_settles_run_witness:
  "\<exists>run err d'. DispatchTaskRun (scan_service 22) scan_dispatch (scan_pending dns_template) = (Inr (run, err), d') \<and> rn_Status run \<noteq> RunPending"
proof -
  obtain run err d' where run: "DispatchTaskRun (scan_service 22) scan_dispatch (scan_pending dns_template) = (Inr (run, err), d')"
    using scan_started by (cases "DispatchTaskRun (scan_service 22) scan_dispatch (scan_pending dns_template)") (auto simp: is_ok_iff)
  from dispatch_settles_run [OF scan_reachable(2) run] have "rn_Status run \<noteq> RunPending" by auto
  with run show ?thesis by blast
qed

section \<open>Evolution\<close>

text \<open>C4: whatever sequence of operations follows a reachable state, every run is still there with its identity, limits,
  approval and secret unchanged, its status has moved along the diagram only, and a run that had ended keeps its status,
  result count, summary, end time and engine job; every stored batch keeps its content, and a processed one stays
  processed; what was sent to engines is never forgotten.\<close>

theorem runs_evolve:
  assumes "task_reachable k d" and "(task_step k)\<^sup>*\<^sup>* d d'"
  shows "(\<forall>r \<in> set (t_rows (tb_runs d)). \<exists>r' \<in> set (t_rows (tb_runs d')). run_fixed r r' \<and> run_edge\<^sup>*\<^sup>* (rn_Status r) (rn_Status r') \<and>
      (rn_Status r \<notin> {RunPending, RunRunning} \<longrightarrow> same_outcome r r')) \<and>
    (\<forall>c \<in> set (t_rows (tb_callbacks d)). \<exists>c' \<in> set (t_rows (tb_callbacks d')). callback_follows c c') \<and>
    prefix (tb_traffic d) (tb_traffic d')"
  using task_steps_after [OF assms(2) task_reachable_inv [OF assms(1)]]
  by (fastforce simp: task_after_def run_follows_def status_leads_def terminal_status_def)

theorem runs_evolve_witness:
  "\<exists>r \<in> set (t_rows (tb_runs (scan_pending dns_template))). \<exists>r' \<in> set (t_rows (tb_runs scan_received)). run_fixed r r' \<and>
     run_edge\<^sup>*\<^sup>* (rn_Status r) (rn_Status r') \<and> rn_Status r' = RunRunning"
proof -
  have step: "task_step ascii_key (scan_pending dns_template) (scan_running dns_template)" "task_step ascii_key (scan_running dns_template) scan_received"
    unfolding scan_running_def scan_received_def by (rule task_step.dispatch task_step.callback, rule scan_server)+
  have all: "\<forall>r' \<in> set (t_rows (tb_runs scan_received)). rn_Status r' = RunRunning"
    using scan_batch by auto
  obtain r where r: "r \<in> set (t_rows (tb_runs (scan_pending dns_template)))" using scan_created by (meson last_in_set)
  have "(task_step ascii_key)\<^sup>*\<^sup>* (scan_pending dns_template) scan_received" using step by (meson rtranclp.simps)
  from runs_evolve [OF scan_reachable(2) this, THEN conjunct1] r obtain r' where
    "r' \<in> set (t_rows (tb_runs scan_received))" "run_fixed r r'" "run_edge\<^sup>*\<^sup>* (rn_Status r) (rn_Status r')" by blast
  then show ?thesis using r all by blast
qed

section \<open>Result counts\<close>

lemma sum_list_bounded: "(\<forall>x \<in> set xs. f x \<le> (m :: nat)) \<Longrightarrow> sum_list (map f xs) \<le> length xs * m"
  by (induction xs) auto

lemma distinct_numbers: "distinct xs \<Longrightarrow> set xs \<subseteq> {1 .. n} \<Longrightarrow> length xs \<le> n"
  using card_mono [of "{1 .. n}" "set xs"] by (simp add: distinct_card)

lemma batches_distinct:
  assumes "task_inv k d" and "r \<in> set (t_rows (tb_runs d))"
  shows "distinct (map cb_Seq (batches d r))"
proof -
  have cbs: "table_ok cb_ID callback_same_key callback_ok (tb_callbacks d)" and own: "\<forall>c \<in> set (t_rows (tb_callbacks d)). callback_owned d c"
    and runs: "table_ok rn_ID (\<lambda>_ _. False) run_ok (tb_runs d)" using assms(1) by (auto simp: task_inv_def)
  have kept: "task_kept k d d" using assms(1) by (simp add: task_kept_def)
  have project: "cb_ProjectID c = rn_ProjectID r" if "c \<in> set (batches d r)" for c
  proof -
    have c: "c \<in> set (t_rows (tb_callbacks d))" "cb_RunID c = rn_ID r" using that by (auto simp: batches_def)
    then obtain r' where "r' \<in> set (t_rows (tb_runs d))" "rn_ID r' = rn_ID r" "rn_ProjectID r' = cb_ProjectID c"
      using own unfolding callback_owned_def by metis
    then show ?thesis using kept_run_unique [OF kept, of r' r] assms(2) by simp
  qed
  have "inj_on cb_Seq (set (batches d r))"
  proof (rule inj_onI)
    fix a b assume ab: "a \<in> set (batches d r)" "b \<in> set (batches d r)" "cb_Seq a = cb_Seq b"
    then have "cb_at (rn_ProjectID r) (rn_ID r) (cb_Seq a) a" "cb_at (rn_ProjectID r) (rn_ID r) (cb_Seq a) b"
      using project cbs by (auto simp: cb_at_def batches_def table_ok_def callback_ok_def)
    then show "a = b" using kept_callback_unique [OF kept] ab by (auto simp: batches_def)
  qed
  moreover have "distinct (batches d r)" using cbs by (auto simp: batches_def table_ok_def wf_rows_def strict_sorted_iff distinct_map)
  ultimately show ?thesis by (simp add: distinct_map)
qed

text \<open>C6: in every reachable state the result count of a running run is the sum of the results of its processed batches,
  each counted once: the batches of a run have different numbers, between 1 and 10000. So it is at most
  20000000, and the \<open>uint32\<close> column and the \<open>int\<close> of the code never overflow.\<close>

theorem result_count_exact:
  assumes "task_reachable k d" and "r \<in> set (t_rows (tb_runs d))" and "rn_Status r = RunRunning"
  shows "rn_ResultCount r = sum_list (map cb_ResultCount (filter (\<lambda>c. cb_IngestStatus c = IngestProcessed) (batches d r))) \<and>
    distinct (map cb_Seq (batches d r)) \<and> rn_ResultCount r \<le> 20000000"
proof -
  note inv = task_reachable_inv [OF assms(1)]
  let ?done = "filter (\<lambda>c. cb_IngestStatus c = IngestProcessed) (batches d r)"
  have ok: "callback_ok c" if "c \<in> set (batches d r)" for c using that inv by (auto simp: task_inv_def table_ok_def batches_def)
  have count: "rn_ResultCount r = sum_list (map cb_ResultCount ?done)"
    using inv assms(2,3) by (simp add: task_inv_def counted_def processed_results_def)
  have dist: "distinct (map cb_Seq (batches d r))" by (rule batches_distinct [OF inv assms(2)])
  have "length (map cb_Seq (batches d r)) \<le> callbackMaxSeq"
    by (rule distinct_numbers [OF dist]) (use ok in \<open>auto simp: callback_ok_def\<close>)
  then have "length ?done \<le> 10000" using order_trans [OF length_filter_le] by (simp add: callbackMaxSeq_def)
  moreover have "sum_list (map cb_ResultCount ?done) \<le> length ?done * 2000"
    by (rule sum_list_bounded) (use ok in \<open>auto simp: callback_ok_def callbackMaxFacts_def\<close>)
  ultimately show ?thesis using count dist by simp
qed

theorem result_count_exact_witness:
  "\<exists>r \<in> set (t_rows (tb_runs scan_received)). rn_Status r = RunRunning \<and> length (batches scan_received r) = 1 \<and> rn_ResultCount r = 0"
proof -
  obtain r c where rows: "t_rows (tb_runs scan_received) = [r]" "t_rows (tb_callbacks scan_received) = [c]"
    and r: "rn_Status r = RunRunning" "rn_ID r = 1" and c: "cb_RunID c = 1" "cb_IngestStatus c = IngestPending" using scan_batch by blast
  have one: "batches scan_received r = [c]" by (simp add: batches_def rows r c)
  have "rn_ResultCount r = 0"
    using result_count_exact [OF scan_reachable(4), of r, THEN conjunct1] by (simp add: rows r one c)
  then show ?thesis by (simp add: rows r one)
qed

section \<open>The deadline\<close>



section \<open>Creation of runs\<close>

lemma bound_keeps_runs:
  "(if v > 0 then repo_BindEngineRunSettings q n v else ok ()) d = (Inr (), d') \<Longrightarrow> tb_runs d' = tb_runs d"
  by (auto simp: repo_BindEngineRunSettings_def ok_def split: if_split_asm)

lemma run_inserted:
  assumes "task_inv k d" and "repo_CreateTaskRun e p d = (Inr n, d1)" and "repo_GetTaskRun q n d1 = (Inr r, d2)"
  shows "r = (run_row p)\<lparr>rn_ID := n\<rparr> \<and> t_rows (tb_runs d2) = t_rows (tb_runs d) @ [r] \<and> run_check e (run_row p) = None"
proof -
  obtain t' d0 where ins: "sql_insert (run_check e) (\<lambda>_ _. False) (run_fk d) (\<lambda>n r. r\<lparr>rn_ID := n\<rparr>) (run_row p) (tb_runs d) = (Inr n, t')"
    and d0: "d0 = d\<lparr>tb_runs := t'\<rparr>" and bind: "(if rp_EngineConfigVersion p > 0 then repo_BindEngineRunSettings (rp_ProjectID p) n (rp_EngineConfigVersion p) else ok ()) d0 = (Inr (), d1)"
    using assms(2) by (auto simp: repo_CreateTaskRun_def bindM_Inr_iff on_runs_def mapErr_Inr_iff zoom_iff ok_Inr_iff)
  have t': "t_rows t' = t_rows (tb_runs d) @ [(run_row p)\<lparr>rn_ID := n\<rparr>]" and chk: "run_check e (run_row p) = None"
    using ins by (auto simp: sql_insert_Inr)
  have runs: "tb_runs d1 = t'" using bound_keeps_runs [OF bind] d0 by simp
  have r: "r \<in> set (t_rows t')" "rn_ID r = n" "d2 = d1" using run_read_mem [OF assms(3)] runs by auto
  have wf: "wf_rows rn_ID (tb_runs d)" using assms(1) by (simp add: task_inv_def table_ok_def)
  have "r = (run_row p)\<lparr>rn_ID := n\<rparr>" by (rule run_rows.row_unique [OF run_rows.wf_insert [OF wf ins]]) (use r t' in auto)
  then show ?thesis using t' runs r(3) chk by simp
qed

lemma run_created:
  assumes inv: "task_inv k d" and run: "CreateTaskRun s i d = (Inr r, d')"
  shows "\<exists>t. repo_GetTaskTemplate (cri_ProjectID i) (cri_TemplateID i) d = (Inr t, d) \<and> tp_Enabled t \<and>
    requireActiveDispatchEnabled (tv_policy s) (tp_TaskType t) = Inr () \<and>
    ValidateActiveTaskLimits (tp_TaskType t) (tp_RateLimit t) (tp_Concurrency t) = Inr () \<and> approved s i (tp_TaskType t) = Inr () \<and>
    r = (run_row (new_run_params s i t))\<lparr>rn_ID := rn_ID r\<rparr> \<and> t_rows (tb_runs d') = t_rows (tb_runs d) @ [r] \<and>
    run_check (tv_env s) r = None"
proof -
  have engine: "pure (if hasEngineRouting s then liftM x else ok ())" for x :: "discovery_error + unit" by (intro pure_intros)
  have body: "create_run_body s i d = (Inr r, d')" using run by (auto simp: CreateTaskRun_def tx_Inr bindM_Inr_iff failIf_Inr_iff)
  obtain n d1 d2 u and t :: task_template where t: "repo_GetTaskTemplate (cri_ProjectID i) (cri_TemplateID i) d = (Inr t, d)" "tp_Enabled t"
      "requireActiveDispatchEnabled (tv_policy s) (tp_TaskType t) = Inr ()"
      "ValidateActiveTaskLimits (tp_TaskType t) (tp_RateLimit t) (tp_Concurrency t) = Inr ()" "approved s i (tp_TaskType t) = Inr ()"
    and ins: "repo_CreateTaskRun (tv_env s) (new_run_params s i t) d = (Inr n, d1)"
    and get: "repo_GetTaskRun (cri_ProjectID i) n d1 = (Inr r, d2)"
    and audit: "recordTaskAudit s ActionRunCreate None (Some (ERun r)) (cri_ActorID i) (cri_Meta i) d2 = (Inr u, d')"
    using body
    by (simp only: create_run_body_def bindM_pure_Inr pure_basic pure_task_reads engine failIf_Inr_iff liftM_Inr_iff not_not)
      (auto simp: bindM_Inr_iff ok_Inr_iff)
  show ?thesis
    using t run_inserted [OF inv ins get] audit_keeps_runs [of s ActionRunCreate None "Some (ERun r)" "cri_ActorID i" "cri_Meta i" d2 d'] audit
    by (intro exI [of _ t]) (auto simp: run_check_def run_columns_def)
qed

text \<open>C18: a run of a task type that probes actively is created only from an enabled template, under an enabled policy and
  within the caps; where the policy asks for approval, it names an approver who is not its creator, up to letter
  case and surrounding blanks. The run is stored as pending with the template's settings, and no other run changes.\<close>

theorem active_run_needs_second_person:
  assumes "task_reachable k d" and "CreateTaskRun s i d = (Inr r, d')" and "IsActiveTaskType (rn_TaskType r)"
  shows "t_rows (tb_runs d') = t_rows (tb_runs d) @ [r] \<and> rn_Status r = RunPending \<and> rn_CreatedBy r = cri_ActorID i \<and> ap_Enabled (tv_policy s) \<and>
    rn_RateLimit r \<le> MaxActiveRateLimit \<and> rn_Concurrency r \<le> MaxActiveConcurrency \<and>
    (\<exists>t. repo_GetTaskTemplate (cri_ProjectID i) (cri_TemplateID i) d = (Inr t, d) \<and> tp_Enabled t \<and> rn_TaskType r = tp_TaskType t \<and>
       rn_ScopeID r = tp_ScopeID t) \<and>
    (ap_RequireApproval (tv_policy s) \<longrightarrow> rn_ApprovedBy r \<noteq> [] \<and> \<not> EqualFold (rn_ApprovedBy r) (TrimSpace (rn_CreatedBy r)))"
proof -
  obtain t where t: "repo_GetTaskTemplate (cri_ProjectID i) (cri_TemplateID i) d = (Inr t, d)" "tp_Enabled t"
      "requireActiveDispatchEnabled (tv_policy s) (tp_TaskType t) = Inr ()"
      "ValidateActiveTaskLimits (tp_TaskType t) (tp_RateLimit t) (tp_Concurrency t) = Inr ()" "approved s i (tp_TaskType t) = Inr ()"
    and r: "r = (run_row (new_run_params s i t))\<lparr>rn_ID := rn_ID r\<rparr>" and rows: "t_rows (tb_runs d') = t_rows (tb_runs d) @ [r]"
    using run_created [OF task_reachable_inv [OF assms(1)] assms(2)] by blast
  have f: "rn_TaskType r = tp_TaskType t" "rn_ScopeID r = tp_ScopeID t" "rn_Status r = RunPending" "rn_CreatedBy r = cri_ActorID i"
    "rn_RateLimit r = int32Bounded (tp_RateLimit t)" "rn_Concurrency r = int32Bounded (tp_Concurrency t)" "rn_ApprovedBy r = TrimSpace (cri_ApprovedBy i)"
    by (subst r, simp add: run_row_def new_run_params_def)+
  have active: "IsActiveTaskType (tp_TaskType t)" using assms(3) f by simp
  have "ap_RequireApproval (tv_policy s) \<Longrightarrow> rn_ApprovedBy r \<noteq> [] \<and> \<not> EqualFold (rn_ApprovedBy r) (TrimSpace (rn_CreatedBy r))"
    using t(5) active f by (auto simp: approved_def ValidateActiveApproval_def Let_def split: if_split_asm)
  then show ?thesis
    using t rows f active
    by (auto simp: requireActiveDispatchEnabled_def ValidateActiveTaskLimits_def int32Bounded_def MaxActiveRateLimit_def MaxActiveConcurrency_def
        split: if_split_asm)
qed

theorem active_run_needs_second_person_witness:
  "\<exists>r d'. CreateTaskRun (scan_service 21) scan_run (scan_templated web_template) = (Inr r, d') \<and> rn_ApprovedBy r \<noteq> [] \<and>
     \<not> EqualFold (rn_ApprovedBy r) (TrimSpace (rn_CreatedBy r))"
proof -
  obtain r d' where run: "CreateTaskRun (scan_service 21) scan_run (scan_templated web_template) = (Inr r, d')" "IsActiveTaskType (rn_TaskType r)"
    using scan_approved by (auto split: prod.split_asm sum.split_asm)
  have "ap_RequireApproval (tv_policy (scan_service 21))" by (simp add: scan_service_def)
  then show ?thesis using active_run_needs_second_person [OF scan_reachable(1) run] run by blast
qed

section \<open>Integrity\<close>

lemma unique_rows_distinct:
  assumes "\<And>a b. Q a \<Longrightarrow> Q b \<Longrightarrow> key a = key b \<Longrightarrow> same a b"
  shows "unique_rows same rows \<Longrightarrow> distinct (map key (filter Q rows))"
proof (induction rows)
  case (Cons x xs)
  have "key x \<notin> key ` set (filter Q xs)" if "Q x"
  proof
    assume "key x \<in> key ` set (filter Q xs)"
    then obtain y where y: "y \<in> set xs" "Q y" "key y = key x" by auto
    have "same x y" "same y x" using assms y that by metis+
    then show False using Cons.prems y(1) by (auto simp: unique_rows_def)
  qed
  then show ?case using Cons by (auto simp: unique_rows_def)
qed simp

lemma unique_key_distinct:
  "table_ok rid same ok_row t \<Longrightarrow> (\<And>a b. Q a \<Longrightarrow> Q b \<Longrightarrow> key a = key b \<Longrightarrow> same a b) \<Longrightarrow> distinct (map key (filter Q (t_rows t)))"
  by (rule unique_rows_distinct [of Q key same]) (simp_all add: table_ok_def)

text \<open>C20: in every reachable state the ids of templates, runs and callbacks are distinct; live templates of a project have
  different names for the collation; every run has a template of its project, a status of the protocol, limits in their
  ranges and texts that fit their columns, and nothing is reported for it while it is pending; every callback
  belongs to a run of its project, and no batch number occurs twice for a run.\<close>

theorem reachable_task_tables:
  assumes "task_reachable k d"
  shows "distinct (map tp_ID (t_rows (tb_templates d))) \<and> distinct (map rn_ID (t_rows (tb_runs d))) \<and>
    distinct (map cb_ID (t_rows (tb_callbacks d))) \<and>
    distinct (map (\<lambda>t. (tp_ProjectID t, k (tp_Name t))) (filter template_live (t_rows (tb_templates d)))) \<and>
    distinct (map (\<lambda>c. (cb_ProjectID c, cb_RunID c, cb_Seq c)) (t_rows (tb_callbacks d))) \<and>
    (\<forall>r \<in> set (t_rows (tb_runs d)). run_ok r \<and> run_owned d r \<and> (rn_Status r = RunPending \<longrightarrow> batches d r = [])) \<and>
    (\<forall>c \<in> set (t_rows (tb_callbacks d)). callback_ok c \<and> callback_owned d c)"
proof -
  note inv = task_reachable_inv [OF assms, unfolded task_inv_def]
  have ids: "distinct (map tp_ID (t_rows (tb_templates d)))" "distinct (map rn_ID (t_rows (tb_runs d)))" "distinct (map cb_ID (t_rows (tb_callbacks d)))"
    using inv by (auto simp: table_ok_def wf_rows_def strict_sorted_iff)
  have tables: "table_ok tp_ID (templates_same k) template_ok (tb_templates d)" "table_ok cb_ID callback_same_key callback_ok (tb_callbacks d)"
    using inv by auto
  have "distinct (map (\<lambda>t. (tp_ProjectID t, k (tp_Name t))) (filter template_live (t_rows (tb_templates d))))"
    by (rule unique_key_distinct [OF tables(1)]) (auto simp: templates_same_def template_live_def)
  moreover have "distinct (map (\<lambda>c. (cb_ProjectID c, cb_RunID c, cb_Seq c)) (filter callback_live (t_rows (tb_callbacks d))))"
    by (rule unique_key_distinct [OF tables(2)]) (auto simp: callback_same_key_def callback_live_def)
  moreover have "filter callback_live (t_rows (tb_callbacks d)) = t_rows (tb_callbacks d)"
    using tables(2) by (auto simp: filter_id_conv table_ok_def callback_ok_def)
  ultimately show ?thesis using ids inv by (auto simp: table_ok_def counted_def)
qed

theorem reachable_task_tables_witness:
  "t_rows (tb_callbacks scan_received) \<noteq> [] \<and> distinct (map (\<lambda>c. (cb_ProjectID c, cb_RunID c, cb_Seq c)) (t_rows (tb_callbacks scan_received)))"
  using reachable_task_tables [OF scan_reachable(4)] scan_batch by auto

section \<open>The life of a run ends\<close>








end
