(* ===== verification/CallbackClose.thy ===== *)
theory CallbackClose
  imports CallbackFacts
begin

text \<open>
  When the batches of a run close it: \<open>close_if_ready\<close> closes the run exactly when its batches are
  complete, with the status that the final one reports.
\<close>

definition run_batches :: "task_db \<Rightarrow> nat \<Rightarrow> nat \<Rightarrow> discovery_callback list" where
  "run_batches d q n = sort_key cb_Seq (sql_many (\<lambda>c. cb_ProjectID c = q \<and> cb_RunID c = n \<and> callback_live c) (tb_callbacks d))"

lemma complete_parts:
  assumes "complete_body s q n sq d = (Inr res, d')"
  shows "\<exists>c0. repo_GetDiscoveryCallback q n sq d = (Inr c0, d) \<and>
    (cb_IngestStatus c0 = IngestProcessed \<and> d' = d \<and> \<not> cr_Processed res \<and> \<not> cr_Finalized res \<or>
     cb_IngestStatus c0 = IngestProcessing \<and> (\<exists>d1 r d2. repo_MarkDiscoveryCallbackProcessed (tv_env s) q n sq (tv_now s) d = (Inr True, d1) \<and>
        repo_GetTaskRun q n d1 = (Inr r, d1) \<and>
        (if rn_Status r = RunRunning then repo_MarkRunCallbackReceived (tv_env s) q n ''engine'' (cb_ResultCount c0) (tv_now s) else ok ()) d1 = (Inr (), d2) \<and>
        close_if_ready s q n d2 = (Inr res, d')))"
proof -
  obtain c0 where c0: "repo_GetDiscoveryCallback q n sq d = (Inr c0, d)"
    and body: "cb_IngestStatus c0 = IngestProcessed \<and> d' = d \<and> \<not> cr_Processed res \<and> \<not> cr_Finalized res \<or>
      cb_IngestStatus c0 = IngestProcessing \<and> (\<exists>d2. mark_processed s q n sq c0 d = (Inr (), d2) \<and> close_if_ready s q n d2 = (Inr res, d'))"
    using assms unfolding complete_body_def repo_GetTaskRunForUpdate_def bindM_pure_Inr [OF pure_task_reads(3)] bindM_pure_Inr [OF pure_task_reads(7)]
    by (auto simp: bindM_Inr_iff failIf_Inr_iff ok_Inr_iff split: if_split_asm)
  have "\<exists>d1 r. repo_MarkDiscoveryCallbackProcessed (tv_env s) q n sq (tv_now s) d = (Inr True, d1) \<and> repo_GetTaskRun q n d1 = (Inr r, d1) \<and>
      (if rn_Status r = RunRunning then repo_MarkRunCallbackReceived (tv_env s) q n ''engine'' (cb_ResultCount c0) (tv_now s) else ok ()) d1 = (Inr (), d2)"
    if mark: "mark_processed s q n sq c0 d = (Inr (), d2)" for d2
  proof -
    from mark obtain d1 r d3 where "repo_MarkDiscoveryCallbackProcessed (tv_env s) q n sq (tv_now s) d = (Inr True, d1)"
      and read: "repo_GetTaskRun q n d1 = (Inr r, d3)"
      and "(if rn_Status r = RunRunning then repo_MarkRunCallbackReceived (tv_env s) q n ''engine'' (cb_ResultCount c0) (tv_now s) else ok ()) d3 = (Inr (), d2)"
      unfolding mark_processed_def bindM_Inr_iff failIf_Inr_iff by auto
    moreover have "d3 = d1" using run_read_mem [OF read] by simp
    ultimately show ?thesis by auto
  qed
  with c0 body show ?thesis by blast
qed

lemma complete_unique:
  assumes "task_kept k d0 d" and "run_complete (run_batches d q n) c"
  shows "(THE c. run_complete (run_batches d q n) c) = c"
proof (rule the_equality [of "run_complete (run_batches d q n)", OF assms(2)])
  fix c' assume c': "run_complete (run_batches d q n) c'"
  have "cb_Seq c' = cb_Seq c" using c' assms(2) by (auto simp: run_complete_def intro!: order_antisym)
  then show "c' = c"
    using c' assms(2) listed_callbacks_ok(2) [OF assms(1) run_batches_def [of d q n]] by (auto simp: run_complete_def distinct_map dest: inj_onD)
qed

lemma close_state:
  assumes "task_kept k d0 d"
  shows "close_if_ready s q n d = (if \<exists>c. run_complete (run_batches d q n) c
    then finalize_run s q n (cb_Status (THE c. run_complete (run_batches d q n) c)) (final_summary s (THE c. run_complete (run_batches d q n) c)) d
    else (Inr \<lparr>cr_Processed = True, cr_Finalized = False, cr_RunAlreadyClosed = False\<rparr>, d))"
proof -
  note spec = final_state_spec [OF listed_callbacks_ok [OF assms run_batches_def [of d q n]]]
  have list: "repo_ListDiscoveryCallbacksForRunForUpdate q n d = (Inr (run_batches d q n), d)"
    by (simp add: repo_ListDiscoveryCallbacksForRunForUpdate_def gets_def run_batches_def)
  obtain x where x: "callbackFinalState s (run_batches d q n) = Inr x" using spec(2) by blast
  show ?thesis
  proof (cases x)
    case None
    have "\<not> run_complete (run_batches d q n) c" for c using spec(1) [of s "cb_Status c" "final_summary s c"] x None by auto
    then show ?thesis using list x None by (simp add: close_if_ready_def bindM_def liftM_def ok_def)
  next
    case (Some y)
    obtain c where c: "run_complete (run_batches d q n) c" "y = (cb_Status c, final_summary s c)"
      using spec(1) [of s "fst y" "snd y"] x Some by (auto simp: prod_eq_iff)
    note the = complete_unique [OF assms c(1)]
    have "close_if_ready s q n d = finalize_run s q n (fst y) (snd y) d"
      using list x Some by (simp add: close_if_ready_def bindM_def liftM_def case_prod_beta)
    then show ?thesis using c the by auto
  qed
qed

text \<open>Closing a running run is one conditional update.\<close>

lemma closing_mark:
  assumes change: "changeTaskRunStatusWith e r i st now d = (Inr (), d1)" and "rn_Status r = RunRunning" and st: "st \<in> set closing_statuses"
  shows "\<exists>f. mark_run e (uri_ProjectID i) (uri_RunID i) (rn_Status r) f d = (Inr (), d1) \<and> (\<forall>x. rn_ID (f x) = rn_ID x) \<and> rn_Status (f r) = st \<and>
    (uri_ResultCount i = rn_ResultCount r \<longrightarrow> rn_ResultCount (f r) = rn_ResultCount r) \<and> run_fixed r (f r)"
proof -
  note marks = changeTaskRunStatusWith_def bindM_Inr_iff failIf_Inr_iff repo_MarkRunSucceeded_def repo_MarkRunPartialSuccess_def repo_MarkRunFailed_def
    repo_MarkRunCancelled_def
  let ?c = "\<lambda>p sm. run_closed e st p (uri_ResultCount i) sm now (uri_ActorID i)"
  from st consider "st = RunSuccess" | "st = RunPartial" | "st = RunFailed" | "st = RunCancelled" by (auto simp: closing_statuses_def)
  then show ?thesis
  proof cases
    case 1
    then show ?thesis using change by (intro exI [of _ "?c 100 []"]) (simp add: marks run_closed_def run_fixed_def)
  next
    case 2
    then show ?thesis using change by (intro exI [of _ "?c 100 (uri_ErrorSummary i)"]) (simp add: marks run_closed_def run_fixed_def)
  next
    case 3
    then show ?thesis using change by (intro exI [of _ "?c 0 (uri_ErrorSummary i)"]) (simp add: marks run_closed_def run_fixed_def)
  next
    case 4
    then show ?thesis
      using change
      by (intro exI [of _ "\<lambda>r. r\<lparr>rn_Status := RunCancelled, rn_Progress := 0, rn_ErrorSummary := uri_ErrorSummary i, rn_FinishedAt := run_time e now,
            rn_UpdatedBy := uri_ActorID i\<rparr>"]) (simp add: marks run_fixed_def)
  qed
qed

lemma finalize_effect:
  assumes kept: "task_kept k d0 d" and st: "st \<in> set closing_statuses" and run: "finalize_run s q n st sm d = (Inr res, d')"
  shows "\<exists>r. repo_GetTaskRun q n d = (Inr r, d) \<and> cr_Processed res \<and> (cr_Finalized res \<longleftrightarrow> rn_Status r = RunRunning) \<and>
    tb_callbacks d' = tb_callbacks d \<and>
    (cr_Finalized res \<longrightarrow> (\<exists>r'. repo_GetTaskRun q n d' = (Inr r', d') \<and> rn_Status r' = st \<and> rn_ResultCount r' = rn_ResultCount r \<and> run_fixed r r'))"
proof -
  obtain r where r: "repo_GetTaskRun q n d = (Inr r, d)"
    using run unfolding finalize_run_def bindM_pure_Inr [OF pure_task_reads(3)] by blast
  show ?thesis
  proof (cases "rn_Status r = RunRunning")
    case False
    then have "d' = d \<and> cr_Processed res \<and> \<not> cr_Finalized res" using run r by (auto simp: finalize_run_def bindM_def ok_def)
    then show ?thesis using r False by auto
  next
    case True
    let ?i = "\<lparr>uri_RunID = n, uri_ProjectID = q, uri_ErrorSummary = sm, uri_ResultCount = rn_ResultCount r, uri_ActorID = ''engine'', uri_Meta = no_discovery_meta\<rparr>"
    let ?k = "\<lambda>_. bindM (changeTaskRunStatusWith (tv_env s) r ?i st (tv_now s)) (\<lambda>_.
       bindM (repo_GetTaskRun q n) (\<lambda>after.
       bindM (recordTaskAudit s ActionRunStatusChange (Some (ERun r)) (Some (ERun after)) ''engine'' no_discovery_meta) (\<lambda>_.
       ok \<lparr>cr_Processed = True, cr_Finalized = True, cr_RunAlreadyClosed = False\<rparr>)))"
    have "bindM (apply_lifecycle s q n (rn_TaskType r) st) ?k d = (Inr res, d')"
      using run r True by (simp add: finalize_run_def bindM_def [of "repo_GetTaskRun q n" _ d])
    then obtain d1 d2 r' where change: "changeTaskRunStatusWith (tv_env s) r ?i st (tv_now s) d = (Inr (), d1)"
      and read: "repo_GetTaskRun q n d1 = (Inr r', d2)"
      and audit: "recordTaskAudit s ActionRunStatusChange (Some (ERun r)) (Some (ERun r')) ''engine'' no_discovery_meta d2 = (Inr (), d')"
      and res: "cr_Processed res" "cr_Finalized res"
      unfolding bindM_pure_Inr [OF pure_apply_lifecycle] by (auto simp: bindM_Inr_iff ok_Inr_iff)
    have d2: "d2 = d1" using run_read_mem [OF read] by simp
    obtain f where mark: "mark_run (tv_env s) q n (rn_Status r) f d = (Inr (), d1)"
      and f: "\<And>x. rn_ID (f x) = rn_ID x" "rn_Status (f r) = st" "rn_ResultCount (f r) = rn_ResultCount r" "run_fixed r (f r)"
      using closing_mark [OF change True st] by auto
    from mark_run_read [OF kept_runs_wf [OF kept] r mark read f(1)] have r': "r' = f r" "tb_callbacks d1 = tb_callbacks d" by auto
    have "tb_runs d' = tb_runs d1" "tb_callbacks d' = tb_callbacks d" using audit_keeps_runs [OF audit] d2 r' by auto
    then have "repo_GetTaskRun q n d' = (Inr r', d')" using read by (simp add: run_read)
    then show ?thesis using r True res f r' \<open>tb_callbacks d' = tb_callbacks d\<close> by auto
  qed
qed

lemma processed_frame:
  assumes "repo_MarkDiscoveryCallbackProcessed e q n sq now d = (Inr b, d1)"
  shows "tb_runs d1 = tb_runs d"
  using assms by (auto simp: repo_MarkDiscoveryCallbackProcessed_def update_callback_def Inr_iffs on_callbacks_def zoom_iff)

lemma complete_effect:
  assumes inv: "task_inv k d" and key: "tells_apart k" "env_key (tv_env s) = k" and run: "complete_body s q n sq d = (Inr res, d')" and proc: "cr_Processed res"
  shows "\<exists>r. repo_GetTaskRun q n d = (Inr r, d) \<and> (cr_Finalized res \<longleftrightarrow> rn_Status r = RunRunning \<and> (\<exists>c. run_complete (run_batches d' q n) c)) \<and>
    (cr_Finalized res \<longrightarrow> (\<exists>r' c. repo_GetTaskRun q n d' = (Inr r', d') \<and> run_complete (run_batches d' q n) c \<and> rn_Status r' = cb_Status c \<and>
       rn_ResultCount r' = processed_results (batches d' r') \<and> run_fixed r r'))"
proof -
  have kept: "task_kept k d d" using inv by (simp add: task_kept_def)
  obtain c0 d1 r d2 where c0: "repo_GetDiscoveryCallback q n sq d = (Inr c0, d)" "cb_IngestStatus c0 = IngestProcessing"
    and mark: "repo_MarkDiscoveryCallbackProcessed (tv_env s) q n sq (tv_now s) d = (Inr True, d1)"
    and r1: "repo_GetTaskRun q n d1 = (Inr r, d1)"
    and recv: "(if rn_Status r = RunRunning then repo_MarkRunCallbackReceived (tv_env s) q n ''engine'' (cb_ResultCount c0) (tv_now s) else ok ()) d1 = (Inr (), d2)"
    and close: "close_if_ready s q n d2 = (Inr res, d')" using complete_parts [OF run] proc by auto
  have kept2: "task_kept k d d2"
    using kept_marked_processed [OF kept key _ _ c0(2) mark r1 recv] callback_read [OF c0(1)] by (simp add: char_len_def continuation_def)
  have r: "repo_GetTaskRun q n d = (Inr r, d)" using r1 processed_frame [OF mark] by (simp add: run_read)
  obtain r2 where r2: "repo_GetTaskRun q n d2 = (Inr r2, d2)" "run_fixed r r2" "rn_Status r2 = rn_Status r"
  proof -
    obtain x where x: "x \<in> set (t_rows (tb_runs d2))" "run_fixed r x"
      using kept2 run_read_mem [OF r] by (auto simp: task_kept_def task_after_def run_follows_def)
    then have read: "repo_GetTaskRun q n d2 = (Inr x, d2)" using read_stored [OF kept2 x(1)] run_read_mem [OF r] by (simp add: run_fixed_def)
    have "rn_Status x = rn_Status r"
    proof (cases "rn_Status r = RunRunning")
      case True
      then have "repo_MarkRunCallbackReceived (tv_env s) q n ''engine'' (cb_ResultCount c0) (tv_now s) d1 = (Inr (), d2)" using recv by simp
      then have "mark_run (tv_env s) q n (rn_Status r) (\<lambda>x. x\<lparr>rn_LastCallbackAt := run_time (tv_env s) (tv_now s),
          rn_ResultCount := rn_ResultCount x + cb_ResultCount c0, rn_UpdatedBy := ''engine''\<rparr>) d1 = (Inr (), d2)"
        using True by (simp add: repo_MarkRunCallbackReceived_def)
      from mark_run_read [OF _ r1 this read] kept_runs_wf [OF kept] processed_frame [OF mark] show ?thesis by simp
    next
      case False
      then show ?thesis using recv r1 read by (auto simp: ok_def)
    qed
    then show ?thesis using that read x(2) by blast
  qed
  show ?thesis
  proof (cases "\<exists>c. run_complete (run_batches d2 q n) c")
    case False
    then show ?thesis using close close_state [OF kept2, of s q n] r by auto
  next
    case True
    then obtain c where c: "run_complete (run_batches d2 q n) c" "(THE c. run_complete (run_batches d2 q n) c) = c"
      using complete_unique [OF kept2] by blast
    have "callback_ok c" using listed_callbacks_ok(1) [OF kept2 run_batches_def [of d2 q n]] c(1) by (auto simp: run_complete_def)
    then have st: "cb_Status c \<in> set closing_statuses"
      using c(1) by (auto simp: run_complete_def callback_ok_def phase_status_ok_def isFinalCallbackPhase_def closing_statuses_def split: if_split_asm)
    have "finalize_run s q n (cb_Status c) (final_summary s c) d2 = (Inr res, d')" using close close_state [OF kept2, of s q n] True c(2) by simp
    from finalize_effect [OF kept2 st this] r2(1) obtain cbs: "tb_callbacks d' = tb_callbacks d2" and fin: "cr_Finalized res \<longleftrightarrow> rn_Status r2 = RunRunning"
      and closed: "cr_Finalized res \<longrightarrow> (\<exists>r'. repo_GetTaskRun q n d' = (Inr r', d') \<and> rn_Status r' = cb_Status c \<and> rn_ResultCount r' = rn_ResultCount r2 \<and> run_fixed r2 r')"
      by auto
    have same: "run_batches d' q n = run_batches d2 q n" by (simp add: run_batches_def cbs)
    have "rn_Status r2 = RunRunning \<Longrightarrow> rn_ResultCount r2 = processed_results (batches d2 r2)"
      using kept2 run_read_mem [OF r2(1)] by (auto simp: task_kept_def task_inv_def counted_def)
    moreover have "batches d' r' = batches d2 r2" if "run_fixed r2 r'" for r' using that by (simp add: batches_def cbs run_fixed_def)
    moreover have "run_fixed r r'" if "run_fixed r2 r'" for r' using that r2(2) by (simp add: run_fixed_def)
    ultimately show ?thesis using r fin closed c(1) same r2(3) by metis
  qed
qed

end
