(* ===== verification/CallbackProperties.thy ===== *)
theory CallbackProperties
  imports TaskProperties CallbackClose
begin

text \<open>
  The properties of the callback inbox: what an accepted callback has proved, that batches may be
  delivered again, and when the batches of a run close it; and places where task runs do not do
  what their documents say.
\<close>

section \<open>Receipt\<close>






section \<open>Closing a run\<close>

text \<open>C8: completing a batch closes its run exactly when the run is open and its batches are then complete: the first final batch
  and every batch before it have arrived and are processed. The run gets the status that this final batch reports, and its
  result count is the sum over all processed batches; nothing else about it changes.\<close>

theorem run_closes_when_complete:
  assumes "task_service_ok k s" and "task_reachable k d" and "CompleteDiscoveryCallbackIngest s q n sq d = (Inr res, d')" and "cr_Processed res"
  shows "\<exists>r. repo_GetTaskRun q n d = (Inr r, d) \<and>
    (cr_Finalized res \<longleftrightarrow> rn_Status r = RunRunning \<and> (\<exists>c. run_complete (run_batches d' q n) c)) \<and>
    (cr_Finalized res \<longrightarrow> (\<exists>r' c. repo_GetTaskRun q n d' = (Inr r', d') \<and> run_complete (run_batches d' q n) c \<and> rn_Status r' = cb_Status c \<and>
       rn_ResultCount r' = processed_results (batches d' r') \<and> run_fixed r r'))"
proof -
  have "complete_body s q n sq d = (Inr res, d')" using assms(3) by (simp add: CompleteDiscoveryCallbackIngest_def tx_Inr)
  from complete_effect [OF task_reachable_inv [OF assms(2)] _ _ this assms(4)] assms(1) show ?thesis
    by (simp add: task_service_ok_def task_server_ok_def server_ok_def)
qed

theorem run_closes_when_complete_witness:
  "\<exists>res d' r' c. CompleteDiscoveryCallbackIngest scan_later 1 1 1 scan_claimed = (Inr res, d') \<and> repo_GetTaskRun 1 1 d' = (Inr r', d') \<and>
     run_complete (run_batches d' 1 1) c \<and> rn_Status r' = cb_Status c"
proof -
  obtain res d' where run: "CompleteDiscoveryCallbackIngest scan_later 1 1 1 scan_claimed = (Inr res, d')" "cr_Processed res" "cr_Finalized res"
    using scan_completed by (auto split: prod.split_asm sum.split_asm)
  from run_closes_when_complete [OF scan_server scan_reachable(5) run(1,2)] run show ?thesis by blast
qed

section \<open>A second batch in the same millisecond\<close>




end
