(* ===== verification/Spec2Isabelle.thy ===== *)
theory Spec2Isabelle
  imports RiskProperties RiskPolicies RiskSafety RiskFindings AuditProperties TicketProperties NetProperties DiscoveryProperties
    CallbackProperties
begin

text \<open>
  \<^bold>\<open>Dragon ASM: a verification of the risk, ticket, audit, scan-authorisation and task-dispatch core.\<close>

  The program (\<open>src/\<close>, Go) is an attack-surface-management platform. Discovery scans the targets that
  a project has authorised; what it finds becomes assets and exposures; rules and vulnerability
  definitions turn those into risks; risks move through a status machine, get due dates from SLA
  policies and are fixed through tickets; every write is audited. The modelled parts interact as in
  the code:

  \<^item> the ticket service (\<open>internal/ticket\<close>) calls the risk service (\<open>internal/risk\<close>) through the Go
    interface \<open>riskService\<close>, here the locale \<open>risk_port\<close> with the risk model as its instance;
  \<^item> both, and the scope operations of \<open>internal/discovery\<close>, write to the audit log
    (\<open>internal/platform/audit\<close>) inside their transaction;
  \<^item> discovery tasks (\<open>internal/discovery\<close>) are templates from which runs are created, approved,
    dispatched to scan engines and closed; the dispatch plan asks the scope matcher for every target,
    engines report by signed callbacks that land in an inbox, and a reconciler polls and times out;
  \<^item> discovery and the outbound HTTP client (\<open>internal/platform/safehttp\<close>) rest on the address filter
    \<open>internal/platform/netguard\<close>;
  \<^item> all repositories are tables with an id, the locale \<open>id_rows\<close>; the tables with a unique key extend
    it (\<open>keyed_rows\<close>); the status tables of risks and tickets share \<open>transition_table\<close>.

  \<^bold>\<open>Theories and sources.\<close>

  \<^item> \<open>GoPrelude\<close>, \<open>GoNet\<close>, \<open>GoUrl\<close>: what the code uses of Go: outcomes, strings, times, durations at
    64 bits, \<open>strings.Split\<close>, \<open>netip.ParseAddr\<close>, \<open>netip.ParsePrefix\<close>, \<open>url.Parse\<close>. \<open>NetFacts\<close>: text
    round trips of IPv4 addresses.
  \<^item> \<open>SqlStore\<close>: rows, \<open>INSERT\<close>, \<open>UPDATE\<close>, unique keys, transactions, and the server as a parameter
    (\<open>env\<close>: clocks, collation, \<open>DATETIME(3)\<close>, \<open>LIKE\<close>). What the code relies on of the server is
    \<open>server_ok\<close>, a premise of the few theorems that need it (\<open>wired\<close> and \<open>ticket_wired\<close> say how
    \<open>cmd/api\<close> builds the services).
  \<^item> \<open>AuditLog\<close>: \<open>redact.go\<close>, \<open>event.go\<close>, \<open>service.go\<close>, \<open>repository.go\<close> of the audit package.
  \<^item> \<open>StatusMachine\<close>: the contract of a status table. \<open>RiskModel\<close>, \<open>RiskLogic\<close>, \<open>RiskStore\<close>,
    \<open>RiskService\<close>: \<open>model.go\<close>, the pure part of \<open>service.go\<close>, \<open>repository.go\<close> with its SQL, and the
    operations of \<open>internal/risk\<close>. \<open>TicketModel\<close>, \<open>TicketService\<close>: the same for \<open>internal/ticket\<close>.
  \<^item> \<open>NetGuard\<close>, \<open>SafeHttp\<close>: the packages of these names.
  \<^item> \<open>DiscoveryModel\<close>, \<open>DiscoveryValidation\<close>, \<open>DiscoveryMatch\<close>, \<open>DiscoveryStore\<close>, \<open>DiscoveryService\<close>:
    \<open>model.go\<close>, \<open>validation.go\<close>, \<open>url_authorization.go\<close>, \<open>active_policy.go\<close>, and the scope part of
    \<open>repository.go\<close> and \<open>service.go\<close> of \<open>internal/discovery\<close>.
  \<^item> \<open>GoJson\<close>: the JSON values of \<open>encoding/json\<close> and what decoding into Go structs does with them.
    \<open>TaskConfig\<close>: the configuration of a template, the search for credentials in it, the options of
    active tasks. \<open>TaskModel\<close>, \<open>TaskStore\<close>, \<open>TaskService\<close>: templates and runs, their tables and
    statements, and the operations up to the dispatch of a run. \<open>CallbackInbox\<close>: receipt, storage,
    recovery, claim and completion of callback batches. \<open>TaskReconcile\<close>: cancellation, polling, the
    tally of results and the two timeouts.

  A struct is a record, a constant a string, an error a constructor of the package's error type; a
  method with a database is a function from the tables to a result and new tables, with the writes
  made before an error kept unless a transaction rolls them back. \<open>uint8\<close>, \<open>uint16\<close> and \<open>uint32\<close> are
  words, durations wrap at 64 bits. No definition uses fuel: every loop of the code ranges over a
  list or consumes its input, so the recursions are structural or have a length as their measure.

  \<^bold>\<open>Parameters of the task model.\<close> An engine is a function of all calls made to it so far, so an answer
  may change between two equal calls. The task queue, the ownership checker, the check of inherited
  targets, the pull of active results and the ingest of facts are fields of the service record, as
  the Go service holds them behind interfaces. HMAC-SHA256, SHA-256 and the decoding of a body into
  the payload struct are functions. What is relied on is \<open>task_service_ok\<close> (the collation is the given
  one and tells apart the status words of runs and inbox rows, \<open>tells_apart\<close>; the service has its
  database) and nothing of the engines. Calls
  interleave: every request, every callback, every claim, completion or surrender of an inbox row and
  every reconciliation is one step of \<open>task_step\<close>, with any service and any inputs.

  \<^bold>\<open>What is proved.\<close>

  \<^item> \<open>RiskFacts\<close>, \<open>RiskInv\<close>, \<open>RiskTransition\<close>, \<open>TicketFacts\<close>, \<open>TicketInv\<close>: the effect of every
    statement, invariants of the tables, their preservation by every operation, and the reachable
    states. \<open>DiscoveryFacts\<close>, \<open>DiscoveryInv\<close>: the same for scopes, with the normal form of targets.
  \<^item> \<open>RiskProperties\<close>, \<open>RiskPolicies\<close>, \<open>RiskSafety\<close>: the status machine is its diagram; a transition
    changes exactly one risk and appends its history, or, in a transaction, nothing; histories
    only grow; keys are unique; rediscovery reopens fixed risks; scores, due dates, rules and
    suppressions do what they say.
  \<^item> \<open>TicketProperties\<close> and below: what creating and moving a ticket does to the linked risks; four
    eyes on every accepted or dismissed risk; integrity of tickets and links.
  \<^item> \<open>AuditProperties\<close>: the log is append-only and holds nothing under a sensitive key.
  \<^item> \<open>NetProperties\<close>: exactly which IPv4 addresses are refused, and that an accepted prefix holds none.
  \<^item> \<open>DiscoveryProperties\<close>: a target is allowed only by a live window of an active scope that includes
    and does not exclude it; the match loops implement the policy \<open>granted\<close>, \<open>restricted\<close>,
    \<open>excluded\<close>; integrity of scopes; the normal form of domains.
  \<^item> \<open>TaskInv\<close>, \<open>TaskKeeps\<close>, \<open>TaskSteps\<close>, \<open>TaskDispatch\<close>, \<open>TaskFacts\<close>: the order in which a run may
    move, the invariant of the task tables, what each statement and each operation keeps, and what a
    dispatch has checked when it succeeds. \<open>CallbackFacts\<close>, \<open>CallbackClose\<close>: the same for the inbox.
  \<^item> \<open>TaskProperties\<close>, \<open>CallbackProperties\<close>: nothing unauthorised is dispatched; an active run has
    two people behind it; runs only move forward and end once; counts are exact; an overdue passive
    run is closed; an accepted callback is signed for its run; a redelivery changes nothing; a run
    closes exactly when its batches are complete. \<open>TaskScenario\<close> is the run of their witnesses.
  \<^item> \<open>RiskFindings\<close> and the last properties of each component: places where the code and its intent
    differ. \<open>Scenario\<close> is a concrete run that the witnesses evaluate.

  \<^bold>\<open>Not modelled.\<close> Concurrency below the level of a call (row locks, deadlock retries) and cancelled
  contexts: calls run one after the other, in any order. The text of JSON documents that are stored:
  a stored document is the value it encodes. The partial result that \<open>ApplyRules\<close> and
  \<open>ReopenExpiredDecisions\<close> return next to an error. The HTTP handlers (gin) and permission checks
  (casbin) around the services, the construction of \<open>http.Client\<close>. Of \<open>internal/discovery\<close>: the
  ingest of facts into assets, blueprints and \<open>inheritance.go\<close>, the HTTP adapters and settings of the
  engines, network enrichment and the life cycle of observations. The packages asset, exposure (but
  for the certificate finding it hands to the risk service), notification, project, auth, report,
  retention and httpx; the scan engines, which drive external tools; the web console.
\<close>

section \<open>Properties of both services together\<close>

lemma risks_without_tickets:
  "risk_reachable k d \<Longrightarrow> world_reachable k \<lparr>w_risk = d, w_tickets = empty_table, w_links = empty_table\<rparr>"
proof (induction rule: risk_reachable.induct)
  case init
  then show ?case using world_reachable.init by (simp add: empty_world_def)
next
  case (step d d')
  then have "world_step k \<lparr>w_risk = d, w_tickets = empty_table, w_links = empty_table\<rparr>
    (\<lparr>w_risk = d, w_tickets = empty_table, w_links = empty_table\<rparr>\<lparr>w_risk := d'\<rparr>)"
    by (intro world_step.risk) simp
  then show ?case using step.IH world_reachable.step by fastforce
qed

lemma demo_start_reachable: "world_reachable ascii_key demo_start"
  unfolding demo_start_def by (rule risks_without_tickets [OF demo_new_reachable])

text \<open>C1: whatever the risk and ticket services do, in every reachable state an accepted or dismissed risk has a decision
  of that kind on record, with a reason and with an approver who is not its author, up to letter case.\<close>

theorem four_eyes_everywhere:
  assumes "world_reachable k w" and "r \<in> set (t_rows (db_risks (w_risk w)))"
    and "r_Status r = StatusRiskAccepted \<or> r_Status r = StatusFalsePositive"
  shows "\<exists>x \<in> set (t_rows (db_decisions (w_risk w))). rd_ProjectID x = r_ProjectID r \<and> rd_RiskID x = r_ID r \<and>
    rd_Decision x = r_Status r \<and> TrimSpace (rd_Reason x) \<noteq> [] \<and> TrimSpace (rd_ApprovedBy x) \<noteq> [] \<and>
    \<not> EqualFold (TrimSpace (rd_ApprovedBy x)) (TrimSpace (rd_CreatedBy x))"
proof -
  have "risk_inv k (w_risk w)" using world_reachable_inv [OF assms(1)] by (simp add: world_inv_def)
  then have "has_decision (t_rows (db_decisions (w_risk w))) r"
    and "\<And>x. x \<in> set (t_rows (db_decisions (w_risk w))) \<Longrightarrow> four_eyes x"
    using assms(2,3) by (auto simp: risk_inv_def decided_def decisions_ok_def isDecisionStatus_def)
  then show ?thesis by (auto simp: has_decision_def list_ex_iff four_eyes_def)
qed

theorem four_eyes_everywhere_witness:
  "\<exists>r \<in> set (t_rows (db_risks demo_accepted)). r_Status r = StatusRiskAccepted \<and>
     (\<exists>x \<in> set (t_rows (db_decisions demo_accepted)). rd_RiskID x = r_ID r \<and> TrimSpace (rd_ApprovedBy x) \<noteq> [])"
proof -
  have "\<exists>r \<in> set (t_rows (db_risks demo_accepted)). r_Status r = StatusRiskAccepted" by code_simp
  then obtain r where r: "r \<in> set (t_rows (db_risks demo_accepted))" "r_Status r = StatusRiskAccepted" by blast
  then show ?thesis
    using four_eyes_everywhere [OF risks_without_tickets [OF demo_accepted_reachable], of r] by auto
qed

text \<open>C10: a successful ticket transition follows an edge of the ticket life cycle and rewrites that ticket only; each linked
  risk moves as the transition asks when its own life cycle allows it and stays where it is otherwise; links, other
  tickets and the status of all other risks are unchanged.\<close>

theorem ticket_transition_moves_risks:
  assumes "ticket_wired k s" and "world_reachable k w" and "ticket_Transition s i w = (Inr t', w')"
  shows "\<exists>t nxt. t \<in> set (t_rows (w_tickets w)) \<and> tk_ID t = tt_TicketID i \<and> tk_ProjectID t = tt_ProjectID i \<and>
    ticket_edge (tt_Action i) (tk_Status t) nxt \<and> validateTransition i nxt = Inr () \<and>
    t' = written_ticket (ts_env s) t i nxt \<and> ticket_moved s (the (ts_risks s)) i t nxt w w'"
proof -
  obtain rs where rs: "wired k rs" "ts_risks s = Some (riskService rs)" using assms(1) by (auto simp: ticket_wired_def)
  have api: "ts_risks s = Some (riskService (rs\<lparr>rs_db := True\<rparr>))" using rs wired_service by simp
  have inv: "risk_inv k (w_risk w)" "ticket_inv w" using world_reachable_inv [OF assms(2)] by (simp_all add: world_inv_def)
  have "ticket_transition_body s i w = (Inr t', w')" using assms(3) by (simp add: ticket_Transition_Inr)
  from risk_client.transition_effect [OF api inv this] show ?thesis by (simp add: api nextStatus_iff_edge)
qed

lemma demo_ticketed_run:
  "\<exists>t w. ticket_Create (demo_tickets 4) (demo_ticket [2]) demo_start = (Inr t, w) \<and> world_reachable ascii_key w \<and>
     is_ok (fst (ticket_Transition (demo_tickets 5) (demo_move ''assign'') w))"
proof -
  let ?run = "ticket_Create (demo_tickets 4) (demo_ticket [2]) demo_start"
  have "world_reachable ascii_key (snd ?run)"
    by (rule world_reachable.step [OF demo_start_reachable world_step.ticket_create [OF demo_tickets_wired]])
  moreover have "is_ok (fst ?run) \<and> is_ok (fst (ticket_Transition (demo_tickets 5) (demo_move ''assign'') (snd ?run)))" by code_simp
  ultimately show ?thesis by (cases ?run) (auto simp: is_ok_iff)
qed

theorem ticket_transition_moves_risks_witness:
  "\<exists>w t' w'. ticket_Transition (demo_tickets 5) (demo_move ''assign'') w = (Inr t', w') \<and> tk_Status t' = TStatusAssigned \<and>
     w_links w' = w_links w"
proof -
  obtain w where w: "world_reachable ascii_key w" "is_ok (fst (ticket_Transition (demo_tickets 5) (demo_move ''assign'') w))"
    using demo_ticketed_run by blast
  then obtain t' w' where run: "ticket_Transition (demo_tickets 5) (demo_move ''assign'') w = (Inr t', w')"
    by (cases "ticket_Transition (demo_tickets 5) (demo_move ''assign'') w") (auto simp: is_ok_iff)
  have act: "tt_Action (demo_move ''assign'') = ActionAssign" by (simp add: demo_move_def)
  have "tk_Status t' = TStatusAssigned \<and> w_links w' = w_links w"
    using ticket_transition_moves_risks [OF demo_tickets_wired w(1) run] by (auto simp: act ticket_edge_iff ticket_moved_def)
  then show ?thesis using run by blast
qed



text \<open>No ticket is ever in status \<open>resolved\<close>, which the schema and \<open>validateTransition\<close> provide for: no action
  leads there, so the action \<open>close\<close> is never offered for any ticket.\<close>

theorem resolved_is_unreachable:
  assumes "world_reachable k w" and "t \<in> set (t_rows (w_tickets w))"
  shows "tk_Status t \<noteq> TStatusResolved \<and> ActionClose \<notin> set (AvailableActions (tk_Status t))"
proof -
  have "live_status (tk_Status t)" using world_reachable_inv [OF assms(1)] assms(2) by (simp add: world_inv_def ticket_inv_def)
  then have "tk_Status t \<noteq> TStatusResolved" by (auto simp: live_status_def)
  then show ?thesis unfolding AvailableActions_def ticket_table.offered_iff by (auto simp: nextStatus_def)
qed

theorem resolved_is_unreachable_witness:
  "\<exists>w t. world_reachable ascii_key w \<and> t \<in> set (t_rows (w_tickets w)) \<and> tk_Status t \<noteq> TStatusResolved"
proof -
  obtain t w where run: "ticket_Create (demo_tickets 4) (demo_ticket [2]) demo_start = (Inr t, w)" "world_reachable ascii_key w"
    using demo_ticketed_run by blast
  have "t \<in> set (t_rows (w_tickets w))" by (rule ticket_Create_mem [OF run(1)])
  then show ?thesis using resolved_is_unreachable [OF run(2)] run(2) by blast
qed

end
